(* ===== verification/Prelude.thy ===== *)
theory Prelude
  imports Main "HOL-Library.Word" "HOL-Library.Monad_Syntax" "HOL-Library.Code_Target_Nat"
begin

text \<open>
  What every component of the gateway shares: the two ways a Rust computation can fail to
  give a value (an error, which is a value of a sum type, and a panic, which is an outcome),
  the conversions between them that the code uses (\<open>ok_or\<close>, \<open>map_err\<close>, \<open>ok\<close>, \<open>unwrap\<close>),
  strings and byte buffers, and the reachability of a step relation with the invariant rule
  that the concurrent parts use.

  Conventions. A Rust \<open>String\<close> is its UTF-8 bytes, so it is a \<open>string\<close> (a list of 8-bit
  characters) and \<open>length\<close> counts bytes. A \<open>u8\<close> buffer is a list of 8-bit words.
  \<open>Result<A, E>\<close> is the sum \<open>e + a\<close> with \<open>Inl\<close> for \<open>Err\<close> and \<open>Inr\<close> for \<open>Ok\<close>.
\<close>

type_synonym u8 = "8 word"
type_synonym u16 = "16 word"
type_synonym u64 = "64 word"

named_theorems outcome_simps "unfolding of the error and panic combinators"

section \<open>Panics\<close>

text \<open>\<open>Ret v\<close> is a normal return, \<open>Panic\<close> an unwinding panic.\<close>

datatype 'a outcome = Ret (the_ret: 'a) | Panic

primrec obind :: "'a outcome \<Rightarrow> ('a \<Rightarrow> 'b outcome) \<Rightarrow> 'b outcome" where
  "obind (Ret a) f = f a"
| "obind Panic f = Panic"

definition unwrap :: "'a option \<Rightarrow> 'a outcome" where
  "unwrap x = (case x of None \<Rightarrow> Panic | Some a \<Rightarrow> Ret a)"

definition unwrap_result :: "'e + 'a \<Rightarrow> 'a outcome" where
  "unwrap_result x = (case x of Inl e \<Rightarrow> Panic | Inr a \<Rightarrow> Ret a)"

lemma obind_assoc [simp]: "obind (obind m f) g = obind m (\<lambda>a. obind (f a) g)"
  by (cases m) simp_all

lemma obind_Ret [simp]: "obind m Ret = m"
  by (cases m) simp_all

lemma obind_eq_Ret: "obind m f = Ret b \<longleftrightarrow> (\<exists>a. m = Ret a \<and> f a = Ret b)"
  by (cases m) simp_all

lemma obind_eq_Panic: "obind m f = Panic \<longleftrightarrow> m = Panic \<or> (\<exists>a. m = Ret a \<and> f a = Panic)"
  by (cases m) simp_all

lemma unwrap_simps [simp]: "unwrap None = Panic" "unwrap (Some a) = Ret a"
  by (simp_all add: unwrap_def)

lemma unwrap_eq: "unwrap x = Ret a \<longleftrightarrow> x = Some a" "unwrap x = Panic \<longleftrightarrow> x = None"
  by (cases x; simp)+

lemma unwrap_result_simps [simp]: "unwrap_result (Inl e) = Panic" "unwrap_result (Inr a) = Ret a"
  by (simp_all add: unwrap_result_def)

lemmas [outcome_simps] = obind_eq_Ret obind_eq_Panic unwrap_eq

lemma outcome_not_Panic: "m \<noteq> Panic \<longleftrightarrow> (\<exists>a. m = Ret a)"
  by (cases m) simp_all

section \<open>Errors\<close>

primrec rbind :: "'e + 'a \<Rightarrow> ('a \<Rightarrow> 'e + 'b) \<Rightarrow> 'e + 'b" where
  "rbind (Inl e) f = Inl e"
| "rbind (Inr a) f = f a"

definition ok_or :: "'e \<Rightarrow> 'a option \<Rightarrow> 'e + 'a" where
  "ok_or e x = (case x of None \<Rightarrow> Inl e | Some a \<Rightarrow> Inr a)"

primrec map_err :: "('e \<Rightarrow> 'f) \<Rightarrow> 'e + 'a \<Rightarrow> 'f + 'a" where
  "map_err f (Inl e) = Inl (f e)"
| "map_err f (Inr a) = Inr a"

primrec result_ok :: "'e + 'a \<Rightarrow> 'a option" where
  "result_ok (Inl e) = None"
| "result_ok (Inr a) = Some a"

lemma rbind_Inr [simp]: "rbind m Inr = m"
  by (cases m) simp_all

lemma rbind_assoc [simp]: "rbind (rbind m f) g = rbind m (\<lambda>a. rbind (f a) g)"
  by (cases m) simp_all

lemma ok_or_simps [simp]: "ok_or e None = Inl e" "ok_or e (Some a) = Inr a"
  by (simp_all add: ok_or_def)

lemma ok_or_eq: "ok_or e x = Inr a \<longleftrightarrow> x = Some a" "ok_or e x = Inl e' \<longleftrightarrow> x = None \<and> e' = e"
  by (cases x; auto)+

lemma rbind_eq_Inr: "rbind m f = Inr b \<longleftrightarrow> (\<exists>a. m = Inr a \<and> f a = Inr b)"
  by (cases m) simp_all

lemma rbind_eq_Inl: "rbind m f = Inl e \<longleftrightarrow> m = Inl e \<or> (\<exists>a. m = Inr a \<and> f a = Inl e)"
  by (cases m) auto

lemma map_err_eq: "map_err f m = Inr a \<longleftrightarrow> m = Inr a" "map_err f m = Inl e \<longleftrightarrow> (\<exists>d. m = Inl d \<and> e = f d)"
  by (cases m; auto)+

lemma result_ok_eq: "result_ok m = Some a \<longleftrightarrow> m = Inr a" "result_ok m = None \<longleftrightarrow> (\<exists>e. m = Inl e)"
  by (cases m; simp)+

lemmas [outcome_simps] = ok_or_eq rbind_eq_Inr rbind_eq_Inl map_err_eq result_ok_eq

section \<open>Strings and bytes\<close>

definition as_bytes :: "string \<Rightarrow> u8 list" where
  "as_bytes s = map (\<lambda>c. of_nat (of_char c)) s"

definition bytes_str :: "u8 list \<Rightarrow> string" where
  "bytes_str bs = map (\<lambda>b. char_of (unat b)) bs"

lemma length_as_bytes [simp]: "length (as_bytes s) = length s"
  by (simp add: as_bytes_def)

lemma length_bytes_str [simp]: "length (bytes_str bs) = length bs"
  by (simp add: bytes_str_def)

lemma unat_of_char [simp]: "unat (of_nat (of_char c) :: u8) = of_char c"
proof -
  have "(of_char c :: nat) < 256"
    by (metis of_char_of char_of_char mod_less_divisor zero_less_numeral)
  then show ?thesis by (simp add: unat_of_nat)
qed

lemma bytes_str_as_bytes [simp]: "bytes_str (as_bytes s) = s"
  by (simp add: as_bytes_def bytes_str_def comp_def)

lemma as_bytes_bytes_str [simp]: "as_bytes (bytes_str bs) = bs"
proof -
  have "of_nat (of_char (char_of (unat b) :: char)) = b" for b :: u8
  proof -
    have "unat b < 256" using unsigned_less [of b, where ?'a = nat] by simp
    then show ?thesis by (simp add: of_char_of)
  qed
  then show ?thesis by (simp add: as_bytes_def bytes_str_def comp_def)
qed

lemma as_bytes_append [simp]: "as_bytes (s @ t) = as_bytes s @ as_bytes t"
  by (simp add: as_bytes_def)

lemma as_bytes_inject [simp]: "as_bytes s = as_bytes t \<longleftrightarrow> s = t"
  by (metis bytes_str_as_bytes)

definition ascii_byte :: "u8 \<Rightarrow> bool" where
  "ascii_byte b \<longleftrightarrow> unat b < 128"

definition ascii_str :: "string \<Rightarrow> bool" where
  "ascii_str s \<longleftrightarrow> list_all ascii_byte (as_bytes s)"

section \<open>Step relations\<close>

text \<open>
  The states a relation reaches from its initial states. The interface \<open>invariant_of\<close> is the
  obligation of an inductive invariant; its lemma is what a component gets for discharging it.
\<close>

inductive reachable :: "('s \<Rightarrow> bool) \<Rightarrow> ('s \<Rightarrow> 's \<Rightarrow> bool) \<Rightarrow> 's \<Rightarrow> bool"
  for start :: "'s \<Rightarrow> bool" and step :: "'s \<Rightarrow> 's \<Rightarrow> bool" where
  reachable_start: "start s \<Longrightarrow> reachable start step s"
| reachable_step: "reachable start step s \<Longrightarrow> step s t \<Longrightarrow> reachable start step t"

locale invariant_of =
  fixes start :: "'s \<Rightarrow> bool"
    and step :: "'s \<Rightarrow> 's \<Rightarrow> bool"
    and inv :: "'s \<Rightarrow> bool"
  assumes inv_start: "start s \<Longrightarrow> inv s"
    and inv_step: "inv s \<Longrightarrow> step s t \<Longrightarrow> inv t"
begin

lemma reachable_inv: "reachable start step s \<Longrightarrow> inv s"
  by (induction rule: reachable.induct) (auto intro: inv_start inv_step)

lemma steps_inv: "step\<^sup>*\<^sup>* s t \<Longrightarrow> inv s \<Longrightarrow> inv t"
  by (induction rule: rtranclp_induct) (auto intro: inv_step)

end

end
