(* ===== verification/Gateway_Config.thy ===== *)
theory Gateway_Config
  imports Prelude
begin

text \<open>
  \<open>src/config.rs\<close>: the configuration records, and \<open>Config::parse\<close> with its start-up checks.
  Opening, reading and TOML-decoding the file are the parameters \<open>open_file\<close>, \<open>read_to_string\<close>
  and \<open>toml_from_str\<close>; a failure of any of them panics.
\<close>

record gateway_config =
  gc_threads :: nat
  gc_process_name_prefix :: string
  gc_default_token :: string
  gc_allow_empty_signature :: bool

record origin_config =
  oc_app_id :: string
  oc_allowed :: "string list"

record test_app_config =
  tc_app_id :: string
  tc_token :: "string option"
  tc_secret_ios :: "string option"
  tc_secret_android :: "string option"
  tc_secret_web :: "string option"

record cors_config =
  cc_allowed_methods :: string
  cc_allowed_headers :: string

record cassandra_config =
  cas_keyspace :: string
  cas_contact_points :: string
  cas_username :: "string option"
  cas_password :: "string option"
  cas_manage_apps :: bool

record kafka_config =
  kc_topic :: string
  kc_brokers :: string

record config =
  cfg_kafka :: kafka_config
  cfg_gateway :: gateway_config
  cfg_cors :: "cors_config option"
  cfg_origins :: "origin_config list option"
  cfg_test_apps :: "test_app_config list option"
  cfg_cassandra :: cassandra_config

definition check_environment :: "string \<Rightarrow> config \<Rightarrow> config outcome" where
  "check_environment rust_env c =
     (if rust_env \<noteq> ''development'' then
        if gc_allow_empty_signature (cfg_gateway c) then Panic
        else if cas_manage_apps (cfg_cassandra c) then Panic
        else Ret c
      else Ret c)"

definition config_parse ::
  "(string \<Rightarrow> 'file option) \<Rightarrow> ('file \<Rightarrow> string option) \<Rightarrow> (string \<Rightarrow> config option)
     \<Rightarrow> string \<Rightarrow> string \<Rightarrow> config outcome" where
  "config_parse open_file read_to_string toml_from_str rust_env path =
     obind (unwrap (open_file path)) (\<lambda>file.
     obind (unwrap (read_to_string file)) (\<lambda>config_toml.
     obind (unwrap (toml_from_str config_toml)) (\<lambda>c.
     check_environment rust_env c)))"

text \<open>What a configuration that passed the check says, and what the two messages promise.\<close>

lemma check_environment_Ret:
  "check_environment env c = Ret c' \<longleftrightarrow>
     c' = c \<and> (env = ''development'' \<or>
       \<not> gc_allow_empty_signature (cfg_gateway c) \<and> \<not> cas_manage_apps (cfg_cassandra c))"
  by (auto simp: check_environment_def)

lemma config_parse_Ret:
  "config_parse open_file rd toml env path = Ret c \<longleftrightarrow>
     (\<exists>file text. open_file path = Some file \<and> rd file = Some text \<and> toml text = Some c \<and>
        check_environment env c = Ret c)"
  by (auto simp: config_parse_def outcome_simps check_environment_Ret)

end
