(* ===== verification/Rust_Std.thy ===== *)
theory Rust_Std
  imports Prelude
begin

text \<open>
  The parts of Rust's standard library the gateway calls on data: decimal printing and parsing
  of \<open>u64\<close> (\<open>format!("{}", n)\<close> and \<open>u64::from_str\<close>), \<open>str::find\<close> with the slice
  \<open>s[0..i]\<close> and its character-boundary panic, and \<open>String::from_utf8_lossy\<close>.
\<close>

section \<open>Decimal numbers\<close>

definition dec_digit :: "char \<Rightarrow> nat option" where
  "dec_digit c = (let n = of_char c in if 48 \<le> n \<and> n \<le> 57 then Some (n - 48) else None)"

definition digit_char :: "nat \<Rightarrow> char" where
  "digit_char d = char_of (48 + d)"

text \<open>The digit loop of \<open>u64::from_str\<close>: \<open>checked_mul\<close> by ten, then \<open>checked_add\<close>.\<close>

fun u64_digits :: "u64 \<Rightarrow> string \<Rightarrow> u64 option" where
  "u64_digits acc [] = Some acc"
| "u64_digits acc (c # cs) =
     (case dec_digit c of
        None \<Rightarrow> None
      | Some d \<Rightarrow>
          if 2 ^ 64 \<le> unat acc * 10 then None
          else if 2 ^ 64 \<le> unat acc * 10 + d then None
          else u64_digits (acc * 10 + of_nat d) cs)"

definition u64_from_str :: "string \<Rightarrow> u64 option" where
  "u64_from_str s =
     (case s of
        [] \<Rightarrow> None
      | c # cs \<Rightarrow>
          let digits = (if c = CHR ''+'' then cs else s)
          in if digits = [] then None else u64_digits 0 digits)"

fun show_nat :: "nat \<Rightarrow> string" where
  "show_nat n = (if n < 10 then [digit_char n] else show_nat (n div 10) @ [digit_char (n mod 10)])"

declare show_nat.simps [simp del]

definition show_u64 :: "u64 \<Rightarrow> string" where
  "show_u64 n = show_nat (unat n)"

text \<open>The value of a digit string, most significant digit first.\<close>

fun dec_val :: "nat \<Rightarrow> string \<Rightarrow> nat" where
  "dec_val a [] = a"
| "dec_val a (c # cs) = dec_val (a * 10 + (case dec_digit c of None \<Rightarrow> 0 | Some d \<Rightarrow> d)) cs"

definition all_digits :: "string \<Rightarrow> bool" where
  "all_digits s \<longleftrightarrow> list_all (\<lambda>c. dec_digit c \<noteq> None) s"

lemma dec_digit_digit_char: "d < 10 \<Longrightarrow> dec_digit (digit_char d) = Some d"
  by (simp add: dec_digit_def digit_char_def of_char_of)

lemma dec_digit_less: "dec_digit c = Some d \<Longrightarrow> d < 10"
  by (auto simp: dec_digit_def Let_def split: if_splits)

lemma dec_val_append: "dec_val a (s @ t) = dec_val (dec_val a s) t"
  by (induction s arbitrary: a) simp_all

lemma dec_val_ge: "a \<le> dec_val a s"
proof (induction s arbitrary: a)
  case (Cons c s)
  have "a \<le> a * 10 + (case dec_digit c of None \<Rightarrow> 0 | Some d \<Rightarrow> d)" by simp
  also have "\<dots> \<le> dec_val \<dots> s" by (rule Cons.IH)
  finally show ?case by simp
qed simp

lemma show_nat_digits: "all_digits (show_nat n)"
proof (induction n rule: show_nat.induct)
  case (1 n)
  then show ?case
    by (subst show_nat.simps) (auto simp: all_digits_def dec_digit_digit_char)
qed

lemma show_nat_nonempty: "show_nat n \<noteq> []"
  by (subst show_nat.simps) simp

lemma dec_val_show_nat: "dec_val 0 (show_nat n) = n"
proof (induction n rule: show_nat.induct)
  case (1 n)
  then show ?case
    by (subst show_nat.simps) (auto simp: dec_val_append dec_digit_digit_char)
qed

lemma show_nat_inject: "show_nat m = show_nat n \<longleftrightarrow> m = n"
  by (metis dec_val_show_nat)

text \<open>The word loop computes the value exactly when it fits in 64 bits, and fails otherwise.\<close>

lemma u64_digits_spec:
  "u64_digits acc s =
     (if all_digits s \<and> dec_val (unat acc) s < 2 ^ 64 then Some (of_nat (dec_val (unat acc) s)) else None)"
proof (induction s arbitrary: acc)
  case Nil
  then show ?case using unsigned_less [of acc, where ?'a = nat] by (simp add: all_digits_def)
next
  case (Cons c s)
  show ?case
  proof (cases "dec_digit c")
    case None
    then show ?thesis by (simp add: all_digits_def)
  next
    case (Some d)
    let ?n = "unat acc * 10 + d"
    have ge: "?n \<le> dec_val ?n s" by (rule dec_val_ge)
    have un: "unat (acc * 10 + of_nat d) = ?n" if "?n < 2 ^ 64"
    proof -
      have "unat (of_nat ?n :: u64) = ?n" using that by (simp only: unat_of_nat) simp
      moreover have "acc * 10 + of_nat d = (of_nat ?n :: u64)" by simp
      ultimately show ?thesis by (simp only:)
    qed
    show ?thesis using Some ge un Cons.IH [of "acc * 10 + of_nat d"]
      by (auto simp: all_digits_def)
  qed
qed

lemma u64_from_str_show_u64: "u64_from_str (show_u64 n) = Some n"
proof -
  let ?s = "show_nat (unat n)"
  obtain c cs where s: "?s = c # cs" using show_nat_nonempty by (cases ?s) auto
  have "dec_digit c \<noteq> None" using show_nat_digits [of "unat n"] s by (simp add: all_digits_def)
  then have "c \<noteq> CHR ''+''" by (auto simp: dec_digit_def)
  moreover have "u64_digits 0 ?s = Some n"
    using unsigned_less [of n, where ?'a = nat]
    by (simp add: u64_digits_spec show_nat_digits dec_val_show_nat)
  ultimately show ?thesis by (simp add: show_u64_def u64_from_str_def s)
qed

section \<open>Searching and slicing strings\<close>

fun str_find :: "char \<Rightarrow> string \<Rightarrow> nat option" where
  "str_find c [] = None"
| "str_find c (x # xs) = (if x = c then Some 0 else map_option Suc (str_find c xs))"

text \<open>
  A byte offset is a character boundary at both ends of the string and before every byte that is
  not a UTF-8 continuation byte. Slicing elsewhere, or past the end, panics.
\<close>

definition is_char_boundary :: "string \<Rightarrow> nat \<Rightarrow> bool" where
  "is_char_boundary s i \<longleftrightarrow>
     i = 0 \<or> i = length s \<or>
     i < length s \<and> (let b = (of_char (s ! i) :: nat) in b < 128 \<or> 192 \<le> b)"

definition str_slice_to :: "string \<Rightarrow> nat \<Rightarrow> string outcome" where
  "str_slice_to s i = (if is_char_boundary s i then Ret (take i s) else Panic)"

lemma str_find_eq:
  "str_find c s = (if c \<in> set s then Some (length (takeWhile (\<lambda>x. x \<noteq> c) s)) else None)"
  by (induction s) auto

lemma str_find_nth: "str_find c s = Some i \<Longrightarrow> i < length s \<and> s ! i = c"
  by (induction s arbitrary: i) (auto split: if_splits)

lemma str_find_slice:
  assumes "(of_char c :: nat) < 128" and "str_find c s = Some i"
  shows "str_slice_to s i = Ret (takeWhile (\<lambda>x. x \<noteq> c) s)"
proof -
  have "i = length (takeWhile (\<lambda>x. x \<noteq> c) s)"
    using assms(2) by (simp add: str_find_eq split: if_splits)
  then have "take i s = takeWhile (\<lambda>x. x \<noteq> c) s" by (simp add: takeWhile_eq_take [symmetric])
  moreover have "is_char_boundary s i"
    using str_find_nth [OF assms(2)] assms(1) by (simp add: is_char_boundary_def)
  ultimately show ?thesis by (simp add: str_slice_to_def)
qed

text \<open>\<open>str::split\<close> at a character: always at least one piece.\<close>

fun str_split :: "char \<Rightarrow> string \<Rightarrow> string list" where
  "str_split c [] = [[]]"
| "str_split c (x # xs) =
     (if x = c then [] # str_split c xs
      else (case str_split c xs of [] \<Rightarrow> [[x]] | p # ps \<Rightarrow> (x # p) # ps))"

section \<open>Lossy UTF-8 decoding\<close>

text \<open>
  One step of the chunk iterator behind \<open>String::from_utf8_lossy\<close>: whether the bytes at the
  front are a well-formed character, and how many bytes the step consumes. An ill-formed
  sequence consumes the bytes accepted before the offending one. \<open>safe_get\<close> reads 0 past the
  end, as the library does.
\<close>

definition safe_get :: "u8 list \<Rightarrow> nat \<Rightarrow> nat" where
  "safe_get bs i = (if i < length bs then unat (bs ! i) else 0)"

definition is_cont :: "nat \<Rightarrow> bool" where
  "is_cont b \<longleftrightarrow> 128 \<le> b \<and> b < 192"

definition utf8_char_width :: "nat \<Rightarrow> nat" where
  "utf8_char_width b =
     (if b < 128 then 1
      else if 194 \<le> b \<and> b \<le> 223 then 2
      else if 224 \<le> b \<and> b \<le> 239 then 3
      else if 240 \<le> b \<and> b \<le> 244 then 4
      else 0)"

definition second_ok :: "nat \<Rightarrow> nat \<Rightarrow> bool" where
  "second_ok b c =
     (if b = 224 then 160 \<le> c \<and> c \<le> 191
      else if b = 237 then 128 \<le> c \<and> c \<le> 159
      else if b = 240 then 144 \<le> c \<and> c \<le> 191
      else if b = 244 then 128 \<le> c \<and> c \<le> 143
      else is_cont c)"

definition utf8_step :: "u8 list \<Rightarrow> bool \<times> nat" where
  "utf8_step bs =
     (let b = safe_get bs 0; w = utf8_char_width b
      in if w = 0 then (False, 1)
         else if w = 1 then (True, 1)
         else if \<not> second_ok b (safe_get bs 1) then (False, 1)
         else if w = 2 then (True, 2)
         else if \<not> is_cont (safe_get bs 2) then (False, 2)
         else if w = 3 then (True, 3)
         else if \<not> is_cont (safe_get bs 3) then (False, 3)
         else (True, 4))"

definition replacement_char :: "u8 list" where
  "replacement_char = [239, 191, 189]"

lemma utf8_step_pos: "0 < snd (utf8_step bs)"
  by (simp add: utf8_step_def Let_def)

lemma utf8_step_progress: "bs \<noteq> [] \<Longrightarrow> (ok, n) = utf8_step bs \<Longrightarrow> length bs - n < length bs"
  using utf8_step_pos [of bs] by (cases bs) (auto simp: prod_eq_iff)

function from_utf8_lossy :: "u8 list \<Rightarrow> u8 list" where
  "from_utf8_lossy bs =
     (if bs = [] then []
      else let (ok, n) = utf8_step bs
           in (if ok then take n bs else replacement_char) @ from_utf8_lossy (drop n bs))"
  by pat_completeness auto
termination
  by (relation "measure length") (auto simp: utf8_step_progress)

declare from_utf8_lossy.simps [simp del]

function utf8_valid :: "u8 list \<Rightarrow> bool" where
  "utf8_valid bs =
     (if bs = [] then True
      else let (ok, n) = utf8_step bs in if ok then utf8_valid (drop n bs) else False)"
  by pat_completeness auto
termination
  by (relation "measure length") (auto simp: utf8_step_progress)

declare utf8_valid.simps [simp del]


lemma safe_get_zero: "\<not> i < length bs \<Longrightarrow> safe_get bs i = 0"
  by (simp add: safe_get_def)

lemma second_ok_zero [simp]: "\<not> second_ok b 0" "\<not> is_cont 0"
  by (simp_all add: second_ok_def is_cont_def)

text \<open>An accepted step stays inside the buffer and depends on the bytes it consumes only.\<close>

lemma utf8_step_in_bounds:
  assumes "bs \<noteq> []" and "utf8_step bs = (ok, n)"
  shows "n \<le> length bs"
proof (rule ccontr)
  assume "\<not> n \<le> length bs"
  then have z: "safe_get bs (n - 1) = 0" by (auto intro: safe_get_zero)
  have "Suc 0 \<le> length bs" using assms(1) by (cases bs) simp_all
  then show False using assms(2) z \<open>\<not> n \<le> length bs\<close>
    by (auto simp: utf8_step_def Let_def split: if_splits)
qed

lemma utf8_step_prefix:
  assumes "bs \<noteq> []" and "utf8_step bs = (True, n)"
  shows "utf8_step (take n bs @ r) = (True, n)"
proof -
  have n: "n \<le> length bs" by (rule utf8_step_in_bounds [OF assms])
  have sg: "safe_get (take n bs @ r) i = safe_get bs i" if "i < n" for i
    using that n by (simp add: safe_get_def nth_append)
  have "0 < n" using utf8_step_pos [of bs] assms(2) by simp
  then show ?thesis using assms(2) sg [of 0] sg [of "Suc 0"] sg [of 2] sg [of 3]
    by (auto simp: utf8_step_def Let_def split: if_splits)
qed

lemma utf8_step_replacement: "utf8_step (replacement_char @ r) = (True, 3)"
  by (simp add: utf8_step_def replacement_char_def safe_get_def utf8_char_width_def
      second_ok_def is_cont_def)

lemma utf8_valid_step:
  "c \<noteq> [] \<Longrightarrow> utf8_step (c @ r) = (True, length c) \<Longrightarrow> utf8_valid r \<Longrightarrow> utf8_valid (c @ r)"
  by (subst utf8_valid.simps) simp

lemma utf8_valid_from_utf8_lossy: "utf8_valid (from_utf8_lossy bs)"
proof (induction bs rule: from_utf8_lossy.induct)
  case (1 bs)
  show ?case
  proof (cases "bs = []")
    case True
    then show ?thesis by (simp add: from_utf8_lossy.simps [of "[]"] utf8_valid.simps [of "[]"])
  next
    case False
    obtain ok n where st: "utf8_step bs = (ok, n)" by (cases "utf8_step bs")
    have IH: "utf8_valid (from_utf8_lossy (drop n bs))" using 1 False st by simp
    have n: "n \<le> length bs" "0 < n"
      using utf8_step_in_bounds [OF False st] utf8_step_pos [of bs] st by simp_all
    have "utf8_valid ((if ok then take n bs else replacement_char) @ from_utf8_lossy (drop n bs))"
    proof (cases ok)
      case True
      then have "utf8_step (take n bs @ from_utf8_lossy (drop n bs)) = (True, length (take n bs))"
        using utf8_step_prefix [OF False] st n by simp
      then show ?thesis using True IH n False utf8_valid_step [of "take n bs"] by simp
    next
      case False
      then show ?thesis
        using IH utf8_step_replacement utf8_valid_step [of replacement_char]
        by (simp add: replacement_char_def)
    qed
    then show ?thesis using False st by (simp add: from_utf8_lossy.simps [of bs])
  qed
qed

lemma from_utf8_lossy_valid: "utf8_valid bs \<Longrightarrow> from_utf8_lossy bs = bs"
proof (induction bs rule: from_utf8_lossy.induct)
  case (1 bs)
  then show ?case
    by (cases "utf8_step bs")
      (auto simp: from_utf8_lossy.simps [of bs] utf8_valid.simps [of bs] split: if_splits)
qed

lemma utf8_valid_ascii_append: "list_all ascii_byte bs \<Longrightarrow> utf8_valid r \<Longrightarrow> utf8_valid (bs @ r)"
proof (induction bs)
  case (Cons b bs)
  have "utf8_step ([b] @ bs @ r) = (True, length [b])"
    using Cons.prems(1) by (simp add: utf8_step_def safe_get_def utf8_char_width_def ascii_byte_def)
  then show ?case using Cons utf8_valid_step [of "[b]" "bs @ r"] by simp
qed simp

lemma utf8_valid_ascii: "list_all ascii_byte bs \<Longrightarrow> utf8_valid bs"
  using utf8_valid_ascii_append [of bs "[]"] by (simp add: utf8_valid.simps [of "[]"])

end
