(* ===== verification/Rust_Net.thy ===== *)
theory Rust_Net
  imports Rust_Std
begin

text \<open>
  \<open>std::net::IpAddr\<close>: the address type, its \<open>FromStr\<close> parser (the backtracking parser of the
  standard library of the crate's era, which reads a dotted quad and otherwise the eight
  hexadecimal groups with one \<open>::\<close> and an optional dotted tail) and its \<open>Display\<close> printer. The
  gateway parses the \<open>X-Real-IP\<close> header with the first and hashes the output of the second.
  A parser takes the rest of the input and gives a value with what is left, or \<open>None\<close> without
  consuming anything.
\<close>

datatype ip_addr =
    V4 u8 u8 u8 u8
  | V6 u16 u16 u16 u16 u16 u16 u16 u16

section \<open>Printing\<close>

definition show_v4 :: "u8 \<Rightarrow> u8 \<Rightarrow> u8 \<Rightarrow> u8 \<Rightarrow> string" where
  "show_v4 a b c d =
     show_nat (unat a) @ ''.'' @ show_nat (unat b) @ ''.'' @ show_nat (unat c) @ ''.'' @ show_nat (unat d)"

definition hex_char :: "nat \<Rightarrow> char" where
  "hex_char d = (if d < 10 then char_of (48 + d) else char_of (87 + d))"

fun show_hex :: "nat \<Rightarrow> string" where
  "show_hex n = (if n < 16 then [hex_char n] else show_hex (n div 16) @ [hex_char (n mod 16)])"

declare show_hex.simps [simp del]

text \<open>\<open>find_zero_slice\<close>: position and length of the first longest run of zero groups.\<close>

fun find_zero_slice :: "nat \<Rightarrow> u16 list \<Rightarrow> nat \<times> nat \<Rightarrow> nat \<times> nat \<Rightarrow> nat \<times> nat" where
  "find_zero_slice i [] cur longest = longest"
| "find_zero_slice i (s # ss) (cur_at, cur_len) (long_at, long_len) =
     (if s = 0 then
        let cur_at = (if cur_len = 0 then i else cur_at); cur_len = cur_len + 1
        in find_zero_slice (i + 1) ss (cur_at, cur_len)
             (if long_len < cur_len then (cur_at, cur_len) else (long_at, long_len))
      else find_zero_slice (i + 1) ss (0, 0) (long_at, long_len))"

fun fmt_subslice :: "u16 list \<Rightarrow> string" where
  "fmt_subslice [] = []"
| "fmt_subslice [s] = show_hex (unat s)"
| "fmt_subslice (s # ss) = show_hex (unat s) @ '':'' @ fmt_subslice ss"

definition hi_byte :: "u16 \<Rightarrow> u8" where
  "hi_byte g = of_nat (unat g div 256)"

definition lo_byte :: "u16 \<Rightarrow> u8" where
  "lo_byte g = of_nat (unat g mod 256)"

definition show_v6 :: "u16 list \<Rightarrow> string" where
  "show_v6 ss =
     (if ss = [0, 0, 0, 0, 0, 0, 0, 0] then ''::''
      else if ss = [0, 0, 0, 0, 0, 0, 0, 1] then ''::1''
      else if take 6 ss = [0, 0, 0, 0, 0, 0]
        then ''::'' @ show_v4 (hi_byte (ss ! 6)) (lo_byte (ss ! 6)) (hi_byte (ss ! 7)) (lo_byte (ss ! 7))
      else if take 6 ss = [0, 0, 0, 0, 0, 65535]
        then ''::ffff:'' @ show_v4 (hi_byte (ss ! 6)) (lo_byte (ss ! 6)) (hi_byte (ss ! 7)) (lo_byte (ss ! 7))
      else
        let (zeros_at, zeros_len) = find_zero_slice 0 ss (0, 0) (0, 0)
        in if 1 < zeros_len
           then fmt_subslice (take zeros_at ss) @ ''::'' @ fmt_subslice (drop (zeros_at + zeros_len) ss)
           else fmt_subslice ss)"

fun show_ip :: "ip_addr \<Rightarrow> string" where
  "show_ip (V4 a b c d) = show_v4 a b c d"
| "show_ip (V6 a b c d e f g h) = show_v6 [a, b, c, d, e, f, g, h]"

section \<open>Parsing\<close>

definition parse_digit :: "nat \<Rightarrow> char \<Rightarrow> nat option" where
  "parse_digit radix c =
     (let n = of_char c in
      if 48 \<le> n \<and> n \<le> 57 then Some (n - 48)
      else if 10 < radix \<and> 97 \<le> n \<and> n < 97 + (radix - 10) then Some (n - 97 + 10)
      else if 10 < radix \<and> 65 \<le> n \<and> n < 65 + (radix - 10) then Some (n - 65 + 10)
      else None)"

fun read_number_loop :: "nat \<Rightarrow> nat \<Rightarrow> nat \<Rightarrow> nat \<Rightarrow> nat \<Rightarrow> string \<Rightarrow> (nat \<times> string) option" where
  "read_number_loop radix max_digits bound r count [] = (if count = 0 then None else Some (r, []))"
| "read_number_loop radix max_digits bound r count (c # cs) =
     (case parse_digit radix c of
        Some d \<Rightarrow>
          let r' = r * radix + d; count' = count + 1
          in if max_digits < count' \<or> bound \<le> r' then None
             else read_number_loop radix max_digits bound r' count' cs
      | None \<Rightarrow> if count = 0 then None else Some (r, c # cs))"

definition read_number :: "nat \<Rightarrow> nat \<Rightarrow> nat \<Rightarrow> string \<Rightarrow> (nat \<times> string) option" where
  "read_number radix max_digits bound s = read_number_loop radix max_digits bound 0 0 s"

fun read_given_char :: "char \<Rightarrow> string \<Rightarrow> string option" where
  "read_given_char c [] = None"
| "read_given_char c (x # xs) = (if x = c then Some xs else None)"

definition read_octet :: "string \<Rightarrow> (u8 \<times> string) option" where
  "read_octet s = map_option (\<lambda>(n, r). (of_nat n, r)) (read_number 10 3 256 s)"

definition read_ipv4 :: "string \<Rightarrow> ((u8 \<times> u8 \<times> u8 \<times> u8) \<times> string) option" where
  "read_ipv4 s = do {
     (a, s) \<leftarrow> read_octet s;
     s \<leftarrow> read_given_char CHR ''.'' s;
     (b, s) \<leftarrow> read_octet s;
     s \<leftarrow> read_given_char CHR ''.'' s;
     (c, s) \<leftarrow> read_octet s;
     s \<leftarrow> read_given_char CHR ''.'' s;
     (d, s) \<leftarrow> read_octet s;
     Some ((a, b, c, d), s)
   }"

definition group_sep :: "nat \<Rightarrow> string \<Rightarrow> string option" where
  "group_sep i s = (if i = 0 then Some s else read_given_char CHR '':'' s)"

definition word_of_bytes :: "u8 \<Rightarrow> u8 \<Rightarrow> u16" where
  "word_of_bytes hi lo = of_nat (unat hi * 256 + unat lo)"

text \<open>Up to \<open>limit\<close> groups; the flag says that the last two came from a dotted quad.\<close>

function read_groups :: "nat \<Rightarrow> nat \<Rightarrow> string \<Rightarrow> u16 list \<times> bool \<times> string" where
  "read_groups limit i s =
     (if i < limit then
        case (if i < limit - 1 then Option.bind (group_sep i s) read_ipv4 else None) of
          Some ((a, b, c, d), r) \<Rightarrow> ([word_of_bytes a b, word_of_bytes c d], True, r)
        | None \<Rightarrow>
            (case Option.bind (group_sep i s) (read_number 16 4 65536) of
               Some (g, r) \<Rightarrow>
                 let (gs, v4, r') = read_groups limit (i + 1) r in (of_nat g # gs, v4, r')
             | None \<Rightarrow> ([], False, s))
      else ([], False, s))"
  by pat_completeness auto
termination
  by (relation "measure (\<lambda>(limit, i, s). limit - i)") auto

declare read_groups.simps [simp del]

fun v6_of_list :: "u16 list \<Rightarrow> ip_addr option" where
  "v6_of_list [a, b, c, d, e, f, g, h] = Some (V6 a b c d e f g h)"
| "v6_of_list _ = None"

definition read_ipv6 :: "string \<Rightarrow> (ip_addr \<times> string) option" where
  "read_ipv6 s =
     (let (head, head_v4, r) = read_groups 8 0 s in
      if length head = 8 then map_option (\<lambda>a. (a, r)) (v6_of_list head)
      else if head_v4 then None
      else do {
        r \<leftarrow> read_given_char CHR '':'' r;
        r \<leftarrow> read_given_char CHR '':'' r;
        let (tail, _, r) = read_groups (8 - (length head + 1)) 0 r;
        map_option (\<lambda>a. (a, r)) (v6_of_list (head @ replicate (8 - length head - length tail) 0 @ tail))
      })"

definition read_ip :: "string \<Rightarrow> (ip_addr \<times> string) option" where
  "read_ip s =
     (case read_ipv4 s of
        Some ((a, b, c, d), r) \<Rightarrow> Some (V4 a b c d, r)
      | None \<Rightarrow> read_ipv6 s)"

definition ip_from_str :: "string \<Rightarrow> ip_addr option" where
  "ip_from_str s = (case read_ip s of Some (a, []) \<Rightarrow> Some a | _ \<Rightarrow> None)"

section \<open>The dotted quad round-trips\<close>

lemma parse_digit_10: "parse_digit 10 c = dec_digit c"
  by (simp add: parse_digit_def dec_digit_def Let_def)

lemma read_number_loop_digits:
  assumes "all_digits s" and "dec_val r s < bound" and "count + length s \<le> max_digits"
    and "0 < count + length s" and "rest = [] \<or> dec_digit (hd rest) = None"
  shows "read_number_loop 10 max_digits bound r count (s @ rest) = Some (dec_val r s, rest)"
  using assms
proof (induction s arbitrary: r count)
  case Nil
  then show ?case by (cases rest) (auto simp: parse_digit_10)
next
  case (Cons c s)
  then obtain d where d: "dec_digit c = Some d" by (auto simp: all_digits_def)
  have "r * 10 + d < bound" using Cons.prems(2) dec_val_ge [of "r * 10 + d" s] d by simp
  then show ?case using Cons d by (simp add: parse_digit_10 all_digits_def Let_def)
qed

lemma length_show_nat_less: "n < 10 \<Longrightarrow> length (show_nat n) = 1"
  by (simp add: show_nat.simps [of n])

lemma length_show_nat_octet: "n < 256 \<Longrightarrow> length (show_nat n) \<le> 3"
  using length_show_nat_less [of "n div 100"] length_show_nat_less [of "n div 10"]
  by (simp add: show_nat.simps [of n] show_nat.simps [of "n div 10"] div_mult2_eq [symmetric])

lemma read_octet_show:
  assumes "rest = [] \<or> dec_digit (hd rest) = None"
  shows "read_octet (show_nat (unat (a::u8)) @ rest) = Some (a, rest)"
proof -
  have a: "unat a < 256" using unsigned_less [of a, where ?'a = nat] by simp
  have "0 < length (show_nat (unat a))" using show_nat_nonempty by simp
  then have "read_number 10 3 256 (show_nat (unat a) @ rest) = Some (unat a, rest)"
    using assms read_number_loop_digits [OF show_nat_digits, of 0 "unat a" 256 0 3 rest]
      length_show_nat_octet [OF a] a
    by (simp add: read_number_def dec_val_show_nat)
  then show ?thesis by (simp add: read_octet_def)
qed

lemma dec_digit_dot: "dec_digit CHR ''.'' = None"
  by (simp add: dec_digit_def)

lemma read_ipv4_show:
  assumes "rest = [] \<or> dec_digit (hd rest) = None"
  shows "read_ipv4 (show_v4 a b c d @ rest) = Some ((a, b, c, d), rest)"
  using assms by (simp add: read_ipv4_def show_v4_def read_octet_show dec_digit_dot)

lemma ip_from_str_show_v4: "ip_from_str (show_ip (V4 a b c d)) = Some (V4 a b c d)"
  using read_ipv4_show [of "[]" a b c d] by (simp add: ip_from_str_def read_ip_def)

end
