(* ===== verification/Crates.thy ===== *)
theory Crates
  imports Rust_Net
begin

text \<open>
  The third-party crates the gateway calls, as one record of functions that the definitions
  take as an argument: nothing is known of them beyond their types. What the code relies on is
  stated as named contracts (\<open>base64_contract\<close> and so on), which are hypotheses of the theorems
  that need them. The random generator is the stream of bytes it will yield, and a key, nonce,
  hash or buffer is its bytes.

  The types: \<open>uuid\<close> is the 128-bit value of a \<open>Uuid\<close>, \<open>header_value\<close> the bytes of an HTTP
  header value, \<open>verification_key\<close> the value \<open>hmac::VerificationKey::new\<close> builds over SHA-512.
\<close>

type_synonym uuid = "128 word"
type_synonym header_value = "u8 list"

datatype verification_key = VerificationKey "u8 list"

record crates =
  b64_encode :: "u8 list \<Rightarrow> string"
  b64_decode :: "string \<Rightarrow> u8 list option"
  hex_decode :: "u8 list \<Rightarrow> u8 list option"
  aead_key_ok :: "u8 list \<Rightarrow> bool"
  aead_seal_in_place :: "u8 list \<Rightarrow> u8 list \<Rightarrow> u8 list \<Rightarrow> nat \<Rightarrow> u8 list option"
  aead_open_in_place :: "u8 list \<Rightarrow> u8 list \<Rightarrow> u8 list \<Rightarrow> u8 list option"
  hmac_verify :: "verification_key \<Rightarrow> u8 list \<Rightarrow> u8 list \<Rightarrow> bool"
  uuid_parse_str :: "string \<Rightarrow> uuid option"
  uuid_hyphenated :: "uuid \<Rightarrow> string"
  uuid_from_random :: "u8 list \<Rightarrow> uuid"
  hv_to_str :: "header_value \<Rightarrow> string option"
  hv_from_str :: "string \<Rightarrow> header_value option"
  blake2b :: "u8 list \<Rightarrow> u8 list"
  geoip_lookup :: "ip_addr \<Rightarrow> string option option option"

text \<open>
  \<open>aead_key_ok\<close> says that \<open>SealingKey::new\<close> and \<open>OpeningKey::new\<close> accept a key.
  \<open>aead_seal_in_place key nonce in_out suffix\<close> is \<open>aead::seal_in_place\<close> with no associated data:
  it seals all but the last \<open>suffix\<close> bytes of the buffer and gives the whole buffer back, with
  the tag in those last bytes. \<open>aead_open_in_place key nonce buf\<close> is \<open>aead::open_in_place\<close> with
  no prefix: the plaintext, or \<open>None\<close> when the tag does not verify. \<open>geoip_lookup\<close> gives \<open>None\<close>
  for an error, \<open>Some None\<close> for a record without a country, and otherwise the ISO code.
\<close>

section \<open>Contracts\<close>

definition base64_contract :: "crates \<Rightarrow> bool" where
  "base64_contract cr \<longleftrightarrow> (\<forall>bs. b64_decode cr (b64_encode cr bs) = Some bs)"

definition aead_contract :: "crates \<Rightarrow> bool" where
  "aead_contract cr \<longleftrightarrow>
     (\<forall>key. length key = 32 \<longrightarrow> aead_key_ok cr key) \<and>
     (\<forall>key nonce buf.
        length key = 32 \<longrightarrow> length nonce = 12 \<longrightarrow> 16 \<le> length buf \<longrightarrow>
        (\<exists>out. aead_seal_in_place cr key nonce buf 16 = Some out \<and> length out = length buf \<and>
               aead_open_in_place cr key nonce out = Some (take (length buf - 16) buf)))"

definition uuid_contract :: "crates \<Rightarrow> bool" where
  "uuid_contract cr \<longleftrightarrow>
     (\<forall>u. uuid_parse_str cr (uuid_hyphenated cr u) = Some u \<and>
          length (uuid_hyphenated cr u) = 36 \<and>
          ascii_str (uuid_hyphenated cr u) \<and> CHR ''|'' \<notin> set (uuid_hyphenated cr u))"

text \<open>What \<open>to_str\<close> gives is the text of the bytes, and it makes a header value again.\<close>

definition http_contract :: "crates \<Rightarrow> bool" where
  "http_contract cr \<longleftrightarrow>
     (\<forall>h s. hv_to_str cr h = Some s \<longrightarrow> h = as_bytes s \<and> hv_from_str cr s = Some h)"

text \<open>Base64 text is visible ASCII, so it survives the way through a header.\<close>

definition base64_header_contract :: "crates \<Rightarrow> bool" where
  "base64_header_contract cr \<longleftrightarrow>
     (\<forall>bs. hv_to_str cr (as_bytes (b64_encode cr bs)) = Some (b64_encode cr bs))"

text \<open>A header value of visible ASCII is its text.\<close>

definition visible :: "char \<Rightarrow> bool" where
  "visible c \<longleftrightarrow> 32 \<le> (of_char c :: nat) \<and> (of_char c :: nat) < 127"

definition header_text_contract :: "crates \<Rightarrow> bool" where
  "header_text_contract cr \<longleftrightarrow> (\<forall>s. list_all visible s \<longrightarrow> hv_to_str cr (as_bytes s) = Some s)"

lemma base64_contractD: "base64_contract cr \<Longrightarrow> b64_decode cr (b64_encode cr bs) = Some bs"
  by (simp add: base64_contract_def)

lemma aead_contractE:
  assumes "aead_contract cr" "length key = 32" "length nonce = 12" "16 \<le> length buf"
  obtains out where "aead_seal_in_place cr key nonce buf 16 = Some out" "length out = length buf"
    "aead_open_in_place cr key nonce out = Some (take (length buf - 16) buf)"
  using assms unfolding aead_contract_def by blast

lemma uuid_contractD:
  assumes "uuid_contract cr"
  shows "uuid_parse_str cr (uuid_hyphenated cr u) = Some u"
    and "length (uuid_hyphenated cr u) = 36"
    and "ascii_str (uuid_hyphenated cr u)"
    and "CHR ''|'' \<notin> set (uuid_hyphenated cr u)"
  using assms by (simp_all add: uuid_contract_def)

lemma uuid_hyphenated_inject:
  "uuid_contract cr \<Longrightarrow> uuid_hyphenated cr u = uuid_hyphenated cr v \<longleftrightarrow> u = v"
  by (metis uuid_contractD(1) option.inject)

lemma http_contractD:
  assumes "http_contract cr" "hv_to_str cr h = Some s"
  shows "h = as_bytes s" and "hv_from_str cr s = Some h"
  using assms unfolding http_contract_def by blast+

section \<open>Randomness\<close>

type_synonym rng = "nat \<Rightarrow> u8"

definition fill_bytes :: "nat \<Rightarrow> rng \<Rightarrow> u8 list \<times> rng" where
  "fill_bytes n r = (map r [0..<n], \<lambda>i. r (i + n))"

lemma length_fill_bytes [simp]: "length (fst (fill_bytes n r)) = n"
  by (simp add: fill_bytes_def)

definition new_v4 :: "crates \<Rightarrow> rng \<Rightarrow> uuid \<times> rng" where
  "new_v4 cr r = (let (bs, r) = fill_bytes 16 r in (uuid_from_random cr bs, r))"

end
