(* ===== verification/Gateway_World.thy ===== *)
theory Gateway_World
  imports Crates
begin

text \<open>
  The state a request handler changes: the Prometheus counters of \<open>src/metrics.rs\<close>, the random
  generator, the ScyllaDB service, and the Kafka broker's log. The database is a parameter: its
  state has the type \<open>'db\<close>, and the record \<open>scylla\<close> holds the pool and the query call. A
  query is the text the code builds with the values it binds.
\<close>

section \<open>Metrics\<close>

text \<open>
  One field per metric; a labelled counter is a function of its label values, a histogram is the
  number of its observations. Counters are floating-point in the library; they are incremented by
  whole numbers only, so they are natural numbers here (exact below 2^53).
\<close>

record metrics =
  app_update_counter :: nat
  events_counter :: nat
  request_counter :: "string \<times> string \<Rightarrow> nat"
  scylladb_request_counter :: "string \<times> string \<Rightarrow> nat"
  response_times_histogram :: nat
  kafka_latency_histogram :: nat
  scylladb_latency_histogram :: nat

definition inc_app_update :: "metrics \<Rightarrow> metrics" where
  "inc_app_update m = m\<lparr>app_update_counter := app_update_counter m + 1\<rparr>"

definition inc_events_by :: "nat \<Rightarrow> metrics \<Rightarrow> metrics" where
  "inc_events_by n m = m\<lparr>events_counter := events_counter m + n\<rparr>"

definition inc_request :: "string \<Rightarrow> string \<Rightarrow> metrics \<Rightarrow> metrics" where
  "inc_request status endpoint m =
     m\<lparr>request_counter := (request_counter m)((status, endpoint) := request_counter m (status, endpoint) + 1)\<rparr>"

definition inc_scylladb_request :: "string \<Rightarrow> string \<Rightarrow> metrics \<Rightarrow> metrics" where
  "inc_scylladb_request meth status m =
     m\<lparr>scylladb_request_counter :=
         (scylladb_request_counter m)((meth, status) := scylladb_request_counter m (meth, status) + 1)\<rparr>"

definition observe_response_time :: "metrics \<Rightarrow> metrics" where
  "observe_response_time m = m\<lparr>response_times_histogram := response_times_histogram m + 1\<rparr>"

definition observe_kafka_latency :: "metrics \<Rightarrow> metrics" where
  "observe_kafka_latency m = m\<lparr>kafka_latency_histogram := kafka_latency_histogram m + 1\<rparr>"

definition observe_scylladb_latency :: "metrics \<Rightarrow> metrics" where
  "observe_scylladb_latency m = m\<lparr>scylladb_latency_histogram := scylladb_latency_histogram m + 1\<rparr>"

named_theorems metric_defs "unfolding of the metric updates"

lemmas [metric_defs] =
  inc_app_update_def inc_events_by_def inc_request_def inc_scylladb_request_def
  observe_response_time_def observe_kafka_latency_def observe_scylladb_latency_def

section \<open>The database service\<close>

text \<open>
  A row of a result is what its typed getters return: \<open>row_uuid\<close> is \<open>r_by_name\<close> at \<open>Uuid\<close>
  (\<open>None\<close> for an error, a missing column or a null), \<open>row_text\<close> is \<open>by_name\<close> at \<open>String\<close>
  (\<open>None\<close> for an error or a missing column, \<open>Some None\<close> for a null). A frame's body is \<open>None\<close>
  when it does not decode, and \<open>Some None\<close> when it holds no rows result.
\<close>

text \<open>
  \<open>tcp_connect\<close> is \<open>TransportTcp::new(addr)\<close>, \<open>build_pool\<close> building a pool of that size,
  \<open>pool_get\<close> taking a connection from it, and \<open>run_cql\<close> running a query on one (\<open>None\<close> for an
  error).
\<close>

record row =
  row_uuid :: "string \<Rightarrow> uuid option"
  row_text :: "string \<Rightarrow> string option option"

record frame =
  frame_body :: "row list option option"

record query =
  q_text :: string
  q_values :: "uuid list"

datatype io_error_kind = ConnectionAborted | InvalidInput | Interrupted

datatype io_error = IoError io_error_kind

record 'db scylla =
  tcp_connect :: "string \<Rightarrow> bool"
  build_pool :: "nat \<Rightarrow> bool"
  pool_get :: "'db \<Rightarrow> bool \<times> 'db"
  run_cql :: "query \<Rightarrow> 'db \<Rightarrow> frame option \<times> 'db"

text \<open>
  The columns of the rows of a query's answer, as CQL has it: those between \<open>SELECT\<close> and \<open>FROM\<close>, when
  they are plain columns separated by commas. A getter finds no other column.
\<close>

fun until_from :: "string \<Rightarrow> string" where
  "until_from [] = []"
| "until_from (c # cs) = (if take 6 (c # cs) = '' FROM '' then [] else c # until_from cs)"

definition selected_columns :: "string \<Rightarrow> string list" where
  "selected_columns text =
     map (dropWhile (\<lambda>c. c = CHR '' '')) (str_split CHR '','' (until_from (drop (length ''SELECT '') text)))"

definition rows_have_selected_columns :: "'db scylla \<Rightarrow> bool" where
  "rows_have_selected_columns svc \<longleftrightarrow>
     (\<forall>q db frame db' rows row c.
        run_cql svc q db = (Some frame, db') \<longrightarrow> frame_body frame = Some (Some rows) \<longrightarrow> row \<in> set rows \<longrightarrow>
        c \<notin> set (selected_columns (q_text q)) \<longrightarrow> row_uuid row c = None \<and> row_text row c = None)"

section \<open>The world\<close>

record kafka_record =
  kr_topic :: string
  kr_key :: "u8 list option"
  kr_payload :: "u8 list"

record 'db world =
  w_rng :: rng
  w_db :: 'db
  w_sent :: "kafka_record list"
  w_metrics :: metrics

definition count :: "(metrics \<Rightarrow> metrics) \<Rightarrow> 'db world \<Rightarrow> 'db world" where
  "count f w = w\<lparr>w_metrics := f (w_metrics w)\<rparr>"

lemma count_simps [simp]:
  "w_rng (count f w) = w_rng w" "w_db (count f w) = w_db w" "w_sent (count f w) = w_sent w"
  "w_metrics (count f w) = f (w_metrics w)"
  by (simp_all add: count_def)

end
