(* ===== verification/Sdk_Device.thy ===== *)
theory Sdk_Device
  imports Crates
begin

text \<open>
  \<open>src/events/input/sdk_device.rs\<close> and \<open>sdk_environment.rs\<close>: the device and environment parts of
  an event batch, the platform a device is on, the location taken from the caller's address,
  and the conversion to the protocol buffers. Of the generated protobuf structs, the fields the
  code sets are modelled; the others keep their defaults.
\<close>

type_synonym i32 = "32 word"

section \<open>Platforms\<close>

datatype platform = Ios | Android | Web | Unknown

instantiation platform :: enum
begin

definition "enum_platform = [Ios, Android, Web, Unknown]"
definition "enum_all_platform P \<longleftrightarrow> P Ios \<and> P Android \<and> P Web \<and> P Unknown"
definition "enum_ex_platform P \<longleftrightarrow> P Ios \<or> P Android \<or> P Web \<or> P Unknown"

instance
proof
  have cases: "x \<in> {Ios, Android, Web, Unknown}" for x by (cases x) simp_all
  then show "UNIV = set (enum_class.enum :: platform list)" by (auto simp: enum_platform_def)
  show "distinct (enum_class.enum :: platform list)" by (simp add: enum_platform_def)
  show "enum_class.enum_all P \<longleftrightarrow> Ball UNIV P" for P :: "platform \<Rightarrow> bool"
    unfolding enum_all_platform_def using cases by (metis empty_iff insert_iff UNIV_I)
  show "enum_class.enum_ex P \<longleftrightarrow> Bex UNIV P" for P :: "platform \<Rightarrow> bool"
    unfolding enum_ex_platform_def using cases by (metis empty_iff insert_iff UNIV_I)
qed

end

fun platform_name :: "platform \<Rightarrow> string" where
  "platform_name Ios = ''ios''"
| "platform_name Android = ''android''"
| "platform_name Web = ''web''"
| "platform_name Unknown = ''''"

section \<open>Devices\<close>

record sdk_device =
  sd_ifa_tracking_enabled :: bool
  sd_notification_registered :: bool
  sd_h :: "i32 option"
  sd_w :: "i32 option"
  sd_locale :: "string option"
  sd_language :: "string option"
  sd_time_zone :: "string option"
  sd_manufacturer :: "string option"
  sd_model :: "string option"
  sd_os_version :: "string option"
  sd_os_name :: "string option"
  sd_network_connection_type :: "string option"
  sd_device_name :: "string option"
  sd_ifa :: "string option"
  sd_idfv :: "string option"
  sd_carrier_name :: "string option"
  sd_carrier_country :: "string option"
  sd_browser_name :: "string option"
  sd_browser_version :: "string option"
  sd_browser_ua :: "string option"
  sd_notification_types :: "i32 option"
  sd_orientation :: "string option"
  sd_platform :: "string option"
  sd_ip_hashed_blake2 :: "string option"
  sd_country :: "string option"

definition device_platform :: "sdk_device \<Rightarrow> platform" where
  "device_platform d =
     (if sd_platform d = Some ''android'' then Android
      else if sd_platform d = Some ''ios'' then Ios
      else if sd_platform d = Some ''web'' then Web
      else if sd_os_name d = Some ''iOS'' \<or> sd_os_name d = Some ''iPhone OS'' then Ios
      else if sd_os_name d = Some ''Android'' then Android
      else Unknown)"

definition set_location :: "crates \<Rightarrow> ip_addr \<Rightarrow> sdk_device \<Rightarrow> sdk_device" where
  "set_location cr ip d =
     d\<lparr>sd_ip_hashed_blake2 := Some (b64_encode cr (blake2b cr (as_bytes (show_ip ip)))),
       sd_country := Option.bind (Option.bind (geoip_lookup cr ip) id) id\<rparr>"

section \<open>The protocol buffer of a device\<close>

record proto_carrier =
  pc_name :: "string option"
  pc_mcc :: "string option"

record proto_browser =
  pb_name :: "string option"
  pb_ua :: "string option"
  pb_version :: "string option"

record proto_device =
  pd_platform :: "string option"
  pd_locale :: "string option"
  pd_timezone :: "string option"
  pd_manufacturer :: "string option"
  pd_model :: "string option"
  pd_osv :: "string option"
  pd_os :: "string option"
  pd_connectiontype :: "string option"
  pd_ifa :: "string option"
  pd_idfv :: "string option"
  pd_notification_types :: "i32 option"
  pd_orientation :: "string option"
  pd_h :: "i32 option"
  pd_w :: "i32 option"
  pd_ifa_tracking_enabled :: "bool option"
  pd_notification_registered :: "bool option"
  pd_ip_hashed_blake2 :: "string option"
  pd_country :: "string option"
  pd_carrier :: "proto_carrier option"
  pd_browser :: "proto_browser option"
  pd_language :: "string option"

definition option_or :: "'a option \<Rightarrow> 'a option \<Rightarrow> 'a option" where
  "option_or x y = (case x of None \<Rightarrow> y | Some a \<Rightarrow> Some a)"

text \<open>
  The language set explicitly wins; otherwise it is the part of the locale before the first
  underscore, and absent when the locale has none. The slice could panic.
\<close>

definition device_language :: "string option \<Rightarrow> string option \<Rightarrow> string option outcome" where
  "device_language language locale =
     (case language of
        Some l \<Rightarrow> Ret (Some l)
      | None \<Rightarrow>
          (case locale of
             None \<Rightarrow> Ret None
           | Some loc \<Rightarrow>
               (case str_find CHR ''_'' loc of
                  None \<Rightarrow> Ret None
                | Some index \<Rightarrow> obind (str_slice_to loc index) (\<lambda>s. Ret (Some s)))))"

definition device_into :: "sdk_device \<Rightarrow> proto_device outcome" where
  "device_into d =
     obind (device_language (sd_language d) (sd_locale d)) (\<lambda>language.
     Ret \<lparr>pd_platform = Some (platform_name (device_platform d)),
          pd_locale = sd_locale d,
          pd_timezone = sd_time_zone d,
          pd_manufacturer = sd_manufacturer d,
          pd_model = sd_model d,
          pd_osv = sd_os_version d,
          pd_os = sd_os_name d,
          pd_connectiontype = sd_network_connection_type d,
          pd_ifa = sd_ifa d,
          pd_idfv = sd_idfv d,
          pd_notification_types = sd_notification_types d,
          pd_orientation = sd_orientation d,
          pd_h = option_or (sd_h d) (Some (- 1)),
          pd_w = option_or (sd_w d) (Some (- 1)),
          pd_ifa_tracking_enabled = Some (sd_ifa_tracking_enabled d),
          pd_notification_registered = Some (sd_notification_registered d),
          pd_ip_hashed_blake2 = sd_ip_hashed_blake2 d,
          pd_country = sd_country d,
          pd_carrier = Some \<lparr>pc_name = sd_carrier_name d, pc_mcc = sd_carrier_country d\<rparr>,
          pd_browser = Some \<lparr>pb_name = sd_browser_name d, pb_ua = sd_browser_ua d,
                             pb_version = sd_browser_version d\<rparr>,
          pd_language = language\<rparr>)"

section \<open>Environments\<close>

record sdk_environment =
  se_sdk_version :: "string option"
  se_app_version :: "string option"
  se_app_store_id :: "string option"
  se_app_id :: string
  se_app_instance_id :: "string option"

record proto_environment =
  pe_app_id :: "string option"
  pe_sdk_version :: "string option"
  pe_app_version :: "string option"
  pe_app_store_id :: "string option"
  pe_app_instance_id :: "string option"

definition environment_into :: "sdk_environment \<Rightarrow> proto_environment" where
  "environment_into e =
     \<lparr>pe_app_id = Some (se_app_id e), pe_sdk_version = se_sdk_version e,
      pe_app_version = se_app_version e, pe_app_store_id = se_app_store_id e,
      pe_app_instance_id = se_app_instance_id e\<rparr>"

section \<open>Facts\<close>

lemma device_language_eq:
  "device_language language locale =
     Ret (case language of
            Some l \<Rightarrow> Some l
          | None \<Rightarrow> Option.bind locale (\<lambda>loc. if CHR ''_'' \<in> set loc
                                            then Some (takeWhile (\<lambda>c. c \<noteq> CHR ''_'') loc) else None))"
proof -
  have "str_slice_to loc i = Ret (takeWhile (\<lambda>c. c \<noteq> CHR ''_'') loc)"
    if "str_find CHR ''_'' loc = Some i" for loc i
    by (rule str_find_slice [OF _ that]) simp
  then show ?thesis
    by (auto simp: device_language_def str_find_eq split: option.splits)
qed

lemma device_into_Ret: "\<exists>p. device_into d = Ret p"
  by (simp add: device_into_def device_language_eq)

lemma set_location_platform [simp]: "device_platform (set_location cr ip d) = device_platform d"
  by (simp add: set_location_def device_platform_def)

lemma platform_name_inject: "platform_name p = platform_name q \<longleftrightarrow> p = q"
  by (cases p; cases q) simp_all

end
