(* ===== verification/Cors.thy ===== *)
theory Cors
  imports Gateway_Config Crates Sdk_Device
begin

text \<open>
  \<open>src/cors.rs\<close>: the cross-origin policy, built from the configuration once, and the response
  builders that carry its headers. A builder is the status and the headers appended so far; the
  header names are lower-case, as the HTTP library keeps them. \<open>HeaderValue::from_str(...).unwrap()\<close>
  panics on text that is not a header value.
\<close>

section \<open>Responses\<close>

record http_response =
  rs_status :: nat
  rs_headers :: "(string \<times> header_value) list"
  rs_body :: string

definition response_builder :: http_response where
  "response_builder = \<lparr>rs_status = 200, rs_headers = [], rs_body = ''''\<rparr>"

definition add_header :: "string \<Rightarrow> header_value \<Rightarrow> http_response \<Rightarrow> http_response" where
  "add_header k v b = b\<lparr>rs_headers := rs_headers b @ [(k, v)]\<rparr>"

definition header_from_str :: "crates \<Rightarrow> string \<Rightarrow> string \<Rightarrow> http_response \<Rightarrow> http_response outcome" where
  "header_from_str cr k s b = obind (unwrap (hv_from_str cr s)) (\<lambda>v. Ret (add_header k v b))"

section \<open>The policy\<close>

record cors =
  co_allowed_methods :: string
  co_allowed_headers :: string
  co_allowed_origins :: "string \<rightharpoonup> string set"

definition cors_new :: "config \<Rightarrow> cors option" where
  "cors_new c =
     map_option (\<lambda>cors_config.
       \<lparr>co_allowed_methods = cc_allowed_methods cors_config,
        co_allowed_headers = cc_allowed_headers cors_config,
        co_allowed_origins =
          (case cfg_origins c of
             Some origins \<Rightarrow>
               fold (\<lambda>origin acc. acc(oc_app_id origin \<mapsto> set (oc_allowed origin))) origins Map.empty
           | None \<Rightarrow> Map.empty)\<rparr>) (cfg_cors c)"

definition valid_origin :: "cors \<Rightarrow> string \<Rightarrow> string option \<Rightarrow> bool" where
  "valid_origin c app_id origin =
     (case origin of
        Some o' \<Rightarrow>
          (case co_allowed_origins c app_id of
             Some app_origins \<Rightarrow> o' \<in> app_origins
           | None \<Rightarrow> False)
      | None \<Rightarrow> False)"

definition response_builder_origin ::
  "crates \<Rightarrow> cors \<Rightarrow> string \<Rightarrow> string option \<Rightarrow> platform \<Rightarrow> http_response outcome" where
  "response_builder_origin cr c app_id origin p =
     (if valid_origin c app_id origin \<and> p = Web then
        obind (unwrap origin) (\<lambda>o'.
        obind (header_from_str cr ''access-control-allow-origin'' o' response_builder) (\<lambda>b.
        obind (header_from_str cr ''access-control-allow-methods'' (co_allowed_methods c) b) (\<lambda>b.
        header_from_str cr ''access-control-allow-headers'' (co_allowed_headers c) b)))
      else Ret response_builder)"

definition response_builder_wildcard :: "crates \<Rightarrow> cors \<Rightarrow> http_response outcome" where
  "response_builder_wildcard cr c =
     (let b = add_header ''access-control-allow-origin'' (as_bytes ''*'') response_builder
      in obind (header_from_str cr ''access-control-allow-methods'' (co_allowed_methods c) b) (\<lambda>b.
         header_from_str cr ''access-control-allow-headers'' (co_allowed_headers c) b))"

section \<open>Facts\<close>

lemma fold_insert_map:
  "fold (\<lambda>x acc. acc(f x \<mapsto> g x)) xs m = m ++ map_of (rev (map (\<lambda>x. (f x, g x)) xs))"
  by (induction xs arbitrary: m) (simp_all add: map_add_upd_left[symmetric] fun_eq_iff map_add_def split: option.splits)

text \<open>The last \<open>[[origins]]\<close> entry of an application is the one that counts.\<close>

definition configured_origins :: "config \<Rightarrow> string \<rightharpoonup> string list" where
  "configured_origins c =
     map_of (rev (map (\<lambda>x. (oc_app_id x, oc_allowed x)) (case cfg_origins c of Some xs \<Rightarrow> xs | None \<Rightarrow> [])))"

lemma cors_new_origins:
  assumes "cors_new c = Some co"
  shows "co_allowed_origins co app = map_option set (configured_origins c app)"
proof -
  have "map_of (rev (map (\<lambda>x. (oc_app_id x, set (oc_allowed x))) xs)) app =
      map_option set (map_of (rev (map (\<lambda>x. (oc_app_id x, oc_allowed x)) xs)) app)" for xs
    using map_of_map [of set "rev (map (\<lambda>x. (oc_app_id x, oc_allowed x)) xs)"]
    by (simp add: rev_map comp_def split_beta fun_eq_iff)
  then show ?thesis using assms
    by (auto simp: cors_new_def configured_origins_def fold_insert_map split: option.splits)
qed

lemma header_from_str_eq:
  "header_from_str cr k s b = Ret b' \<longleftrightarrow> (\<exists>v. hv_from_str cr s = Some v \<and> b' = add_header k v b)"
  "header_from_str cr k s b = Panic \<longleftrightarrow> hv_from_str cr s = None"
  by (auto simp: header_from_str_def outcome_simps)

text \<open>The headers of a policy, as the configuration's text makes them.\<close>

definition policy_headers_ok :: "crates \<Rightarrow> cors \<Rightarrow> bool" where
  "policy_headers_ok cr c \<longleftrightarrow>
     hv_from_str cr (co_allowed_methods c) \<noteq> None \<and> hv_from_str cr (co_allowed_headers c) \<noteq> None"

lemma response_builder_origin_granted:
  assumes "valid_origin c app origin" and "p = Web"
  shows "response_builder_origin cr c app origin p = Ret b \<longleftrightarrow>
    (\<exists>o' v m h. origin = Some o' \<and> hv_from_str cr o' = Some v \<and>
       hv_from_str cr (co_allowed_methods c) = Some m \<and> hv_from_str cr (co_allowed_headers c) = Some h \<and>
       b = \<lparr>rs_status = 200,
            rs_headers = [(''access-control-allow-origin'', v), (''access-control-allow-methods'', m),
                          (''access-control-allow-headers'', h)],
            rs_body = ''''\<rparr>)"
  using assms
  by (auto simp: response_builder_origin_def outcome_simps header_from_str_eq add_header_def
      response_builder_def)

lemma response_builder_origin_refused:
  "\<not> (valid_origin c app origin \<and> p = Web) \<Longrightarrow> response_builder_origin cr c app origin p = Ret response_builder"
  by (auto simp: response_builder_origin_def)

section \<open>The interface to the request handlers\<close>

text \<open>
  Both the success and the error path of a request build their responses with the policy. What
  they rely on: the origin header is granted to a valid origin of a web client only, a refused
  builder is bare, and building starts from status 200 and an empty body.
\<close>

locale cors_policy =
  fixes valid :: "cors \<Rightarrow> string \<Rightarrow> string option \<Rightarrow> bool"
    and build :: "crates \<Rightarrow> cors \<Rightarrow> string \<Rightarrow> string option \<Rightarrow> platform \<Rightarrow> http_response outcome"
  assumes granted_only:
      "build cr c app origin p = Ret b \<Longrightarrow> (''access-control-allow-origin'', v) \<in> set (rs_headers b) \<Longrightarrow>
       \<exists>o'. origin = Some o' \<and> valid c app (Some o') \<and> p = Web \<and> hv_from_str cr o' = Some v"
    and refused_bare: "\<not> (valid c app origin \<and> p = Web) \<Longrightarrow> build cr c app origin p = Ret response_builder"
    and starts_ok: "build cr c app origin p = Ret b \<Longrightarrow> rs_status b = 200 \<and> rs_body b = ''''"
    and grants: "valid c app (Some o') \<Longrightarrow> hv_from_str cr o' = Some v \<Longrightarrow> policy_headers_ok cr c \<Longrightarrow>
       \<exists>b. build cr c app (Some o') Web = Ret b \<and> (''access-control-allow-origin'', v) \<in> set (rs_headers b)"
    and no_origin_invalid: "\<not> valid c app None"
begin

lemma native_bare: "p \<noteq> Web \<Longrightarrow> build cr c app origin p = Ret response_builder"
  by (simp add: refused_bare)

lemma no_origin_bare: "build cr c app None p = Ret response_builder"
  by (simp add: refused_bare no_origin_invalid)

lemma build_total:
  assumes "policy_headers_ok cr c" and "\<And>o'. origin = Some o' \<Longrightarrow> hv_from_str cr o' \<noteq> None"
  shows "build cr c app origin p \<noteq> Panic"
proof (cases "valid c app origin \<and> p = Web")
  case True
  then obtain o' where o': "origin = Some o'" using no_origin_invalid by (cases origin) auto
  then obtain v where "hv_from_str cr o' = Some v" using assms(2) by auto
  then show ?thesis using True o' grants [of c app o' cr v] assms(1) by auto
next
  case False
  then show ?thesis by (simp add: refused_bare)
qed

end

interpretation cors_headers: cors_policy valid_origin response_builder_origin
proof unfold_locales
  fix cr c app origin p b v
  assume b: "response_builder_origin cr c app origin p = Ret b"
    and v: "(''access-control-allow-origin'', v) \<in> set (rs_headers b)"
  show "\<exists>o'. origin = Some o' \<and> valid_origin c app (Some o') \<and> p = Web \<and> hv_from_str cr o' = Some v"
  proof (cases "valid_origin c app origin \<and> p = Web")
    case True
    then show ?thesis using b v by (auto simp: response_builder_origin_granted)
  next
    case False
    then show ?thesis using b v by (auto simp: response_builder_origin_refused response_builder_def)
  qed
next
  fix cr c app origin p b
  assume b: "response_builder_origin cr c app origin p = Ret b"
  then show "rs_status b = 200 \<and> rs_body b = ''''"
    by (cases "valid_origin c app origin \<and> p = Web")
      (auto simp: response_builder_origin_granted response_builder_origin_refused response_builder_def)
next
  fix cr c app o' v
  assume "valid_origin c app (Some o')" "hv_from_str cr o' = Some v" "policy_headers_ok cr c"
  then show "\<exists>b. response_builder_origin cr c app (Some o') Web = Ret b \<and>
      (''access-control-allow-origin'', v) \<in> set (rs_headers b)"
    by (auto simp: response_builder_origin_granted policy_headers_ok_def)
qed (simp_all add: response_builder_origin_refused valid_origin_def)

end
