(* ===== verification/Encryption.thy ===== *)
theory Encryption
  imports Crates
begin

text \<open>
  \<open>src/encryption.rs\<close>: device ids as AES-256-GCM ciphertexts in base64. \<open>Ciphertext::encrypt\<close>
  copies the clear text into a 52-byte buffer, seals its first 36 bytes and puts the nonce in
  front; \<open>Cleartext::decrypt\<close> is its inverse on what it produced. The panics are modelled:
  writing past the 52-byte buffer, \<open>unwrap\<close> of a failed seal, and \<open>split_at_mut(12)\<close> of a
  shorter buffer. The key is the byte vector \<open>SECRET\<close>.
\<close>

datatype ciphertext = Ciphertext (ct_value: string)
datatype cleartext = Cleartext (clear_value: string)

datatype unspecified = Unspecified

text \<open>\<open>Display\<close> of a clear text. The \<open>From\<close>, \<open>Into\<close> and \<open>AsRef\<close> conversions are the constructors
  and selectors.\<close>

definition cleartext_display :: "cleartext \<Rightarrow> string" where
  [simp]: "cleartext_display c = clear_value c"

definition development_secret :: "u8 list" where
  "development_secret =
     [129, 164, 171, 19, 88, 96, 172, 49, 218, 122, 106, 79, 226, 124,
      112, 233, 172, 165, 64, 54, 31, 139, 249, 226, 199, 148, 8, 27,
      76, 91, 164, 146]"

text \<open>\<open>SECRET\<close>: decoded from the environment variable, or the fixed key in development.\<close>

definition load_secret ::
  "(string \<Rightarrow> u8 list option) \<Rightarrow> string option \<Rightarrow> string \<Rightarrow> u8 list outcome" where
  "load_secret decode_url_safe_no_pad env_secret rust_env =
     (case env_secret of
        Some secret \<Rightarrow> unwrap (decode_url_safe_no_pad secret)
      | None \<Rightarrow> if rust_env \<noteq> ''development'' then Panic else Ret development_secret)"

text \<open>
  \<open>for (i, c) in src.iter().enumerate() { dst[off + i] = *c; }\<close>: an index past the end of the
  array panics.
\<close>

fun copy_into :: "u8 list \<Rightarrow> nat \<Rightarrow> u8 list \<Rightarrow> u8 list outcome" where
  "copy_into dst i [] = Ret dst"
| "copy_into dst i (c # cs) =
     (if i < length dst then copy_into (dst[i := c]) (Suc i) cs else Panic)"

text \<open>The lazily built keys: \<open>SealingKey::new(..).unwrap()\<close> and \<open>OpeningKey::new(..).unwrap()\<close>.\<close>

definition require_key :: "crates \<Rightarrow> u8 list \<Rightarrow> unit outcome" where
  "require_key cr secret = (if aead_key_ok cr secret then Ret () else Panic)"

definition encrypt :: "crates \<Rightarrow> u8 list \<Rightarrow> cleartext \<Rightarrow> rng \<Rightarrow> (ciphertext \<times> rng) outcome" where
  "encrypt cr secret cleartext r =
     (let (nonce, r) = fill_bytes 12 r
      in obind (copy_into (replicate 52 0) 0 (as_bytes (clear_value cleartext))) (\<lambda>buf.
         obind (require_key cr secret) (\<lambda>_.
         obind (unwrap (aead_seal_in_place cr secret nonce buf 16)) (\<lambda>sealed.
         obind (copy_into (replicate 64 0) 0 nonce) (\<lambda>payload.
         obind (copy_into payload 12 sealed) (\<lambda>payload.
         Ret (Ciphertext (b64_encode cr payload), r)))))))"

definition split_at :: "nat \<Rightarrow> 'a list \<Rightarrow> ('a list \<times> 'a list) outcome" where
  "split_at n xs = (if n \<le> length xs then Ret (take n xs, drop n xs) else Panic)"

definition decrypt :: "crates \<Rightarrow> u8 list \<Rightarrow> ciphertext \<Rightarrow> (unspecified + cleartext) outcome" where
  "decrypt cr secret ct =
     (case b64_decode cr (ct_value ct) of
        None \<Rightarrow> Ret (Inl Unspecified)
      | Some decoded \<Rightarrow>
          obind (split_at 12 decoded) (\<lambda>(nonce, cipher).
          obind (require_key cr secret) (\<lambda>_.
          Ret (case aead_open_in_place cr secret nonce cipher of
                 None \<Rightarrow> Inl Unspecified
               | Some content \<Rightarrow> Inr (Cleartext (bytes_str (from_utf8_lossy content)))))))"

section \<open>Copying\<close>

lemma copy_into_eq:
  "copy_into dst i src =
     (if i + length src \<le> length dst \<or> src = []
      then Ret (take i dst @ src @ drop (i + length src) dst) else Panic)"
proof (induction src arbitrary: dst i)
  case (Cons c cs)
  then show ?case
    by (auto simp: take_Suc_conv_app_nth take_update_cancel drop_update_cancel
        upd_conv_take_nth_drop add.commute)
qed simp


lemma copy_into_zero: "length src \<le> n \<Longrightarrow> copy_into (replicate n 0) 0 src = Ret (src @ replicate (n - length src) 0)"
  by (auto simp: copy_into_eq)

lemma copy_into_zero_Panic: "n < length src \<Longrightarrow> copy_into (replicate n 0) 0 src = Panic"
  by (auto simp: copy_into_eq)

text \<open>The buffer the seal works on, and the 36 bytes of it that are encrypted.\<close>

definition padded_id :: "string \<Rightarrow> u8 list" where
  "padded_id s = as_bytes s @ replicate (52 - length s) 0"

definition sealed_part :: "string \<Rightarrow> u8 list" where
  "sealed_part s = take 36 (padded_id s)"

lemma length_padded_id: "length s \<le> 52 \<Longrightarrow> length (padded_id s) = 52"
  by (simp add: padded_id_def)

lemma sealed_part_36: "length s = 36 \<Longrightarrow> sealed_part s = as_bytes s"
  by (simp add: sealed_part_def padded_id_def)

section \<open>What encryption gives\<close>

definition crypto_good :: "crates \<Rightarrow> u8 list \<Rightarrow> bool" where
  "crypto_good cr secret \<longleftrightarrow> base64_contract cr \<and> aead_contract cr \<and> length secret = 32"

definition fits_device_id :: "cleartext \<Rightarrow> bool" where
  "fits_device_id c \<longleftrightarrow> length (clear_value c) = 36 \<and> utf8_valid (as_bytes (clear_value c))"

lemma crypto_good_key [simp]: "crypto_good cr secret \<Longrightarrow> require_key cr secret = Ret ()"
  by (simp add: crypto_good_def aead_contract_def require_key_def)

lemma encrypt_unfold:
  assumes "crypto_good cr secret" and "length s \<le> 52"
  obtains sealed where
    "aead_seal_in_place cr secret (fst (fill_bytes 12 r)) (padded_id s) 16 = Some sealed"
    "length sealed = 52"
    "aead_open_in_place cr secret (fst (fill_bytes 12 r)) sealed = Some (sealed_part s)"
    "encrypt cr secret (Cleartext s) r =
       Ret (Ciphertext (b64_encode cr (fst (fill_bytes 12 r) @ sealed)), snd (fill_bytes 12 r))"
proof -
  let ?n = "fst (fill_bytes 12 r)"
  have "16 \<le> length (padded_id s)" using assms(2) by (simp add: length_padded_id)
  with assms(1) obtain out where out:
    "aead_seal_in_place cr secret ?n (padded_id s) 16 = Some out"
    "length out = length (padded_id s)"
    "aead_open_in_place cr secret ?n out = Some (take (length (padded_id s) - 16) (padded_id s))"
    by (auto simp: crypto_good_def elim: aead_contractE [of cr secret ?n "padded_id s"])
  have buf: "copy_into (replicate 52 0) 0 (as_bytes s) = Ret (padded_id s)"
    using assms(2) by (simp add: copy_into_zero padded_id_def)
  have "copy_into (?n @ replicate 52 0) 12 out = Ret (?n @ out)"
    using out(2) assms(2) by (simp add: copy_into_eq length_padded_id)
  then have "encrypt cr secret (Cleartext s) r = Ret (Ciphertext (b64_encode cr (?n @ out)), snd (fill_bytes 12 r))"
    using out(1) buf assms(1) by (simp add: encrypt_def split_beta copy_into_zero)
  then show thesis
    using that out assms(2) by (simp add: length_padded_id sealed_part_def)
qed

lemma encrypt_decrypt:
  assumes good: "crypto_good cr secret" and len: "length s \<le> 52"
  shows "\<exists>ct. encrypt cr secret (Cleartext s) r = Ret (ct, snd (fill_bytes 12 r)) \<and>
    decrypt cr secret ct = Ret (Inr (Cleartext (bytes_str (from_utf8_lossy (sealed_part s)))))"
proof -
  obtain sealed where e: "length sealed = 52"
    "aead_open_in_place cr secret (fst (fill_bytes 12 r)) sealed = Some (sealed_part s)"
    "encrypt cr secret (Cleartext s) r =
       Ret (Ciphertext (b64_encode cr (fst (fill_bytes 12 r) @ sealed)), snd (fill_bytes 12 r))"
    using encrypt_unfold [OF good len] by blast
  have "b64_decode cr (b64_encode cr bs) = Some bs" for bs
    using good by (simp add: crypto_good_def base64_contractD)
  then show ?thesis using e good by (simp add: decrypt_def split_at_def)
qed

lemma encrypt_fits:
  assumes "crypto_good cr secret" and "fits_device_id c"
  shows "\<exists>ct. encrypt cr secret c r = Ret (ct, snd (fill_bytes 12 r)) \<and> decrypt cr secret ct = Ret (Inr c)"
proof -
  obtain s where c: "c = Cleartext s" by (cases c)
  then have s: "length s = 36" "utf8_valid (as_bytes s)"
    using assms(2) by (simp_all add: fits_device_id_def)
  then have "bytes_str (from_utf8_lossy (sealed_part s)) = s"
    by (simp add: sealed_part_36 from_utf8_lossy_valid)
  then show ?thesis using encrypt_decrypt [OF assms(1), of s r] s(1) c by simp
qed

lemma encrypt_Panic_long: "52 < length s \<Longrightarrow> encrypt cr secret (Cleartext s) r = Panic"
  by (simp add: encrypt_def split_beta copy_into_zero_Panic)

lemma fits_uuid: "uuid_contract cr \<Longrightarrow> fits_device_id (Cleartext (uuid_hyphenated cr u))"
  using uuid_contractD [of cr u] by (simp add: fits_device_id_def ascii_str_def utf8_valid_ascii)

section \<open>The interface to the rest of the gateway\<close>

text \<open>
  What the request context and the registration code rely on: sealing a well-sized id returns,
  and opening what it returned gives the id back.
\<close>

locale device_codec =
  fixes enc :: "crates \<Rightarrow> u8 list \<Rightarrow> cleartext \<Rightarrow> rng \<Rightarrow> (ciphertext \<times> rng) outcome"
    and dec :: "crates \<Rightarrow> u8 list \<Rightarrow> ciphertext \<Rightarrow> (unspecified + cleartext) outcome"
    and good :: "crates \<Rightarrow> u8 list \<Rightarrow> bool"
    and fits :: "cleartext \<Rightarrow> bool"
  assumes enc_dec: "good cr key \<Longrightarrow> fits c \<Longrightarrow> \<exists>ct r'. enc cr key c r = Ret (ct, r') \<and> dec cr key ct = Ret (Inr c)"
begin

lemma enc_total: "good cr key \<Longrightarrow> fits c \<Longrightarrow> enc cr key c r \<noteq> Panic"
  using enc_dec [of cr key c r] by auto

lemma dec_of_enc: "good cr key \<Longrightarrow> fits c \<Longrightarrow> enc cr key c r = Ret (ct, r') \<Longrightarrow> dec cr key ct = Ret (Inr c)"
  using enc_dec [of cr key c r] by auto

lemma enc_inject:
  "good cr key \<Longrightarrow> fits c \<Longrightarrow> fits d \<Longrightarrow> enc cr key c r = Ret (ct, r') \<Longrightarrow> enc cr key d s = Ret (ct, s') \<Longrightarrow> c = d"
  using dec_of_enc [of cr key c r ct r'] dec_of_enc [of cr key d s ct s'] by simp

end

interpretation aes: device_codec encrypt decrypt crypto_good fits_device_id
  by unfold_locales (use encrypt_fits in blast)

end
