(* ===== verification/Request_Context.thy ===== *)
theory Request_Context
  imports Encryption Sdk_Device
begin

text \<open>
  \<open>src/context.rs\<close>: what the gateway knows about a request from its headers. The device id header
  is decrypted; an id that does not decrypt is dropped, and one that is too short panics inside
  \<open>Cleartext::decrypt\<close>. Also the fresh device id of a new installation, and the fields of the
  context that go into a log record.
\<close>

section \<open>Headers\<close>

text \<open>Header names are case-insensitive: the map is keyed by the lower-case name.\<close>

type_synonym header_map = "string \<Rightarrow> header_value option"

definition to_ascii_lowercase :: "char \<Rightarrow> char" where
  "to_ascii_lowercase c =
     (let n = (of_char c :: nat) in if 65 \<le> n \<and> n \<le> 90 then char_of (n + 32) else c)"

definition header_get :: "header_map \<Rightarrow> string \<Rightarrow> header_value option" where
  "header_get headers key = headers (map to_ascii_lowercase key)"

definition get_value :: "crates \<Rightarrow> header_map \<Rightarrow> string \<Rightarrow> string option" where
  "get_value cr headers key = Option.bind (header_get headers key) (hv_to_str cr)"

section \<open>Device ids\<close>

record device_id =
  did_ciphertext :: ciphertext
  did_cleartext :: cleartext

text \<open>Sixteen random bytes are drawn and not used; the id is a version 4 UUID.\<close>

definition device_id_generate :: "crates \<Rightarrow> u8 list \<Rightarrow> rng \<Rightarrow> (device_id \<times> rng) outcome" where
  "device_id_generate cr secret r =
     (let (_, r) = fill_bytes 16 r;
          (u, r) = new_v4 cr r;
          clear = Cleartext (uuid_hyphenated cr u)
      in obind (encrypt cr secret clear r) (\<lambda>(ct, r).
         Ret (\<lparr>did_ciphertext = ct, did_cleartext = clear\<rparr>, r)))"

section \<open>The context\<close>

record request_context =
  ctx_app_id :: string
  ctx_platform :: platform
  ctx_api_token :: "string option"
  ctx_device_id :: "device_id option"
  ctx_signature :: "string option"
  ctx_ip :: "ip_addr option"
  ctx_origin :: "string option"

definition context_device_id :: "crates \<Rightarrow> u8 list \<Rightarrow> header_map \<Rightarrow> device_id option outcome" where
  "context_device_id cr secret headers =
     (case get_value cr headers ''XORC-Device-Id'' of
        None \<Rightarrow> Ret None
      | Some s \<Rightarrow>
          let ct = Ciphertext s in
          obind (decrypt cr secret ct) (\<lambda>res.
          Ret (case res of
                 Inr clear \<Rightarrow> Some \<lparr>did_ciphertext = ct, did_cleartext = clear\<rparr>
               | Inl _ \<Rightarrow> None)))"

definition context_new ::
  "crates \<Rightarrow> u8 list \<Rightarrow> header_map \<Rightarrow> string \<Rightarrow> platform \<Rightarrow> request_context outcome" where
  "context_new cr secret headers app_id p =
     obind (context_device_id cr secret headers) (\<lambda>device_id.
     Ret \<lparr>ctx_app_id = app_id,
          ctx_platform = p,
          ctx_api_token = get_value cr headers ''XORC-Api-Token'',
          ctx_device_id = device_id,
          ctx_signature = get_value cr headers ''XORC-Signature'',
          ctx_ip = Option.bind (get_value cr headers ''X-Real-IP'') ip_from_str,
          ctx_origin = get_value cr headers ''origin''\<rparr>)"

section \<open>Logging\<close>

text \<open>\<open>KV::serialize\<close>: each \<open>?\<close> stops at the first failure of the serializer.\<close>

definition emit_opt ::
  "(string \<Rightarrow> string \<Rightarrow> 's \<Rightarrow> 'e + 's) \<Rightarrow> string \<Rightarrow> string option \<Rightarrow> 's \<Rightarrow> 'e + 's" where
  "emit_opt emit_str key v s = (case v of None \<Rightarrow> Inr s | Some x \<Rightarrow> emit_str key x s)"

definition context_serialize ::
  "(string \<Rightarrow> string \<Rightarrow> 's \<Rightarrow> 'e + 's) \<Rightarrow> request_context \<Rightarrow> 's \<Rightarrow> 'e + 's" where
  "context_serialize emit_str ctx s =
     rbind (emit_str ''app_id'' (ctx_app_id ctx) s) (\<lambda>s.
     rbind (emit_str ''platform'' (platform_name (ctx_platform ctx)) s) (\<lambda>s.
     rbind (emit_opt emit_str ''api_token'' (ctx_api_token ctx) s) (\<lambda>s.
     rbind (case ctx_device_id ctx of
              None \<Rightarrow> Inr s
            | Some d \<Rightarrow>
                rbind (emit_str ''device_id'' (clear_value (did_cleartext d)) s)
                  (emit_str ''encrypted_device_id'' (ct_value (did_ciphertext d)))) (\<lambda>s.
     rbind (emit_opt emit_str ''signature'' (ctx_signature ctx) s) (\<lambda>s.
     emit_opt emit_str ''origin'' (ctx_origin ctx) s)))))"

section \<open>Facts\<close>

lemma context_new_fields:
  assumes "context_new cr secret headers app_id p = Ret ctx"
  shows "ctx_app_id ctx = app_id" and "ctx_platform ctx = p"
    and "ctx_api_token ctx = get_value cr headers ''XORC-Api-Token''"
    and "context_device_id cr secret headers = Ret (ctx_device_id ctx)"
    and "ctx_signature ctx = get_value cr headers ''XORC-Signature''"
    and "ctx_ip ctx = Option.bind (get_value cr headers ''X-Real-IP'') ip_from_str"
    and "ctx_origin ctx = get_value cr headers ''origin''"
  using assms by (auto simp: context_new_def outcome_simps)

lemma context_new_Panic:
  "context_new cr secret headers app_id p = Panic \<longleftrightarrow> context_device_id cr secret headers = Panic"
  by (simp add: context_new_def outcome_simps)

lemma decrypt_Panic:
  "decrypt cr secret ct = Panic \<longleftrightarrow>
     (\<exists>d. b64_decode cr (ct_value ct) = Some d \<and> (length d < 12 \<or> \<not> aead_key_ok cr secret))"
  by (auto simp: decrypt_def split_at_def require_key_def split: option.splits)

lemma context_device_id_Panic:
  "context_device_id cr secret headers = Panic \<longleftrightarrow>
     (\<exists>s. get_value cr headers ''XORC-Device-Id'' = Some s \<and> decrypt cr secret (Ciphertext s) = Panic)"
  by (auto simp: context_device_id_def outcome_simps Let_def split: option.splits)

lemma context_device_id_Some:
  assumes "get_value cr headers ''XORC-Device-Id'' = Some s"
    and "decrypt cr secret (Ciphertext s) = Ret (Inr c)"
  shows "context_device_id cr secret headers = Ret (Some \<lparr>did_ciphertext = Ciphertext s, did_cleartext = c\<rparr>)"
  using assms by (simp add: context_device_id_def)

lemma context_device_id_sound:
  assumes "context_device_id cr secret headers = Ret (Some d)"
  shows "get_value cr headers ''XORC-Device-Id'' = Some (ct_value (did_ciphertext d))"
    and "decrypt cr secret (did_ciphertext d) = Ret (Inr (did_cleartext d))"
proof -
  from assms obtain s where s: "get_value cr headers ''XORC-Device-Id'' = Some s"
    by (cases "get_value cr headers ''XORC-Device-Id''") (simp_all add: context_device_id_def)
  from assms s obtain res where res: "decrypt cr secret (Ciphertext s) = Ret res"
    by (cases "decrypt cr secret (Ciphertext s)") (simp_all add: context_device_id_def)
  from assms s res obtain c where "res = Inr c" "d = \<lparr>did_ciphertext = Ciphertext s, did_cleartext = c\<rparr>"
    by (cases res) (simp_all add: context_device_id_def)
  with s res show "get_value cr headers ''XORC-Device-Id'' = Some (ct_value (did_ciphertext d))"
    and "decrypt cr secret (did_ciphertext d) = Ret (Inr (did_cleartext d))" by simp_all
qed

lemma device_id_generate_good:
  assumes "crypto_good cr secret" and "uuid_contract cr"
  shows "\<exists>u ct r'. device_id_generate cr secret r =
      Ret (\<lparr>did_ciphertext = ct, did_cleartext = Cleartext (uuid_hyphenated cr u)\<rparr>, r') \<and>
      decrypt cr secret ct = Ret (Inr (Cleartext (uuid_hyphenated cr u)))"
proof -
  obtain x r1 where r1: "fill_bytes 16 r = (x, r1)" by fastforce
  obtain u r2 where u: "new_v4 cr r1 = (u, r2)" by fastforce
  obtain ct where "encrypt cr secret (Cleartext (uuid_hyphenated cr u)) r2 = Ret (ct, snd (fill_bytes 12 r2))"
    "decrypt cr secret ct = Ret (Inr (Cleartext (uuid_hyphenated cr u)))"
    using encrypt_fits [OF assms(1) fits_uuid [OF assms(2)]] by blast
  then show ?thesis using r1 u by (auto simp: device_id_generate_def)
qed

text \<open>The fields a context contributes to a log record, in order.\<close>

definition context_log_fields :: "request_context \<Rightarrow> (string \<times> string) list" where
  "context_log_fields ctx =
     [(''app_id'', ctx_app_id ctx), (''platform'', platform_name (ctx_platform ctx))] @
     (case ctx_api_token ctx of None \<Rightarrow> [] | Some t \<Rightarrow> [(''api_token'', t)]) @
     (case ctx_device_id ctx of None \<Rightarrow> []
      | Some d \<Rightarrow> [(''device_id'', clear_value (did_cleartext d)),
                   (''encrypted_device_id'', ct_value (did_ciphertext d))]) @
     (case ctx_signature ctx of None \<Rightarrow> [] | Some x \<Rightarrow> [(''signature'', x)]) @
     (case ctx_origin ctx of None \<Rightarrow> [] | Some x \<Rightarrow> [(''origin'', x)])"

fun emit_all :: "(string \<Rightarrow> string \<Rightarrow> 's \<Rightarrow> 'e + 's) \<Rightarrow> (string \<times> string) list \<Rightarrow> 's \<Rightarrow> 'e + 's" where
  "emit_all emit_str [] s = Inr s"
| "emit_all emit_str ((k, v) # kvs) s = rbind (emit_str k v s) (emit_all emit_str kvs)"

lemma emit_all_fun:
  "emit_all e [] = Inr" "emit_all e ((k, v) # kvs) = (\<lambda>s. rbind (e k v s) (emit_all e kvs))"
  by (simp_all add: fun_eq_iff)

lemma emit_all_append: "emit_all e (xs @ ys) = (\<lambda>s. rbind (emit_all e xs s) (emit_all e ys))"
  by (induction xs) (auto simp: emit_all_fun)

lemma emit_opt_all:
  "emit_opt e k v s = emit_all e (case v of None \<Rightarrow> [] | Some x \<Rightarrow> [(k, x)]) s"
  by (cases v) (simp_all add: emit_opt_def emit_all_fun)

lemma context_serialize_all: "context_serialize e ctx s = emit_all e (context_log_fields ctx) s"
proof -
  have dev: "(case ctx_device_id ctx of None \<Rightarrow> Inr s
       | Some d \<Rightarrow> rbind (e ''device_id'' (clear_value (did_cleartext d)) s)
           (e ''encrypted_device_id'' (ct_value (did_ciphertext d)))) =
     emit_all e (case ctx_device_id ctx of None \<Rightarrow> []
      | Some d \<Rightarrow> [(''device_id'', clear_value (did_cleartext d)),
                   (''encrypted_device_id'', ct_value (did_ciphertext d))]) s" for s
    by (cases "ctx_device_id ctx") (simp_all add: emit_all_fun)
  show ?thesis
    unfolding context_serialize_def context_log_fields_def dev emit_opt_all
    by (simp add: emit_all_append emit_all_fun)
qed

end
