(* ===== verification/Gateway_Error.thy ===== *)
theory Gateway_Error
  imports Cors Request_Context
begin

text \<open>
  \<open>src/error.rs\<close>: the errors of the gateway, their descriptions, and the response each becomes.
  A request whose context is known gets the cross-origin headers on its error response too.
\<close>

datatype gateway_error =
    AppDoesNotExist
  | InvalidToken
  | MissingToken
  | MissingSignature
  | InvalidSignature
  | UnknownOrigin
  | BadDeviceId
  | InvalidPayload
  | InternalServerError string
  | ServiceUnavailable string

fun description :: "gateway_error \<Rightarrow> string" where
  "description AppDoesNotExist = ''Application does not exist''"
| "description InvalidToken = ''The given SDK token was invalid''"
| "description MissingToken = ''No SDK token given''"
| "description MissingSignature = ''The signature header was missing''"
| "description InvalidSignature = ''The signature header was invalid''"
| "description UnknownOrigin = ''The ORIGIN didn't match to the CORS configuration''"
| "description BadDeviceId = ''There is something fishy in the device id encryption''"
| "description InvalidPayload = ''The request JSON was faulty''"
| "description (InternalServerError reason) = reason"
| "description (ServiceUnavailable reason) = reason"

definition response_builder_for ::
  "crates \<Rightarrow> cors option \<Rightarrow> request_context option \<Rightarrow> http_response outcome" where
  "response_builder_for cr co ctx =
     (case co of
        Some c \<Rightarrow>
          (case ctx of
             Some x \<Rightarrow> response_builder_origin cr c (ctx_app_id x) (ctx_origin x) (ctx_platform x)
           | None \<Rightarrow> Ret response_builder)
      | None \<Rightarrow> Ret response_builder)"

fun error_status :: "gateway_error \<Rightarrow> nat" where
  "error_status AppDoesNotExist = 403"
| "error_status InvalidToken = 412"
| "error_status MissingToken = 412"
| "error_status MissingSignature = 412"
| "error_status InvalidSignature = 412"
| "error_status UnknownOrigin = 403"
| "error_status BadDeviceId = 400"
| "error_status InvalidPayload = 400"
| "error_status (InternalServerError _) = 500"
| "error_status (ServiceUnavailable _) = 503"

fun error_body :: "gateway_error \<Rightarrow> string" where
  "error_body AppDoesNotExist = ''Unknown app''"
| "error_body InvalidToken = ''Invalid XORC-Api-Token''"
| "error_body MissingToken = ''Missing XORC-Api-Token''"
| "error_body MissingSignature = ''Missing XORC-Signature''"
| "error_body InvalidSignature = ''Invalid XORC-Signature''"
| "error_body UnknownOrigin = ''Unknown Origin''"
| "error_body BadDeviceId = ''Bad XORC-Device-Id''"
| "error_body InvalidPayload = ''Invalid payload''"
| "error_body (InternalServerError _) = ''Invalid Server Error''"
| "error_body (ServiceUnavailable _) = ''Service unavailable''"

definition into_response ::
  "crates \<Rightarrow> cors option \<Rightarrow> gateway_error \<Rightarrow> request_context option \<Rightarrow> http_response outcome" where
  "into_response cr co e ctx =
     obind (response_builder_for cr co ctx) (\<lambda>b.
     Ret (b\<lparr>rs_status := error_status e, rs_body := error_body e\<rparr>))"

section \<open>Facts\<close>

lemma error_status_not_ok: "400 \<le> error_status e \<and> error_status e \<le> 503"
  by (cases e) simp_all

lemma into_response_Ret:
  "into_response cr co e ctx = Ret r \<longleftrightarrow>
     (\<exists>b. response_builder_for cr co ctx = Ret b \<and> r = b\<lparr>rs_status := error_status e, rs_body := error_body e\<rparr>)"
  by (auto simp: into_response_def outcome_simps)

lemma into_response_granted:
  assumes "into_response cr co e ctx = Ret r"
    and "(''access-control-allow-origin'', v) \<in> set (rs_headers r)"
  shows "\<exists>c x o'. co = Some c \<and> ctx = Some x \<and> ctx_origin x = Some o' \<and>
    valid_origin c (ctx_app_id x) (Some o') \<and> ctx_platform x = Web \<and> hv_from_str cr o' = Some v"
  using assms cors_headers.granted_only
  by (fastforce simp: into_response_Ret response_builder_for_def response_builder_def split: option.splits)

text \<open>An error response without a context, or for a native client, has no headers at all.\<close>

lemma into_response_plain:
  assumes "ctx = None \<or> (\<exists>x. ctx = Some x \<and> ctx_platform x \<noteq> Web)"
  shows "into_response cr co e ctx = Ret \<lparr>rs_status = error_status e, rs_headers = [], rs_body = error_body e\<rparr>"
  using assms
  by (auto simp: into_response_Ret response_builder_for_def cors_headers.native_bare response_builder_def
      split: option.splits)

end
