(* ===== verification/Rust_Float.thy ===== *)
theory Rust_Float
  imports Prelude
begin

text \<open>
  The conversion of integers to \<open>f64\<close> (\<open>i as f64\<close>), on IEEE-754 bit patterns: the 53-bit
  significand is rounded to nearest, ties to even. A number is held as its 64 bits: sign, eleven
  exponent bits, fifty-two fraction bits. The gateway converts every integer property this way.
\<close>

type_synonym f64 = "64 word"

fun ilog2 :: "nat \<Rightarrow> nat" where
  "ilog2 n = (if n \<le> 1 then 0 else Suc (ilog2 (n div 2)))"

declare ilog2.simps [simp del]

text \<open>Division by \<open>2 ^ s\<close>, rounded to nearest with ties to even.\<close>

definition round_shift :: "nat \<Rightarrow> nat \<Rightarrow> nat" where
  "round_shift m s =
     (let q = m div 2 ^ s; r = m mod 2 ^ s in
      if 2 ^ s < 2 * r \<or> (2 ^ s = 2 * r \<and> odd q) then q + 1 else q)"

text \<open>The significand of \<open>m > 0\<close>, between \<open>2 ^ 52\<close> and \<open>2 ^ 53\<close>; \<open>2 ^ 53\<close> carries over.\<close>

definition f64_significand :: "nat \<Rightarrow> nat" where
  "f64_significand m =
     (let e = ilog2 m in if e \<le> 52 then m * 2 ^ (52 - e) else round_shift m (e - 52))"

definition f64_magnitude_bits :: "nat \<Rightarrow> nat" where
  "f64_magnitude_bits m = (if m = 0 then 0 else (ilog2 m + 1022) * 2 ^ 52 + f64_significand m)"

definition f64_of_int :: "int \<Rightarrow> f64" where
  "f64_of_int i = of_nat ((if i < 0 then 2 ^ 63 else 0) + f64_magnitude_bits (nat \<bar>i\<bar>))"

text \<open>The integer the rounding yields.\<close>

definition f64_round_nat :: "nat \<Rightarrow> nat" where
  "f64_round_nat m =
     (let e = ilog2 m in if e \<le> 52 then m else round_shift m (e - 52) * 2 ^ (e - 52))"

definition f64_round :: "int \<Rightarrow> int" where
  "f64_round i = sgn i * int (f64_round_nat (nat \<bar>i\<bar>))"

text \<open>Reading a bit pattern back as an integer, for patterns whose value is one.\<close>

definition f64_int :: "f64 \<Rightarrow> int" where
  "f64_int w =
     (let b = unat w; e = b div 2 ^ 52 mod 2 ^ 11; f = b mod 2 ^ 52; neg = 2 ^ 63 \<le> b;
          m = (if e = 0 then 0
               else if 1075 \<le> e then (2 ^ 52 + f) * 2 ^ (e - 1075)
               else (2 ^ 52 + f) div 2 ^ (1075 - e))
      in if neg then - int m else int m)"

section \<open>Bounds of the logarithm and of the rounding\<close>

lemma ilog2_bounds: "0 < n \<Longrightarrow> 2 ^ ilog2 n \<le> n \<and> n < 2 ^ (Suc (ilog2 n))"
proof (induction n rule: ilog2.induct)
  case (1 n)
  show ?case
  proof (cases "n \<le> 1")
    case True
    then show ?thesis using 1 by (simp add: ilog2.simps [of n])
  next
    case False
    then have "2 ^ ilog2 (n div 2) \<le> n div 2 \<and> n div 2 < 2 ^ Suc (ilog2 (n div 2))"
      using 1 by simp
    moreover have "ilog2 n = Suc (ilog2 (n div 2))" using False by (simp add: ilog2.simps [of n])
    ultimately show ?thesis by (auto simp: less_mult_imp_div_less div_less_iff_less_mult)
  qed
qed

lemma round_shift_bounds: "m div 2 ^ s \<le> round_shift m s" "round_shift m s \<le> m div 2 ^ s + 1"
  by (simp_all add: round_shift_def Let_def)

lemma round_shift_error:
  "2 * \<bar>int m - int (round_shift m s * 2 ^ s)\<bar> \<le> 2 ^ s"
proof -
  let ?q = "m div 2 ^ s" and ?r = "m mod 2 ^ s"
  have m: "m = ?q * 2 ^ s + ?r" by (rule div_mult_mod_eq [symmetric])
  have mi: "int m = int ?q * 2 ^ s + int ?r"
    by (subst (1) m) (simp only: of_nat_add of_nat_mult of_nat_numeral of_nat_power)
  have r: "?r < 2 ^ s" by simp
  show ?thesis
  proof (cases "round_shift m s = ?q")
    case True
    then have "2 * ?r \<le> 2 ^ s" by (auto simp: round_shift_def Let_def split: if_splits)
    then have "int (2 * ?r) \<le> int (2 ^ s)" by (simp only: of_nat_le_iff)
    moreover have "int m - int (round_shift m s * 2 ^ s) = int ?r"
      using True m by (metis add_diff_cancel_left' of_nat_add)
    ultimately show ?thesis by simp
  next
    case False
    then have q: "round_shift m s = ?q + 1" and "2 ^ s \<le> 2 * ?r"
      by (auto simp: round_shift_def Let_def split: if_splits)
    have "int m - int (round_shift m s * 2 ^ s) = int ?r - 2 ^ s"
      using mi by (simp add: q algebra_simps)
    moreover have "int (2 ^ s) \<le> int (2 * ?r)" using \<open>2 ^ s \<le> 2 * ?r\<close> by (simp only: of_nat_le_iff)
    ultimately show ?thesis using r by simp
  qed
qed

lemma f64_round_nat_exact:
  assumes "m \<le> 2 ^ 53"
  shows "f64_round_nat m = m"
proof (cases "ilog2 m \<le> 52")
  case True
  then show ?thesis by (simp add: f64_round_nat_def Let_def)
next
  case False
  have "0 < m"
  proof (rule ccontr)
    assume "\<not> 0 < m"
    then show False using False by (simp add: ilog2.simps [of 0])
  qed
  from ilog2_bounds [OF this] have "(2::nat) ^ ilog2 m \<le> 2 ^ 53" using assms by simp
  then have "ilog2 m \<le> 53" by (rule power_le_imp_le_exp [rotated]) simp
  then have e: "ilog2 m = 53" using False by simp
  then have "m = 2 ^ 53" using ilog2_bounds [OF \<open>0 < m\<close>] assms by simp
  then show ?thesis using e by (simp add: f64_round_nat_def round_shift_def)
qed

text \<open>The relative error is at most one part in \<open>2 ^ 53\<close>.\<close>

lemma f64_round_nat_error: "2 ^ 53 * \<bar>int m - int (f64_round_nat m)\<bar> \<le> int m"
proof (cases "ilog2 m \<le> 52")
  case True
  then show ?thesis by (simp add: f64_round_nat_def Let_def)
next
  case False
  define s where "s = ilog2 m - 52"
  have "0 < m"
  proof (rule ccontr)
    assume "\<not> 0 < m"
    then show False using False by (simp add: ilog2.simps [of 0])
  qed
  have "2 * \<bar>int m - int (f64_round_nat m)\<bar> \<le> 2 ^ s"
    using round_shift_error [of m s] False by (simp add: f64_round_nat_def Let_def s_def)
  then have "2 ^ 52 * (2 * \<bar>int m - int (f64_round_nat m)\<bar>) \<le> 2 ^ 52 * 2 ^ s" by simp
  also have "\<dots> = 2 ^ ilog2 m"
  proof -
    have "ilog2 m = 52 + s" using False by (simp add: s_def)
    then show ?thesis by (simp only: power_add)
  qed
  also have "\<dots> \<le> int m"
    using ilog2_bounds [OF \<open>0 < m\<close>] by (metis of_nat_le_iff of_nat_numeral of_nat_power)
  finally show ?thesis by simp
qed

lemma f64_significand_bounds:
  assumes "0 < m"
  shows "2 ^ 52 \<le> f64_significand m \<and> f64_significand m \<le> 2 ^ 53 \<and>
    (f64_significand m = 2 ^ 53 \<longrightarrow> 52 < ilog2 m)"
proof (cases "ilog2 m \<le> 52")
  case True
  have p: "(2::nat) ^ ilog2 m * 2 ^ (52 - ilog2 m) = 2 ^ 52"
    using True by (simp flip: power_add)
  have "2 ^ ilog2 m * 2 ^ (52 - ilog2 m) \<le> m * 2 ^ (52 - ilog2 m)"
    using ilog2_bounds [OF assms] by simp
  moreover have "m * 2 ^ (52 - ilog2 m) < (2 * 2 ^ ilog2 m) * 2 ^ (52 - ilog2 m)"
    using ilog2_bounds [OF assms] by simp
  moreover have "2 * 2 ^ ilog2 m * (2::nat) ^ (52 - ilog2 m) = 2 ^ 53"
    using p by (simp only: mult.assoc) simp
  ultimately show ?thesis using True p by (simp add: f64_significand_def Let_def)
next
  case False
  define s where "s = ilog2 m - 52"
  have e: "ilog2 m = 52 + s" using False by (simp add: s_def)
  have "2 ^ 52 * 2 ^ s \<le> m" "m < 2 ^ 53 * 2 ^ s"
    using ilog2_bounds [OF assms] by (simp_all add: e power_add)
  then have "2 ^ 52 \<le> m div 2 ^ s" "m div 2 ^ s < 2 ^ 53"
    by (simp_all only: less_eq_div_iff_mult_less_eq zero_less_power zero_less_numeral div_less_iff_less_mult)
  then show ?thesis using round_shift_bounds [of m s] False
    by (simp add: f64_significand_def Let_def s_def)
qed

text \<open>Reading back the bits of a converted integer gives its rounding.\<close>

lemma f64_fields:
  fixes b e f :: nat
  assumes "b = e * 2 ^ 52 + f" and "f < 2 ^ 52" and "e < 2 ^ 11"
  shows "b div 2 ^ 52 mod 2 ^ 11 = e" and "b mod 2 ^ 52 = f" and "b < 2 ^ 63"
proof -
  have "b div 2 ^ 52 = e" using assms(1,2) by simp
  then show "b div 2 ^ 52 mod 2 ^ 11 = e" using assms(3) by simp
  show "b mod 2 ^ 52 = f" using assms(1,2) by simp
  show "b < 2 ^ 63" using assms by simp
qed

lemma f64_fields_sign:
  fixes b :: nat
  assumes "b < 2 ^ 63"
  shows "(2 ^ 63 + b) div 2 ^ 52 mod 2 ^ 11 = b div 2 ^ 52 mod 2 ^ 11" "(2 ^ 63 + b) mod 2 ^ 52 = b mod 2 ^ 52"
proof -
  have e: "2 ^ 63 + b = b + 2 ^ 11 * 2 ^ 52" by simp
  have "(b + 2 ^ 11 * 2 ^ 52) div 2 ^ 52 = b div 2 ^ 52 + 2 ^ 11"
    by (subst div_mult_self1) simp_all
  then show "(2 ^ 63 + b) div 2 ^ 52 mod 2 ^ 11 = b div 2 ^ 52 mod 2 ^ 11"
    by (simp only: e mod_add_self2)
  show "(2 ^ 63 + b) mod 2 ^ 52 = b mod 2 ^ 52"
    by (simp only: e mod_mult_self1)
qed

definition f64_magnitude :: "nat \<Rightarrow> nat" where
  "f64_magnitude b =
     (let e = b div 2 ^ 52 mod 2 ^ 11; f = b mod 2 ^ 52 in
      if e = 0 then 0
      else if 1075 \<le> e then (2 ^ 52 + f) * 2 ^ (e - 1075)
      else (2 ^ 52 + f) div 2 ^ (1075 - e))"

lemma f64_int_magnitude:
  "f64_int w = (if 2 ^ 63 \<le> unat w then - 1 else 1) * int (f64_magnitude (unat w))"
  by (simp add: f64_int_def f64_magnitude_def Let_def)

lemma f64_magnitude_bits:
  assumes "0 < m" and "m < 2 ^ 64"
  shows "f64_magnitude (f64_magnitude_bits m) = f64_round_nat m \<and> f64_magnitude_bits m < 2 ^ 63"
proof -
  let ?e = "ilog2 m" and ?q = "f64_significand m"
  note q = f64_significand_bounds [OF assms(1)]
  have "(2::nat) ^ ?e < 2 ^ 64" using ilog2_bounds [OF assms(1)] assms(2) by linarith
  then have e: "?e < 64" by (rule power_less_imp_less_exp [rotated]) simp
  have bits: "f64_magnitude_bits m = (?e + 1022) * 2 ^ 52 + ?q"
    using assms(1) by (simp add: f64_magnitude_bits_def)
  show ?thesis
  proof (cases "?q = 2 ^ 53")
    case True
    then have "f64_magnitude_bits m = (?e + 1024) * 2 ^ 52 + 0" using bits by simp
    note F = f64_fields [OF this]
    have "52 < ?e" using q True by simp
    then have "f64_round_nat m = 2 ^ 53 * 2 ^ (?e - 52)"
      using True by (simp add: f64_round_nat_def f64_significand_def Let_def)
    moreover have "f64_magnitude (f64_magnitude_bits m) = 2 ^ 52 * 2 ^ (?e + 1024 - 1075)"
      using F(1,2) e \<open>52 < ?e\<close> by (simp add: f64_magnitude_def)
    moreover have "(2::nat) ^ 52 * 2 ^ (?e + 1024 - 1075) = 2 ^ 53 * 2 ^ (?e - 52)"
    proof -
      have "?e + 1024 - 1075 = Suc (?e - 52)" using \<open>52 < ?e\<close> by simp
      then show ?thesis by simp
    qed
    ultimately show ?thesis using F(3) e by simp
  next
    case False
    then have f: "?q - 2 ^ 52 < 2 ^ 52" "?q = 2 ^ 52 + (?q - 2 ^ 52)" using q by auto
    have "f64_magnitude_bits m = (?e + 1023) * 2 ^ 52 + (?q - 2 ^ 52)" using bits f(2) by simp
    note F = f64_fields [OF this f(1)]
    have "f64_magnitude (f64_magnitude_bits m) =
        (if 1075 \<le> ?e + 1023 then ?q * 2 ^ (?e + 1023 - 1075) else ?q div 2 ^ (1075 - (?e + 1023)))"
      using F(1,2) e f(2) by (simp add: f64_magnitude_def)
    also have "\<dots> = f64_round_nat m"
      by (auto simp: f64_round_nat_def f64_significand_def Let_def)
    finally show ?thesis using F(3) e by simp
  qed
qed

lemma f64_int_of_int:
  assumes "\<bar>i\<bar> < 2 ^ 64"
  shows "f64_int (f64_of_int i) = f64_round i"
proof (cases "i = 0")
  case True
  then show ?thesis
    by (simp add: f64_int_def f64_of_int_def f64_magnitude_bits_def f64_round_def)
next
  case False
  let ?m = "nat \<bar>i\<bar>"
  have "0 < ?m" "?m < 2 ^ 64" using assms False by (simp_all add: nat_less_iff)
  note B = f64_magnitude_bits [OF this]
  show ?thesis
  proof (cases "i < 0")
    case True
    have "f64_of_int i = of_nat (2 ^ 63 + f64_magnitude_bits ?m)"
      using True by (simp only: f64_of_int_def if_True)
    moreover have "2 ^ 63 + f64_magnitude_bits ?m < 2 ^ 64" using B by simp
    ultimately have "unat (f64_of_int i) = 2 ^ 63 + f64_magnitude_bits ?m"
      by (simp only: unat_of_nat) simp
    moreover have "f64_magnitude (2 ^ 63 + f64_magnitude_bits ?m) = f64_magnitude (f64_magnitude_bits ?m)"
      using f64_fields_sign B by (simp only: f64_magnitude_def)
    ultimately show ?thesis using B True by (simp add: f64_int_magnitude f64_round_def)
  next
    case neg: False
    have "unat (f64_of_int i) = f64_magnitude_bits ?m"
      using B neg by (simp add: f64_of_int_def unat_of_nat)
    then show ?thesis using B neg False by (simp add: f64_int_magnitude f64_round_def)
  qed
qed

lemma f64_round_exact: "\<bar>i\<bar> \<le> 2 ^ 53 \<Longrightarrow> f64_round i = i"
  using f64_round_nat_exact [of "nat \<bar>i\<bar>"] by (simp add: f64_round_def nat_le_iff sgn_mult_abs)

lemma f64_round_error: "2 ^ 53 * \<bar>i - f64_round i\<bar> \<le> \<bar>i\<bar>"
proof -
  have "\<bar>i - f64_round i\<bar> = \<bar>int (nat \<bar>i\<bar>) - int (f64_round_nat (nat \<bar>i\<bar>))\<bar>"
    by (cases "i < 0"; cases "i = 0") (auto simp: f64_round_def f64_round_nat_exact)
  then show ?thesis using f64_round_nat_error [of "nat \<bar>i\<bar>"] by simp
qed

end
