(* ===== verification/Sdk_Json.thy ===== *)
theory Sdk_Json
  imports Rust_Std Rust_Float "HOL-Library.List_Lexorder" "HOL-Library.Char_ord"
begin

text \<open>
  JSON as the gateway sees it. \<open>json\<close> is a document as the text-level parser hands it to the
  derived deserializers: objects keep their members in the order of the text, repeated keys
  included. The combinators below are what \<open>#[derive(Deserialize)]\<close> means for the attributes the
  code uses: a required field, an \<open>Option\<close> field, a \<open>#[serde(default)]\<close> field; unknown members
  are skipped, a repeated known member is an error, and a struct may also be given as an array of
  its fields in order. Only success or failure is modelled, since the gateway answers every
  failure alike. A \<open>serde_json::Map\<close> is a B-tree, so a decoded object is sorted by key and a
  later member replaces an earlier one.
\<close>

datatype json_number = PosInt u64 | NegInt u64 | Float f64

datatype json =
    JNull
  | JBool bool
  | JNumber json_number
  | JString string
  | JArray "json list"
  | JObject "(string \<times> json) list"

section \<open>Numbers\<close>

definition as_i64 :: "json_number \<Rightarrow> int option" where
  "as_i64 n =
     (case n of
        PosInt w \<Rightarrow> if uint w < 2 ^ 63 then Some (uint w) else None
      | NegInt w \<Rightarrow> Some (sint w)
      | Float _ \<Rightarrow> None)"

definition as_u64 :: "json_number \<Rightarrow> int option" where
  "as_u64 n = (case n of PosInt w \<Rightarrow> Some (uint w) | _ \<Rightarrow> None)"

definition as_f64 :: "json_number \<Rightarrow> f64 option" where
  "as_f64 n =
     (case n of
        PosInt w \<Rightarrow> Some (f64_of_int (uint w))
      | NegInt w \<Rightarrow> Some (f64_of_int (sint w))
      | Float f \<Rightarrow> Some f)"

section \<open>Maps\<close>

fun btree_insert :: "string \<Rightarrow> 'v \<Rightarrow> (string \<times> 'v) list \<Rightarrow> (string \<times> 'v) list" where
  "btree_insert k v [] = [(k, v)]"
| "btree_insert k v ((k', v') # kvs) =
     (if k < k' then (k, v) # (k', v') # kvs
      else if k = k' then (k, v) # kvs
      else (k', v') # btree_insert k v kvs)"

definition btree_of :: "(string \<times> 'v) list \<Rightarrow> (string \<times> 'v) list" where
  "btree_of kvs = fold (\<lambda>(k, v) m. btree_insert k v m) kvs []"

primrec to_value :: "json \<Rightarrow> json" where
  "to_value JNull = JNull"
| "to_value (JBool b) = JBool b"
| "to_value (JNumber n) = JNumber n"
| "to_value (JString s) = JString s"
| "to_value (JArray xs) = JArray (map to_value xs)"
| "to_value (JObject kvs) = JObject (btree_of (map (map_prod id to_value) kvs))"

lemma set_btree_insert: "fst ` set (btree_insert k v m) = insert k (fst ` set m)"
proof (induction m)
  case (Cons p m)
  then show ?case by (cases p) (simp add: insert_commute)
qed simp

lemma ball_btree_insert:
  "(\<forall>p \<in> set (btree_insert k v m). P (fst p)) \<longleftrightarrow> P k \<and> (\<forall>p \<in> set m. P (fst p))"
proof -
  have "(\<forall>x \<in> fst ` set (btree_insert k v m). P x) \<longleftrightarrow> P k \<and> (\<forall>x \<in> fst ` set m. P x)"
    by (simp only: set_btree_insert ball_simps)
  then show ?thesis by simp
qed

lemma btree_insert_sorted:
  "sorted_wrt (<) (map fst m) \<Longrightarrow> sorted_wrt (<) (map fst (btree_insert k v m))"
proof (induction m)
  case (Cons p m)
  obtain a b where p: "p = (a, b)" by (cases p)
  from Cons.prems p have m: "sorted_wrt (<) (map fst m)" "\<forall>x \<in> set m. a < fst x" by simp_all
  show ?case
  proof (cases "a < k")
    case True
    then show ?thesis using p m Cons.IH ball_btree_insert [of k v m "\<lambda>x. a < x"] by auto
  next
    case False
    then show ?thesis using p m by (auto dest: less_trans)
  qed
qed simp

lemma btree_of_snoc: "btree_of (kvs @ [(k, v)]) = btree_insert k v (btree_of kvs)"
  by (simp add: btree_of_def)

lemma btree_of_sorted: "sorted_wrt (<) (map fst (btree_of kvs))"
proof (induction kvs rule: rev_induct)
  case (snoc p kvs)
  then show ?case by (cases p) (simp add: btree_of_snoc btree_insert_sorted)
qed (simp add: btree_of_def)

lemma map_of_btree_insert:
  "sorted_wrt (<) (map fst m) \<Longrightarrow> map_of (btree_insert k v m) = (map_of m)(k \<mapsto> v)"
proof (induction m)
  case (Cons p m)
  then show ?case by (cases p) (auto simp: fun_eq_iff)
qed (simp add: fun_eq_iff)

text \<open>The last member with a key wins.\<close>

lemma map_of_btree_of: "map_of (btree_of kvs) = map_of (rev kvs)"
proof (induction kvs rule: rev_induct)
  case (snoc p kvs)
  then show ?case
    by (cases p) (simp add: btree_of_snoc map_of_btree_insert btree_of_sorted)
qed (simp add: btree_of_def)

section \<open>Well-formed values\<close>

text \<open>What a \<open>serde_json::Value\<close> always is: its objects are sorted by key, without duplicates.\<close>

primrec value_ok :: "json \<Rightarrow> bool" where
  "value_ok JNull \<longleftrightarrow> True"
| "value_ok (JBool b) \<longleftrightarrow> True"
| "value_ok (JNumber n) \<longleftrightarrow> True"
| "value_ok (JString s) \<longleftrightarrow> True"
| "value_ok (JArray xs) \<longleftrightarrow> list_all id (map value_ok xs)"
| "value_ok (JObject kvs) \<longleftrightarrow>
     sorted_wrt (<) (map fst kvs) \<and> list_all snd (map (map_prod id value_ok) kvs)"

lemma value_ok_object:
  "value_ok (JObject kvs) \<longleftrightarrow> sorted_wrt (<) (map fst kvs) \<and> (\<forall>p \<in> set kvs. value_ok (snd p))"
  by (simp add: list_all_iff)

lemma set_btree_insert_subset: "set (btree_insert k v m) \<subseteq> insert (k, v) (set m)"
  by (induction k v m rule: btree_insert.induct) auto

lemma set_btree_of: "set (btree_of kvs) \<subseteq> set kvs"
proof (induction kvs rule: rev_induct)
  case (snoc p kvs)
  then show ?case using set_btree_insert_subset [of "fst p" "snd p" "btree_of kvs"]
    by (cases p) (auto simp: btree_of_snoc)
qed (simp add: btree_of_def)

lemma to_value_ok: "value_ok (to_value j)"
proof (induction j)
  case (JObject kvs)
  then have "value_ok (snd p)" if "p \<in> set (map (map_prod id to_value) kvs)" for p
    using that by (force simp: snds.simps)
  then show ?case
    using set_btree_of [of "map (map_prod id to_value) kvs"]
    unfolding to_value.simps value_ok_object by (intro conjI ballI btree_of_sorted) blast
qed (auto simp: list_all_iff)

lemma btree_insert_last: "\<forall>p \<in> set m. fst p < k \<Longrightarrow> btree_insert k v m = m @ [(k, v)]"
  by (induction k v m rule: btree_insert.induct) (auto dest: less_asym)

lemma btree_of_id: "sorted_wrt (<) (map fst kvs) \<Longrightarrow> btree_of kvs = kvs"
proof (induction kvs rule: rev_induct)
  case (snoc p kvs)
  then show ?case
    by (cases p) (simp add: btree_of_snoc btree_insert_last sorted_wrt_append)
qed (simp add: btree_of_def)

lemma to_value_id: "value_ok j \<Longrightarrow> to_value j = j"
proof (induction j)
  case (JObject kvs)
  then have "map (map_prod id to_value) kvs = kvs"
    by (intro map_idI) (force simp: value_ok_object snds.simps simp del: value_ok.simps)
  then show ?case using JObject.prems by (simp add: btree_of_id)
qed (auto simp: list_all_iff intro: map_idI)

section \<open>Deserializing primitive values\<close>

definition de_string :: "json \<Rightarrow> string option" where
  "de_string j = (case j of JString s \<Rightarrow> Some s | _ \<Rightarrow> None)"

definition de_bool :: "json \<Rightarrow> bool option" where
  "de_bool j = (case j of JBool b \<Rightarrow> Some b | _ \<Rightarrow> None)"

definition de_i32 :: "json \<Rightarrow> 32 word option" where
  "de_i32 j =
     (case j of
        JNumber (PosInt w) \<Rightarrow> if uint w < 2 ^ 31 then Some (ucast w) else None
      | JNumber (NegInt w) \<Rightarrow> if - (2 ^ 31) \<le> sint w then Some (scast w) else None
      | _ \<Rightarrow> None)"

definition de_option :: "(json \<Rightarrow> 'a option) \<Rightarrow> json \<Rightarrow> 'a option option" where
  "de_option de j = (if j = JNull then Some None else map_option Some (de j))"

fun de_list :: "(json \<Rightarrow> 'a option) \<Rightarrow> json list \<Rightarrow> 'a list option" where
  "de_list de [] = Some []"
| "de_list de (j # js) = do { x \<leftarrow> de j; xs \<leftarrow> de_list de js; Some (x # xs) }"

definition de_vec :: "(json \<Rightarrow> 'a option) \<Rightarrow> json \<Rightarrow> 'a list option" where
  "de_vec de j = (case j of JArray js \<Rightarrow> de_list de js | _ \<Rightarrow> None)"

definition de_map :: "json \<Rightarrow> (string \<times> json) list option" where
  "de_map j =
     (case j of
        JObject kvs \<Rightarrow> Some (btree_of (map (map_prod id to_value) kvs))
      | _ \<Rightarrow> None)"

section \<open>Deserializing structs\<close>

text \<open>
  The members of a struct: from an object, or from an array, whose elements are the fields in
  declaration order. The flag tells an array, where a field without \<open>#[serde(default)]\<close> may not
  be left out.
\<close>

definition struct_members :: "string list \<Rightarrow> json \<Rightarrow> (bool \<times> (string \<times> json) list) option" where
  "struct_members fields j =
     (case j of
        JObject kvs \<Rightarrow> Some (False, kvs)
      | JArray js \<Rightarrow> if length js \<le> length fields then Some (True, zip fields js) else None
      | _ \<Rightarrow> None)"

definition members :: "string \<Rightarrow> (string \<times> json) list \<Rightarrow> json list" where
  "members k kvs = map snd (filter (\<lambda>p. fst p = k) kvs)"

definition field_with :: "'a option \<Rightarrow> (json \<Rightarrow> 'a option) \<Rightarrow> (string \<times> json) list \<Rightarrow> string \<Rightarrow> 'a option" where
  "field_with missing de kvs k =
     (case members k kvs of
        [] \<Rightarrow> missing
      | [j] \<Rightarrow> de j
      | _ \<Rightarrow> None)"

definition required :: "(json \<Rightarrow> 'a option) \<Rightarrow> (string \<times> json) list \<Rightarrow> string \<Rightarrow> 'a option" where
  "required de = field_with None de"

definition optional ::
  "(json \<Rightarrow> 'a option) \<Rightarrow> bool \<Rightarrow> (string \<times> json) list \<Rightarrow> string \<Rightarrow> 'a option option" where
  "optional de in_array = field_with (if in_array then None else Some None) (de_option de)"

definition defaulted :: "'a \<Rightarrow> (json \<Rightarrow> 'a option) \<Rightarrow> (string \<times> json) list \<Rightarrow> string \<Rightarrow> 'a option" where
  "defaulted d de = field_with (Some d) de"

named_theorems deserialize_defs "unfolding of the deserialization combinators"

lemmas [deserialize_defs] =
  struct_members_def members_def field_with_def required_def optional_def defaulted_def
  de_option_def de_string_def de_bool_def de_i32_def de_vec_def de_map_def

text \<open>Members under other names do not matter to a field.\<close>

lemma field_with_skip:
  "k' \<noteq> k \<Longrightarrow> field_with missing de ((k', v) # kvs) k = field_with missing de kvs k"
  by (simp add: field_with_def members_def)

lemma field_with_filter:
  "k \<in> ks \<Longrightarrow> field_with missing de (filter (\<lambda>p. fst p \<in> ks) kvs) k = field_with missing de kvs k"
proof -
  assume "k \<in> ks"
  then have "filter (\<lambda>p. fst p = k) (filter (\<lambda>p. fst p \<in> ks) kvs) = filter (\<lambda>p. fst p = k) kvs"
    by (auto simp: filter_filter intro: filter_cong)
  then show ?thesis by (simp add: field_with_def members_def)
qed

lemma field_with_twice:
  assumes "members k kvs = j # j' # js"
  shows "field_with missing de kvs k = None"
  using assms by (simp add: field_with_def)

lemma declared_twice:
  assumes "1 < length (members k kvs)"
  shows "required de kvs k = None" and "optional de' arr kvs k = None" and "defaulted d de kvs k = None"
proof -
  obtain j j' js where "members k kvs = j # j' # js"
    using assms by (cases "members k kvs" rule: remdups_adj.cases) auto
  then show "required de kvs k = None" "optional de' arr kvs k = None" "defaulted d de kvs k = None"
    by (simp_all add: required_def optional_def defaulted_def field_with_twice)
qed

end
