(* ===== verification/Sdk_Event.thy ===== *)
theory Sdk_Event
  imports Sdk_Json
begin

text \<open>
  \<open>src/events/input/sdk_event.rs\<close>: one event, its deserialization, and its conversion to the
  protocol buffer, which flattens the nested JSON properties into a list of keys and values. The
  reference \<open>leaves\<close> enumerates the scalar leaves of a property tree with their paths; the
  flattening is the image of it under a naming of paths, which is the joining of the path by two
  underscores for paths of at most two keys, and repeats the outer keys from the third on.
\<close>

record sdk_event =
  ev_id :: string
  ev_timestamp :: u64
  ev_name :: string
  ev_properties :: "(string \<times> json) list"
  ev_session_id :: "string option"
  ev_external_user_id :: "string option"
  ev_reference_id :: "string option"

definition is_register :: "sdk_event \<Rightarrow> bool" where
  "is_register e \<longleftrightarrow> ev_name e = ''xorc_register''"

section \<open>Deserialization\<close>

definition default_event_id :: string where
  "default_event_id = ''0''"

text \<open>\<open>deserialize_with = "from_str"\<close>: a JSON string, parsed by \<open>u64::from_str\<close>.\<close>

definition from_str_u64 :: "json \<Rightarrow> u64 option" where
  "from_str_u64 j = Option.bind (de_string j) u64_from_str"

definition event_fields :: "string list" where
  "event_fields =
     [''id'', ''timestamp'', ''name'', ''properties'', ''session_id'', ''external_user_id'', ''reference_id'']"

definition de_event :: "json \<Rightarrow> sdk_event option" where
  "de_event j = do {
     (arr, kvs) \<leftarrow> struct_members event_fields j;
     event_id \<leftarrow> defaulted default_event_id de_string kvs ''id'';
     timestamp \<leftarrow> required from_str_u64 kvs ''timestamp'';
     name \<leftarrow> required de_string kvs ''name'';
     properties \<leftarrow> defaulted [] de_map kvs ''properties'';
     session_id \<leftarrow> optional de_string arr kvs ''session_id'';
     external_user_id \<leftarrow> optional de_string arr kvs ''external_user_id'';
     reference_id \<leftarrow> optional de_string arr kvs ''reference_id'';
     Some \<lparr>ev_id = event_id, ev_timestamp = timestamp, ev_name = name, ev_properties = properties,
           ev_session_id = session_id, ev_external_user_id = external_user_id,
           ev_reference_id = reference_id\<rparr>
   }"

section \<open>Properties\<close>

datatype property_value = StringValue string | BoolValue bool | NumberValue f64

record property =
  pr_key :: string
  pr_type :: "property_value option"

text \<open>
  The number branch: \<open>as_i64\<close>, else \<open>as_u64\<close>, else \<open>as_f64().unwrap()\<close>.
\<close>

definition number_value :: "json_number \<Rightarrow> f64 outcome" where
  "number_value n =
     (case as_i64 n of
        Some i \<Rightarrow> Ret (f64_of_int i)
      | None \<Rightarrow>
          (case as_u64 n of
             Some i \<Rightarrow> Ret (f64_of_int i)
           | None \<Rightarrow> unwrap (as_f64 n)))"

fun flatten_properties ::
  "string \<Rightarrow> (string \<times> json) list \<Rightarrow> property list \<Rightarrow> property list outcome" where
  "flatten_properties prefix [] container = Ret container"
| "flatten_properties prefix ((key, v) # rest) container =
     (let prefixed_key = prefix @ key in
      case v of
        JString s \<Rightarrow>
          flatten_properties prefix rest
            (container @ [\<lparr>pr_key = prefixed_key, pr_type = Some (StringValue s)\<rparr>])
      | JBool b \<Rightarrow>
          flatten_properties prefix rest
            (container @ [\<lparr>pr_key = prefixed_key, pr_type = Some (BoolValue b)\<rparr>])
      | JNumber n \<Rightarrow>
          obind (number_value n) (\<lambda>p_value.
          flatten_properties prefix rest
            (container @ [\<lparr>pr_key = prefixed_key, pr_type = Some (NumberValue p_value)\<rparr>]))
      | JObject m \<Rightarrow>
          obind (flatten_properties (prefix @ prefixed_key @ ''__'') m container)
            (flatten_properties prefix rest)
      | _ \<Rightarrow> flatten_properties prefix rest container)"

definition event_properties :: "sdk_event \<Rightarrow> property list outcome" where
  "event_properties e = flatten_properties '''' (ev_properties e) []"

section \<open>The protocol buffer of an event\<close>

record proto_event =
  pv_properties :: "property list"
  pv_id :: "string option"
  pv_session_id :: "string option"
  pv_timestamp :: "string option"
  pv_name :: "string option"
  pv_external_user_id :: "string option"
  pv_reference_id :: "string option"

definition event_into :: "sdk_event \<Rightarrow> proto_event outcome" where
  "event_into e =
     obind (event_properties e) (\<lambda>properties.
     Ret \<lparr>pv_properties = properties, pv_id = Some (ev_id e), pv_session_id = ev_session_id e,
          pv_timestamp = Some (show_u64 (ev_timestamp e)), pv_name = Some (ev_name e),
          pv_external_user_id = ev_external_user_id e, pv_reference_id = ev_reference_id e\<rparr>)"

section \<open>The leaves of a property tree\<close>

text \<open>What a scalar is sent as; arrays and nulls are dropped with a warning.\<close>

fun scalar_value :: "json \<Rightarrow> property_value option" where
  "scalar_value (JString s) = Some (StringValue s)"
| "scalar_value (JBool b) = Some (BoolValue b)"
| "scalar_value (JNumber (PosInt w)) = Some (NumberValue (f64_of_int (uint w)))"
| "scalar_value (JNumber (NegInt w)) = Some (NumberValue (f64_of_int (sint w)))"
| "scalar_value (JNumber (Float f)) = Some (NumberValue f)"
| "scalar_value _ = None"

fun leaves :: "(string \<times> json) list \<Rightarrow> (string list \<times> property_value) list" where
  "leaves [] = []"
| "leaves ((key, JObject m) # rest) = map (\<lambda>(path, v). (key # path, v)) (leaves m) @ leaves rest"
| "leaves ((key, v) # rest) =
     (case scalar_value v of None \<Rightarrow> [] | Some x \<Rightarrow> [([key], x)]) @ leaves rest"

text \<open>The key the code gives a path below a prefix.\<close>

fun path_key :: "string \<Rightarrow> string list \<Rightarrow> string" where
  "path_key prefix [] = prefix"
| "path_key prefix [k] = prefix @ k"
| "path_key prefix (k # ks) = path_key (prefix @ prefix @ k @ ''__'') ks"

text \<open>The key the names in the tests suggest: the path joined by two underscores.\<close>

fun join_path :: "string list \<Rightarrow> string" where
  "join_path [] = ''''"
| "join_path [k] = k"
| "join_path (k # ks) = k @ ''__'' @ join_path ks"

lemma number_value_eq:
  "number_value n = Ret (case n of PosInt w \<Rightarrow> f64_of_int (uint w) | NegInt w \<Rightarrow> f64_of_int (sint w) | Float f \<Rightarrow> f)"
  by (cases n) (simp_all add: number_value_def as_i64_def as_u64_def as_f64_def)

definition leaf_property :: "string \<Rightarrow> string list \<times> property_value \<Rightarrow> property" where
  "leaf_property prefix l = \<lparr>pr_key = path_key prefix (fst l), pr_type = Some (snd l)\<rparr>"

lemma leaves_path_nonempty: "l \<in> set (leaves kvs) \<Longrightarrow> fst l \<noteq> []"
  by (induction kvs rule: leaves.induct) (auto split: option.splits)

lemma leaf_property_Cons:
  "fst l \<noteq> [] \<Longrightarrow>
     leaf_property prefix (key # fst l, snd l) = leaf_property (prefix @ prefix @ key @ ''__'') l"
  by (cases "fst l") (simp_all add: leaf_property_def)

lemma leaves_object:
  "map (leaf_property prefix) (leaves ((key, JObject m) # rest)) =
     map (leaf_property (prefix @ prefix @ key @ ''__'')) (leaves m) @ map (leaf_property prefix) (leaves rest)"
  by (auto simp: split_beta leaves_path_nonempty leaf_property_Cons)

lemma flatten_properties_leaves:
  "flatten_properties prefix kvs container = Ret (container @ map (leaf_property prefix) (leaves kvs))"
proof (induction prefix kvs container rule: flatten_properties.induct)
  case (2 prefix key v rest container)
  show ?case
  proof (cases v)
    case (JNumber n)
    then show ?thesis using 2 by (cases n) (simp_all add: number_value_eq leaf_property_def)
  next
    case (JObject m)
    then show ?thesis using 2 by (simp add: leaves_object del: leaves.simps(2))
  qed (use 2 in \<open>simp_all add: leaf_property_def\<close>)
qed simp

lemma event_properties_leaves:
  "event_properties e = Ret (map (leaf_property '''') (leaves (ev_properties e)))"
  by (simp add: event_properties_def flatten_properties_leaves)

lemma event_into_Ret: "\<exists>p. event_into e = Ret p"
  by (simp add: event_into_def event_properties_leaves)

lemma path_key_short: "length path \<le> 2 \<Longrightarrow> path_key '''' path = join_path path"
  by (cases path rule: join_path.cases) (auto simp: length_Suc_conv le_Suc_eq numeral_2_eq_2)

end
