(* ===== verification/Sdk_Event_Batch.thy ===== *)
theory Sdk_Event_Batch
  imports Sdk_Event Request_Context "HOL-Library.Multiset"
begin

text \<open>
  \<open>src/events/input/sdk_event_batch.rs\<close>: the request body, its deserialization with that of its
  device and environment, and its conversion to the protocol buffer. \<open>sort_unstable_by\<close> is the
  argument \<open>sort_by\<close>: the standard library promises a sorted permutation and nothing about the
  order of equal elements, which is what \<open>sort_contract\<close> says.
\<close>

record sdk_event_batch =
  sb_environment :: sdk_environment
  sb_events :: "sdk_event list"
  sb_device :: sdk_device
  sb_recipient_id :: "string option"

section \<open>Deserialization\<close>

definition environment_fields :: "string list" where
  "environment_fields =
     [''sdk_version'', ''app_version'', ''app_store_id'', ''app_id'', ''app_instance_id'']"

definition de_environment :: "json \<Rightarrow> sdk_environment option" where
  "de_environment j = do {
     (arr, kvs) \<leftarrow> struct_members environment_fields j;
     sdk_version \<leftarrow> optional de_string arr kvs ''sdk_version'';
     app_version \<leftarrow> optional de_string arr kvs ''app_version'';
     app_store_id \<leftarrow> optional de_string arr kvs ''app_store_id'';
     app_id \<leftarrow> defaulted '''' de_string kvs ''app_id'';
     app_instance_id \<leftarrow> optional de_string arr kvs ''app_instance_id'';
     Some \<lparr>se_sdk_version = sdk_version, se_app_version = app_version,
           se_app_store_id = app_store_id, se_app_id = app_id,
           se_app_instance_id = app_instance_id\<rparr>
   }"

definition device_fields :: "string list" where
  "device_fields =
     [''ifa_tracking_enabled'', ''notification_registered'', ''h'', ''w'', ''locale'', ''language'',
      ''time_zone'', ''manufacturer'', ''model'', ''os_version'', ''os_name'',
      ''network_connection_type'', ''device_name'', ''ifa'', ''idfv'', ''carrier_name'',
      ''carrier_country'', ''browser_name'', ''browser_version'', ''browser_ua'',
      ''notification_types'', ''orientation'', ''platform'', ''ip_hashed_blake2'', ''country'']"

definition de_device :: "json \<Rightarrow> sdk_device option" where
  "de_device j = do {
     (arr, kvs) \<leftarrow> struct_members device_fields j;
     ifa_tracking_enabled \<leftarrow> defaulted False de_bool kvs ''ifa_tracking_enabled'';
     notification_registered \<leftarrow> defaulted False de_bool kvs ''notification_registered'';
     h \<leftarrow> optional de_i32 arr kvs ''h'';
     w \<leftarrow> optional de_i32 arr kvs ''w'';
     loc \<leftarrow> optional de_string arr kvs ''locale'';
     language \<leftarrow> optional de_string arr kvs ''language'';
     time_zone \<leftarrow> optional de_string arr kvs ''time_zone'';
     manufacturer \<leftarrow> optional de_string arr kvs ''manufacturer'';
     model \<leftarrow> optional de_string arr kvs ''model'';
     os_version \<leftarrow> optional de_string arr kvs ''os_version'';
     os_name \<leftarrow> optional de_string arr kvs ''os_name'';
     network_connection_type \<leftarrow> optional de_string arr kvs ''network_connection_type'';
     device_name \<leftarrow> optional de_string arr kvs ''device_name'';
     ifa \<leftarrow> optional de_string arr kvs ''ifa'';
     idfv \<leftarrow> optional de_string arr kvs ''idfv'';
     carrier_name \<leftarrow> optional de_string arr kvs ''carrier_name'';
     carrier_country \<leftarrow> optional de_string arr kvs ''carrier_country'';
     browser_name \<leftarrow> optional de_string arr kvs ''browser_name'';
     browser_version \<leftarrow> optional de_string arr kvs ''browser_version'';
     browser_ua \<leftarrow> optional de_string arr kvs ''browser_ua'';
     notification_types \<leftarrow> optional de_i32 arr kvs ''notification_types'';
     orientation \<leftarrow> optional de_string arr kvs ''orientation'';
     p \<leftarrow> optional de_string arr kvs ''platform'';
     ip_hashed_blake2 \<leftarrow> optional de_string arr kvs ''ip_hashed_blake2'';
     country \<leftarrow> optional de_string arr kvs ''country'';
     Some \<lparr>sd_ifa_tracking_enabled = ifa_tracking_enabled,
           sd_notification_registered = notification_registered, sd_h = h, sd_w = w,
           sd_locale = loc, sd_language = language, sd_time_zone = time_zone,
           sd_manufacturer = manufacturer, sd_model = model, sd_os_version = os_version,
           sd_os_name = os_name, sd_network_connection_type = network_connection_type,
           sd_device_name = device_name, sd_ifa = ifa, sd_idfv = idfv,
           sd_carrier_name = carrier_name, sd_carrier_country = carrier_country,
           sd_browser_name = browser_name, sd_browser_version = browser_version,
           sd_browser_ua = browser_ua, sd_notification_types = notification_types,
           sd_orientation = orientation, sd_platform = p,
           sd_ip_hashed_blake2 = ip_hashed_blake2, sd_country = country\<rparr>
   }"

definition batch_fields :: "string list" where
  "batch_fields = [''environment'', ''events'', ''device'', ''recipient_id'']"

definition de_batch :: "json \<Rightarrow> sdk_event_batch option" where
  "de_batch j = do {
     (arr, kvs) \<leftarrow> struct_members batch_fields j;
     environment \<leftarrow> required de_environment kvs ''environment'';
     events \<leftarrow> required (de_vec de_event) kvs ''events'';
     device \<leftarrow> required de_device kvs ''device'';
     recipient_id \<leftarrow> optional de_string arr kvs ''recipient_id'';
     Some \<lparr>sb_environment = environment, sb_events = events, sb_device = device,
           sb_recipient_id = recipient_id\<rparr>
   }"

section \<open>The protocol buffer of a batch\<close>

record proto_header =
  ph_created_at :: int
  ph_source :: string
  ph_type :: "string option"
  ph_feed :: "string option"
  ph_recipient_id :: "string option"

record proto_batch =
  pt_header :: proto_header
  pt_environment :: "proto_environment option"
  pt_device :: "proto_device option"
  pt_event :: "proto_event list"

type_synonym event_sort = "(sdk_event \<Rightarrow> u64) \<Rightarrow> sdk_event list \<Rightarrow> sdk_event list"

definition sort_contract :: "event_sort \<Rightarrow> bool" where
  "sort_contract sort_by \<longleftrightarrow>
     (\<forall>key evs. mset (sort_by key evs) = mset evs \<and> sorted (map key (sort_by key evs)))"

fun events_into :: "sdk_event list \<Rightarrow> proto_event list outcome" where
  "events_into [] = Ret []"
| "events_into (e # es) =
     obind (event_into e) (\<lambda>p. obind (events_into es) (\<lambda>ps. Ret (p # ps)))"

text \<open>\<open>now\<close> is \<open>Utc::now().timestamp_millis()\<close>.\<close>

definition into_proto ::
  "crates \<Rightarrow> event_sort \<Rightarrow> int \<Rightarrow> request_context \<Rightarrow> sdk_event_batch \<Rightarrow> proto_batch outcome" where
  "into_proto cr sort_by now ctx b =
     (let recipient_id = (case ctx_device_id ctx of
            Some d \<Rightarrow> Some (clear_value (did_cleartext d)) | None \<Rightarrow> sb_recipient_id b);
          device = (case ctx_ip ctx of Some ip \<Rightarrow> set_location cr ip (sb_device b) | None \<Rightarrow> sb_device b);
          events = sort_by ev_timestamp (sb_events b)
      in obind (device_into device) (\<lambda>dev.
         obind (events_into events) (\<lambda>evs.
         Ret \<lparr>pt_header =
                \<lparr>ph_created_at = now, ph_source = se_app_id (sb_environment b),
                 ph_type = Some ''events.SDKEventBatch'', ph_feed = Some ''xorc'',
                 ph_recipient_id = recipient_id\<rparr>,
              pt_environment = Some (environment_into (sb_environment b)),
              pt_device = Some dev,
              pt_event = evs\<rparr>)))"

section \<open>Facts\<close>

lemma sort_contractD:
  assumes "sort_contract sort_by"
  shows "mset (sort_by key evs) = mset evs" and "sorted (map key (sort_by key evs))"
  using assms by (simp_all add: sort_contract_def)

text \<open>Any two sorts that keep the contract agree on the timestamps, in order.\<close>

lemma sort_contract_keys:
  assumes "sort_contract s"
  shows "map key (s key evs) = sort (map key evs)"
proof -
  have "mset (map key (s key evs)) = mset (map key evs)"
    using sort_contractD(1) [OF assms] by (metis mset_map)
  then show ?thesis using sort_contractD(2) [OF assms] by (metis properties_for_sort)
qed

text \<open>The total conversion of an event, which \<open>event_into\<close> returns.\<close>

definition proto_of :: "sdk_event \<Rightarrow> proto_event" where
  "proto_of e = the_ret (event_into e)"

lemma event_into_proto_of: "event_into e = Ret (proto_of e)"
  using event_into_Ret [of e] by (auto simp: proto_of_def)

lemma proto_of_fields:
  "pv_properties (proto_of e) = map (leaf_property '''') (leaves (ev_properties e))"
  "pv_id (proto_of e) = Some (ev_id e)"
  "pv_session_id (proto_of e) = ev_session_id e"
  "pv_timestamp (proto_of e) = Some (show_u64 (ev_timestamp e))"
  "pv_name (proto_of e) = Some (ev_name e)"
  "pv_external_user_id (proto_of e) = ev_external_user_id e"
  "pv_reference_id (proto_of e) = ev_reference_id e"
  by (simp_all add: proto_of_def event_into_def event_properties_leaves)

lemma events_into_map: "events_into es = Ret (map proto_of es)"
  by (induction es) (simp_all add: event_into_proto_of)

lemma into_proto_Ret:
  obtains p where "into_proto cr sort_by now ctx b = Ret p"
    "pt_event p = map proto_of (sort_by ev_timestamp (sb_events b))"
    "ph_recipient_id (pt_header p) =
       (case ctx_device_id ctx of Some d \<Rightarrow> Some (clear_value (did_cleartext d)) | None \<Rightarrow> sb_recipient_id b)"
    "ph_source (pt_header p) = se_app_id (sb_environment b)"
    "pt_environment p = Some (environment_into (sb_environment b))"
proof -
  obtain dev where "device_into (case ctx_ip ctx of Some ip \<Rightarrow> set_location cr ip (sb_device b) | None \<Rightarrow> sb_device b) = Ret dev"
    using device_into_Ret by blast
  then show thesis using that by (simp add: into_proto_def Let_def events_into_map)
qed

text \<open>Only the members a struct declares matter to its fields.\<close>

lemma field_filter:
  "k \<in> set names \<Longrightarrow>
     required de (filter (\<lambda>p. fst p \<in> set names) kvs) k = required de kvs k"
  "k \<in> set names \<Longrightarrow>
     optional de' arr (filter (\<lambda>p. fst p \<in> set names) kvs) k = optional de' arr kvs k"
  "k \<in> set names \<Longrightarrow>
     defaulted d de (filter (\<lambda>p. fst p \<in> set names) kvs) k = defaulted d de kvs k"
  by (simp_all add: required_def optional_def defaulted_def field_with_filter)

end
