(* ===== verification/Ifa_Matching.thy ===== *)
theory Ifa_Matching
  imports Gateway_World Encryption
begin

text \<open>
  \<open>src/ifa_matching.rs\<close>: the table from an application and an advertising id (IFA) to the device
  id given to it, in ScyllaDB. The table's schema is \<open>gw_known_ifas\<close> in
  \<open>resources/sql/scylladb_schema_and_data.sql\<close>, whose primary key is the pair; \<open>ifa_table\<close> says
  that the service is such a table, read through \<open>view\<close>. Any query may fail.
\<close>

definition select_entity :: "string \<Rightarrow> uuid \<Rightarrow> uuid \<Rightarrow> query" where
  "select_entity keyspace app_id ifa =
     \<lparr>q_text = ''SELECT entity_id FROM '' @ keyspace @ ''.gw_known_ifas WHERE app_id=? AND ifa=?'',
      q_values = [app_id, ifa]\<rparr>"

definition insert_entity :: "string \<Rightarrow> uuid \<Rightarrow> uuid \<Rightarrow> uuid \<Rightarrow> query" where
  "insert_entity keyspace app_id ifa entity_id =
     \<lparr>q_text = ''INSERT INTO '' @ keyspace @ ''.gw_known_ifas (app_id, ifa, entity_id) VALUES (?, ?, ?)'',
      q_values = [app_id, ifa, entity_id]\<rparr>"

definition pool_connection :: "'db scylla \<Rightarrow> string \<Rightarrow> nat \<Rightarrow> unit outcome" where
  "pool_connection svc contact_points max_size =
     (if list_all (tcp_connect svc) (str_split CHR '','' contact_points) \<and> build_pool svc max_size
      then Ret () else Panic)"

text \<open>\<open>IfaMatching::new\<close>: a pool of fifteen connections.\<close>

definition ifa_matching_new :: "'db scylla \<Rightarrow> string \<Rightarrow> unit outcome" where
  "ifa_matching_new svc contact_points = pool_connection svc contact_points 15"

definition parse_ifa :: "crates \<Rightarrow> string option \<Rightarrow> bool \<Rightarrow> uuid option" where
  "parse_ifa cr ifa ifa_tracking_enabled =
     Option.bind (Option.bind ifa (uuid_parse_str cr)) (\<lambda>u.
       if ifa_tracking_enabled \<and> u \<noteq> 0 then Some u else None)"

definition run_query :: "'db scylla \<Rightarrow> query \<Rightarrow> 'db world \<Rightarrow> (io_error + frame) \<times> 'db world" where
  "run_query svc q w =
     (let (ok, db) = pool_get svc (w_db w); w = w\<lparr>w_db := db\<rparr> in
      if \<not> ok then (Inl (IoError Interrupted), w)
      else
        let (result, db) = run_cql svc q (w_db w);
            w = count observe_scylladb_latency (w\<lparr>w_db := db\<rparr>)
        in (ok_or (IoError Interrupted) result, w))"

text \<open>The first row's entity, the way the code reads a frame; \<open>None\<close> in the frame's own layers
  makes the whole function return early, without counting.\<close>

definition get_id_for_ifa ::
  "crates \<Rightarrow> 'db scylla \<Rightarrow> string \<Rightarrow> string \<Rightarrow> string option \<Rightarrow> bool \<Rightarrow> 'db world
     \<Rightarrow> string option \<times> 'db world" where
  "get_id_for_ifa cr svc keyspace app_id ifa ifa_tracking_enabled w =
     (case parse_ifa cr ifa ifa_tracking_enabled of
        None \<Rightarrow> (None, w)
      | Some ifa \<Rightarrow>
     (case uuid_parse_str cr app_id of
        None \<Rightarrow> (None, w)
      | Some app_id \<Rightarrow>
     (case run_query svc (select_entity keyspace app_id ifa) w of
        (Inl e, w) \<Rightarrow> (None, count (inc_scylladb_request ''get'' ''error'') w)
      | (Inr frame, w) \<Rightarrow>
     (case frame_body frame of
        None \<Rightarrow> (None, w)
      | Some None \<Rightarrow> (None, w)
      | Some (Some rows) \<Rightarrow>
          (case (case rows of [] \<Rightarrow> None | row # _ \<Rightarrow> row_uuid row ''entity_id'') of
             Some entity_id \<Rightarrow>
               (Some (uuid_hyphenated cr entity_id), count (inc_scylladb_request ''get'' ''ok'') w)
           | None \<Rightarrow> (None, count (inc_scylladb_request ''get'' ''not_found'') w))))))"

definition put_id_for_ifa ::
  "crates \<Rightarrow> 'db scylla \<Rightarrow> string \<Rightarrow> string \<Rightarrow> cleartext \<Rightarrow> string option \<Rightarrow> bool \<Rightarrow> 'db world
     \<Rightarrow> (io_error + unit) \<times> 'db world" where
  "put_id_for_ifa cr svc keyspace app_id device_id ifa ifa_tracking_enabled w =
     (case parse_ifa cr ifa ifa_tracking_enabled of
        None \<Rightarrow> (Inl (IoError InvalidInput), w)
      | Some ifa \<Rightarrow>
     (case uuid_parse_str cr app_id of
        None \<Rightarrow> (Inl (IoError InvalidInput), w)
      | Some app_id \<Rightarrow>
     (case uuid_parse_str cr (clear_value device_id) of
        None \<Rightarrow> (Inl (IoError InvalidInput), w)
      | Some entity_id \<Rightarrow>
     (case run_query svc (insert_entity keyspace app_id ifa entity_id) w of
        (Inr _, w) \<Rightarrow> (Inr (), count (inc_scylladb_request ''put'' ''ok'') w)
      | (Inl _, w) \<Rightarrow> (Inl (IoError Interrupted), count (inc_scylladb_request ''put'' ''error'') w)))))"

section \<open>The table behind the queries\<close>

type_synonym ifa_view = "uuid \<times> uuid \<Rightarrow> uuid option"

definition result_rows :: "uuid option \<Rightarrow> row list \<Rightarrow> bool" where
  "result_rows v rows \<longleftrightarrow>
     (case v of None \<Rightarrow> rows = [] | Some e \<Rightarrow> (\<exists>r. rows = [r] \<and> row_uuid r ''entity_id'' = Some e))"

text \<open>
  What the service is assumed to do with the two CQL texts below, for the pair and the entity it is
  given: reading answers with the row of the pair, if there is one; writing sets it. A query that
  fails has read or written nothing, or has written after all (a timeout). What is read is what was
  written last: there is one copy of the table.
\<close>

definition ifa_table :: "'db scylla \<Rightarrow> string \<Rightarrow> ('db \<Rightarrow> ifa_view) \<Rightarrow> bool" where
  "ifa_table svc keyspace view \<longleftrightarrow>
     (\<forall>db. view (snd (pool_get svc db)) = view db) \<and>
     (\<forall>db app ifa result db'.
        run_cql svc
          \<lparr>q_text = ''SELECT entity_id FROM '' @ keyspace @ ''.gw_known_ifas WHERE app_id=? AND ifa=?'',
           q_values = [app, ifa]\<rparr> db = (result, db') \<longrightarrow>
        view db' = view db \<and>
        (\<forall>f. result = Some f \<longrightarrow> (\<exists>rows. frame_body f = Some (Some rows) \<and> result_rows (view db (app, ifa)) rows))) \<and>
     (\<forall>db app ifa e result db'.
        run_cql svc
          \<lparr>q_text = ''INSERT INTO '' @ keyspace @ ''.gw_known_ifas (app_id, ifa, entity_id) VALUES (?, ?, ?)'',
           q_values = [app, ifa, e]\<rparr> db = (result, db') \<longrightarrow>
        view db' = (view db)((app, ifa) \<mapsto> e) \<or> result = None \<and> view db' = view db)"

text \<open>One request to the database was counted, with these labels, and no other.\<close>

definition counts_one :: "string \<Rightarrow> string \<Rightarrow> 'db world \<Rightarrow> 'db world \<Rightarrow> bool" where
  "counts_one meth status w w' \<longleftrightarrow>
     scylladb_request_counter (w_metrics w') =
       (scylladb_request_counter (w_metrics w))
         ((meth, status) := Suc (scylladb_request_counter (w_metrics w) (meth, status)))"

lemma run_query_frame:
  assumes "run_query svc q w = (r, w')"
  shows "w_rng w' = w_rng w" and "w_sent w' = w_sent w"
    and "scylladb_request_counter (w_metrics w') = scylladb_request_counter (w_metrics w)"
  using assms by (auto simp: run_query_def observe_scylladb_latency_def split_beta Let_def split: if_splits)

lemma ifa_tableD:
  assumes "ifa_table svc ks view"
  shows "view (snd (pool_get svc db)) = view db"
    and "run_cql svc (select_entity ks app ifa) db = (x, db') \<Longrightarrow> view db' = view db"
    and "run_cql svc (select_entity ks app ifa) db = (Some f, db') \<Longrightarrow>
      \<exists>rows. frame_body f = Some (Some rows) \<and> result_rows (view db (app, ifa)) rows"
    and "run_cql svc (insert_entity ks app ifa e) db = (x, db') \<Longrightarrow>
      view db' = (view db)((app, ifa) \<mapsto> e) \<or> x = None \<and> view db' = view db"
  using assms unfolding ifa_table_def select_entity_def insert_entity_def by blast+

lemma run_query_select:
  assumes tab: "ifa_table svc ks view" and run: "run_query svc (select_entity ks app ifa) w = (r, w')"
  shows "view (w_db w') = view (w_db w)"
    and "r = Inr f \<Longrightarrow> \<exists>rows. frame_body f = Some (Some rows) \<and> result_rows (view (w_db w) (app, ifa)) rows"
proof -
  let ?db = "snd (pool_get svc (w_db w))"
  obtain x db' where q: "run_cql svc (select_entity ks app ifa) ?db = (x, db')" by fastforce
  have pool: "view ?db = view (w_db w)" by (rule ifa_tableD(1) [OF tab])
  show "view (w_db w') = view (w_db w)"
    using run q pool ifa_tableD(2) [OF tab q] by (auto simp: run_query_def split_beta Let_def split: if_splits)
  show "\<exists>rows. frame_body f = Some (Some rows) \<and> result_rows (view (w_db w) (app, ifa)) rows" if "r = Inr f"
  proof -
    have "x = Some f"
      using run q that by (auto simp: run_query_def split_beta Let_def ok_or_eq split: if_splits)
    then show ?thesis using ifa_tableD(3) [OF tab, of app ifa ?db f db'] q pool by metis
  qed
qed

lemma run_query_insert:
  assumes "ifa_table svc ks view" and "run_query svc (insert_entity ks app ifa e) w = (r, w')"
  shows "view (w_db w') = (view (w_db w))((app, ifa) \<mapsto> e) \<or> (\<exists>x. r = Inl x) \<and> view (w_db w') = view (w_db w)"
proof -
  let ?db = "snd (pool_get svc (w_db w))"
  have pool: "view ?db = view (w_db w)" by (rule ifa_tableD(1) [OF assms(1)])
  obtain f db' where q: "run_cql svc (insert_entity ks app ifa e) ?db = (f, db')" by fastforce
  then have ins: "view db' = (view ?db)((app, ifa) \<mapsto> e) \<or> f = None \<and> view db' = view ?db"
    by (rule ifa_tableD(4) [OF assms(1)])
  show ?thesis
  proof (cases "fst (pool_get svc (w_db w))")
    case True
    then have "r = ok_or (IoError Interrupted) f" "w_db w' = db'"
      using assms(2) q by (auto simp: run_query_def split_beta Let_def)
    then show ?thesis using ins pool by (auto simp: ok_or_def)
  next
    case False
    then show ?thesis using assms(2) pool by (auto simp: run_query_def split_beta Let_def)
  qed
qed

section \<open>The operations over the table\<close>

lemma parse_ifa_Some:
  "parse_ifa cr ifa en = Some u \<longleftrightarrow> (\<exists>s. ifa = Some s \<and> uuid_parse_str cr s = Some u \<and> en \<and> u \<noteq> 0)"
  by (auto simp: parse_ifa_def bind_eq_Some_conv split: if_splits)

lemma get_frame:
  assumes "get_id_for_ifa cr svc ks app ifa en w = (r, w')"
  shows "w_rng w' = w_rng w" and "w_sent w' = w_sent w"
  using assms
  by (auto simp: get_id_for_ifa_def dest: run_query_frame split: option.splits prod.splits sum.splits list.splits)

lemma put_frame:
  assumes "put_id_for_ifa cr svc ks app e ifa en w = (r, w')"
  shows "w_rng w' = w_rng w" and "w_sent w' = w_sent w"
  using assms
  by (auto simp: put_id_for_ifa_def dest: run_query_frame split: option.splits prod.splits sum.splits)

lemma get_untracked:
  "parse_ifa cr ifa en = None \<or> uuid_parse_str cr app = None \<Longrightarrow> get_id_for_ifa cr svc ks app ifa en w = (None, w)"
  by (auto simp: get_id_for_ifa_def split: option.splits)

lemma put_untracked:
  "parse_ifa cr ifa en = None \<or> uuid_parse_str cr app = None \<or> uuid_parse_str cr (clear_value e) = None
     \<Longrightarrow> put_id_for_ifa cr svc ks app e ifa en w = (Inl (IoError InvalidInput), w)"
  by (auto simp: put_id_for_ifa_def split: option.splits)

text \<open>How a lookup ends: the row of the pair, no row, or a failed query, each counted as such.\<close>

definition lookup_outcome ::
  "crates \<Rightarrow> uuid option \<Rightarrow> string option \<Rightarrow> 'db world \<Rightarrow> 'db world \<Rightarrow> bool" where
  "lookup_outcome cr entry r w w' \<longleftrightarrow>
     (\<exists>e. entry = Some e \<and> r = Some (uuid_hyphenated cr e)) \<and> counts_one ''get'' ''ok'' w w' \<or>
     entry = None \<and> r = None \<and> counts_one ''get'' ''not_found'' w w' \<or>
     r = None \<and> counts_one ''get'' ''error'' w w'"

lemma get_tracked:
  assumes "ifa_table svc ks view"
    and "parse_ifa cr ifa en = Some i" "uuid_parse_str cr app = Some a"
    and "get_id_for_ifa cr svc ks app ifa en w = (r, w')"
  shows "view (w_db w') = view (w_db w)" and "lookup_outcome cr (view (w_db w) (a, i)) r w w'"
proof -
  obtain q w1 where q: "run_query svc (select_entity ks a i) w = (q, w1)" by fastforce
  note sel = run_query_select [OF assms(1) q]
  note frame = run_query_frame(3) [OF q]
  have "view (w_db w') = view (w_db w) \<and> lookup_outcome cr (view (w_db w) (a, i)) r w w'"
  proof (cases q)
    case (Inl x)
    then show ?thesis using assms(2-4) q sel(1) frame
      by (auto simp: get_id_for_ifa_def lookup_outcome_def counts_one_def inc_scylladb_request_def)
  next
    case (Inr f)
    then obtain rows where rows: "frame_body f = Some (Some rows)"
      "result_rows (view (w_db w) (a, i)) rows" using sel(2) by blast
    show ?thesis
    proof (cases "view (w_db w) (a, i)")
      case None
      then show ?thesis using assms(2-4) q sel(1) frame Inr rows
        by (auto simp: get_id_for_ifa_def result_rows_def lookup_outcome_def counts_one_def inc_scylladb_request_def)
    next
      case (Some e)
      then obtain r' where "rows = [r']" "row_uuid r' ''entity_id'' = Some e"
        using rows(2) by (auto simp: result_rows_def)
      then show ?thesis using assms(2-4) q sel(1) frame Inr rows(1) Some
        by (auto simp: get_id_for_ifa_def lookup_outcome_def counts_one_def inc_scylladb_request_def)
    qed
  qed
  then show "view (w_db w') = view (w_db w)" "lookup_outcome cr (view (w_db w) (a, i)) r w w'" by simp_all
qed

text \<open>How a store ends: the entry is set, or the query failed, and then it may have been set too.\<close>

definition store_outcome ::
  "uuid \<times> uuid \<Rightarrow> uuid \<Rightarrow> ('db \<Rightarrow> ifa_view) \<Rightarrow> io_error + unit \<Rightarrow> 'db world \<Rightarrow> 'db world \<Rightarrow> bool" where
  "store_outcome key e view r w w' \<longleftrightarrow>
     r = Inr () \<and> view (w_db w') = (view (w_db w))(key \<mapsto> e) \<and> counts_one ''put'' ''ok'' w w' \<or>
     r = Inl (IoError Interrupted) \<and> counts_one ''put'' ''error'' w w' \<and>
       (view (w_db w') = view (w_db w) \<or> view (w_db w') = (view (w_db w))(key \<mapsto> e))"

lemma put_tracked:
  assumes "ifa_table svc ks view"
    and "parse_ifa cr ifa en = Some i" "uuid_parse_str cr app = Some a" "uuid_parse_str cr (clear_value d) = Some e"
    and "put_id_for_ifa cr svc ks app d ifa en w = (r, w')"
  shows "store_outcome (a, i) e view r w w'"
proof -
  obtain q w1 where q: "run_query svc (insert_entity ks a i e) w = (q, w1)" by fastforce
  note frame = run_query_frame(3) [OF q]
  have "case q of Inr _ \<Rightarrow> r = Inr () \<and> w' = count (inc_scylladb_request ''put'' ''ok'') w1
      | Inl _ \<Rightarrow> r = Inl (IoError Interrupted) \<and> w' = count (inc_scylladb_request ''put'' ''error'') w1"
    using assms(2-5) q by (auto simp: put_id_for_ifa_def split: sum.splits)
  then show ?thesis
    using run_query_insert [OF assms(1) q] frame
    by (auto simp: store_outcome_def counts_one_def inc_scylladb_request_def split: sum.splits)
qed

text \<open>Reading the outcomes off the counters.\<close>

lemma counts_one_at:
  "counts_one meth status w w' \<Longrightarrow> scylladb_request_counter (w_metrics w') k =
     scylladb_request_counter (w_metrics w) k + (if k = (meth, status) then 1 else 0)"
  by (simp add: counts_one_def)

lemma lookup_outcome_reads:
  assumes "lookup_outcome cr entry r w w'"
    and "scylladb_request_counter (w_metrics w') (''get'', ''error'') = scylladb_request_counter (w_metrics w) (''get'', ''error'')"
  shows "r = map_option (uuid_hyphenated cr) entry"
  using assms by (auto simp: lookup_outcome_def counts_one_at)

lemma lookup_outcome_sound: "lookup_outcome cr entry (Some s) w w' \<Longrightarrow> \<exists>e. entry = Some e \<and> s = uuid_hyphenated cr e"
  by (auto simp: lookup_outcome_def)

lemma store_outcome_ok:
  assumes "store_outcome key e view r w w'"
    and "scylladb_request_counter (w_metrics w') (''put'', ''ok'') \<noteq> scylladb_request_counter (w_metrics w) (''put'', ''ok'')"
  shows "r = Inr ()" and "view (w_db w') = (view (w_db w))(key \<mapsto> e)"
  using assms by (auto simp: store_outcome_def counts_one_at)

lemma store_outcome_elsewhere: "store_outcome key e view r w w' \<Longrightarrow> k \<noteq> key \<Longrightarrow> view (w_db w') k = view (w_db w) k"
  by (auto simp: store_outcome_def)

text \<open>The counters of the lookups, whatever the table.\<close>

lemma get_counts_up:
  assumes "get_id_for_ifa cr svc ks app ifa en w = (r, w')"
  shows "scylladb_request_counter (w_metrics w) (''get'', ''error'') \<le> scylladb_request_counter (w_metrics w') (''get'', ''error'')"
    and "scylladb_request_counter (w_metrics w') (''put'', s) = scylladb_request_counter (w_metrics w) (''put'', s)"
  using assms
  by (auto simp: get_id_for_ifa_def inc_scylladb_request_def dest!: run_query_frame(3)
      split: option.splits prod.splits sum.splits list.splits)

lemma put_counts_get:
  assumes "put_id_for_ifa cr svc ks app d ifa en w = (r, w')"
  shows "scylladb_request_counter (w_metrics w') (''get'', s) = scylladb_request_counter (w_metrics w) (''get'', s)"
  using assms
  by (auto simp: put_id_for_ifa_def inc_scylladb_request_def dest!: run_query_frame(3)
      split: option.splits prod.splits sum.splits)

section \<open>The interface to the registration of devices\<close>

text \<open>
  What the gateway relies on: a lookup changes no entry and answers from the table or has failed; a
  store sets the entry of its pair or has failed; a request without a usable advertising id does
  neither. Failures are counted, so a client can tell.
\<close>

locale ifa_store =
  fixes parse :: "crates \<Rightarrow> string option \<Rightarrow> bool \<Rightarrow> uuid option"
    and get :: "crates \<Rightarrow> 'db scylla \<Rightarrow> string \<Rightarrow> string \<Rightarrow> string option \<Rightarrow> bool \<Rightarrow> 'db world \<Rightarrow> string option \<times> 'db world"
    and put :: "crates \<Rightarrow> 'db scylla \<Rightarrow> string \<Rightarrow> string \<Rightarrow> cleartext \<Rightarrow> string option \<Rightarrow> bool \<Rightarrow> 'db world
       \<Rightarrow> (io_error + unit) \<times> 'db world"
    and table :: "'db scylla \<Rightarrow> string \<Rightarrow> ('db \<Rightarrow> ifa_view) \<Rightarrow> bool"
  assumes get_keeps: "table svc ks view \<Longrightarrow> get cr svc ks app ifa en w = (r, w') \<Longrightarrow> view (w_db w') = view (w_db w)"
    and get_outcome: "table svc ks view \<Longrightarrow> parse cr ifa en = Some i \<Longrightarrow> uuid_parse_str cr app = Some a \<Longrightarrow>
       get cr svc ks app ifa en w = (r, w') \<Longrightarrow> lookup_outcome cr (view (w_db w) (a, i)) r w w'"
    and put_outcome: "table svc ks view \<Longrightarrow> parse cr ifa en = Some i \<Longrightarrow> uuid_parse_str cr app = Some a \<Longrightarrow>
       uuid_parse_str cr (clear_value d) = Some e \<Longrightarrow> put cr svc ks app d ifa en w = (res, w') \<Longrightarrow>
       store_outcome (a, i) e view res w w'"
    and no_key_no_access: "parse cr ifa en = None \<or> uuid_parse_str cr app = None \<Longrightarrow>
       get cr svc ks app ifa en w = (None, w) \<and> put cr svc ks app d ifa en w = (Inl (IoError InvalidInput), w)"
begin

text \<open>A stored id is what the next lookup of the same application and advertising id gives, if it
  gives any; a lookup that gives none has failed.\<close>

lemma get_after_put:
  assumes "table svc ks view"
    and "parse cr ifa en = Some i" "uuid_parse_str cr app = Some a" "uuid_parse_str cr (clear_value d) = Some e"
    and "put cr svc ks app d ifa en w = (Inr (), w')" "view (w_db w'') (a, i) = view (w_db w') (a, i)"
    and "get cr svc ks app ifa en w'' = (r, w3)"
  shows "r = Some (uuid_hyphenated cr e) \<and> counts_one ''get'' ''ok'' w'' w3 \<or>
    r = None \<and> counts_one ''get'' ''error'' w'' w3"
proof -
  have "view (w_db w'') (a, i) = Some e"
    using put_outcome [OF assms(1-5)] assms(6) by (auto simp: store_outcome_def)
  then show ?thesis using get_outcome [OF assms(1-3,7)] by (auto simp: lookup_outcome_def)
qed

text \<open>A store for one pair leaves every other pair alone.\<close>

lemma put_elsewhere:
  assumes "table svc ks view" "parse cr ifa en = Some i" "uuid_parse_str cr app = Some a"
    "uuid_parse_str cr (clear_value d) = Some e" "put cr svc ks app d ifa en w = (r, w')" "k \<noteq> (a, i)"
  shows "view (w_db w') k = view (w_db w) k"
  using store_outcome_elsewhere [OF put_outcome [OF assms(1-5)] assms(6)] .

end

interpretation known_ifas: ifa_store parse_ifa get_id_for_ifa put_id_for_ifa ifa_table
proof unfold_locales
  fix svc :: "'a scylla" and ks view cr app ifa en w r w'
  assume t: "ifa_table svc ks view" and g: "get_id_for_ifa cr svc ks app ifa en w = (r, w')"
  then show "view (w_db w') = view (w_db w)"
    using get_tracked(1) [OF t _ _ g] get_untracked [of cr ifa en app svc ks w]
    by (cases "parse_ifa cr ifa en"; cases "uuid_parse_str cr app") auto
next
  fix svc :: "'a scylla" and ks cr app ifa en d w
  assume "parse_ifa cr ifa en = None \<or> uuid_parse_str cr app = None"
  then show "get_id_for_ifa cr svc ks app ifa en w = (None, w) \<and>
      put_id_for_ifa cr svc ks app d ifa en w = (Inl (IoError InvalidInput), w)"
    using get_untracked put_untracked by blast
qed (fact get_tracked(2) put_tracked)+

end
