(* ===== verification/App_Registry.thy ===== *)
theory App_Registry
  imports Gateway_Config Gateway_World Gateway_Error Sdk_Event_Batch Ifa_Matching
begin

text \<open>
  \<open>src/app_registry.rs\<close>: the applications and their secrets, loaded from the configuration or
  from ScyllaDB, swapped atomically, and the validation of a request against them. The registry's
  \<open>apps\<close> cell is a finite map; \<open>registry_pool\<close> says whether there is a database connection pool.
  The metrics counter of created applications is part of the state that is passed along.
\<close>

record application =
  app_key :: string
  app_token :: "string option"
  app_ios_secret :: "verification_key option"
  app_android_secret :: "verification_key option"
  app_web_secret :: "verification_key option"

record app_registry =
  reg_allow_empty_signature :: bool
  reg_apps :: "string \<rightharpoonup> application"
  reg_pool :: bool

section \<open>Creating applications\<close>

definition create_key :: "crates \<Rightarrow> u8 list \<Rightarrow> verification_key option" where
  "create_key cr s = map_option VerificationKey (hex_decode cr s)"

definition create_app ::
  "crates \<Rightarrow> string \<Rightarrow> string option \<Rightarrow> string option \<Rightarrow> string option \<Rightarrow> string option
     \<Rightarrow> metrics \<Rightarrow> application \<times> metrics" where
  "create_app cr i token ios_secret android_secret web_secret m =
     (\<lparr>app_key = i,
       app_token = token,
       app_ios_secret = Option.bind ios_secret (\<lambda>s. create_key cr (as_bytes s)),
       app_android_secret = Option.bind android_secret (\<lambda>s. create_key cr (as_bytes s)),
       app_web_secret = Option.bind web_secret (\<lambda>s. create_key cr (as_bytes s))\<rparr>,
      inc_app_update m)"

fun load_test_apps ::
  "crates \<Rightarrow> test_app_config list \<Rightarrow> (string \<rightharpoonup> application) \<Rightarrow> metrics
     \<Rightarrow> (string \<rightharpoonup> application) \<times> metrics" where
  "load_test_apps cr [] acc m = (acc, m)"
| "load_test_apps cr (t # ts) acc m =
     (let (app, m) = create_app cr (tc_app_id t) (tc_token t) (tc_secret_ios t)
                       (tc_secret_android t) (tc_secret_web t) m
      in load_test_apps cr ts (acc(tc_app_id t \<mapsto> app)) m)"

section \<open>Loading from the database\<close>

definition select_applications :: "string \<Rightarrow> query" where
  "select_applications keyspace =
     \<lparr>q_text = ''SELECT id, sdk_token, ios_api_secret, android_api_secret, web_api_secret FROM '' @
               keyspace @ ''.applications'',
      q_values = []\<rparr>"

fun load_rows ::
  "crates \<Rightarrow> row list \<Rightarrow> (string \<rightharpoonup> application) \<Rightarrow> metrics
     \<Rightarrow> ((string \<rightharpoonup> application) \<times> metrics) outcome" where
  "load_rows cr [] acc m = Ret (acc, m)"
| "load_rows cr (row # rows) acc m =
     obind (unwrap (row_uuid row ''app_id'')) (\<lambda>app_id.
     obind (unwrap (row_text row ''sdk_token'')) (\<lambda>sdk_token.
     obind (unwrap (row_text row ''ios_api_secret'')) (\<lambda>ios_secret.
     obind (unwrap (row_text row ''web_api_secret'')) (\<lambda>web_secret.
     obind (unwrap (row_text row ''android_api_secret'')) (\<lambda>android_secret.
     let id_string = uuid_hyphenated cr app_id;
         (app, m) = create_app cr id_string sdk_token ios_secret android_secret web_secret m
     in load_rows cr rows (acc(id_string \<mapsto> app)) m)))))"

definition swap_apps :: "(string \<rightharpoonup> application) \<Rightarrow> app_registry \<Rightarrow> app_registry" where
  "swap_apps apps reg = reg\<lparr>reg_apps := apps\<rparr>"

definition update_apps ::
  "crates \<Rightarrow> 'db scylla \<Rightarrow> string \<Rightarrow> app_registry \<Rightarrow> 'db world
     \<Rightarrow> ((io_error + unit) \<times> app_registry \<times> 'db world) outcome" where
  "update_apps cr svc keyspace reg w =
     (if reg_pool reg then
        let (ok, db) = pool_get svc (w_db w); w = w\<lparr>w_db := db\<rparr> in
        if \<not> ok then Ret (Inl (IoError ConnectionAborted), reg, w)
        else
          let (result, db) = run_cql svc (select_applications keyspace) (w_db w);
              w = w\<lparr>w_db := db\<rparr> in
          (case result of
             None \<Rightarrow> Ret (Inl (IoError ConnectionAborted), reg, w)
           | Some frame \<Rightarrow>
               (case Option.bind (frame_body frame) id of
                  Some rows \<Rightarrow>
                    obind (load_rows cr rows Map.empty (w_metrics w)) (\<lambda>(apps, m).
                    Ret (Inr (), swap_apps apps reg, w\<lparr>w_metrics := m\<rparr>))
                | None \<Rightarrow> Ret (Inr (), swap_apps Map.empty reg, w)))
      else Ret (Inr (), reg, w))"

text \<open>\<open>AppRegistry::new\<close>: from the database with a pool of one connection, or from the file.\<close>

definition app_registry_new ::
  "crates \<Rightarrow> 'db scylla \<Rightarrow> config \<Rightarrow> 'db world \<Rightarrow> (app_registry \<times> 'db world) outcome" where
  "app_registry_new cr svc cfg w =
     (if cas_manage_apps (cfg_cassandra cfg) then
        obind (pool_connection svc (cas_contact_points (cfg_cassandra cfg)) 1) (\<lambda>_.
        let registry =
              \<lparr>reg_allow_empty_signature = gc_allow_empty_signature (cfg_gateway cfg),
               reg_apps = Map.empty, reg_pool = True\<rparr>
        in obind (update_apps cr svc (cas_keyspace (cfg_cassandra cfg)) registry w) (\<lambda>(r, registry, w).
           obind (unwrap_result r) (\<lambda>_. Ret (registry, w))))
      else
        obind (unwrap (cfg_test_apps cfg)) (\<lambda>test_apps.
        let (apps, m) = load_test_apps cr test_apps Map.empty (w_metrics w)
        in Ret (\<lparr>reg_allow_empty_signature = gc_allow_empty_signature (cfg_gateway cfg),
                 reg_apps = apps, reg_pool = False\<rparr>, w\<lparr>w_metrics := m\<rparr>)))"

text \<open>
  \<open>run_updater\<close>: the values the loop reads from the control flag are given as a list; the result
  is the registry when the loop leaves or has used them up, and how many updates it made. An
  update's error is logged and ignored.
\<close>

fun run_updater ::
  "crates \<Rightarrow> 'db scylla \<Rightarrow> string \<Rightarrow> bool list \<Rightarrow> app_registry \<Rightarrow> 'db world
     \<Rightarrow> (app_registry \<times> 'db world \<times> nat) outcome" where
  "run_updater cr svc keyspace [] reg w = Ret (reg, w, 0)"
| "run_updater cr svc keyspace (c # control) reg w =
     (if c then
        obind (update_apps cr svc keyspace reg w) (\<lambda>(_, reg, w).
        obind (run_updater cr svc keyspace control reg w) (\<lambda>(reg, w, n). Ret (reg, w, Suc n)))
      else Ret (reg, w, 0))"

section \<open>Reading the registry\<close>

definition token_for :: "app_registry \<Rightarrow> string \<Rightarrow> string option" where
  "token_for reg app_id = Option.bind (reg_apps reg app_id) app_token"

definition option_unwrap_or :: "'a option \<Rightarrow> 'a \<Rightarrow> 'a" where
  "option_unwrap_or x d = (case x of None \<Rightarrow> d | Some a \<Rightarrow> a)"

definition platform_secret :: "application \<Rightarrow> platform \<Rightarrow> verification_key option" where
  "platform_secret app p =
     (case p of
        Ios \<Rightarrow> app_ios_secret app
      | Android \<Rightarrow> app_android_secret app
      | Web \<Rightarrow> app_web_secret app
      | Unknown \<Rightarrow> None)"

definition validate ::
  "crates \<Rightarrow> string \<Rightarrow> app_registry \<Rightarrow> sdk_event_batch \<Rightarrow> request_context \<Rightarrow> u8 list
     \<Rightarrow> gateway_error + unit" where
  "validate cr default_token reg event ctx raw_data =
     rbind (ok_or AppDoesNotExist (reg_apps reg (se_app_id (sb_environment event)))) (\<lambda>app.
     let valid_token = option_unwrap_or (app_token app) default_token in
     if (case ctx_api_token ctx of Some sent_token \<Rightarrow> sent_token \<noteq> valid_token | None \<Rightarrow> False)
     then Inl InvalidToken
     else if sb_events event = [] then Inl InvalidPayload
     else if reg_allow_empty_signature reg then Inr ()
     else
       rbind (ok_or MissingSignature (ctx_signature ctx)) (\<lambda>signature.
       rbind (ok_or AppDoesNotExist (platform_secret app (device_platform (sb_device event)))) (\<lambda>platform_key.
       rbind (ok_or InvalidSignature (b64_decode cr signature)) (\<lambda>decoded_signature.
       if hmac_verify cr platform_key raw_data decoded_signature then Inr () else Inl InvalidSignature))))"

section \<open>What a valid request is\<close>

definition token_accepted :: "string \<Rightarrow> application \<Rightarrow> string option \<Rightarrow> bool" where
  "token_accepted default_token app sent \<longleftrightarrow>
     (\<forall>t. sent = Some t \<longrightarrow> t = (case app_token app of Some v \<Rightarrow> v | None \<Rightarrow> default_token))"

text \<open>The key of an application that may sign for a platform, told platform by platform.\<close>

definition signing_key :: "application \<Rightarrow> platform \<Rightarrow> verification_key \<Rightarrow> bool" where
  "signing_key app p k \<longleftrightarrow>
     p = Ios \<and> app_ios_secret app = Some k \<or>
     p = Android \<and> app_android_secret app = Some k \<or>
     p = Web \<and> app_web_secret app = Some k"

definition signature_accepted ::
  "crates \<Rightarrow> application \<Rightarrow> platform \<Rightarrow> string option \<Rightarrow> u8 list \<Rightarrow> bool" where
  "signature_accepted cr app p signature raw \<longleftrightarrow>
     (\<exists>s k d. signature = Some s \<and> signing_key app p k \<and> b64_decode cr s = Some d \<and> hmac_verify cr k raw d)"

lemma platform_secret_Some: "platform_secret app p = Some k \<longleftrightarrow> signing_key app p k"
  by (cases p) (auto simp: platform_secret_def signing_key_def)

lemma signature_accepted_secret:
  "signature_accepted cr app p signature raw \<longleftrightarrow>
     (\<exists>s k d. signature = Some s \<and> platform_secret app p = Some k \<and> b64_decode cr s = Some d \<and>
        hmac_verify cr k raw d)"
  by (simp add: signature_accepted_def platform_secret_Some)

lemma token_accepted_iff:
  "token_accepted dt app sent \<longleftrightarrow>
     \<not> (case sent of Some t \<Rightarrow> t \<noteq> option_unwrap_or (app_token app) dt | None \<Rightarrow> False)"
  by (auto simp: token_accepted_def option_unwrap_or_def split: option.splits)

lemma validate_app_exists:
  "validate cr dt reg event ctx raw = Inl AppDoesNotExist \<or> reg_apps reg (se_app_id (sb_environment event)) \<noteq> None"
  by (cases "reg_apps reg (se_app_id (sb_environment event))") (simp_all add: validate_def)

lemma validate_Ok:
  "validate cr dt reg event ctx raw = Inr () \<longleftrightarrow>
     (\<exists>app. reg_apps reg (se_app_id (sb_environment event)) = Some app \<and>
        token_accepted dt app (ctx_api_token ctx) \<and> sb_events event \<noteq> [] \<and>
        (reg_allow_empty_signature reg \<or>
         signature_accepted cr app (device_platform (sb_device event)) (ctx_signature ctx) raw))"
  by (cases "reg_apps reg (se_app_id (sb_environment event))")
    (auto simp: validate_def outcome_simps token_accepted_iff signature_accepted_secret Let_def)

lemma validate_errors:
  "validate cr dt reg event ctx raw = Inl e \<Longrightarrow>
     e \<in> {AppDoesNotExist, InvalidToken, InvalidPayload, MissingSignature, InvalidSignature}"
  by (auto simp: validate_def outcome_simps Let_def split: if_splits option.splits)

text \<open>The registry matters only through the entry of the request's application.\<close>

lemma validate_snapshot:
  assumes "reg_apps reg (se_app_id (sb_environment event)) = reg_apps reg' (se_app_id (sb_environment event))"
    and "reg_allow_empty_signature reg = reg_allow_empty_signature reg'"
  shows "validate cr dt reg event ctx raw = validate cr dt reg' event ctx raw"
  unfolding validate_def assms ..

section \<open>Loading\<close>

text \<open>The application a configuration or a row describes, whatever the counter.\<close>

definition app_of ::
  "crates \<Rightarrow> string \<Rightarrow> string option \<Rightarrow> string option \<Rightarrow> string option \<Rightarrow> string option \<Rightarrow> application" where
  "app_of cr i token ios andr web =
     \<lparr>app_key = i, app_token = token,
      app_ios_secret = Option.bind ios (\<lambda>s. create_key cr (as_bytes s)),
      app_android_secret = Option.bind andr (\<lambda>s. create_key cr (as_bytes s)),
      app_web_secret = Option.bind web (\<lambda>s. create_key cr (as_bytes s))\<rparr>"

definition test_app_of :: "crates \<Rightarrow> test_app_config \<Rightarrow> application" where
  "test_app_of cr t = app_of cr (tc_app_id t) (tc_token t) (tc_secret_ios t) (tc_secret_android t) (tc_secret_web t)"

lemma create_app_eq: "create_app cr i token ios andr web m = (app_of cr i token ios andr web, inc_app_update m)"
  by (simp add: create_app_def app_of_def)

lemma load_test_apps_eq:
  "fst (load_test_apps cr ts acc m) = acc ++ map_of (rev (map (\<lambda>t. (tc_app_id t, test_app_of cr t)) ts))"
  by (induction ts arbitrary: acc m)
    (simp_all add: create_app_eq test_app_of_def fun_eq_iff map_add_def split: option.splits)

lemma load_test_apps_count:
  "app_update_counter (snd (load_test_apps cr ts acc m)) = app_update_counter m + length ts"
  by (induction ts arbitrary: acc m) (simp_all add: create_app_eq inc_app_update_def)

text \<open>A row as the fold reads it: the key and the application, or \<open>None\<close> where an unwrap panics.\<close>

definition row_app :: "crates \<Rightarrow> row \<Rightarrow> (string \<times> application) option" where
  "row_app cr row = do {
     u \<leftarrow> row_uuid row ''app_id'';
     token \<leftarrow> row_text row ''sdk_token'';
     ios \<leftarrow> row_text row ''ios_api_secret'';
     web \<leftarrow> row_text row ''web_api_secret'';
     andr \<leftarrow> row_text row ''android_api_secret'';
     Some (uuid_hyphenated cr u, app_of cr (uuid_hyphenated cr u) token ios andr web)
   }"

lemma load_rows_Cons:
  "load_rows cr (row # rows) acc m =
     (case row_app cr row of
        None \<Rightarrow> Panic
      | Some (k, app) \<Rightarrow> load_rows cr rows (acc(k \<mapsto> app)) (inc_app_update m))"
  by (simp add: row_app_def create_app_eq unwrap_def split: option.splits Option.bind_splits)

lemma load_rows_Panic:
  "load_rows cr rows acc m = Panic \<longleftrightarrow> (\<exists>row \<in> set rows. row_app cr row = None)"
  by (induction rows arbitrary: acc m) (auto simp: load_rows_Cons simp del: load_rows.simps(2) split: option.splits)

lemma load_rows_Ret:
  "load_rows cr rows acc m = Ret (apps, m') \<Longrightarrow>
     apps = acc ++ map_of (rev (map (\<lambda>row. the (row_app cr row)) rows))"
  by (induction rows arbitrary: acc m)
    (auto simp: load_rows_Cons fun_eq_iff map_add_def simp del: load_rows.simps(2) split: option.splits)

lemma update_apps_error_keeps:
  "update_apps cr svc ks reg w = Ret (Inl e, reg', w') \<Longrightarrow> reg' = reg"
  by (auto simp: update_apps_def split_beta Let_def outcome_simps split: if_splits option.splits)

lemma update_apps_keeps_policy:
  "update_apps cr svc ks reg w = Ret (r, reg', w') \<Longrightarrow>
     reg_allow_empty_signature reg' = reg_allow_empty_signature reg \<and> reg_pool reg' = reg_pool reg"
  by (auto simp: update_apps_def swap_apps_def split_beta Let_def outcome_simps split: if_splits option.splits)

lemma update_apps_no_pool: "\<not> reg_pool reg \<Longrightarrow> update_apps cr svc ks reg w = Ret (Inr (), reg, w)"
  by (simp add: update_apps_def)

end
