(* ===== verification/Kafka_Bus.thy ===== *)
theory Kafka_Bus
  imports Gateway_World Gateway_Error Gateway_Config
begin

text \<open>
  \<open>src/bus/kafka.rs\<close>: publishing a payload to the configured topic, keyed by application and
  device. The producer is the parameter \<open>send\<close>: whether it reports success for a record, given
  what it has accepted before; an accepted record is appended to the log \<open>w_sent\<close>.
\<close>

type_synonym producer = "kafka_record list \<Rightarrow> kafka_record \<Rightarrow> bool"

definition routing_key :: "request_context \<Rightarrow> u8 list option" where
  "routing_key ctx =
     map_option (\<lambda>device_id.
       as_bytes (ctx_app_id ctx @ ''|'' @ cleartext_display (did_cleartext device_id))) (ctx_device_id ctx)"

definition publish ::
  "producer \<Rightarrow> kafka_config \<Rightarrow> u8 list \<Rightarrow> request_context \<Rightarrow> 'db world
     \<Rightarrow> (gateway_error + unit) \<times> 'db world" where
  "publish send cfg payload ctx w =
     (let r = \<lparr>kr_topic = kc_topic cfg, kr_key = routing_key ctx, kr_payload = payload\<rparr>;
          ok = send (w_sent w) r;
          w = count observe_kafka_latency w
      in if ok then (Inr (), w\<lparr>w_sent := w_sent w @ [r]\<rparr>)
         else (Inl (ServiceUnavailable ''Could not send to kafka''), w))"

lemma publish_eq:
  "publish send cfg payload ctx w = (r, w') \<Longrightarrow>
     (r = Inr () \<and> w_sent w' = w_sent w @ [\<lparr>kr_topic = kc_topic cfg, kr_key = routing_key ctx, kr_payload = payload\<rparr>]) \<or>
     (r = Inl (ServiceUnavailable ''Could not send to kafka'') \<and> w_sent w' = w_sent w)"
  by (auto simp: publish_def Let_def split: if_splits)

lemma publish_frame:
  "publish send cfg payload ctx w = (r, w') \<Longrightarrow>
     w_db w' = w_db w \<and> w_rng w' = w_rng w \<and> w_metrics w' = observe_kafka_latency (w_metrics w)"
  by (auto simp: publish_def Let_def split: if_splits)

text \<open>Splitting a key at its last bar gives the application and the device back.\<close>

lemma append_bar_inject:
  assumes "CHR ''|'' \<notin> set y" and "CHR ''|'' \<notin> set y'"
  shows "x @ ''|'' @ y = x' @ ''|'' @ y' \<longleftrightarrow> x = x' \<and> y = y'"
proof
  assume eq: "x @ ''|'' @ y = x' @ ''|'' @ y'"
  have "takeWhile (\<lambda>c. c \<noteq> CHR ''|'') (rev (s @ ''|'' @ t)) = rev t" if "CHR ''|'' \<notin> set t" for s t
    using that by (simp add: takeWhile_append)
  then have "rev y = rev y'" using assms eq by metis
  then show "x = x' \<and> y = y'" using eq by simp
qed simp

end
