(* ===== verification/Sdk_Response.thy ===== *)
theory Sdk_Response
  imports Sdk_Json Encryption
begin

text \<open>
  \<open>src/events/input/sdk_response.rs\<close>: the answer to a batch. The derived serializers are
  functions into JSON; a field with \<open>skip_serializing_if = "Option::is_none"\<close> is left out when it
  is absent.
\<close>

datatype event_status = Success

record registration_data =
  rd_api_token :: "string option"
  rd_device_id :: ciphertext

record event_result =
  er_id :: string
  er_registration_data :: "registration_data option"
  er_status :: event_status

record sdk_response =
  sr_events_status :: "event_result list"

definition sdk_response_from :: "event_result list \<Rightarrow> sdk_response" where
  "sdk_response_from events_status = \<lparr>sr_events_status = events_status\<rparr>"

definition event_result_new :: "string \<Rightarrow> event_status \<Rightarrow> event_result" where
  "event_result_new i status = \<lparr>er_id = i, er_registration_data = None, er_status = status\<rparr>"

definition event_result_register ::
  "string \<Rightarrow> event_status \<Rightarrow> string option \<Rightarrow> ciphertext \<Rightarrow> event_result" where
  "event_result_register i status api_token ct =
     \<lparr>er_id = i, er_registration_data = Some \<lparr>rd_api_token = api_token, rd_device_id = ct\<rparr>,
      er_status = status\<rparr>"

section \<open>Serialization\<close>

fun event_status_json :: "event_status \<Rightarrow> json" where
  "event_status_json Success = JString ''success''"

definition skip_none :: "string \<Rightarrow> ('a \<Rightarrow> json) \<Rightarrow> 'a option \<Rightarrow> (string \<times> json) list" where
  "skip_none key ser v = (case v of None \<Rightarrow> [] | Some x \<Rightarrow> [(key, ser x)])"

definition ciphertext_json :: "ciphertext \<Rightarrow> json" where
  [simp]: "ciphertext_json ct = JString (ct_value ct)"

definition registration_data_json :: "registration_data \<Rightarrow> json" where
  "registration_data_json d =
     JObject (skip_none ''api_token'' JString (rd_api_token d) @
              [(''device_id'', ciphertext_json (rd_device_id d))])"

definition event_result_json :: "event_result \<Rightarrow> json" where
  "event_result_json r =
     JObject ([(''id'', JString (er_id r))] @
              skip_none ''registration_data'' registration_data_json (er_registration_data r) @
              [(''status'', event_status_json (er_status r))])"

definition sdk_response_json :: "sdk_response \<Rightarrow> json" where
  "sdk_response_json r = JObject [(''events_status'', JArray (map event_result_json (sr_events_status r)))]"

text \<open>What a client reads out of the answer: the members by name.\<close>

fun json_member :: "string \<Rightarrow> json \<Rightarrow> json option" where
  "json_member k (JObject kvs) = map_of kvs k"
| "json_member k _ = None"

lemma registration_data_json_inject:
  "registration_data_json d = registration_data_json d' \<longleftrightarrow> d = d'"
  by (cases d; cases d'; cases "rd_device_id d"; cases "rd_device_id d'")
    (auto simp: registration_data_json_def skip_none_def split: option.splits)

lemma event_result_json_inject: "event_result_json r = event_result_json r' \<longleftrightarrow> r = r'"
proof
  assume eq: "event_result_json r = event_result_json r'"
  have status: "er_status r = er_status r'" by (metis (full_types) event_status.exhaust)
  show "r = r'"
    using eq status
    by (cases r; cases r')
      (auto simp: event_result_json_def skip_none_def registration_data_json_inject split: option.splits)
qed simp

end
