(* ===== verification/Gateway.thy ===== *)
theory Gateway
  imports App_Registry Ifa_Matching Kafka_Bus Sdk_Response
begin

text \<open>
  \<open>src/gateway.rs\<close>: the routes and the handling of a batch of SDK events, from the body's bytes
  to the response, with its effects on the database, the broker and the metrics.

  \<open>gateway_env\<close> holds what does not change while the gateway runs: the crates, the encryption
  key, the configuration and the cross-origin policy built from it, the database service, the
  producer, and the codecs of third-party crates. A \<open>request_run\<close> holds what the surroundings
  decide for one request: the registry as \<open>validate\<close> reads it and as \<open>token_for\<close> reads it (the
  updater may swap it in between), whether \<open>blocking\<close> gets a thread, and the time. Log records
  are not modelled; their fields are in \<open>Request_Context\<close>.
\<close>

section \<open>Requests\<close>

datatype http_method = OPTIONS | GET | POST | OtherMethod string

text \<open>The body is \<open>None\<close> when reading its chunks fails.\<close>

record http_request =
  rq_method :: http_method
  rq_path :: string
  rq_headers :: header_map
  rq_body :: "u8 list option"

record 'db gateway_env =
  ge_crates :: crates
  ge_secret :: "u8 list"
  ge_config :: config
  ge_cors :: "cors option"
  ge_scylla :: "'db scylla"
  ge_producer :: producer
  ge_sort_by :: event_sort
  ge_json_parse :: "u8 list \<Rightarrow> json option"
  ge_json_to_string :: "json \<Rightarrow> string"
  ge_proto_encode :: "proto_batch \<Rightarrow> u8 list"
  ge_text_encode :: "metrics \<Rightarrow> string option"
  ge_format_type :: string

record request_run =
  rr_validate_apps :: app_registry
  rr_token_apps :: app_registry
  rr_blocking :: bool
  rr_now :: int

definition ge_keyspace :: "'db gateway_env \<Rightarrow> string" where
  "ge_keyspace env = cas_keyspace (cfg_cassandra (ge_config env))"

definition ge_default_token :: "'db gateway_env \<Rightarrow> string" where
  "ge_default_token env = gc_default_token (cfg_gateway (ge_config env))"

section \<open>Registration\<close>

text \<open>The id of a lookup, encrypted, or a fresh one: \<open>.map(..).unwrap_or_else(..)\<close>.\<close>

definition settle_device_id ::
  "'db gateway_env \<Rightarrow> string option \<Rightarrow> rng \<Rightarrow> (device_id \<times> rng) outcome" where
  "settle_device_id env found r =
     (case found of
        Some i \<Rightarrow>
          obind (encrypt (ge_crates env) (ge_secret env) (Cleartext i) r) (\<lambda>(ct, r).
          Ret (\<lparr>did_ciphertext = ct, did_cleartext = Cleartext i\<rparr>, r))
      | None \<Rightarrow> device_id_generate (ge_crates env) (ge_secret env) r)"

text \<open>
  \<open>IFA_MATCHING\<close> is built at its first use, which is here: a registration whose thread cannot build
  the pool of connections panics, and so does every later one, because the cell is poisoned.
\<close>

definition force_ifa_matching :: "'db gateway_env \<Rightarrow> unit outcome" where
  "force_ifa_matching env =
     ifa_matching_new (ge_scylla env) (cas_contact_points (cfg_cassandra (ge_config env)))"

text \<open>The body of the \<open>blocking\<close> closure. The result of the store is ignored.\<close>

definition fetch_device_id ::
  "'db gateway_env \<Rightarrow> string \<Rightarrow> string option \<Rightarrow> bool \<Rightarrow> 'db world \<Rightarrow> (device_id \<times> 'db world) outcome" where
  "fetch_device_id env app_id ifa tracking_enabled w =
     obind (force_ifa_matching env) (\<lambda>_.
     let (found, w) = get_id_for_ifa (ge_crates env) (ge_scylla env) (ge_keyspace env)
                        app_id ifa tracking_enabled w
     in obind (settle_device_id env found (w_rng w)) (\<lambda>(device_id, r).
        let w = w\<lparr>w_rng := r\<rparr>;
            (_, w) = put_id_for_ifa (ge_crates env) (ge_scylla env) (ge_keyspace env)
                       app_id (did_cleartext device_id) ifa tracking_enabled w
        in Ret (device_id, w)))"

definition fetch_id ::
  "'db gateway_env \<Rightarrow> request_run \<Rightarrow> request_context \<Rightarrow> sdk_event_batch \<Rightarrow> 'db world
     \<Rightarrow> (device_id option \<times> 'db world) outcome" where
  "fetch_id env run ctx event w =
     (case ctx_device_id ctx of
        Some device_id \<Rightarrow> Ret (Some device_id, w)
      | None \<Rightarrow>
          if rr_blocking run then
            obind (fetch_device_id env (ctx_app_id ctx) (sd_ifa (sb_device event))
                     (sd_ifa_tracking_enabled (sb_device event)) w) (\<lambda>(d, w). Ret (Some d, w))
          else Ret (None, w))"

definition create_new_device ::
  "'db gateway_env \<Rightarrow> request_run \<Rightarrow> request_context \<Rightarrow> sdk_event_batch \<Rightarrow> string \<Rightarrow> 'db world
     \<Rightarrow> ((gateway_error + event_result list \<times> request_context \<times> sdk_event_batch) \<times> 'db world) outcome" where
  "create_new_device env run ctx event event_id w =
     obind (fetch_id env run ctx event w) (\<lambda>(fetched, w).
     Ret (case fetched of
            None \<Rightarrow> (Inl (ServiceUnavailable ''Aerospike is acting slow today''), w)
          | Some device_id \<Rightarrow>
              let ctx = (if ctx_device_id ctx = None then ctx\<lparr>ctx_device_id := Some device_id\<rparr> else ctx);
                  ctx = (if ctx_api_token ctx = None
                         then ctx\<lparr>ctx_api_token := token_for (rr_token_apps run) (ctx_app_id ctx)\<rparr> else ctx);
                  results = [event_result_register event_id Success (ctx_api_token ctx)
                               (did_ciphertext device_id)]
              in (Inr (results, ctx, event), w)))"

definition generate_event_results ::
  "'db gateway_env \<Rightarrow> request_run \<Rightarrow> request_context \<Rightarrow> sdk_event_batch \<Rightarrow> 'db world
     \<Rightarrow> ((gateway_error + event_result list \<times> request_context \<times> sdk_event_batch) \<times> 'db world) outcome" where
  "generate_event_results env run ctx event w =
     (case map_option ev_id (find is_register (sb_events event)) of
        Some event_id \<Rightarrow> create_new_device env run ctx event event_id w
      | None \<Rightarrow>
          Ret (Inr (map (\<lambda>e. event_result_new (ev_id e) Success) (sb_events event), ctx, event), w))"

section \<open>Events\<close>

definition send_events ::
  "'db gateway_env \<Rightarrow> request_run \<Rightarrow> event_result list \<Rightarrow> request_context \<Rightarrow> sdk_event_batch \<Rightarrow> 'db world
     \<Rightarrow> ((gateway_error + string \<times> request_context) \<times> 'db world) outcome" where
  "send_events env run results ctx event w =
     obind (into_proto (ge_crates env) (ge_sort_by env) (rr_now run) ctx event) (\<lambda>proto_event.
     let payload = ge_proto_encode env proto_event in
     Ret (case publish (ge_producer env) (cfg_kafka (ge_config env)) payload ctx w of
            (Inl e, w) \<Rightarrow> (Inl e, w)
          | (Inr _, w) \<Rightarrow>
              (Inr (ge_json_to_string env (sdk_response_json (sdk_response_from results)), ctx),
               count (inc_events_by (length results)) w)))"

definition origin_refused :: "'db gateway_env \<Rightarrow> header_map \<Rightarrow> sdk_event_batch \<Rightarrow> bool" where
  "origin_refused env headers event \<longleftrightarrow>
     (case ge_cors env of
        Some cors \<Rightarrow>
          device_platform (sb_device event) = Web \<and>
          \<not> valid_origin cors (se_app_id (sb_environment event)) (get_value (ge_crates env) headers ''origin'')
      | None \<Rightarrow> False)"

definition handle_event ::
  "'db gateway_env \<Rightarrow> request_run \<Rightarrow> u8 list \<Rightarrow> sdk_event_batch \<Rightarrow> header_map \<Rightarrow> 'db world
     \<Rightarrow> ((gateway_error \<times> request_context option + string \<times> request_context) \<times> 'db world) outcome" where
  "handle_event env run body event headers w =
     obind (context_new (ge_crates env) (ge_secret env) headers (se_app_id (sb_environment event))
              (device_platform (sb_device event))) (\<lambda>ctx.
     if origin_refused env headers event then Ret (Inl (UnknownOrigin, Some ctx), w)
     else
       case validate (ge_crates env) (ge_default_token env) (rr_validate_apps run) event ctx body of
         Inl e \<Rightarrow> Ret (Inl (e, Some ctx), w)
       | Inr _ \<Rightarrow>
           obind (generate_event_results env run ctx event w) (\<lambda>(generated, w).
           case generated of
             Inl e \<Rightarrow> Ret (Inl (e, None), w)
           | Inr (results, ctx, event) \<Rightarrow>
               obind (send_events env run results ctx event w) (\<lambda>(sent, w).
               Ret (map_err (\<lambda>e. (e, None)) sent, w))))"

definition read_event ::
  "'db gateway_env \<Rightarrow> request_run \<Rightarrow> http_request \<Rightarrow> 'db world
     \<Rightarrow> ((gateway_error \<times> request_context option + string \<times> request_context) \<times> 'db world) outcome" where
  "read_event env run req w =
     (case rq_body req of
        None \<Rightarrow> Ret (Inl (InternalServerError ''body concat'', None), w)
      | Some body \<Rightarrow>
          (case Option.bind (ge_json_parse env body) de_batch of
             Some event \<Rightarrow> handle_event env run body event (rq_headers req) w
           | None \<Rightarrow> Ret (Inl (InvalidPayload, None), w)))"

definition handle_sdk ::
  "'db gateway_env \<Rightarrow> request_run \<Rightarrow> http_request \<Rightarrow> 'db world \<Rightarrow> (http_response \<times> 'db world) outcome" where
  "handle_sdk env run req w =
     obind (read_event env run req w) (\<lambda>(res, w).
     case res of
       Inr (json_body, ctx) \<Rightarrow>
         obind (case ge_cors env of
                  Some cors \<Rightarrow>
                    response_builder_origin (ge_crates env) cors (ctx_app_id ctx) (ctx_origin ctx) (ctx_platform ctx)
                | None \<Rightarrow> Ret response_builder) (\<lambda>b.
         let b = add_header ''content-type'' (as_bytes ''application/json'') b;
             w = count (inc_request ''200'' ''sdk_events'') w
         in Ret (b\<lparr>rs_status := 200, rs_body := json_body\<rparr>, w))
     | Inl (e, ctx) \<Rightarrow>
         obind (into_response (ge_crates env) (ge_cors env) e ctx) (\<lambda>response.
         Ret (response, count (inc_request (show_nat (rs_status response)) ''sdk_events'') w)))"

section \<open>Routes\<close>

definition handle_options :: "'db gateway_env \<Rightarrow> http_response outcome" where
  "handle_options env =
     obind (case ge_cors env of
              Some cors \<Rightarrow> response_builder_wildcard (ge_crates env) cors
            | None \<Rightarrow> Ret response_builder) (\<lambda>b.
     Ret (b\<lparr>rs_status := 200, rs_body := ''''\<rparr>))"

definition handle_metrics :: "'db gateway_env \<Rightarrow> metrics \<Rightarrow> http_response outcome" where
  "handle_metrics env m =
     obind (unwrap (ge_text_encode env m)) (\<lambda>buffer.
     obind (header_from_str (ge_crates env) ''content-type'' (ge_format_type env) response_builder) (\<lambda>b.
     Ret (b\<lparr>rs_body := buffer\<rparr>)))"

definition sdk_path :: string where
  "sdk_path = ''/xray/events/xorc/sdk/v1''"

definition service ::
  "'db gateway_env \<Rightarrow> request_run \<Rightarrow> http_request \<Rightarrow> 'db world \<Rightarrow> (http_response \<times> 'db world) outcome" where
  "service env run req w =
     (if rq_method req = OPTIONS \<and> rq_path req = sdk_path then
        let w = count (inc_request ''200'' ''options'') w
        in obind (handle_options env) (\<lambda>r. Ret (r, w))
      else if rq_method req = POST \<and> rq_path req = sdk_path then
        obind (handle_sdk env run req w) (\<lambda>(r, w). Ret (r, count observe_response_time w))
      else if rq_method req = GET \<and> rq_path req = ''/metrics'' then
        obind (handle_metrics env (w_metrics w)) (\<lambda>r. Ret (r, w))
      else
        Ret (response_builder\<lparr>rs_status := 404\<rparr>, count (inc_request ''404'' ''not_found'') w))"

end
