(* ===== verification/Gateway_Facts.thy ===== *)
theory Gateway_Facts
  imports Gateway
begin

text \<open>
  What the request handlers of \<open>Gateway\<close> do: which state each step leaves alone (\<open>quiet\<close>), the
  outcome of registration and of publishing, the admission of a request as a pure decision, and
  that handling a request returns.
\<close>

section \<open>Frames\<close>

text \<open>Steps that touch the database, the random generator and the database metrics at most.\<close>

definition quiet :: "'db world \<Rightarrow> 'db world \<Rightarrow> bool" where
  "quiet w w' \<longleftrightarrow>
     w_sent w' = w_sent w \<and>
     app_update_counter (w_metrics w') = app_update_counter (w_metrics w) \<and>
     events_counter (w_metrics w') = events_counter (w_metrics w) \<and>
     request_counter (w_metrics w') = request_counter (w_metrics w) \<and>
     response_times_histogram (w_metrics w') = response_times_histogram (w_metrics w) \<and>
     kafka_latency_histogram (w_metrics w') = kafka_latency_histogram (w_metrics w)"

lemma quiet_refl [simp]: "quiet w w"
  by (simp add: quiet_def)

lemma quiet_trans: "quiet w w' \<Longrightarrow> quiet w' w'' \<Longrightarrow> quiet w w''"
  by (simp add: quiet_def)

lemma quiet_simps [simp]:
  "quiet w (w'\<lparr>w_rng := r\<rparr>) \<longleftrightarrow> quiet w w'"
  "quiet w (w'\<lparr>w_db := db\<rparr>) \<longleftrightarrow> quiet w w'"
  "quiet w (count observe_scylladb_latency w') \<longleftrightarrow> quiet w w'"
  "quiet w (count (inc_scylladb_request m s) w') \<longleftrightarrow> quiet w w'"
  by (simp_all add: quiet_def metric_defs)

lemma run_query_quiet: "run_query svc q w = (r, w') \<Longrightarrow> quiet w w'"
  by (auto simp: run_query_def split_beta Let_def split: if_splits)

lemma get_quiet: "get_id_for_ifa cr svc ks app ifa en w = (r, w') \<Longrightarrow> quiet w w'"
  by (auto simp: get_id_for_ifa_def dest: run_query_quiet split: option.splits prod.splits sum.splits list.splits)

lemma put_quiet: "put_id_for_ifa cr svc ks app d ifa en w = (r, w') \<Longrightarrow> quiet w w'"
  by (auto simp: put_id_for_ifa_def dest: run_query_quiet split: option.splits prod.splits sum.splits)

lemma get_hyphenated:
  "get_id_for_ifa cr svc ks app ifa en w = (Some s, w') \<Longrightarrow> \<exists>e. s = uuid_hyphenated cr e"
  by (auto simp: get_id_for_ifa_def split: option.splits prod.splits sum.splits list.splits)

section \<open>Registration\<close>

definition env_good :: "'db gateway_env \<Rightarrow> bool" where
  "env_good env \<longleftrightarrow> crypto_good (ge_crates env) (ge_secret env) \<and> uuid_contract (ge_crates env) \<and>
     force_ifa_matching env = Ret ()"

text \<open>An id that opens to its own clear text, which is a UUID.\<close>

definition sound_device :: "'db gateway_env \<Rightarrow> device_id \<Rightarrow> bool" where
  "sound_device env d \<longleftrightarrow>
     decrypt (ge_crates env) (ge_secret env) (did_ciphertext d) = Ret (Inr (did_cleartext d)) \<and>
     (\<exists>u. did_cleartext d = Cleartext (uuid_hyphenated (ge_crates env) u))"

lemma settle_device_id_good:
  assumes "env_good env" and "found = None \<or> (\<exists>e. found = Some (uuid_hyphenated (ge_crates env) e))"
  obtains d r' where "settle_device_id env found r = Ret (d, r')" "sound_device env d"
    "\<And>i. found = Some i \<Longrightarrow> did_cleartext d = Cleartext i"
proof -
  have good: "crypto_good (ge_crates env) (ge_secret env)" "uuid_contract (ge_crates env)"
    using assms(1) by (simp_all add: env_good_def)
  show thesis
  proof (cases found)
    case None
    obtain u ct r' where u: "device_id_generate (ge_crates env) (ge_secret env) r =
        Ret (\<lparr>did_ciphertext = ct, did_cleartext = Cleartext (uuid_hyphenated (ge_crates env) u)\<rparr>, r')"
      "decrypt (ge_crates env) (ge_secret env) ct = Ret (Inr (Cleartext (uuid_hyphenated (ge_crates env) u)))"
      using device_id_generate_good [OF good] by metis
    show thesis by (rule that [of _ r']) (use u None in \<open>auto simp: settle_device_id_def sound_device_def\<close>)
  next
    case (Some i)
    then obtain e where i: "i = uuid_hyphenated (ge_crates env) e" using assms(2) by auto
    then obtain ct where ct: "encrypt (ge_crates env) (ge_secret env) (Cleartext i) r = Ret (ct, snd (fill_bytes 12 r))"
      "decrypt (ge_crates env) (ge_secret env) ct = Ret (Inr (Cleartext i))"
      using encrypt_fits [OF good(1) fits_uuid [OF good(2)]] by metis
    show thesis
      by (rule that [of "\<lparr>did_ciphertext = ct, did_cleartext = Cleartext i\<rparr>" "snd (fill_bytes 12 r)"])
        (use ct Some i in \<open>auto simp: settle_device_id_def sound_device_def\<close>)
  qed
qed

text \<open>The id the closure settles on, before it stores it.\<close>

lemma fetch_device_id_eq:
  assumes good: "env_good env"
    and got: "get_id_for_ifa (ge_crates env) (ge_scylla env) (ge_keyspace env) app ifa en w = (found, w1)"
  obtains d r put w' where
    "sound_device env d"
    "\<And>i. found = Some i \<Longrightarrow> did_cleartext d = Cleartext i"
    "put_id_for_ifa (ge_crates env) (ge_scylla env) (ge_keyspace env) app (did_cleartext d) ifa en
       (w1\<lparr>w_rng := r\<rparr>) = (put, w')"
    "fetch_device_id env app ifa en w = Ret (d, w')"
proof -
  have "found = None \<or> (\<exists>e. found = Some (uuid_hyphenated (ge_crates env) e))"
    using get_hyphenated got by (cases found) blast+
  from settle_device_id_good [OF good this, of "w_rng w1"] obtain d r where
    dr: "settle_device_id env found (w_rng w1) = Ret (d, r)" "sound_device env d"
      "\<And>i. found = Some i \<Longrightarrow> did_cleartext d = Cleartext i" by metis
  obtain put w' where put: "put_id_for_ifa (ge_crates env) (ge_scylla env) (ge_keyspace env) app
      (did_cleartext d) ifa en (w1\<lparr>w_rng := r\<rparr>) = (put, w')" by fastforce
  then have "fetch_device_id env app ifa en w = Ret (d, w')"
    using dr(1) got good by (simp add: fetch_device_id_def env_good_def)
  then show thesis using that dr put by blast
qed

lemma fetch_device_id_good:
  assumes "env_good env"
  obtains d w' where "fetch_device_id env app ifa en w = Ret (d, w')" "sound_device env d" "quiet w w'"
proof -
  obtain found w1 where got:
    "get_id_for_ifa (ge_crates env) (ge_scylla env) (ge_keyspace env) app ifa en w = (found, w1)" by fastforce
  from fetch_device_id_eq [OF assms got] obtain d r put w' where
    "sound_device env d" "fetch_device_id env app ifa en w = Ret (d, w')"
    "put_id_for_ifa (ge_crates env) (ge_scylla env) (ge_keyspace env) app (did_cleartext d) ifa en
       (w1\<lparr>w_rng := r\<rparr>) = (put, w')" by metis
  moreover from this(3) have "quiet (w1\<lparr>w_rng := r\<rparr>) w'" by (rule put_quiet)
  moreover have "quiet w (w1\<lparr>w_rng := r\<rparr>)" using get_quiet [OF got] by simp
  ultimately show thesis using that quiet_trans by blast
qed

lemma fetch_device_id_quiet:
  assumes "fetch_device_id env app ifa en w = Ret (d, w')"
  shows "quiet w w'"
proof -
  obtain found w1 where got:
    "get_id_for_ifa (ge_crates env) (ge_scylla env) (ge_keyspace env) app ifa en w = (found, w1)" by fastforce
  then obtain r put where "put_id_for_ifa (ge_crates env) (ge_scylla env) (ge_keyspace env) app
      (did_cleartext d) ifa en (w1\<lparr>w_rng := r\<rparr>) = (put, w')"
    using assms by (auto simp: fetch_device_id_def obind_eq_Ret split_beta prod_eq_iff)
  then have "quiet (w1\<lparr>w_rng := r\<rparr>) w'" by (rule put_quiet)
  then show ?thesis using get_quiet [OF got] quiet_trans [of w w1 w'] by (simp add: quiet_def)
qed

lemma fetch_id_quiet: "fetch_id env run ctx event w = Ret (d, w') \<Longrightarrow> quiet w w'"
  by (auto simp: fetch_id_def obind_eq_Ret dest: fetch_device_id_quiet split: option.splits if_splits)

text \<open>What a batch becomes after registration: the context with the id and the token filled in.\<close>

definition registered_context :: "request_run \<Rightarrow> request_context \<Rightarrow> device_id \<Rightarrow> request_context" where
  "registered_context run ctx d =
     ctx\<lparr>ctx_device_id := Some d,
         ctx_api_token := (case ctx_api_token ctx of
            None \<Rightarrow> token_for (rr_token_apps run) (ctx_app_id ctx) | Some t \<Rightarrow> Some t)\<rparr>"

lemma create_new_device_eq:
  "create_new_device env run ctx event i w =
     obind (fetch_id env run ctx event w) (\<lambda>(fetched, w).
     Ret (case fetched of
            None \<Rightarrow> (Inl (ServiceUnavailable ''Aerospike is acting slow today''), w)
          | Some d \<Rightarrow>
              (Inr ([event_result_register i Success (ctx_api_token (registered_context run ctx d)) (did_ciphertext d)],
                    registered_context run ctx d, event), w)))"
proof (cases "ctx_device_id ctx")
  case None
  then show ?thesis
    by (cases "fetch_id env run ctx event w")
      (auto simp: create_new_device_def registered_context_def split: option.splits)
next
  case (Some d)
  then have "ctx\<lparr>ctx_device_id := Some d\<rparr> = ctx" by (cases ctx) simp
  then show ?thesis using Some
    by (auto simp: create_new_device_def registered_context_def fetch_id_def split: option.splits)
qed

section \<open>Publishing\<close>

definition proto_of_batch ::
  "'db gateway_env \<Rightarrow> request_run \<Rightarrow> request_context \<Rightarrow> sdk_event_batch \<Rightarrow> proto_batch" where
  "proto_of_batch env run ctx event =
     the_ret (into_proto (ge_crates env) (ge_sort_by env) (rr_now run) ctx event)"

definition record_of ::
  "'db gateway_env \<Rightarrow> request_run \<Rightarrow> request_context \<Rightarrow> sdk_event_batch \<Rightarrow> kafka_record" where
  "record_of env run ctx event =
     \<lparr>kr_topic = kc_topic (cfg_kafka (ge_config env)), kr_key = routing_key ctx,
      kr_payload = ge_proto_encode env (proto_of_batch env run ctx event)\<rparr>"

definition reply_json :: "'db gateway_env \<Rightarrow> event_result list \<Rightarrow> string" where
  "reply_json env results = ge_json_to_string env (sdk_response_json (sdk_response_from results))"

lemma into_proto_of_batch:
  "into_proto (ge_crates env) (ge_sort_by env) (rr_now run) ctx event = Ret (proto_of_batch env run ctx event)"
  using into_proto_Ret [of "ge_crates env" "ge_sort_by env" "rr_now run" ctx event]
  by (metis proto_of_batch_def outcome.sel)

lemma send_events_eq:
  "send_events env run results ctx event w =
     Ret (if ge_producer env (w_sent w) (record_of env run ctx event)
          then (Inr (reply_json env results, ctx),
                count (inc_events_by (length results))
                  ((count observe_kafka_latency w)\<lparr>w_sent := w_sent w @ [record_of env run ctx event]\<rparr>))
          else (Inl (ServiceUnavailable ''Could not send to kafka''), count observe_kafka_latency w))"
  by (simp add: send_events_def into_proto_of_batch publish_def record_of_def reply_json_def Let_def)

section \<open>The results of a batch\<close>

definition registration_of :: "sdk_event_batch \<Rightarrow> string option" where
  "registration_of event = map_option ev_id (find is_register (sb_events event))"

lemma generate_event_results_eq:
  "generate_event_results env run ctx event w =
     (case registration_of event of
        None \<Rightarrow> Ret (Inr (map (\<lambda>e. event_result_new (ev_id e) Success) (sb_events event), ctx, event), w)
      | Some i \<Rightarrow> create_new_device env run ctx event i w)"
  by (simp only: generate_event_results_def registration_of_def split: option.splits)

definition needs_device :: "request_context \<Rightarrow> sdk_event_batch \<Rightarrow> bool" where
  "needs_device ctx event \<longleftrightarrow> registration_of event \<noteq> None \<and> ctx_device_id ctx = None"

text \<open>
  \<open>generated run ctx event results ctx'\<close>: a batch without a registration gets one success per
  event and keeps its context; the first registration of a batch gets the only result.
\<close>

definition generated ::
  "request_run \<Rightarrow> request_context \<Rightarrow> sdk_event_batch \<Rightarrow> event_result list \<Rightarrow> request_context \<Rightarrow> bool" where
  "generated run ctx event results ctx' \<longleftrightarrow>
     (case registration_of event of
        None \<Rightarrow> ctx' = ctx \<and> results = map (\<lambda>e. event_result_new (ev_id e) Success) (sb_events event)
      | Some i \<Rightarrow>
          (\<exists>d. (ctx_device_id ctx = None \<or> ctx_device_id ctx = Some d) \<and> ctx' = registered_context run ctx d \<and>
             results = [event_result_register i Success (ctx_api_token ctx') (did_ciphertext d)]))"

lemma registered_context_simps [simp]:
  "ctx_app_id (registered_context run ctx d) = ctx_app_id ctx"
  "ctx_platform (registered_context run ctx d) = ctx_platform ctx"
  "ctx_device_id (registered_context run ctx d) = Some d"
  "ctx_signature (registered_context run ctx d) = ctx_signature ctx"
  "ctx_ip (registered_context run ctx d) = ctx_ip ctx"
  "ctx_origin (registered_context run ctx d) = ctx_origin ctx"
  by (simp_all add: registered_context_def)

lemma generated_context:
  assumes "generated run ctx event results ctx'"
  shows "ctx_app_id ctx' = ctx_app_id ctx" and "ctx_platform ctx' = ctx_platform ctx"
    and "ctx_origin ctx' = ctx_origin ctx" and "ctx_ip ctx' = ctx_ip ctx"
  using assms by (auto simp: generated_def split: option.splits)

lemma fetch_id_Some:
  assumes "fetch_id env run ctx event w = Ret (Some d, w')"
  shows "ctx_device_id ctx = None \<and> rr_blocking run \<or> ctx_device_id ctx = Some d \<and> w' = w"
  using assms by (auto simp: fetch_id_def obind_eq_Ret split: option.splits if_splits)

lemma fetch_id_None:
  assumes "fetch_id env run ctx event w = Ret (None, w')"
  shows "ctx_device_id ctx = None \<and> \<not> rr_blocking run \<and> w' = w"
  using assms by (auto simp: fetch_id_def obind_eq_Ret split: option.splits if_splits)

lemma generate_event_results_Inr:
  assumes "generate_event_results env run ctx event w = Ret (Inr (results, ctx', event'), w')"
  shows "event' = event" and "generated run ctx event results ctx'" and "quiet w w'"
    and "needs_device ctx event \<Longrightarrow> rr_blocking run"
proof -
  have "event' = event \<and> generated run ctx event results ctx' \<and> quiet w w' \<and>
      (needs_device ctx event \<longrightarrow> rr_blocking run)"
  proof (cases "registration_of event")
    case None
    then show ?thesis using assms
      by (auto simp: generate_event_results_eq generated_def needs_device_def)
  next
    case (Some i)
    then have "create_new_device env run ctx event i w = Ret (Inr (results, ctx', event'), w')"
      using assms by (simp add: generate_event_results_eq)
    then obtain d where d: "fetch_id env run ctx event w = Ret (Some d, w')"
      "ctx' = registered_context run ctx d" "event' = event"
      "results = [event_result_register i Success (ctx_api_token ctx') (did_ciphertext d)]"
      by (auto simp: create_new_device_eq obind_eq_Ret split: option.splits)
    then show ?thesis
      using Some fetch_id_Some [OF d(1)] fetch_id_quiet [OF d(1)] by (auto simp: generated_def needs_device_def)
  qed
  then show "event' = event" "generated run ctx event results ctx'" "quiet w w'"
    "needs_device ctx event \<Longrightarrow> rr_blocking run" by blast+
qed

lemma generate_event_results_Inl:
  assumes "generate_event_results env run ctx event w = Ret (Inl e, w')"
  shows "e = ServiceUnavailable ''Aerospike is acting slow today''" and "w' = w"
    and "needs_device ctx event" and "\<not> rr_blocking run"
proof -
  have "e = ServiceUnavailable ''Aerospike is acting slow today'' \<and> w' = w \<and> needs_device ctx event \<and> \<not> rr_blocking run"
  proof (cases "registration_of event")
    case None
    then show ?thesis using assms by (simp add: generate_event_results_eq)
  next
    case (Some i)
    then have "create_new_device env run ctx event i w = Ret (Inl e, w')"
      using assms by (simp add: generate_event_results_eq)
    then have "fetch_id env run ctx event w = Ret (None, w')"
      "e = ServiceUnavailable ''Aerospike is acting slow today''"
      by (auto simp: create_new_device_eq obind_eq_Ret split: option.splits)
    then show ?thesis using Some fetch_id_None by (fastforce simp: needs_device_def)
  qed
  then show "e = ServiceUnavailable ''Aerospike is acting slow today''" "w' = w"
    "needs_device ctx event" "\<not> rr_blocking run" by blast+
qed

text \<open>With sound cryptography a batch's results are always computed.\<close>

lemma fetch_id_good:
  assumes "env_good env"
  obtains d w' where "fetch_id env run ctx event w = Ret (d, w')"
    "ctx_device_id ctx = None \<Longrightarrow> pred_option (sound_device env) d"
proof (cases "ctx_device_id ctx = None \<and> rr_blocking run")
  case True
  obtain d w' where "fetch_device_id env (ctx_app_id ctx) (sd_ifa (sb_device event))
      (sd_ifa_tracking_enabled (sb_device event)) w = Ret (d, w')" "sound_device env d"
    using fetch_device_id_good [OF assms] by metis
  then show thesis using that [of "Some d" w'] True by (simp add: fetch_id_def)
next
  case False
  then show thesis
    using that [of "ctx_device_id ctx" w] by (cases "ctx_device_id ctx") (simp_all add: fetch_id_def)
qed

lemma generate_event_results_Ret:
  assumes "env_good env"
  shows "generate_event_results env run ctx event w \<noteq> Panic"
proof -
  obtain d w' where "fetch_id env run ctx event w = Ret (d, w')" using fetch_id_good [OF assms] by blast
  then show ?thesis
    by (auto simp: generate_event_results_eq create_new_device_eq split: option.splits)
qed

section \<open>The admission of a request\<close>

text \<open>
  The specification of the checks, as one decision that reads no state besides the registry: an
  error, or the batch with the context it was accepted under.
\<close>

definition admit_event ::
  "'db gateway_env \<Rightarrow> request_run \<Rightarrow> u8 list \<Rightarrow> sdk_event_batch \<Rightarrow> header_map \<Rightarrow> request_context
     \<Rightarrow> gateway_error + unit" where
  "admit_event env run body event headers ctx =
     (if origin_refused env headers event then Inl UnknownOrigin
      else
        rbind (validate (ge_crates env) (ge_default_token env) (rr_validate_apps run) event ctx body) (\<lambda>_.
        if needs_device ctx event \<and> \<not> rr_blocking run
        then Inl (ServiceUnavailable ''Aerospike is acting slow today'') else Inr ()))"

definition admission ::
  "'db gateway_env \<Rightarrow> request_run \<Rightarrow> http_request \<Rightarrow> (gateway_error + sdk_event_batch \<times> request_context) outcome" where
  "admission env run req =
     (case rq_body req of
        None \<Rightarrow> Ret (Inl (InternalServerError ''body concat''))
      | Some body \<Rightarrow>
          (case Option.bind (ge_json_parse env body) de_batch of
             None \<Rightarrow> Ret (Inl InvalidPayload)
           | Some event \<Rightarrow>
               obind (context_new (ge_crates env) (ge_secret env) (rq_headers req)
                        (se_app_id (sb_environment event)) (device_platform (sb_device event))) (\<lambda>ctx.
               Ret (rbind (admit_event env run body event (rq_headers req) ctx) (\<lambda>_. Inr (event, ctx))))))"

text \<open>The batch of a request and its context, when there are any.\<close>

definition request_event :: "'db gateway_env \<Rightarrow> http_request \<Rightarrow> sdk_event_batch option" where
  "request_event env req =
     Option.bind (rq_body req) (\<lambda>body. Option.bind (ge_json_parse env body) de_batch)"

definition event_context ::
  "'db gateway_env \<Rightarrow> http_request \<Rightarrow> sdk_event_batch \<Rightarrow> request_context outcome" where
  "event_context env req event =
     context_new (ge_crates env) (ge_secret env) (rq_headers req)
       (se_app_id (sb_environment event)) (device_platform (sb_device event))"

lemma admission_Inr:
  "admission env run req = Ret (Inr (event, ctx)) \<longleftrightarrow>
     (\<exists>body. rq_body req = Some body \<and> Option.bind (ge_json_parse env body) de_batch = Some event \<and>
        event_context env req event = Ret ctx \<and>
        admit_event env run body event (rq_headers req) ctx = Inr ())"
  by (auto simp: admission_def event_context_def outcome_simps split: option.splits)

lemma admission_event:
  "admission env run req = Ret (Inr (event, ctx)) \<Longrightarrow>
     request_event env req = Some event \<and> event_context env req event = Ret ctx"
  by (auto simp: admission_Inr request_event_def)

lemma event_context_fields:
  assumes "event_context env req event = Ret ctx"
  shows "ctx_app_id ctx = se_app_id (sb_environment event)"
    and "ctx_platform ctx = device_platform (sb_device event)"
    and "ctx_origin ctx = get_value (ge_crates env) (rq_headers req) ''origin''"
  using context_new_fields [OF assms [unfolded event_context_def]] by simp_all

text \<open>An error after the checks carries no context; the device id is fetched after them.\<close>

lemma handle_event_Inl:
  assumes "handle_event env run body event headers w = Ret (Inl (e, c), w')"
    and ctx: "context_new (ge_crates env) (ge_secret env) headers (se_app_id (sb_environment event))
        (device_platform (sb_device event)) = Ret ctx"
  shows "quiet w w' \<and> admit_event env run body event headers ctx = Inl e \<and> (c = None \<or> c = Some ctx) \<or>
    (\<exists>results ctx' w1. c = None \<and> e = ServiceUnavailable ''Could not send to kafka'' \<and>
       admit_event env run body event headers ctx = Inr () \<and> generated run ctx event results ctx' \<and>
       quiet w w1 \<and> w' = count observe_kafka_latency w1 \<and>
       \<not> ge_producer env (w_sent w) (record_of env run ctx' event))"
proof -
  let ?v = "validate (ge_crates env) (ge_default_token env) (rr_validate_apps run) event ctx body"
  consider (origin) "origin_refused env headers event"
    | (invalid) d where "\<not> origin_refused env headers event" "?v = Inl d"
    | (ok) "\<not> origin_refused env headers event" "?v = Inr ()"
    by (cases ?v) auto
  then show ?thesis
  proof cases
    case ok
    then obtain g w1 where g: "generate_event_results env run ctx event w = Ret (g, w1)"
      using assms by (auto simp: handle_event_def obind_eq_Ret)
    show ?thesis
    proof (cases g)
      case (Inl d)
      then show ?thesis
        using assms ok g generate_event_results_Inl [of env run ctx event w d w1]
        by (auto simp: handle_event_def admit_event_def)
    next
      case (Inr x)
      obtain results ctx' event' where x: "x = (results, ctx', event')" by (cases x) auto
      note gen = generate_event_results_Inr [OF g [unfolded Inr x]]
      have "quiet w w1" and sent: "w_sent w1 = w_sent w" using gen(3) by (simp_all add: quiet_def)
      moreover have "\<not> ge_producer env (w_sent w) (record_of env run ctx' event)"
        "e = ServiceUnavailable ''Could not send to kafka''" "c = None" "w' = count observe_kafka_latency w1"
        using assms ok g Inr x gen(1) sent
        by (auto simp: handle_event_def send_events_eq split: if_splits)
      moreover have "admit_event env run body event headers ctx = Inr ()"
        using ok gen(4) by (auto simp: admit_event_def)
      ultimately show ?thesis using gen(2) by blast
    qed
  qed (use assms in \<open>auto simp: handle_event_def admit_event_def\<close>)
qed

lemma handle_event_Inr:
  assumes "handle_event env run body event headers w = Ret (Inr (json, ctx'), w')"
    and ctx: "context_new (ge_crates env) (ge_secret env) headers (se_app_id (sb_environment event))
        (device_platform (sb_device event)) = Ret ctx"
  shows "\<exists>results w1. admit_event env run body event headers ctx = Inr () \<and>
    generated run ctx event results ctx' \<and> quiet w w1 \<and> json = reply_json env results \<and>
    ge_producer env (w_sent w) (record_of env run ctx' event) \<and>
    w' = count (inc_events_by (length results))
           ((count observe_kafka_latency w1)\<lparr>w_sent := w_sent w @ [record_of env run ctx' event]\<rparr>)"
proof -
  have v: "\<not> origin_refused env headers event"
    "validate (ge_crates env) (ge_default_token env) (rr_validate_apps run) event ctx body = Inr ()"
    using assms by (auto simp: handle_event_def split: if_splits sum.splits)
  obtain g w1 where g: "generate_event_results env run ctx event w = Ret (g, w1)"
    using assms v by (auto simp: handle_event_def obind_eq_Ret)
  moreover obtain results ctx1 event' where x: "g = Inr (results, ctx1, event')"
    using assms v g by (cases g) (auto simp: handle_event_def)
  ultimately have gen: "generate_event_results env run ctx event w = Ret (Inr (results, ctx1, event'), w1)" by simp
  note gen = generate_event_results_Inr [OF this]
  have sent: "w_sent w1 = w_sent w" using gen(3) by (simp add: quiet_def)
  have "ctx' = ctx1 \<and> json = reply_json env results \<and> ge_producer env (w_sent w) (record_of env run ctx' event) \<and>
    w' = count (inc_events_by (length results))
           ((count observe_kafka_latency w1)\<lparr>w_sent := w_sent w @ [record_of env run ctx' event]\<rparr>)"
    using assms v g x gen(1) sent by (auto simp: handle_event_def send_events_eq split: if_splits)
  moreover have "admit_event env run body event headers ctx = Inr ()"
    using v gen(4) by (auto simp: admit_event_def)
  ultimately show ?thesis using gen(2,3) by blast
qed

lemma handle_event_generated:
  assumes gen: "generate_event_results env run ctx event w \<noteq> Panic"
    and ctx: "context_new (ge_crates env) (ge_secret env) headers (se_app_id (sb_environment event))
        (device_platform (sb_device event)) = Ret ctx"
  shows "handle_event env run body event headers w \<noteq> Panic"
proof -
  obtain g w1 where "generate_event_results env run ctx event w = Ret (g, w1)"
    using gen by (metis outcome.exhaust surj_pair)
  then show ?thesis
    using ctx by (auto simp: handle_event_def send_events_eq split: sum.splits)
qed

lemmas handle_event_Ret = handle_event_generated [OF generate_event_results_Ret]

section \<open>Requests\<close>

text \<open>What reading a request comes to, in the terms of its admission.\<close>

lemma read_event_cases:
  assumes "read_event env run req w = Ret (res, w')"
  obtains
    (rejected) e c where "admission env run req = Ret (Inl e)" "res = Inl (e, c)" "quiet w w'"
      "\<And>x. c = Some x \<Longrightarrow> \<exists>event. request_event env req = Some event \<and> event_context env req event = Ret x"
  | (failed) event ctx results ctx' w1 where "admission env run req = Ret (Inr (event, ctx))"
      "res = Inl (ServiceUnavailable ''Could not send to kafka'', None)"
      "generated run ctx event results ctx'" "quiet w w1" "w' = count observe_kafka_latency w1"
      "\<not> ge_producer env (w_sent w) (record_of env run ctx' event)"
  | (sent) event ctx results ctx' w1 where "admission env run req = Ret (Inr (event, ctx))"
      "res = Inr (reply_json env results, ctx')"
      "generated run ctx event results ctx'" "quiet w w1"
      "w' = count (inc_events_by (length results))
              ((count observe_kafka_latency w1)\<lparr>w_sent := w_sent w @ [record_of env run ctx' event]\<rparr>)"
      "ge_producer env (w_sent w) (record_of env run ctx' event)"
proof (cases "rq_body req")
  case None
  then show thesis using assms by (intro rejected) (auto simp: read_event_def admission_def)
next
  case (Some body)
  show thesis
  proof (cases "Option.bind (ge_json_parse env body) de_batch")
    case None
    then show thesis using assms Some by (intro rejected) (auto simp: read_event_def admission_def)
  next
    case (Some event)
    then have he: "handle_event env run body event (rq_headers req) w = Ret (res, w')"
      using assms \<open>rq_body req = Some body\<close> by (simp add: read_event_def)
    then obtain ctx where ctx: "context_new (ge_crates env) (ge_secret env) (rq_headers req)
        (se_app_id (sb_environment event)) (device_platform (sb_device event)) = Ret ctx"
      by (auto simp: handle_event_def obind_eq_Ret)
    have ev: "request_event env req = Some event" "event_context env req event = Ret ctx"
      using Some \<open>rq_body req = Some body\<close> ctx by (simp_all add: request_event_def event_context_def)
    have adm: "admission env run req =
        Ret (rbind (admit_event env run body event (rq_headers req) ctx) (\<lambda>_. Inr (event, ctx)))"
      using Some \<open>rq_body req = Some body\<close> ctx by (simp add: admission_def)
    show thesis
    proof (cases res)
      case (Inl ec)
      obtain e c where ec: "ec = (e, c)" by (cases ec)
      show thesis using handle_event_Inl [OF he [unfolded Inl ec] ctx]
      proof (elim disjE exE conjE)
        fix results ctx' w1
        assume "c = None" "e = ServiceUnavailable ''Could not send to kafka''"
          "admit_event env run body event (rq_headers req) ctx = Inr ()" "generated run ctx event results ctx'"
          "quiet w w1" "w' = count observe_kafka_latency w1"
          "\<not> ge_producer env (w_sent w) (record_of env run ctx' event)"
        then show thesis using adm Inl ec by (intro failed) simp_all
      qed (use adm Inl ec ev in \<open>auto intro!: rejected\<close>)
    next
      case (Inr jc)
      obtain json ctx' where jc: "jc = (json, ctx')" by (cases jc)
      show thesis using handle_event_Inr [OF he [unfolded Inr jc] ctx] adm Inr jc
        by (auto intro: sent)
    qed
  qed
qed

lemma handle_sdk_refines:
  assumes "handle_sdk env run req w = Ret (resp, w')"
  shows "(\<exists>e. admission env run req = Ret (Inl e) \<and> rs_status resp = error_status e \<and>
            rs_body resp = error_body e \<and> w_sent w' = w_sent w) \<or>
    (\<exists>event ctx results ctx'. admission env run req = Ret (Inr (event, ctx)) \<and>
       generated run ctx event results ctx' \<and>
       (if ge_producer env (w_sent w) (record_of env run ctx' event)
        then rs_status resp = 200 \<and> rs_body resp = reply_json env results \<and>
             w_sent w' = w_sent w @ [record_of env run ctx' event]
        else rs_status resp = 503 \<and> rs_body resp = ''Service unavailable'' \<and> w_sent w' = w_sent w))"
proof -
  obtain res w1 where r: "read_event env run req w = Ret (res, w1)"
    using assms by (auto simp: handle_sdk_def obind_eq_Ret)
  then show ?thesis
  proof (cases rule: read_event_cases)
    case (rejected e c)
    then show ?thesis using assms r
      by (auto simp: handle_sdk_def outcome_simps into_response_Ret quiet_def split: option.splits)
  next
    case (failed event ctx results ctx' w2)
    then have "rs_status resp = 503 \<and> rs_body resp = ''Service unavailable'' \<and> w_sent w' = w_sent w"
      using assms r
      by (auto simp: handle_sdk_def outcome_simps into_response_Ret quiet_def split: option.splits)
    then show ?thesis using failed by auto
  next
    case (sent event ctx results ctx' w2)
    then have "rs_status resp = 200 \<and> rs_body resp = reply_json env results \<and>
        w_sent w' = w_sent w @ [record_of env run ctx' event]"
      using assms r by (auto simp: handle_sdk_def obind_eq_Ret quiet_def Let_def split: option.splits)
    then show ?thesis using sent by auto
  qed
qed

text \<open>The counters of one request.\<close>

lemma show_nat_200: "show_nat 200 = ''200''"
  by code_simp

lemma read_event_metrics:
  assumes "read_event env run req w = Ret (res, w')"
  shows "request_counter (w_metrics w') = request_counter (w_metrics w) \<and>
    response_times_histogram (w_metrics w') = response_times_histogram (w_metrics w) \<and>
    app_update_counter (w_metrics w') = app_update_counter (w_metrics w)"
  using assms by (cases rule: read_event_cases) (auto simp: quiet_def metric_defs)

lemma handle_sdk_world:
  assumes "handle_sdk env run req w = Ret (resp, w')"
  obtains res w1 where "read_event env run req w = Ret (res, w1)"
    "w' = count (inc_request (show_nat (rs_status resp)) ''sdk_events'') w1"
proof -
  obtain res w1 where r: "read_event env run req w = Ret (res, w1)"
    using assms by (auto simp: handle_sdk_def obind_eq_Ret)
  show thesis
  proof (cases res)
    case (Inl ec)
    then show thesis using assms r that [of res w1] by (cases ec) (auto simp: handle_sdk_def obind_eq_Ret)
  next
    case (Inr jc)
    then show thesis using assms r that [of res w1]
      by (cases jc) (auto simp: handle_sdk_def obind_eq_Ret Let_def add_header_def show_nat_200)
  qed
qed

lemma handle_sdk_metrics:
  assumes "handle_sdk env run req w = Ret (resp, w')"
  shows "request_counter (w_metrics w') =
      (request_counter (w_metrics w))
        ((show_nat (rs_status resp), ''sdk_events'') :=
           request_counter (w_metrics w) (show_nat (rs_status resp), ''sdk_events'') + 1)"
    and "response_times_histogram (w_metrics w') = response_times_histogram (w_metrics w)"
proof -
  obtain res w1 where r: "read_event env run req w = Ret (res, w1)"
    and w': "w' = count (inc_request (show_nat (rs_status resp)) ''sdk_events'') w1"
    by (rule handle_sdk_world [OF assms])
  note m = read_event_metrics [OF r]
  show "request_counter (w_metrics w') =
      (request_counter (w_metrics w))
        ((show_nat (rs_status resp), ''sdk_events'') :=
           request_counter (w_metrics w) (show_nat (rs_status resp), ''sdk_events'') + 1)"
    using m w' by (simp add: inc_request_def)
  show "response_times_histogram (w_metrics w') = response_times_histogram (w_metrics w)"
    using m w' by (simp add: inc_request_def)
qed

text \<open>The headers of a response.\<close>

definition origin_granted :: "'db gateway_env \<Rightarrow> http_request \<Rightarrow> header_value \<Rightarrow> bool" where
  "origin_granted env req v \<longleftrightarrow>
     (\<exists>c event o'. ge_cors env = Some c \<and> request_event env req = Some event \<and>
        device_platform (sb_device event) = Web \<and>
        get_value (ge_crates env) (rq_headers req) ''origin'' = Some o' \<and>
        valid_origin c (se_app_id (sb_environment event)) (Some o') \<and>
        hv_from_str (ge_crates env) o' = Some v)"

lemma handle_sdk_granted:
  assumes sdk: "handle_sdk env run req w = Ret (resp, w')"
    and v: "(''access-control-allow-origin'', v) \<in> set (rs_headers resp)"
  shows "origin_granted env req v"
proof -
  obtain res w1 where r: "read_event env run req w = Ret (res, w1)"
    using sdk by (auto simp: handle_sdk_def obind_eq_Ret)
  then show ?thesis
  proof (cases rule: read_event_cases)
    case (rejected e c)
    then have "into_response (ge_crates env) (ge_cors env) e c = Ret resp"
      using sdk r by (auto simp: handle_sdk_def obind_eq_Ret)
    from into_response_granted [OF this v] obtain p x o' where granted: "ge_cors env = Some p" "c = Some x"
      "ctx_origin x = Some o'" "valid_origin p (ctx_app_id x) (Some o')" "ctx_platform x = Web"
      "hv_from_str (ge_crates env) o' = Some v" by blast
    obtain event where "request_event env req = Some event" "event_context env req event = Ret x"
      using rejected(4) [OF granted(2)] by blast
    then show ?thesis
      using granted event_context_fields [of env req event x] unfolding origin_granted_def by auto
  next
    case (failed event ctx results ctx' w2)
    then have "into_response (ge_crates env) (ge_cors env) (ServiceUnavailable ''Could not send to kafka'') None = Ret resp"
      using sdk r by (auto simp: handle_sdk_def obind_eq_Ret)
    from into_response_granted [OF this v] show ?thesis by simp
  next
    case (sent event ctx results ctx' w2)
    then obtain c b where c: "ge_cors env = Some c"
      "response_builder_origin (ge_crates env) c (ctx_app_id ctx') (ctx_origin ctx') (ctx_platform ctx') = Ret b"
      "(''access-control-allow-origin'', v) \<in> set (rs_headers b)"
      using sdk r v
      by (auto simp: handle_sdk_def obind_eq_Ret Let_def add_header_def response_builder_def split: option.splits)
    show ?thesis
      using cors_headers.granted_only [OF c(2,3)] c(1) admission_event [OF sent(1)]
        generated_context [OF sent(3)] event_context_fields [of env req event ctx]
      unfolding origin_granted_def by auto
  qed
qed

text \<open>Only the decryption of the device id header can stop a request.\<close>

definition cors_good :: "'db gateway_env \<Rightarrow> bool" where
  "cors_good env \<longleftrightarrow> http_contract (ge_crates env) \<and>
     (\<forall>c. ge_cors env = Some c \<longrightarrow> policy_headers_ok (ge_crates env) c)"

lemma builder_total:
  assumes "cors_good env" and "ge_cors env = Some c" and "event_context env req event = Ret ctx"
    and "ctx_origin ctx' = ctx_origin ctx"
  shows "response_builder_origin (ge_crates env) c app (ctx_origin ctx') p \<noteq> Panic"
proof (rule cors_headers.build_total)
  show "policy_headers_ok (ge_crates env) c" using assms(1,2) by (simp add: cors_good_def)
  show "hv_from_str (ge_crates env) o' \<noteq> None" if "ctx_origin ctx' = Some o'" for o'
    using that assms event_context_fields(3) [OF assms(3)]
    by (auto simp: cors_good_def get_value_def bind_eq_Some_conv dest: http_contractD)
qed

lemma context_new_not_Panic:
  "context_device_id cr secret headers \<noteq> Panic \<Longrightarrow> \<exists>ctx. context_new cr secret headers app p = Ret ctx"
  by (auto simp: context_new_def outcome_not_Panic)

lemma read_event_Ret:
  assumes "env_good env" and "context_device_id (ge_crates env) (ge_secret env) (rq_headers req) \<noteq> Panic"
  shows "read_event env run req w \<noteq> Panic"
  using handle_event_Ret [OF assms(1)] context_new_not_Panic [OF assms(2)]
  by (fastforce simp: read_event_def split: option.splits)

lemma handle_sdk_read:
  assumes cors: "cors_good env" and read: "read_event env run req w \<noteq> Panic"
  shows "handle_sdk env run req w \<noteq> Panic"
proof -
  obtain res w1 where r: "read_event env run req w = Ret (res, w1)"
    using read by (metis outcome.exhaust surj_pair)
  then show ?thesis
  proof (cases rule: read_event_cases)
    case (rejected e c)
    then show ?thesis using r builder_total [OF cors]
      by (fastforce simp: handle_sdk_def into_response_def response_builder_for_def outcome_simps split: option.splits)
  next
    case (failed event ctx results ctx' w2)
    then show ?thesis using r
      by (auto simp: handle_sdk_def into_response_def response_builder_for_def split: option.splits)
  next
    case (sent event ctx results ctx' w2)
    have "event_context env req event = Ret ctx" using admission_event [OF sent(1)] by simp
    then show ?thesis using r sent builder_total [OF cors _ _ generated_context(3) [OF sent(3)]]
      by (auto simp: handle_sdk_def outcome_simps Let_def split: option.splits)
  qed
qed

lemma handle_sdk_Ret:
  assumes "env_good env" and "cors_good env"
    and "context_device_id (ge_crates env) (ge_secret env) (rq_headers req) \<noteq> Panic"
  shows "handle_sdk env run req w \<noteq> Panic"
  by (rule handle_sdk_read [OF assms(2) read_event_Ret [OF assms(1,3)]])

section \<open>Which requests panic\<close>

text \<open>A device id header that decodes to fewer bytes than a nonce has.\<close>

definition short_device_id :: "'db gateway_env \<Rightarrow> http_request \<Rightarrow> bool" where
  "short_device_id env req \<longleftrightarrow>
     (\<exists>s d. get_value (ge_crates env) (rq_headers req) ''XORC-Device-Id'' = Some s \<and>
        b64_decode (ge_crates env) s = Some d \<and> length d < 12)"

lemma short_device_id_Panic:
  assumes "crypto_good (ge_crates env) (ge_secret env)"
  shows "context_device_id (ge_crates env) (ge_secret env) (rq_headers req) = Panic \<longleftrightarrow> short_device_id env req"
  using assms
  by (auto simp: short_device_id_def context_device_id_Panic decrypt_Panic crypto_good_def aead_contract_def)

text \<open>Only a registration that looks its device up forces the pool.\<close>

lemma generate_event_results_Panic:
  assumes "generate_event_results env run ctx event w = Panic"
  shows "needs_device ctx event \<and> rr_blocking run"
  using assms
  by (auto simp: generate_event_results_eq create_new_device_eq fetch_id_def needs_device_def
      split: option.splits if_splits)

lemma handle_event_Panic:
  assumes "handle_event env run body event headers w = Panic"
    and ctx: "context_new (ge_crates env) (ge_secret env) headers (se_app_id (sb_environment event))
        (device_platform (sb_device event)) = Ret ctx"
  shows "admit_event env run body event headers ctx = Inr () \<and> needs_device ctx event"
proof -
  have v: "\<not> origin_refused env headers event"
    "validate (ge_crates env) (ge_default_token env) (rr_validate_apps run) event ctx body = Inr ()"
    using assms by (auto simp: handle_event_def split: if_splits sum.splits)
  have "generate_event_results env run ctx event w = Panic"
    using assms handle_event_generated [OF _ ctx] by blast
  from generate_event_results_Panic [OF this] v show ?thesis by (simp add: admit_event_def)
qed

lemma handle_event_unforced:
  assumes ctx: "context_new (ge_crates env) (ge_secret env) headers (se_app_id (sb_environment event))
        (device_platform (sb_device event)) = Ret ctx"
    and adm: "admit_event env run body event headers ctx = Inr ()" and dev: "needs_device ctx event"
    and force: "force_ifa_matching env = Panic"
  shows "handle_event env run body event headers w = Panic"
proof -
  have "\<not> origin_refused env headers event" "rr_blocking run"
    "validate (ge_crates env) (ge_default_token env) (rr_validate_apps run) event ctx body = Inr ()"
    using adm dev by (auto simp: admit_event_def outcome_simps split: if_splits)
  moreover have "generate_event_results env run ctx event w = Panic"
    using dev \<open>rr_blocking run\<close> force
    by (auto simp: generate_event_results_eq create_new_device_eq fetch_id_def fetch_device_id_def needs_device_def)
  ultimately show ?thesis using ctx by (simp add: handle_event_def)
qed

lemma read_event_undecodable: "request_event env req = None \<Longrightarrow> read_event env run req w \<noteq> Panic"
  by (auto simp: read_event_def request_event_def split: option.splits)

lemma read_event_decodable:
  assumes "request_event env req = Some event"
  obtains body where "rq_body req = Some body" "Option.bind (ge_json_parse env body) de_batch = Some event"
    "\<And>run w. read_event env run req w = handle_event env run body event (rq_headers req) w"
  using assms that by (auto simp: request_event_def read_event_def bind_eq_Some_conv split: option.splits)

lemma handle_sdk_Panic:
  assumes crypto: "crypto_good (ge_crates env) (ge_secret env)" and uuid: "uuid_contract (ge_crates env)"
    and cors: "cors_good env"
  shows "handle_sdk env run req w = Panic \<longleftrightarrow>
    (\<exists>event. request_event env req = Some event \<and>
       (short_device_id env req \<or>
        (\<exists>ctx. admission env run req = Ret (Inr (event, ctx)) \<and> needs_device ctx event \<and> force_ifa_matching env = Panic)))"
    (is "?panics \<longleftrightarrow> (\<exists>event. ?cause event)")
proof
  assume ?panics
  then have read: "read_event env run req w = Panic" using handle_sdk_read [OF cors] by blast
  then obtain event where ev: "request_event env req = Some event" using read_event_undecodable by fastforce
  then obtain body where body: "rq_body req = Some body" "Option.bind (ge_json_parse env body) de_batch = Some event"
    "handle_event env run body event (rq_headers req) w = Panic"
    using read read_event_decodable by metis
  show "\<exists>event. ?cause event"
  proof (cases "short_device_id env req")
    case True
    then show ?thesis using ev by blast
  next
    case False
    then obtain ctx where ctx: "context_new (ge_crates env) (ge_secret env) (rq_headers req)
        (se_app_id (sb_environment event)) (device_platform (sb_device event)) = Ret ctx"
      using context_new_not_Panic short_device_id_Panic [OF crypto] by blast
    from handle_event_Panic [OF body(3) ctx] have "admission env run req = Ret (Inr (event, ctx))" "needs_device ctx event"
      using body(1,2) ctx by (auto simp: admission_Inr event_context_def)
    moreover have "force_ifa_matching env = Panic"
    proof (rule ccontr)
      assume "force_ifa_matching env \<noteq> Panic"
      then have "env_good env" using crypto uuid by (simp add: env_good_def outcome_not_Panic)
      then show False using handle_event_Ret [OF _ ctx] body(3) by blast
    qed
    ultimately show ?thesis using ev by blast
  qed
next
  assume "\<exists>event. ?cause event"
  then obtain event where ev: "request_event env req = Some event" and cause: "?cause event" by blast
  then obtain body where body: "rq_body req = Some body" "Option.bind (ge_json_parse env body) de_batch = Some event"
    "read_event env run req w = handle_event env run body event (rq_headers req) w"
    using read_event_decodable by metis
  have "handle_event env run body event (rq_headers req) w = Panic"
  proof (cases "short_device_id env req")
    case True
    then have "context_new (ge_crates env) (ge_secret env) (rq_headers req) app p = Panic" for app p
      using short_device_id_Panic [OF crypto] by (simp add: context_new_Panic)
    then show ?thesis by (simp add: handle_event_def)
  next
    case False
    then obtain ctx where "admission env run req = Ret (Inr (event, ctx))" "needs_device ctx event"
      "force_ifa_matching env = Panic" using cause by blast
    then show ?thesis
      using body(1,2) handle_event_unforced by (auto simp: admission_Inr event_context_def)
  qed
  then show ?panics using body(3) by (simp add: handle_sdk_def)
qed

section \<open>The id a client gets back\<close>

lemma encrypt_text: "encrypt cr secret c r = Ret (ct, r') \<Longrightarrow> \<exists>bs. ct = Ciphertext (b64_encode cr bs)"
  by (auto simp: encrypt_def split_beta Let_def obind_eq_Ret)

lemma settle_text:
  "settle_device_id env found r = Ret (d, r') \<Longrightarrow> \<exists>bs. did_ciphertext d = Ciphertext (b64_encode (ge_crates env) bs)"
  by (auto simp: settle_device_id_def device_id_generate_def split_beta Let_def obind_eq_Ret
      dest: encrypt_text split: option.splits)

lemma fetch_device_id_text:
  assumes "fetch_device_id env app ifa en w = Ret (d, w')"
  shows "\<exists>bs. did_ciphertext d = Ciphertext (b64_encode (ge_crates env) bs)"
  using assms by (auto simp: fetch_device_id_def split_beta Let_def obind_eq_Ret dest: settle_text)

lemma create_new_device_fresh:
  assumes "env_good env" and "ctx_device_id ctx = None"
    and "create_new_device env run ctx event i w = Ret (Inr (results, ctx', event'), w')"
  obtains d bs where "ctx' = registered_context run ctx d" "sound_device env d"
    "did_ciphertext d = Ciphertext (b64_encode (ge_crates env) bs)"
    "results = [event_result_register i Success (ctx_api_token ctx') (did_ciphertext d)]"
    "fetch_device_id env (ctx_app_id ctx) (sd_ifa (sb_device event)) (sd_ifa_tracking_enabled (sb_device event)) w = Ret (d, w')"
proof -
  from assms(3) obtain d where d: "fetch_id env run ctx event w = Ret (Some d, w')"
    "ctx' = registered_context run ctx d"
    "results = [event_result_register i Success (ctx_api_token ctx') (did_ciphertext d)]"
    by (auto simp: create_new_device_eq obind_eq_Ret split: option.splits)
  then have f: "fetch_device_id env (ctx_app_id ctx) (sd_ifa (sb_device event))
      (sd_ifa_tracking_enabled (sb_device event)) w = Ret (d, w')"
    using assms(2) by (auto simp: fetch_id_def obind_eq_Ret split: if_splits)
  obtain bs where "did_ciphertext d = Ciphertext (b64_encode (ge_crates env) bs)"
    using fetch_device_id_text [OF f] by blast
  moreover have "sound_device env d"
    using fetch_device_id_good [OF assms(1), of "ctx_app_id ctx" "sd_ifa (sb_device event)"
        "sd_ifa_tracking_enabled (sb_device event)" w] f by (metis outcome.sel prod.inject)
  ultimately show thesis using that d(2,3) f by blast
qed

section \<open>Accepted requests\<close>

text \<open>What status 200 means.\<close>

lemma handle_sdk_sent:
  assumes "handle_sdk env run req w = Ret (resp, w')" and "rs_status resp = 200"
  obtains event ctx results ctx' where "request_event env req = Some event"
    "event_context env req event = Ret ctx" "generated run ctx event results ctx'"
    "events_counter (w_metrics w') = events_counter (w_metrics w) + length results"
    "\<And>v. origin_granted env req v \<Longrightarrow> (''access-control-allow-origin'', v) \<in> set (rs_headers resp)"
    "(''content-type'', as_bytes ''application/json'') \<in> set (rs_headers resp)"
proof -
  obtain res w1 where r: "read_event env run req w = Ret (res, w1)"
    using assms by (auto simp: handle_sdk_def obind_eq_Ret)
  then show thesis
  proof (cases rule: read_event_cases)
    case (rejected e c)
    then show thesis using assms r error_status_not_ok [of e]
      by (auto simp: handle_sdk_def obind_eq_Ret into_response_Ret)
  next
    case (failed event ctx results ctx' w2)
    then show thesis using assms r
      by (auto simp: handle_sdk_def obind_eq_Ret into_response_Ret)
  next
    case (sent event ctx results ctx' w2)
    then obtain b where b: "(case ge_cors env of
          Some cors \<Rightarrow> response_builder_origin (ge_crates env) cors (ctx_app_id ctx') (ctx_origin ctx') (ctx_platform ctx')
        | None \<Rightarrow> Ret response_builder) = Ret b"
      "resp = (add_header ''content-type'' (as_bytes ''application/json'') b)\<lparr>rs_status := 200, rs_body := reply_json env results\<rparr>"
      "w' = count (inc_request ''200'' ''sdk_events'') w1"
      using assms r by (auto simp: handle_sdk_def obind_eq_Ret Let_def)
    note ev = admission_event [OF sent(1)]
    have "(''access-control-allow-origin'', v) \<in> set (rs_headers resp)" if g: "origin_granted env req v" for v
    proof -
      from g ev obtain c o' where c: "ge_cors env = Some c" "device_platform (sb_device event) = Web"
        "get_value (ge_crates env) (rq_headers req) ''origin'' = Some o'"
        "valid_origin c (se_app_id (sb_environment event)) (Some o')" "hv_from_str (ge_crates env) o' = Some v"
        by (auto simp: origin_granted_def)
      moreover have "ctx_app_id ctx' = se_app_id (sb_environment event)" "ctx_platform ctx' = Web" "ctx_origin ctx' = Some o'"
        using generated_context [OF sent(3)] event_context_fields [of env req event ctx] ev c by simp_all
      ultimately have "response_builder_origin (ge_crates env) c (se_app_id (sb_environment event)) (Some o') Web = Ret b"
        using b(1) by simp
      then show ?thesis using c b(2) by (auto simp: response_builder_origin_granted add_header_def)
    qed
    moreover have "events_counter (w_metrics w') = events_counter (w_metrics w) + length results"
      using sent(4,5) b(3) by (auto simp: quiet_def metric_defs)
    moreover have "(''content-type'', as_bytes ''application/json'') \<in> set (rs_headers resp)"
      by (simp add: b(2) add_header_def)
    ultimately show thesis using that ev sent(3) by blast
  qed
qed

lemma generated_length:
  "generated run ctx event results ctx' \<Longrightarrow>
     length results = (if registration_of event = None then length (sb_events event) else 1)"
  by (auto simp: generated_def split: option.splits)

end
