(* ===== verification/Races.thy ===== *)
theory Races
  imports Gateway_Facts
begin

text \<open>
  What happens when requests and the updater overlap. First the registry: every update of it, over
  any state of the database, as a step on the shared cell. Then registrations: the closure of
  \<open>create_new_device\<close> looks an advertising id up and stores it in two separate queries, so other
  requests can act in between; a client of the step relation is one such closure.
\<close>

section \<open>Updates of the registry\<close>

inductive registry_step :: "crates \<Rightarrow> 'db scylla \<Rightarrow> string \<Rightarrow> app_registry \<Rightarrow> app_registry \<Rightarrow> bool"
  for cr :: crates and svc :: "'db scylla" and ks :: string where
  update: "update_apps cr svc ks reg w = Ret (r, reg', w') \<Longrightarrow> registry_step cr svc ks reg reg'"

text \<open>
  The applications of a complete load: the database answered the query for the applications of the
  keyspace, every row of the answer was read, and the last one of a key wins. An answer without rows
  is an empty load.
\<close>

definition complete_load :: "crates \<Rightarrow> 'db scylla \<Rightarrow> string \<Rightarrow> (string \<rightharpoonup> application) \<Rightarrow> bool" where
  "complete_load cr svc ks apps \<longleftrightarrow>
     (\<exists>db frame db'.
        run_cql svc
          \<lparr>q_text = ''SELECT id, sdk_token, ios_api_secret, android_api_secret, web_api_secret FROM '' @
                    ks @ ''.applications'', q_values = []\<rparr> db = (Some frame, db') \<and>
        (case frame_body frame of
           Some (Some rows) \<Rightarrow>
             (\<forall>row \<in> set rows. row_app cr row \<noteq> None) \<and>
             apps = map_of (rev (map (\<lambda>row. the (row_app cr row)) rows))
         | _ \<Rightarrow> apps = Map.empty))"

definition registry_inv :: "crates \<Rightarrow> 'db scylla \<Rightarrow> string \<Rightarrow> app_registry \<Rightarrow> app_registry \<Rightarrow> bool" where
  "registry_inv cr svc ks reg0 reg \<longleftrightarrow>
     reg_allow_empty_signature reg = reg_allow_empty_signature reg0 \<and> reg_pool reg = reg_pool reg0 \<and>
     (reg_apps reg = reg_apps reg0 \<or> reg_pool reg0 \<and> complete_load cr svc ks (reg_apps reg))"

lemma load_rows_all:
  assumes "load_rows cr rows Map.empty m = Ret (apps, m')"
  shows "(\<forall>row \<in> set rows. row_app cr row \<noteq> None) \<and> apps = map_of (rev (map (\<lambda>row. the (row_app cr row)) rows))"
proof -
  have "\<forall>row \<in> set rows. row_app cr row \<noteq> None"
    using assms load_rows_Panic [of cr rows Map.empty m] by (metis outcome.distinct(1))
  then show ?thesis using load_rows_Ret [OF assms] by simp
qed

text \<open>What an update does with the registry: nothing, or it replaces the applications by those of
  the answer it got.\<close>

lemma update_apps_apps:
  assumes "update_apps cr svc ks reg w = Ret (r, reg', w')"
  shows "reg_apps reg' = reg_apps reg \<or> reg_pool reg \<and> complete_load cr svc ks (reg_apps reg')"
proof (cases "reg_pool reg \<and> fst (pool_get svc (w_db w))")
  case True
  obtain result db' where q: "run_cql svc (select_applications ks) (snd (pool_get svc (w_db w))) = (result, db')"
    by fastforce
  show ?thesis
  proof (cases result)
    case None
    then show ?thesis using assms True q by (simp add: update_apps_def split_beta Let_def)
  next
    case (Some frame)
    have "complete_load cr svc ks (reg_apps reg')"
    proof (cases "Option.bind (frame_body frame) id")
      case None
      then have "reg_apps reg' = Map.empty"
        using assms True q Some by (auto simp: update_apps_def swap_apps_def split_beta Let_def)
      then show ?thesis
        using q Some None unfolding complete_load_def select_applications_def
        by (intro exI conjI) (auto split: option.splits)
    next
      case rows: (Some rows)
      then obtain apps m where "load_rows cr rows Map.empty (w_metrics w) = Ret (apps, m)" "reg_apps reg' = apps"
        using assms True q Some by (auto simp: update_apps_def swap_apps_def split_beta Let_def obind_eq_Ret)
      then show ?thesis
        using q Some rows load_rows_all unfolding complete_load_def select_applications_def
        by (intro exI conjI) (auto simp: bind_eq_Some_conv split: option.splits)
    qed
    then show ?thesis using True by simp
  qed
next
  case False
  then show ?thesis using assms by (auto simp: update_apps_def split_beta Let_def split: if_splits)
qed

interpretation registry_updates: invariant_of "\<lambda>reg. reg = reg0" "registry_step cr svc ks" "registry_inv cr svc ks reg0"
  for cr :: crates and svc :: "'db scylla" and ks :: string and reg0 :: app_registry
proof unfold_locales
  show "registry_inv cr svc ks reg0 t" if "registry_inv cr svc ks reg0 s" "registry_step cr svc ks s t" for s t
    using that(2)
  proof cases
    case (update w r w')
    then show ?thesis
      using that(1) update_apps_keeps_policy [OF update] update_apps_apps [OF update]
      by (auto simp: registry_inv_def)
  qed
qed (simp add: registry_inv_def)

text \<open>
  Every application is stored under its own id: an invariant of the registry, from its creation on,
  whether it comes from the configuration or from the database.
\<close>

definition apps_keyed :: "app_registry \<Rightarrow> bool" where
  "apps_keyed reg \<longleftrightarrow> (\<forall>k app. reg_apps reg k = Some app \<longrightarrow> app_key app = k)"

lemma map_of_keyed: "map_of ps k = Some app \<Longrightarrow> \<forall>(i, a) \<in> set ps. app_key a = i \<Longrightarrow> app_key app = k"
  by (auto dest: map_of_SomeD)

lemma row_app_keyed: "row_app cr row = Some (k, app) \<Longrightarrow> app_key app = k"
  by (auto simp: row_app_def app_of_def split: Option.bind_splits)

lemma complete_load_keyed:
  assumes "complete_load cr svc ks apps" and "apps k = Some app"
  shows "app_key app = k"
proof -
  obtain rows where rows: "\<forall>row \<in> set rows. row_app cr row \<noteq> None"
    "map_of (rev (map (\<lambda>row. the (row_app cr row)) rows)) k = Some app"
  proof -
    from assms(1) obtain frame :: frame where "case frame_body frame of
        Some (Some rows) \<Rightarrow> (\<forall>row \<in> set rows. row_app cr row \<noteq> None) \<and>
          apps = map_of (rev (map (\<lambda>row. the (row_app cr row)) rows))
      | _ \<Rightarrow> apps = Map.empty" unfolding complete_load_def by blast
    then show thesis using assms(2) that by (auto split: option.splits)
  qed
  have "\<forall>(i, a) \<in> set (map (\<lambda>row. the (row_app cr row)) rows). app_key a = i"
    using rows(1) row_app_keyed by fastforce
  then show ?thesis using map_of_keyed [OF rows(2)] by simp
qed

lemma load_test_apps_keyed:
  assumes "load_test_apps cr ts Map.empty m = (apps, m')" and "apps k = Some app"
  shows "app_key app = k"
proof -
  have "map_of (rev (map (\<lambda>t. (tc_app_id t, test_app_of cr t)) ts)) k = Some app"
    using assms load_test_apps_eq [of cr ts Map.empty m] by simp
  then show ?thesis by (rule map_of_keyed) (auto simp: test_app_of_def app_of_def)
qed

lemma app_registry_new_keyed:
  assumes "app_registry_new cr svc cfg w = Ret (reg, w')"
  shows "apps_keyed reg"
proof (cases "cas_manage_apps (cfg_cassandra cfg)")
  case True
  let ?reg0 = "\<lparr>reg_allow_empty_signature = gc_allow_empty_signature (cfg_gateway cfg), reg_apps = Map.empty,
    reg_pool = True\<rparr>"
  obtain r where "update_apps cr svc (cas_keyspace (cfg_cassandra cfg)) ?reg0 w = Ret (r, reg, w')"
    using assms True by (auto simp: app_registry_new_def obind_eq_Ret Let_def split_beta)
  then show ?thesis using update_apps_apps complete_load_keyed unfolding apps_keyed_def by fastforce
next
  case False
  then obtain ts where ts: "cfg_test_apps cfg = Some ts"
    using assms by (auto simp: app_registry_new_def obind_eq_Ret unwrap_eq)
  obtain apps m where load: "load_test_apps cr ts Map.empty (w_metrics w) = (apps, m)" by fastforce
  then have "reg_apps reg = apps" using assms False ts by (auto simp: app_registry_new_def)
  then show ?thesis using load_test_apps_keyed [OF load] by (simp add: apps_keyed_def)
qed

section \<open>Overlapping registrations\<close>

datatype client = Fresh | Looked "string option" | Stored device_id

text \<open>What a client registers: its application, advertising id and tracking flag.\<close>

type_synonym client_request = "string \<times> string option \<times> bool"

record 'db registrations =
  rg_world :: "'db world"
  rg_clients :: "nat \<Rightarrow> client"

inductive client_step ::
  "'db gateway_env \<Rightarrow> (nat \<Rightarrow> client_request) \<Rightarrow> 'db registrations \<Rightarrow> 'db registrations \<Rightarrow> bool"
  for env :: "'db gateway_env" and who :: "nat \<Rightarrow> client_request" where
  look: "rg_clients s j = Fresh \<Longrightarrow> who j = (app, ifa, en) \<Longrightarrow> force_ifa_matching env = Ret () \<Longrightarrow>
    get_id_for_ifa (ge_crates env) (ge_scylla env) (ge_keyspace env) app ifa en (rg_world s) = (found, w') \<Longrightarrow>
    client_step env who s \<lparr>rg_world = w', rg_clients = (rg_clients s)(j := Looked found)\<rparr>"
| store: "rg_clients s j = Looked found \<Longrightarrow> who j = (app, ifa, en) \<Longrightarrow>
    settle_device_id env found (w_rng (rg_world s)) = Ret (d, r) \<Longrightarrow>
    put_id_for_ifa (ge_crates env) (ge_scylla env) (ge_keyspace env) app (did_cleartext d) ifa en
      ((rg_world s)\<lparr>w_rng := r\<rparr>) = (res, w') \<Longrightarrow>
    client_step env who s \<lparr>rg_world = w', rg_clients = (rg_clients s)(j := Stored d)\<rparr>"

text \<open>A client that is not interrupted does what the closure does.\<close>

lemma uninterrupted_client:
  assumes "fetch_device_id env app ifa en (rg_world s) = Ret (d, w')"
    and "rg_clients s j = Fresh" and "who j = (app, ifa, en)"
  shows "(client_step env who)\<^sup>*\<^sup>* s \<lparr>rg_world = w', rg_clients = (rg_clients s)(j := Stored d)\<rparr>"
proof -
  obtain found w1 where g: "get_id_for_ifa (ge_crates env) (ge_scylla env) (ge_keyspace env) app ifa en (rg_world s)
      = (found, w1)" by fastforce
  have ready: "force_ifa_matching env = Ret ()" using assms(1) by (simp add: fetch_device_id_def obind_eq_Ret)
  obtain r res where d: "settle_device_id env found (w_rng w1) = Ret (d, r)"
    "put_id_for_ifa (ge_crates env) (ge_scylla env) (ge_keyspace env) app (did_cleartext d) ifa en
       (w1\<lparr>w_rng := r\<rparr>) = (res, w')"
    using assms(1) g by (auto simp: fetch_device_id_def obind_eq_Ret split_beta prod_eq_iff)
  let ?s1 = "\<lparr>rg_world = w1, rg_clients = (rg_clients s)(j := Looked found)\<rparr>"
  have "client_step env who s ?s1" using g assms(2,3) ready by (auto intro: client_step.look)
  moreover have "client_step env who ?s1 \<lparr>rg_world = w', rg_clients = (rg_clients s)(j := Stored d)\<rparr>"
    using client_step.store [of ?s1 j found who app ifa en env d r res w'] d assms(3) by simp
  ultimately show ?thesis by (meson converse_rtranclp_into_rtranclp r_into_rtranclp)
qed

section \<open>The key of a registration\<close>

definition request_key :: "crates \<Rightarrow> client_request \<Rightarrow> (uuid \<times> uuid) option" where
  "request_key cr q =
     (case q of (app, ifa, en) \<Rightarrow>
        (case (uuid_parse_str cr app, parse_ifa cr ifa en) of
           (Some a, Some i) \<Rightarrow> Some (a, i) | _ \<Rightarrow> None))"

lemma request_key_Some:
  "request_key cr (app, ifa, en) = Some (a, i) \<longleftrightarrow> uuid_parse_str cr app = Some a \<and> parse_ifa cr ifa en = Some i"
  by (auto simp: request_key_def split: option.splits)

lemma request_key_None:
  "request_key cr (app, ifa, en) = None \<longleftrightarrow> uuid_parse_str cr app = None \<or> parse_ifa cr ifa en = None"
  by (auto simp: request_key_def split: option.splits)

text \<open>The pool is built, the cryptography works, and the database holds the table; it may fail.\<close>

definition database_good :: "'db gateway_env \<Rightarrow> ('db \<Rightarrow> ifa_view) \<Rightarrow> bool" where
  "database_good env view \<longleftrightarrow> env_good env \<and> ifa_table (ge_scylla env) (ge_keyspace env) view"

lemma settle_known:
  "settle_device_id env (Some i) r = Ret (d, r') \<Longrightarrow> did_cleartext d = Cleartext i"
  by (auto simp: settle_device_id_def obind_eq_Ret)

lemma put_other_key:
  assumes "ifa_table svc ks view" and "put_id_for_ifa cr svc ks app d ifa en w = (res, w')"
    and "request_key cr (app, ifa, en) \<noteq> Some key"
  shows "view (w_db w') key = view (w_db w) key"
proof (cases "request_key cr (app, ifa, en) = None \<or> uuid_parse_str cr (clear_value d) = None")
  case True
  then have "w' = w" using assms(2) put_untracked [of cr ifa en app d svc ks w] by (auto simp: request_key_None)
  then show ?thesis by simp
next
  case False
  then obtain a i e where "request_key cr (app, ifa, en) = Some (a, i)" "uuid_parse_str cr (clear_value d) = Some e"
    by auto
  moreover from this have "uuid_parse_str cr app = Some a" "parse_ifa cr ifa en = Some i"
    by (simp_all add: request_key_Some)
  ultimately show ?thesis
    using known_ifas.put_elsewhere [of svc ks view cr ifa en i app a d e w res w' key] assms by auto
qed

lemma put_same_key:
  assumes "ifa_table svc ks view" and "put_id_for_ifa cr svc ks app d ifa en w = (res, w')"
    and "request_key cr (app, ifa, en) = Some key" and "uuid_contract cr"
    and "did_cleartext d' = Cleartext (uuid_hyphenated cr e)" "d = did_cleartext d'" "view (w_db w) key = Some e"
  shows "view (w_db w') key = Some e"
proof -
  obtain a i where "key = (a, i)" by (cases key)
  then have "store_outcome key e view res w w'"
    using known_ifas.put_outcome [of svc ks view cr ifa en i app a d e w res w'] assms uuid_contractD(1) [OF assms(4), of e]
    by (auto simp: request_key_Some)
  then show ?thesis using assms(7) by (auto simp: store_outcome_def)
qed

text \<open>A lookup that was not counted as an error gives the id of the table, or none if it has none.\<close>

lemma get_reads:
  assumes "ifa_table svc ks view" and "request_key cr (app, ifa, en) = Some key"
    and "get_id_for_ifa cr svc ks app ifa en w = (found, w')"
    and "scylladb_request_counter (w_metrics w') (''get'', ''error'') = scylladb_request_counter (w_metrics w) (''get'', ''error'')"
  shows "found = map_option (uuid_hyphenated cr) (view (w_db w) key)"
proof -
  obtain a i where "key = (a, i)" by (cases key)
  then have "lookup_outcome cr (view (w_db w) key) found w w'"
    using known_ifas.get_outcome [OF assms(1) _ _ assms(3)] assms(2) by (auto simp: request_key_Some)
  then show ?thesis using assms(4) by (rule lookup_outcome_reads)
qed

text \<open>What the closure of a registration does, looked at from outside: how it settles the id, and what a
  store that was counted as a success leaves in the table.\<close>

lemma fetch_device_id_effects:
  assumes db: "database_good env view" and fetch: "fetch_device_id env app ifa en w = Ret (d, w')"
  obtains u found w1 r where "did_cleartext d = Cleartext (uuid_hyphenated (ge_crates env) u)" "sound_device env d"
    "get_id_for_ifa (ge_crates env) (ge_scylla env) (ge_keyspace env) app ifa en w = (found, w1)"
    "settle_device_id env found (w_rng w) = Ret (d, r)"
    "\<And>i. found = Some i \<Longrightarrow> did_cleartext d = Cleartext i"
    "scylladb_request_counter (w_metrics w') (''get'', ''error'') = scylladb_request_counter (w_metrics w1) (''get'', ''error'')"
    "request_key (ge_crates env) (app, ifa, en) = None \<Longrightarrow> view (w_db w') = view (w_db w)"
    "\<And>key. request_key (ge_crates env) (app, ifa, en) = Some key \<Longrightarrow>
       scylladb_request_counter (w_metrics w') (''put'', ''ok'') \<noteq> scylladb_request_counter (w_metrics w) (''put'', ''ok'') \<Longrightarrow>
       view (w_db w') = (view (w_db w))(key \<mapsto> u)"
proof -
  let ?cr = "ge_crates env"
  let ?put = "\<lambda>r w1. put_id_for_ifa ?cr (ge_scylla env) (ge_keyspace env) app (did_cleartext d) ifa en (w1\<lparr>w_rng := r\<rparr>)"
  have good: "env_good env" and tab: "ifa_table (ge_scylla env) (ge_keyspace env) view" and uuid: "uuid_contract ?cr"
    using db by (simp_all add: database_good_def env_good_def)
  obtain found w1 where got: "get_id_for_ifa ?cr (ge_scylla env) (ge_keyspace env) app ifa en w = (found, w1)" by fastforce
  obtain r res where settle: "settle_device_id env found (w_rng w1) = Ret (d, r)" and put: "?put r w1 = (res, w')"
    using fetch got by (auto simp: fetch_device_id_def obind_eq_Ret split_beta prod_eq_iff)
  have sound: "sound_device env d"
    using fetch_device_id_good [OF good, of app ifa en w] fetch by (metis outcome.sel prod.inject)
  then obtain u where u: "did_cleartext d = Cleartext (uuid_hyphenated ?cr u)" by (auto simp: sound_device_def)
  have before: "view (w_db w1) = view (w_db w)" by (rule known_ifas.get_keeps [OF tab got])
  have none: "view (w_db w') = view (w_db w)" if "request_key ?cr (app, ifa, en) = None"
    using put known_ifas.no_key_no_access [of ?cr ifa en app "ge_scylla env" "ge_keyspace env" "w1\<lparr>w_rng := r\<rparr>"
        "did_cleartext d"] that before by (auto simp: request_key_None)
  have stored: "view (w_db w') = (view (w_db w))(key \<mapsto> u)"
    if "request_key ?cr (app, ifa, en) = Some key"
      "scylladb_request_counter (w_metrics w') (''put'', ''ok'') \<noteq> scylladb_request_counter (w_metrics w) (''put'', ''ok'')"
    for key
  proof -
    obtain a i where "key = (a, i)" by (cases key)
    then have "store_outcome key u view res (w1\<lparr>w_rng := r\<rparr>) w'"
      using known_ifas.put_outcome [OF tab _ _ _ put] that(1) u uuid_contractD(1) [OF uuid, of u]
      by (simp add: request_key_Some)
    from store_outcome_ok(2) [OF this] show ?thesis
      using that(2) get_counts_up(2) [OF got] before by simp
  qed
  have rng: "w_rng w1 = w_rng w" by (rule get_frame(1) [OF got])
  show thesis
    by (rule that [OF u sound got settle [unfolded rng] _ _ none stored])
      (use settle_known settle put_counts_get [OF put] in auto)
qed

section \<open>Unknown devices\<close>

text \<open>
  Two requests of one new device can both look it up before either stores it. Each then draws an
  id of its own; the second one stored is the one later requests get.
\<close>

lemma lookup_unknown:
  assumes "database_good env view" and "request_key (ge_crates env) (app, ifa, en) = Some key"
    and "view (w_db w) key = None"
    and "get_id_for_ifa (ge_crates env) (ge_scylla env) (ge_keyspace env) app ifa en w = (found, w')"
  shows "found = None" and "view (w_db w') key = None" and "w_rng w' = w_rng w"
proof -
  have tab: "ifa_table (ge_scylla env) (ge_keyspace env) view" using assms(1) by (simp add: database_good_def)
  show "found = None"
    using known_ifas.get_outcome [OF tab _ _ assms(4), of "snd key" "fst key"] assms(2,3)
    by (cases key) (auto simp: request_key_Some lookup_outcome_def)
  show "view (w_db w') key = None" using known_ifas.get_keeps [OF tab assms(4)] assms(3) by simp
  show "w_rng w' = w_rng w" by (rule get_frame(1) [OF assms(4)])
qed

lemma overlapping_registrations:
  assumes db: "database_good env view" and key: "request_key (ge_crates env) q = Some key"
    and unknown: "view (w_db (rg_world s)) key = None"
    and who: "who 0 = q" "who 1 = q" and fresh: "rg_clients s 0 = Fresh" "rg_clients s 1 = Fresh"
    and gen0: "device_id_generate (ge_crates env) (ge_secret env) (w_rng (rg_world s)) = Ret (d0, r1)"
    and gen1: "device_id_generate (ge_crates env) (ge_secret env) r1 = Ret (d1, r2)"
  shows "\<exists>t. (client_step env who)\<^sup>*\<^sup>* s t \<and> rg_clients t 0 = Stored d0 \<and> rg_clients t 1 = Stored d1"
proof -
  obtain app ifa en where q: "q = (app, ifa, en)" by (cases q)
  let ?get = "get_id_for_ifa (ge_crates env) (ge_scylla env) (ge_keyspace env) app ifa en"
  let ?put = "\<lambda>d. put_id_for_ifa (ge_crates env) (ge_scylla env) (ge_keyspace env) app (did_cleartext d) ifa en"
  note key' = key [unfolded q]
  have ready: "force_ifa_matching env = Ret ()" using db by (simp add: database_good_def env_good_def)
  obtain f0 w1 where g0: "?get (rg_world s) = (f0, w1)" by fastforce
  note l0 = lookup_unknown [OF db key' unknown g0]
  obtain f1 w2 where g1: "?get w1 = (f1, w2)" by fastforce
  note l1 = lookup_unknown [OF db key' l0(2) g1]
  obtain x0 w3 where p0: "?put d0 (w2\<lparr>w_rng := r1\<rparr>) = (x0, w3)" by fastforce
  obtain x1 w4 where p1: "?put d1 (w3\<lparr>w_rng := r2\<rparr>) = (x1, w4)" by fastforce
  have r3: "w_rng w3 = r1" using put_frame(1) [OF p0] by simp
  let ?c1 = "(rg_clients s)(0 := Looked None)" let ?c2 = "?c1(1 := Looked None)"
  let ?c3 = "?c2(0 := Stored d0)" let ?c4 = "?c3(1 := Stored d1)"
  have "client_step env who s \<lparr>rg_world = w1, rg_clients = ?c1\<rparr>"
    using client_step.look [of s 0 who app ifa en env f0 w1] fresh who q g0 l0(1) ready by simp
  moreover have "client_step env who \<lparr>rg_world = w1, rg_clients = ?c1\<rparr> \<lparr>rg_world = w2, rg_clients = ?c2\<rparr>"
    using client_step.look [of "\<lparr>rg_world = w1, rg_clients = ?c1\<rparr>" 1 who app ifa en env f1 w2] fresh who q g1 l1(1) ready
    by simp
  moreover have "client_step env who \<lparr>rg_world = w2, rg_clients = ?c2\<rparr> \<lparr>rg_world = w3, rg_clients = ?c3\<rparr>"
    using client_step.store [of "\<lparr>rg_world = w2, rg_clients = ?c2\<rparr>" 0 None who app ifa en env d0 r1 x0 w3]
      who q p0 gen0 l0(3) l1(3) by (simp add: settle_device_id_def)
  moreover have "client_step env who \<lparr>rg_world = w3, rg_clients = ?c3\<rparr> \<lparr>rg_world = w4, rg_clients = ?c4\<rparr>"
    using client_step.store [of "\<lparr>rg_world = w3, rg_clients = ?c3\<rparr>" 1 None who app ifa en env d1 r2 x1 w4]
      who q p1 gen1 r3 by (simp add: settle_device_id_def)
  ultimately have "(client_step env who)\<^sup>*\<^sup>* s \<lparr>rg_world = w4, rg_clients = ?c4\<rparr>"
    by (meson converse_rtranclp_into_rtranclp r_into_rtranclp)
  then show ?thesis by (intro exI [of _ "\<lparr>rg_world = w4, rg_clients = ?c4\<rparr>"]) simp
qed

end
