(* ===== verification/Shutdown.thy ===== *)
theory Shutdown
  imports Gateway
begin

text \<open>
  \<open>src/main.rs\<close> with the loops of \<open>AppRegistry::run_updater\<close> and \<open>Gateway::run\<close>: the three
  threads of the process as a step relation, from start-up to the end of \<open>main\<close>. A step is one
  action on the shared state: the control flag, the park token of the updater, the one-shot
  channel to the server, the connections the server works on. The steps interleave arbitrarily
  and memory is sequentially consistent. What is checked: \<open>main\<close> returns from a shutdown only
  when everything has come to rest, no update starts after the flag is cleared, and a shutdown
  that has begun ends, or waits for clients that keep their connections open.
\<close>

datatype thread = UpdaterThread | ServerThread

datatype main_pc =
    AwaitSignal | SignalFailed
  | SendStop | StoreFlag | UnparkThread thread | JoinThread thread
  | MainDone | MainPanicked

datatype updater_pc = LoadRegistry | CheckFlag | Update | ParkTimeout | UpdaterExited | UpdaterPanicked

datatype server_pc = Starting | Serving | Draining | ServerExited | ServerPanicked

record process =
  pr_main :: main_pc
  pr_control :: bool
  pr_updater :: updater_pc
  pr_token :: bool
  pr_stop_sent :: bool
  pr_server :: server_pc
  pr_connections :: nat

definition process_start :: "process \<Rightarrow> bool" where
  "process_start s \<longleftrightarrow>
     s = \<lparr>pr_main = AwaitSignal, pr_control = True, pr_updater = LoadRegistry, pr_token = False,
          pr_stop_sent = False, pr_server = Starting, pr_connections = 0\<rparr>"

fun finished :: "thread \<Rightarrow> process \<Rightarrow> bool" where
  "finished UpdaterThread s \<longleftrightarrow> pr_updater s = UpdaterExited"
| "finished ServerThread s \<longleftrightarrow> pr_server s = ServerExited"

fun panicked :: "thread \<Rightarrow> process \<Rightarrow> bool" where
  "panicked UpdaterThread s \<longleftrightarrow> pr_updater s = UpdaterPanicked"
| "panicked ServerThread s \<longleftrightarrow> pr_server s = ServerPanicked"

text \<open>The threads in the order of the vector, and what \<open>main\<close> does after joining one.\<close>

fun after_join :: "thread \<Rightarrow> main_pc" where
  "after_join UpdaterThread = UnparkThread ServerThread"
| "after_join ServerThread = MainDone"

fun unpark :: "thread \<Rightarrow> process \<Rightarrow> process" where
  "unpark UpdaterThread s = s\<lparr>pr_token := True\<rparr>"
| "unpark ServerThread s = s"

section \<open>Steps\<close>

text \<open>The main thread. A failing signal stream skips the whole closure.\<close>

inductive main_step :: "process \<Rightarrow> process \<Rightarrow> bool" where
  no_signals: "pr_main s = AwaitSignal \<Longrightarrow> main_step s (s\<lparr>pr_main := SignalFailed\<rparr>)"
| signal: "pr_main s = AwaitSignal \<Longrightarrow> main_step s (s\<lparr>pr_main := SendStop\<rparr>)"
| send_stop: "pr_main s = SendStop \<Longrightarrow> main_step s (s\<lparr>pr_main := StoreFlag, pr_stop_sent := True\<rparr>)"
| store_flag: "pr_main s = StoreFlag \<Longrightarrow>
    main_step s (s\<lparr>pr_main := UnparkThread UpdaterThread, pr_control := False\<rparr>)"
| unpark_thread: "pr_main s = UnparkThread t \<Longrightarrow> main_step s ((unpark t s)\<lparr>pr_main := JoinThread t\<rparr>)"
| join_ok: "pr_main s = JoinThread t \<Longrightarrow> finished t s \<Longrightarrow> main_step s (s\<lparr>pr_main := after_join t\<rparr>)"
| join_panic: "pr_main s = JoinThread t \<Longrightarrow> panicked t s \<Longrightarrow> main_step s (s\<lparr>pr_main := MainPanicked\<rparr>)"

text \<open>
  The updater: the registry is built on first use; a park ends with a token, which it consumes,
  or by itself (time-out or spuriously).
\<close>

inductive updater_step :: "process \<Rightarrow> process \<Rightarrow> bool" where
  load_ok: "pr_updater s = LoadRegistry \<Longrightarrow> updater_step s (s\<lparr>pr_updater := CheckFlag\<rparr>)"
| load_panic: "pr_updater s = LoadRegistry \<Longrightarrow> updater_step s (s\<lparr>pr_updater := UpdaterPanicked\<rparr>)"
| check_true: "pr_updater s = CheckFlag \<Longrightarrow> pr_control s \<Longrightarrow> updater_step s (s\<lparr>pr_updater := Update\<rparr>)"
| check_false: "pr_updater s = CheckFlag \<Longrightarrow> \<not> pr_control s \<Longrightarrow> updater_step s (s\<lparr>pr_updater := UpdaterExited\<rparr>)"
| update_done: "pr_updater s = Update \<Longrightarrow> updater_step s (s\<lparr>pr_updater := ParkTimeout\<rparr>)"
| update_panic: "pr_updater s = Update \<Longrightarrow> updater_step s (s\<lparr>pr_updater := UpdaterPanicked\<rparr>)"
| park_token: "pr_updater s = ParkTimeout \<Longrightarrow> pr_token s \<Longrightarrow>
    updater_step s (s\<lparr>pr_updater := CheckFlag, pr_token := False\<rparr>)"
| park_end: "pr_updater s = ParkTimeout \<Longrightarrow> updater_step s (s\<lparr>pr_updater := CheckFlag\<rparr>)"

text \<open>
  The server thread: binding may panic; it serves until the stop message is there or the server
  fails; then it accepts nothing more and ends when its last connection does. Nothing in the code
  ends a connection: \<open>connection_end\<close> is the client closing it, and with keep-alive a client may never
  do so. The statements about the end of a shutdown tell this step from the steps of the process.
\<close>

inductive server_step :: "process \<Rightarrow> process \<Rightarrow> bool" where
  bind_ok: "pr_server s = Starting \<Longrightarrow> server_step s (s\<lparr>pr_server := Serving\<rparr>)"
| bind_panic: "pr_server s = Starting \<Longrightarrow> server_step s (s\<lparr>pr_server := ServerPanicked\<rparr>)"
| accept: "pr_server s = Serving \<Longrightarrow> server_step s (s\<lparr>pr_connections := Suc (pr_connections s)\<rparr>)"
| connection_end: "pr_server s \<in> {Serving, Draining} \<Longrightarrow> pr_connections s = Suc n \<Longrightarrow>
    server_step s (s\<lparr>pr_connections := n\<rparr>)"
| stop_received: "pr_server s = Serving \<Longrightarrow> pr_stop_sent s \<Longrightarrow> server_step s (s\<lparr>pr_server := Draining\<rparr>)"
| server_error: "pr_server s = Serving \<Longrightarrow> server_step s (s\<lparr>pr_server := Draining\<rparr>)"
| idle: "pr_server s = Draining \<Longrightarrow> pr_connections s = 0 \<Longrightarrow> server_step s (s\<lparr>pr_server := ServerExited\<rparr>)"

definition process_step :: "process \<Rightarrow> process \<Rightarrow> bool" where
  "process_step s t \<longleftrightarrow> main_step s t \<or> updater_step s t \<or> server_step s t"

inductive_cases main_stepE: "main_step s t"
inductive_cases updater_stepE: "updater_step s t"
inductive_cases server_stepE: "server_step s t"

lemma process_stepE:
  assumes "process_step s t"
    and "main_step s t \<Longrightarrow> P" "updater_step s t \<Longrightarrow> P" "server_step s t \<Longrightarrow> P"
  shows P
  using assms by (auto simp: process_step_def)

text \<open>The steps as a function, so that runs can be computed.\<close>

fun main_next :: "main_pc \<Rightarrow> process \<Rightarrow> process list" where
  "main_next AwaitSignal s = [s\<lparr>pr_main := SignalFailed\<rparr>, s\<lparr>pr_main := SendStop\<rparr>]"
| "main_next SendStop s = [s\<lparr>pr_main := StoreFlag, pr_stop_sent := True\<rparr>]"
| "main_next StoreFlag s = [s\<lparr>pr_main := UnparkThread UpdaterThread, pr_control := False\<rparr>]"
| "main_next (UnparkThread t) s = [(unpark t s)\<lparr>pr_main := JoinThread t\<rparr>]"
| "main_next (JoinThread t) s =
     (if finished t s then [s\<lparr>pr_main := after_join t\<rparr>]
      else if panicked t s then [s\<lparr>pr_main := MainPanicked\<rparr>] else [])"
| "main_next _ s = []"

fun updater_next :: "updater_pc \<Rightarrow> process \<Rightarrow> process list" where
  "updater_next LoadRegistry s = [s\<lparr>pr_updater := CheckFlag\<rparr>, s\<lparr>pr_updater := UpdaterPanicked\<rparr>]"
| "updater_next CheckFlag s = [s\<lparr>pr_updater := if pr_control s then Update else UpdaterExited\<rparr>]"
| "updater_next Update s = [s\<lparr>pr_updater := ParkTimeout\<rparr>, s\<lparr>pr_updater := UpdaterPanicked\<rparr>]"
| "updater_next ParkTimeout s =
     s\<lparr>pr_updater := CheckFlag\<rparr> # (if pr_token s then [s\<lparr>pr_updater := CheckFlag, pr_token := False\<rparr>] else [])"
| "updater_next _ s = []"

fun server_next :: "server_pc \<Rightarrow> process \<Rightarrow> process list" where
  "server_next Starting s = [s\<lparr>pr_server := Serving\<rparr>, s\<lparr>pr_server := ServerPanicked\<rparr>]"
| "server_next Serving s =
     [s\<lparr>pr_connections := Suc (pr_connections s)\<rparr>, s\<lparr>pr_server := Draining\<rparr>] @
     (if pr_connections s = 0 then [] else [s\<lparr>pr_connections := pr_connections s - 1\<rparr>])"
| "server_next Draining s =
     (if pr_connections s = 0 then [s\<lparr>pr_server := ServerExited\<rparr>] else [s\<lparr>pr_connections := pr_connections s - 1\<rparr>])"
| "server_next _ s = []"

definition process_next :: "process \<Rightarrow> process list" where
  "process_next s = main_next (pr_main s) s @ updater_next (pr_updater s) s @ server_next (pr_server s) s"

lemma finished_not_panicked: "finished t s \<Longrightarrow> \<not> panicked t s"
  by (cases t) simp_all

lemma main_next_iff: "t \<in> set (main_next (pr_main s) s) \<longleftrightarrow> main_step s t"
proof
  show "main_step s t" if "t \<in> set (main_next (pr_main s) s)"
    using that by (cases "pr_main s") (auto intro: main_step.intros split: if_splits)
  show "t \<in> set (main_next (pr_main s) s)" if "main_step s t"
    using that by cases (auto dest: finished_not_panicked)
qed

lemma updater_next_iff: "t \<in> set (updater_next (pr_updater s) s) \<longleftrightarrow> updater_step s t"
proof
  show "updater_step s t" if "t \<in> set (updater_next (pr_updater s) s)"
    using that by (cases "pr_updater s") (auto intro: updater_step.intros split: if_splits)
  show "t \<in> set (updater_next (pr_updater s) s)" if "updater_step s t" using that by cases auto
qed

lemma server_next_iff: "t \<in> set (server_next (pr_server s) s) \<longleftrightarrow> server_step s t"
proof
  show "server_step s t" if "t \<in> set (server_next (pr_server s) s)"
    using that server_step.accept [of s]
    by (cases "pr_server s"; cases "pr_connections s") (auto intro: server_step.intros split: if_splits)
  show "t \<in> set (server_next (pr_server s) s)" if "server_step s t" using that by cases auto
qed

lemma process_next_iff: "t \<in> set (process_next s) \<longleftrightarrow> process_step s t"
  by (auto simp: process_next_def process_step_def main_next_iff updater_next_iff server_next_iff)

fun is_run :: "process \<Rightarrow> process list \<Rightarrow> bool" where
  "is_run s [] \<longleftrightarrow> True"
| "is_run s (t # ts) \<longleftrightarrow> t \<in> set (process_next s) \<and> is_run t ts"

lemma is_run_steps: "is_run s ts \<Longrightarrow> process_step\<^sup>*\<^sup>* s (last (s # ts))"
  by (induction ts arbitrary: s) (auto simp: process_next_iff intro: converse_rtranclp_into_rtranclp)

section \<open>At rest when main returns\<close>

definition after_store :: "main_pc \<Rightarrow> bool" where
  "after_store m \<longleftrightarrow> (\<exists>t. m = UnparkThread t \<or> m = JoinThread t) \<or> m = MainDone"

definition process_inv :: "process \<Rightarrow> bool" where
  "process_inv s \<longleftrightarrow>
     (after_store (pr_main s) \<longrightarrow> \<not> pr_control s \<and> pr_stop_sent s) \<and>
     (pr_main s = StoreFlag \<longrightarrow> pr_stop_sent s) \<and>
     (pr_main s \<in> {UnparkThread ServerThread, JoinThread ServerThread, MainDone} \<longrightarrow> pr_updater s = UpdaterExited) \<and>
     (pr_main s = MainDone \<longrightarrow> pr_server s = ServerExited) \<and>
     (pr_server s \<in> {Starting, ServerExited, ServerPanicked} \<longrightarrow> pr_connections s = 0)"

lemma main_step_inv:
  assumes "main_step s t" and "process_inv s"
  shows "process_inv t"
  using assms(1)
proof cases
  case (unpark_thread th)
  then show ?thesis using assms(2) by (cases th) (auto simp: process_inv_def after_store_def)
next
  case (join_ok th)
  then show ?thesis using assms(2) by (cases th) (auto simp: process_inv_def after_store_def)
qed (use assms(2) in \<open>simp_all add: process_inv_def after_store_def\<close>)

lemma updater_step_inv: "process_inv s \<Longrightarrow> updater_step s t \<Longrightarrow> process_inv t"
  by (erule updater_stepE) (auto simp: process_inv_def after_store_def)

lemma server_step_inv: "process_inv s \<Longrightarrow> server_step s t \<Longrightarrow> process_inv t"
  by (erule server_stepE) (auto simp: process_inv_def)

interpretation shutdown_order: invariant_of process_start process_step process_inv
proof unfold_locales
  show "process_inv s" if "process_start s" for s
    using that by (simp add: process_start_def process_inv_def after_store_def)
  show "process_inv t" if "process_inv s" "process_step s t" for s t
    using that(2) by (rule process_stepE) (blast intro: that(1) main_step_inv updater_step_inv server_step_inv)+
qed

text \<open>With the flag cleared, an updater that is not in an update never starts one again.\<close>

definition no_more_updates :: "process \<Rightarrow> bool" where
  "no_more_updates s \<longleftrightarrow> \<not> pr_control s \<and> pr_updater s \<noteq> Update"

lemma unpark_simps [simp]:
  "pr_control (unpark th s) = pr_control s" "pr_updater (unpark th s) = pr_updater s"
  "pr_server (unpark th s) = pr_server s" "pr_connections (unpark th s) = pr_connections s"
  "pr_stop_sent (unpark th s) = pr_stop_sent s"
  by (cases th; simp)+

interpretation flag_cleared: invariant_of no_more_updates process_step no_more_updates
proof unfold_locales
  show "no_more_updates t" if "no_more_updates s" "process_step s t" for s t
    using that(2,1)
    by (auto simp: process_step_def no_more_updates_def elim!: main_stepE updater_stepE server_stepE)
qed

section \<open>A shutdown ends\<close>

text \<open>A shutdown under way: the flag is cleared and the server accepts nothing more.\<close>

definition shutting_down :: "process \<Rightarrow> bool" where
  "shutting_down s \<longleftrightarrow>
     (pr_main s = MainPanicked \<or> after_store (pr_main s)) \<and> \<not> pr_control s \<and>
     pr_server s \<in> {Draining, ServerExited, ServerPanicked}"

fun main_rank :: "main_pc \<Rightarrow> nat" where
  "main_rank (UnparkThread UpdaterThread) = 4"
| "main_rank (JoinThread UpdaterThread) = 3"
| "main_rank (UnparkThread ServerThread) = 2"
| "main_rank (JoinThread ServerThread) = 1"
| "main_rank _ = 0"

fun updater_rank :: "updater_pc \<Rightarrow> nat" where
  "updater_rank Update = 3"
| "updater_rank ParkTimeout = 2"
| "updater_rank LoadRegistry = 2"
| "updater_rank CheckFlag = 1"
| "updater_rank _ = 0"

definition rank :: "process \<Rightarrow> nat" where
  "rank s = main_rank (pr_main s) + updater_rank (pr_updater s) + pr_connections s +
     (if pr_server s = Draining then 1 else 0)"

lemma shutdown_step:
  assumes "shutting_down s" and "process_step s t"
  shows "shutting_down t \<and> rank t < rank s"
  using assms(2)
proof (rule process_stepE)
  assume "main_step s t"
  then show ?thesis
  proof (cases rule: main_step.cases)
    case (unpark_thread th)
    then show ?thesis using assms(1) by (cases th) (auto simp: shutting_down_def after_store_def rank_def)
  next
    case (join_ok th)
    then show ?thesis using assms(1) by (cases th) (auto simp: shutting_down_def after_store_def rank_def)
  next
    case (join_panic th)
    then show ?thesis using assms(1) by (cases th) (auto simp: shutting_down_def after_store_def rank_def)
  qed (use assms(1) in \<open>auto simp: shutting_down_def after_store_def\<close>)
next
  assume "updater_step s t"
  then show ?thesis using assms(1) by cases (auto simp: shutting_down_def rank_def)
next
  assume "server_step s t"
  then show ?thesis using assms(1) by cases (auto simp: shutting_down_def rank_def)
qed

lemma shutdown_bounded:
  "(process_step ^^ n) s t \<Longrightarrow> shutting_down s \<Longrightarrow> shutting_down t \<and> rank t + n \<le> rank s"
proof (induction n arbitrary: t)
  case (Suc n)
  then obtain u where u: "(process_step ^^ n) s u" "process_step u t" by auto
  have "shutting_down u \<and> rank u + n \<le> rank s" using Suc.IH [OF u(1)] Suc.prems(2) by simp
  then show ?case using shutdown_step [OF _ u(2)] by fastforce
qed simp

text \<open>The one step that is not the process's own.\<close>

definition client_closes :: "process \<Rightarrow> process \<Rightarrow> bool" where
  "client_closes s t \<longleftrightarrow> (\<exists>n. pr_connections s = Suc n \<and> t = s\<lparr>pr_connections := n\<rparr>)"

definition own_step :: "process \<Rightarrow> process \<Rightarrow> bool" where
  "own_step s t \<longleftrightarrow> process_step s t \<and> \<not> client_closes s t"

text \<open>A state of the shutdown in which the process has nothing to do itself is one where \<open>main\<close> has ended
  or waits for the server, which waits for its clients.\<close>

lemma own_stepI: "process_step s t \<Longrightarrow> pr_connections t = pr_connections s \<Longrightarrow> own_step s t"
  by (auto simp: own_step_def client_closes_def)

lemma shutdown_progress:
  assumes down: "shutting_down s" and stuck: "\<And>t. \<not> own_step s t"
  shows "pr_main s = MainDone \<or> pr_main s = MainPanicked \<or>
    pr_main s = JoinThread ServerThread \<and> pr_server s = Draining \<and> 0 < pr_connections s"
proof -
  have no: "\<not> main_step s t \<and> \<not> updater_step s t \<and> \<not> server_step s t"
    if "pr_connections t = pr_connections s" for t
    using stuck [of t] own_stepI [OF _ that] by (auto simp: process_step_def)
  have off: "\<not> pr_control s" using down by (simp add: shutting_down_def)
  have upd: "pr_updater s \<in> {UpdaterExited, UpdaterPanicked}"
  proof (cases "pr_updater s")
    case LoadRegistry
    then show ?thesis using no [of "s\<lparr>pr_updater := CheckFlag\<rparr>"] updater_step.load_ok [of s] by simp
  next
    case CheckFlag
    then show ?thesis using no [of "s\<lparr>pr_updater := UpdaterExited\<rparr>"] updater_step.check_false [of s] off by simp
  next
    case Update
    then show ?thesis using no [of "s\<lparr>pr_updater := ParkTimeout\<rparr>"] updater_step.update_done [of s] by simp
  next
    case ParkTimeout
    then show ?thesis using no [of "s\<lparr>pr_updater := CheckFlag\<rparr>"] updater_step.park_end [of s] by simp
  qed simp_all
  have srv: "pr_server s \<in> {ServerExited, ServerPanicked} \<or> pr_server s = Draining \<and> 0 < pr_connections s"
    using no [of "s\<lparr>pr_server := ServerExited\<rparr>"] down server_step.idle [of s] by (auto simp: shutting_down_def)
  have unparks: "pr_main s \<noteq> UnparkThread th" for th
    using no [of "(unpark th s)\<lparr>pr_main := JoinThread th\<rparr>"] main_step.unpark_thread [of s th] by auto
  have "pr_main s \<noteq> JoinThread UpdaterThread"
    using no [of "s\<lparr>pr_main := after_join UpdaterThread\<rparr>"] no [of "s\<lparr>pr_main := MainPanicked\<rparr>"] upd
      main_step.join_ok [of s UpdaterThread] main_step.join_panic [of s UpdaterThread] by auto
  moreover have "pr_server s = Draining \<and> 0 < pr_connections s" if "pr_main s = JoinThread ServerThread"
    using no [of "s\<lparr>pr_main := after_join ServerThread\<rparr>"] no [of "s\<lparr>pr_main := MainPanicked\<rparr>"] srv that
      main_step.join_ok [of s ServerThread] main_step.join_panic [of s ServerThread] by auto
  moreover have "pr_main s = MainPanicked \<or> (\<exists>th. pr_main s = JoinThread th) \<or> pr_main s = MainDone"
    using down unparks by (auto simp: shutting_down_def after_store_def)
  ultimately show ?thesis by (metis thread.exhaust)
qed

text \<open>The process itself never lets go of a connection, and the server does not end with one open.\<close>

lemma own_step_connections: "own_step s t \<Longrightarrow> pr_connections s \<le> pr_connections t"
  by (auto simp: own_step_def client_closes_def process_step_def elim!: main_stepE updater_stepE server_stepE)

lemma own_steps_connections: "own_step\<^sup>*\<^sup>* s t \<Longrightarrow> pr_connections s \<le> pr_connections t"
  by (induction rule: rtranclp_induct) (auto dest: own_step_connections)

end
