(* ===== verification/Instances.thy ===== *)
theory Instances
  imports Races Shutdown
begin

text \<open>
  Concrete stand-ins for the third-party crates and services, with the proofs that they keep the
  contracts of \<open>Crates\<close>, \<open>Ifa_Matching\<close> and \<open>Sdk_Event_Batch\<close>. They show that the hypotheses of
  the theorems can hold together, and the witnesses run on them: hexadecimal in place of base64, a
  cipher that only adds a tag, the hyphenated form of UUIDs, headers of visible ASCII, and a
  database that is its tables.
\<close>

section \<open>Hexadecimal\<close>

definition hex_char :: "nat \<Rightarrow> char" where
  "hex_char d = char_of (if d < 10 then 48 + d else 87 + d)"

definition hex_val :: "char \<Rightarrow> nat option" where
  "hex_val c =
     (let n = of_char c :: nat in
      if 48 \<le> n \<and> n \<le> 57 then Some (n - 48) else if 97 \<le> n \<and> n \<le> 102 then Some (n - 87) else None)"

lemma of_hex_char: "d < 16 \<Longrightarrow> of_char (hex_char d) = (if d < 10 then 48 + d else 87 + d)"
  by (simp add: hex_char_def of_char_of)

lemma hex_val_char [simp]: "d < 16 \<Longrightarrow> hex_val (hex_char d) = Some d"
  by (simp add: hex_val_def of_hex_char Let_def)

fun encode_hex :: "u8 list \<Rightarrow> string" where
  "encode_hex [] = []"
| "encode_hex (b # bs) = hex_char (unat b div 16) # hex_char (unat b mod 16) # encode_hex bs"

fun decode_hex :: "string \<Rightarrow> u8 list option" where
  "decode_hex [] = Some []"
| "decode_hex (c # d # cs) =
     do { x \<leftarrow> hex_val c; y \<leftarrow> hex_val d; bs \<leftarrow> decode_hex cs; Some (of_nat (16 * x + y) # bs) }"
| "decode_hex [c] = None"

lemma unat_u8_less: "unat (b :: u8) < 256"
  using unsigned_less [of b, where ?'a = nat] by simp

lemma decode_encode_hex: "decode_hex (encode_hex bs) = Some bs"
proof (induction bs)
  case (Cons b bs)
  have "unat b div 16 < 16" using unat_u8_less [of b] by (simp add: less_mult_imp_div_less)
  moreover have "(of_nat (16 * (unat b div 16) + unat b mod 16) :: u8) = b"
    by (simp only: mult_div_mod_eq) simp
  ultimately show ?case using Cons by (simp del: of_nat_add of_nat_mult)
qed simp

lemma visible_hex_char: "d < 16 \<Longrightarrow> visible (hex_char d)"
  by (simp add: visible_def of_hex_char)

lemma visible_encode_hex: "list_all visible (encode_hex bs)"
proof (induction bs)
  case (Cons b bs)
  have "unat b div 16 < 16" using unat_u8_less [of b] by (simp add: less_mult_imp_div_less)
  then show ?case using Cons by (simp add: visible_hex_char)
qed simp

section \<open>UUIDs\<close>

fun nibbles :: "nat \<Rightarrow> nat \<Rightarrow> nat list" where
  "nibbles 0 n = []"
| "nibbles (Suc k) n = nibbles k (n div 16) @ [n mod 16]"

definition nibbles_val :: "nat list \<Rightarrow> nat" where
  "nibbles_val ds = foldl (\<lambda>a d. a * 16 + d) 0 ds"

lemma nibbles_val_nibbles: "nibbles_val (nibbles k n) = n mod 16 ^ k"
proof (induction k arbitrary: n)
  case (Suc k)
  have "n mod (16 * 16 ^ k) = 16 * (n div 16 mod 16 ^ k) + n mod 16" by (rule mod_mult2_eq)
  then show ?case using Suc [of "n div 16"] by (simp add: nibbles_val_def)
qed (simp add: nibbles_val_def)

lemma nibbles_props: "length (nibbles k n) = k" "d \<in> set (nibbles k n) \<Longrightarrow> d < 16"
  by (induction k arbitrary: n) auto

definition hyphenate :: "string \<Rightarrow> string" where
  "hyphenate s =
     take 8 s @ ''-'' @ take 4 (drop 8 s) @ ''-'' @ take 4 (drop 12 s) @ ''-'' @ take 4 (drop 16 s) @ ''-'' @ drop 20 s"

definition unhyphenate :: "string \<Rightarrow> string option" where
  "unhyphenate s =
     (let t = take 8 s @ take 4 (drop 9 s) @ take 4 (drop 14 s) @ take 4 (drop 19 s) @ drop 24 s in
      if length s = 36 \<and> hyphenate t = s then Some t else None)"

lemma unhyphenate_hyphenate:
  assumes "length s = 32"
  shows "unhyphenate (hyphenate s) = Some s" and "length (hyphenate s) = 36"
proof -
  have s: "s = take 8 s @ take 4 (drop 8 s) @ take 4 (drop 12 s) @ take 4 (drop 16 s) @ drop 20 s"
    by (simp add: append_assoc [symmetric] take_add [symmetric] del: append_assoc)
  show "length (hyphenate s) = 36" using assms by (simp add: hyphenate_def)
  have "take 8 (hyphenate s) @ take 4 (drop 9 (hyphenate s)) @ take 4 (drop 14 (hyphenate s)) @
      take 4 (drop 19 (hyphenate s)) @ drop 24 (hyphenate s) = s"
    using assms by (subst (6) s) (simp add: hyphenate_def)
  then show "unhyphenate (hyphenate s) = Some s"
    using \<open>length (hyphenate s) = 36\<close> by (simp add: unhyphenate_def)
qed

definition print_uuid :: "uuid \<Rightarrow> string" where
  "print_uuid u = hyphenate (map hex_char (nibbles 32 (unat u)))"

definition parse_uuid :: "string \<Rightarrow> uuid option" where
  "parse_uuid s =
     Option.bind (unhyphenate s) (\<lambda>t.
       if list_all (\<lambda>c. hex_val c \<noteq> None) t
       then Some (of_nat (nibbles_val (map (\<lambda>c. the (hex_val c)) t))) else None)"

lemma parse_print_uuid: "parse_uuid (print_uuid u) = Some u"
proof -
  let ?ds = "nibbles 32 (unat u)"
  have small: "\<forall>d \<in> set ?ds. d < 16" using nibbles_props(2) by blast
  then have "map (\<lambda>c. the (hex_val c)) (map hex_char ?ds) = ?ds" by (auto intro: map_idI)
  moreover have "nibbles_val ?ds = unat u"
    using unsigned_less [of u, where ?'a = nat] by (simp add: nibbles_val_nibbles)
  moreover have "list_all (\<lambda>c. hex_val c \<noteq> None) (map hex_char ?ds)" using small by (simp add: list_all_iff)
  ultimately show ?thesis
    using unhyphenate_hyphenate(1) [of "map hex_char ?ds"]
    by (simp add: parse_uuid_def print_uuid_def nibbles_props(1) del: map_map)
qed

lemma set_hyphenate: "set (hyphenate s) \<subseteq> insert CHR ''-'' (set s)"
  by (auto simp: hyphenate_def dest: in_set_takeD in_set_dropD)

lemma print_uuid_chars: "c \<in> set (print_uuid u) \<Longrightarrow> c = CHR ''-'' \<or> (\<exists>d < 16. c = hex_char d)"
proof -
  assume "c \<in> set (print_uuid u)"
  then have "c = CHR ''-'' \<or> c \<in> hex_char ` set (nibbles 32 (unat u))"
    using set_hyphenate [of "map hex_char (nibbles 32 (unat u))"] unfolding print_uuid_def set_map by blast
  then show ?thesis using nibbles_props(2) by blast
qed

lemma print_uuid_props:
  "length (print_uuid u) = 36" "ascii_str (print_uuid u)" "CHR ''|'' \<notin> set (print_uuid u)"
proof -
  show "length (print_uuid u) = 36"
    using unhyphenate_hyphenate(2) by (simp add: print_uuid_def nibbles_props(1))
  have small: "of_char c < (124 :: nat)" if "c \<in> set (print_uuid u)" for c
    using print_uuid_chars [OF that] by (auto simp: of_hex_char)
  then show "ascii_str (print_uuid u)"
    by (fastforce simp: ascii_str_def as_bytes_def list_all_iff ascii_byte_def)
  show "CHR ''|'' \<notin> set (print_uuid u)" using small by fastforce
qed

section \<open>The crates\<close>

definition seal_tag :: "u8 list \<Rightarrow> u8 list \<Rightarrow> u8 list \<Rightarrow> nat \<Rightarrow> u8 list option" where
  "seal_tag key nonce buf n =
     (if length nonce = 12 \<and> n \<le> length buf then Some (take (length buf - n) buf @ take n (key @ replicate n 0)) else None)"

definition open_tag :: "u8 list \<Rightarrow> u8 list \<Rightarrow> u8 list \<Rightarrow> u8 list option" where
  "open_tag key nonce buf =
     (if length nonce = 12 \<and> 16 \<le> length buf \<and> drop (length buf - 16) buf = take 16 (key @ replicate 16 0)
      then Some (take (length buf - 16) buf) else None)"

definition to_visible :: "header_value \<Rightarrow> string option" where
  "to_visible h = (if list_all visible (bytes_str h) then Some (bytes_str h) else None)"

definition from_visible :: "string \<Rightarrow> header_value option" where
  "from_visible s = (if list_all visible s then Some (as_bytes s) else None)"

fun hmac_prefix :: "verification_key \<Rightarrow> u8 list \<Rightarrow> u8 list \<Rightarrow> bool" where
  "hmac_prefix (VerificationKey key) msg sig \<longleftrightarrow> sig = key @ take 4 msg"

definition toy_crates :: crates where
  "toy_crates =
     \<lparr>b64_encode = encode_hex, b64_decode = decode_hex, hex_decode = (\<lambda>bs. decode_hex (bytes_str bs)),
      aead_key_ok = (\<lambda>key. length key = 32), aead_seal_in_place = seal_tag, aead_open_in_place = open_tag, hmac_verify = hmac_prefix,
      uuid_parse_str = parse_uuid, uuid_hyphenated = print_uuid, uuid_from_random = (\<lambda>bs. of_nat (unat (hd bs))),
      hv_to_str = to_visible, hv_from_str = from_visible, blake2b = (\<lambda>bs. take 4 bs),
      geoip_lookup = (\<lambda>_. Some (Some (Some ''FI'')))\<rparr>"

definition toy_secret :: "u8 list" where
  "toy_secret = replicate 32 7"

lemma toy_crates_simps [simp]:
  "b64_encode toy_crates = encode_hex" "b64_decode toy_crates = decode_hex"
  "hmac_verify toy_crates = hmac_prefix" "uuid_parse_str toy_crates = parse_uuid"
  "uuid_hyphenated toy_crates = print_uuid" "hv_to_str toy_crates = to_visible"
  "hv_from_str toy_crates = from_visible"
  by (simp_all add: toy_crates_def)

lemma toy_base64: "base64_contract toy_crates"
  by (simp add: base64_contract_def decode_encode_hex)

lemma toy_aead: "aead_contract toy_crates"
  by (simp add: aead_contract_def toy_crates_def seal_tag_def open_tag_def)

lemma toy_uuid: "uuid_contract toy_crates"
  by (simp add: uuid_contract_def parse_print_uuid print_uuid_props)

lemma toy_http: "http_contract toy_crates"
  by (auto simp: http_contract_def to_visible_def from_visible_def split: if_splits)

lemma toy_base64_header: "base64_header_contract toy_crates"
  by (simp add: base64_header_contract_def to_visible_def visible_encode_hex)

lemma toy_crypto: "crypto_good toy_crates toy_secret"
  by (simp add: crypto_good_def toy_base64 toy_aead toy_secret_def)

lemma toy_sort: "sort_contract sort_key"
  by (simp add: sort_contract_def)

section \<open>The database\<close>

record toy_db =
  td_ifas :: ifa_view
  td_apps :: "row list"

definition entity_row :: "uuid \<Rightarrow> row" where
  "entity_row e = \<lparr>row_uuid = (\<lambda>c. if c = ''entity_id'' then Some e else None), row_text = (\<lambda>_. None)\<rparr>"

definition rows_frame :: "row list \<Rightarrow> frame" where
  "rows_frame rows = \<lparr>frame_body = Some (Some rows)\<rparr>"

definition project :: "string list \<Rightarrow> row \<Rightarrow> row" where
  "project cols r =
     \<lparr>row_uuid = (\<lambda>c. if c \<in> set cols then row_uuid r c else None),
      row_text = (\<lambda>c. if c \<in> set cols then row_text r c else None)\<rparr>"

fun toy_query :: "uuid list \<Rightarrow> string list \<Rightarrow> toy_db \<Rightarrow> frame option \<times> toy_db" where
  "toy_query [a, i, e] cols db =
     (Some \<lparr>frame_body = Some None\<rparr>, db\<lparr>td_ifas := (td_ifas db)((a, i) \<mapsto> e)\<rparr>)"
| "toy_query [a, i] cols db =
     (Some (rows_frame (map (project cols) (case td_ifas db (a, i) of None \<Rightarrow> [] | Some e \<Rightarrow> [entity_row e]))), db)"
| "toy_query _ cols db = (Some (rows_frame (map (project cols) (td_apps db))), db)"

definition toy_scylla :: "toy_db scylla" where
  "toy_scylla =
     \<lparr>tcp_connect = (\<lambda>_. True), build_pool = (\<lambda>_. True), pool_get = (\<lambda>db. (True, db)),
      run_cql = (\<lambda>q. toy_query (q_values q) (selected_columns (q_text q)))\<rparr>"

lemma entity_columns:
  "selected_columns (''SELECT entity_id FROM '' @ ks @ ''.gw_known_ifas WHERE app_id=? AND ifa=?'') = [''entity_id'']"
  by (simp add: selected_columns_def)

lemma toy_table: "ifa_table toy_scylla ks td_ifas"
  unfolding ifa_table_def toy_scylla_def
  by (auto simp: entity_columns rows_frame_def result_rows_def entity_row_def project_def simp del: append.simps
      split: option.splits)

lemma toy_columns: "rows_have_selected_columns toy_scylla"
proof -
  have "row_uuid r c = None \<and> row_text r c = None"
    if "toy_query vs cols db = (Some f, db')" "frame_body f = Some (Some rows)" "r \<in> set rows" "c \<notin> set cols"
    for vs cols db f db' rows r c
    using that by (cases "(vs, cols, db)" rule: toy_query.cases) (auto simp: rows_frame_def project_def)
  then show ?thesis unfolding rows_have_selected_columns_def toy_scylla_def by auto
qed

section \<open>A gateway\<close>

definition toy_app_id :: string where
  "toy_app_id = print_uuid 1"

definition toy_ifa :: string where
  "toy_ifa = print_uuid 2"

definition toy_config :: config where
  "toy_config =
     \<lparr>cfg_kafka = \<lparr>kc_topic = ''events'', kc_brokers = ''localhost:9092''\<rparr>,
      cfg_gateway = \<lparr>gc_threads = 4, gc_process_name_prefix = ''gw'', gc_default_token = ''default'',
                     gc_allow_empty_signature = False\<rparr>,
      cfg_cors = Some \<lparr>cc_allowed_methods = ''POST'', cc_allowed_headers = ''Content-Type''\<rparr>,
      cfg_origins = Some [\<lparr>oc_app_id = toy_app_id, oc_allowed = [''https://a.example'']\<rparr>],
      cfg_test_apps = Some [\<lparr>tc_app_id = toy_app_id, tc_token = Some ''token'', tc_secret_ios = Some ''0a'',
                             tc_secret_android = None, tc_secret_web = Some ''0b''\<rparr>],
      cfg_cassandra = \<lparr>cas_keyspace = ''ks'', cas_contact_points = ''localhost:9042'', cas_username = None,
                       cas_password = None, cas_manage_apps = False\<rparr>\<rparr>"

definition toy_cors :: cors where
  "toy_cors =
     \<lparr>co_allowed_methods = ''POST'', co_allowed_headers = ''Content-Type'',
      co_allowed_origins = [toy_app_id \<mapsto> {''https://a.example''}]\<rparr>"

lemma cors_new_toy: "cors_new toy_config = Some toy_cors"
  by (simp add: cors_new_def toy_config_def toy_cors_def)

definition toy_application :: application where
  "toy_application =
     \<lparr>app_key = toy_app_id, app_token = Some ''token'', app_ios_secret = Some (VerificationKey [10]),
      app_android_secret = None, app_web_secret = Some (VerificationKey [11])\<rparr>"

definition toy_registry :: app_registry where
  "toy_registry =
     \<lparr>reg_allow_empty_signature = False, reg_apps = [toy_app_id \<mapsto> toy_application], reg_pool = False\<rparr>"

definition zero_metrics :: metrics where
  "zero_metrics =
     \<lparr>app_update_counter = 0, events_counter = 0, request_counter = (\<lambda>_. 0), scylladb_request_counter = (\<lambda>_. 0),
      response_times_histogram = 0, kafka_latency_histogram = 0, scylladb_latency_histogram = 0\<rparr>"

definition toy_world :: "toy_db world" where
  "toy_world =
     \<lparr>w_rng = of_nat, w_db = \<lparr>td_ifas = Map.empty, td_apps = []\<rparr>, w_sent = [], w_metrics = zero_metrics\<rparr>"

lemma decode_0a: "decode_hex ''0a'' = Some [10]"
  and decode_0b: "decode_hex ''0b'' = Some [11]"
  by code_simp+

lemma app_registry_new_toy:
  "app_registry_new toy_crates toy_scylla toy_config toy_world =
     Ret (toy_registry, toy_world\<lparr>w_metrics := zero_metrics\<lparr>app_update_counter := 1\<rparr>\<rparr>)"
  by (simp add: app_registry_new_def toy_config_def create_app_def create_key_def toy_crates_def
      toy_registry_def toy_application_def toy_world_def zero_metrics_def inc_app_update_def
      decode_0a decode_0b del: decode_hex.simps)

text \<open>Two bodies: a web client that registers, and an iOS client that sends two events.\<close>

definition register_json :: json where
  "register_json =
     JObject
       [(''environment'', JObject [(''app_id'', JString toy_app_id)]),
        (''events'', JArray [JObject [(''id'', JString ''7''), (''timestamp'', JString ''5''),
                                     (''name'', JString ''xorc_register'')]]),
        (''device'', JObject [(''platform'', JString ''web''), (''ifa'', JString toy_ifa),
                              (''ifa_tracking_enabled'', JBool True)])]"

definition clicks_json :: json where
  "clicks_json =
     JObject
       [(''environment'', JObject [(''app_id'', JString toy_app_id)]),
        (''events'', JArray [JObject [(''id'', JString ''1''), (''timestamp'', JString ''9''), (''name'', JString ''click'')],
                             JObject [(''id'', JString ''2''), (''timestamp'', JString ''3''), (''name'', JString ''click'')]]),
        (''device'', JObject [(''platform'', JString ''ios'')])]"

definition toy_json_parse :: "u8 list \<Rightarrow> json option" where
  "toy_json_parse body =
     (if body = as_bytes ''register'' then Some register_json
      else if body = as_bytes ''clicks'' then Some clicks_json else None)"

definition toy_env :: "toy_db gateway_env" where
  "toy_env =
     \<lparr>ge_crates = toy_crates, ge_secret = toy_secret, ge_config = toy_config, ge_cors = Some toy_cors,
      ge_scylla = toy_scylla, ge_producer = (\<lambda>sent _. length sent < 10), ge_sort_by = sort_key,
      ge_json_parse = toy_json_parse, ge_json_to_string = (\<lambda>_. ''{}''), ge_proto_encode = (\<lambda>_. [1, 2]),
      ge_text_encode = (\<lambda>_. Some ''''), ge_format_type = ''text/plain; version=0.0.4''\<rparr>"

lemma toy_env_simps [simp]:
  "ge_crates toy_env = toy_crates" "ge_secret toy_env = toy_secret" "ge_cors toy_env = Some toy_cors"
  "ge_scylla toy_env = toy_scylla" "ge_sort_by toy_env = sort_key" "ge_json_parse toy_env = toy_json_parse"
  "ge_config toy_env = toy_config" "ge_keyspace toy_env = ''ks''" "ge_default_token toy_env = ''default''"
  by (simp_all add: toy_env_def ge_keyspace_def ge_default_token_def toy_config_def)

lemma toy_ifa_matching: "force_ifa_matching toy_env = Ret ()"
  by (simp add: force_ifa_matching_def ifa_matching_new_def pool_connection_def toy_scylla_def list_all_iff)

lemma toy_env_good: "env_good toy_env"
  by (simp add: env_good_def toy_crypto toy_uuid toy_ifa_matching)

lemma toy_database_good: "database_good toy_env td_ifas"
  by (simp add: database_good_def toy_env_good toy_table)

lemma toy_headers_visible:
  "list_all visible ''POST''" "list_all visible ''Content-Type''" "list_all visible ''https://a.example''"
  "list_all visible ''text/plain; version=0.0.4''"
  by code_simp+

lemma from_visible_headers [simp]:
  "from_visible ''POST'' = Some (as_bytes ''POST'')"
  "from_visible ''Content-Type'' = Some (as_bytes ''Content-Type'')"
  "from_visible ''https://a.example'' = Some (as_bytes ''https://a.example'')"
  "from_visible ''text/plain; version=0.0.4'' = Some (as_bytes ''text/plain; version=0.0.4'')"
  unfolding from_visible_def using toy_headers_visible by (simp_all only: if_True)

lemma toy_cors_good: "cors_good toy_env"
  by (simp add: cors_good_def toy_http policy_headers_ok_def toy_cors_def)

section \<open>Two requests\<close>

definition toy_headers :: "string option \<Rightarrow> u8 list \<Rightarrow> string option \<Rightarrow> header_map" where
  "toy_headers origin signature device =
     Map.empty(''origin'' := map_option as_bytes origin,
               ''xorc-signature'' := Some (as_bytes (encode_hex signature)),
               ''xorc-device-id'' := map_option as_bytes device)"

definition register_request :: http_request where
  "register_request =
     \<lparr>rq_method = POST, rq_path = sdk_path,
      rq_headers = toy_headers (Some ''https://a.example'') (11 # take 4 (as_bytes ''register'')) None,
      rq_body = Some (as_bytes ''register'')\<rparr>"

definition clicks_request :: "string option \<Rightarrow> http_request" where
  "clicks_request device =
     \<lparr>rq_method = POST, rq_path = sdk_path,
      rq_headers = toy_headers None (10 # take 4 (as_bytes ''clicks'')) device,
      rq_body = Some (as_bytes ''clicks'')\<rparr>"

definition toy_run :: request_run where
  "toy_run = \<lparr>rr_validate_apps = toy_registry, rr_token_apps = toy_registry, rr_blocking = True, rr_now = 0\<rparr>"

definition bare_device :: sdk_device where
  "bare_device =
     \<lparr>sd_ifa_tracking_enabled = False, sd_notification_registered = False, sd_h = None, sd_w = None,
      sd_locale = None, sd_language = None, sd_time_zone = None, sd_manufacturer = None, sd_model = None,
      sd_os_version = None, sd_os_name = None, sd_network_connection_type = None, sd_device_name = None,
      sd_ifa = None, sd_idfv = None, sd_carrier_name = None, sd_carrier_country = None, sd_browser_name = None,
      sd_browser_version = None, sd_browser_ua = None, sd_notification_types = None, sd_orientation = None,
      sd_platform = None, sd_ip_hashed_blake2 = None, sd_country = None\<rparr>"

definition toy_environment :: sdk_environment where
  "toy_environment =
     \<lparr>se_sdk_version = None, se_app_version = None, se_app_store_id = None, se_app_id = toy_app_id,
      se_app_instance_id = None\<rparr>"

definition toy_event :: "string \<Rightarrow> u64 \<Rightarrow> string \<Rightarrow> sdk_event" where
  "toy_event i ts name =
     \<lparr>ev_id = i, ev_timestamp = ts, ev_name = name, ev_properties = [], ev_session_id = None,
      ev_external_user_id = None, ev_reference_id = None\<rparr>"

definition register_batch :: sdk_event_batch where
  "register_batch =
     \<lparr>sb_environment = toy_environment, sb_events = [toy_event ''7'' 5 ''xorc_register''],
      sb_device = bare_device\<lparr>sd_platform := Some ''web'', sd_ifa := Some toy_ifa, sd_ifa_tracking_enabled := True\<rparr>,
      sb_recipient_id = None\<rparr>"

definition clicks_batch :: sdk_event_batch where
  "clicks_batch =
     \<lparr>sb_environment = toy_environment, sb_events = [toy_event ''1'' 9 ''click'', toy_event ''2'' 3 ''click''],
      sb_device = bare_device\<lparr>sd_platform := Some ''ios''\<rparr>, sb_recipient_id = None\<rparr>"

lemma digits_parse:
  "u64_from_str ''5'' = Some 5" "u64_from_str ''9'' = Some 9" "u64_from_str ''3'' = Some 3"
  by (simp_all add: u64_from_str_def dec_digit_def)

lemma de_environment_toy:
  "de_environment (JObject [(''app_id'', JString a)]) =
     Some \<lparr>se_sdk_version = None, se_app_version = None, se_app_store_id = None, se_app_id = a,
           se_app_instance_id = None\<rparr>"
  by (simp add: de_environment_def deserialize_defs)

lemma de_event_toy:
  "u64_from_str t = Some ts \<Longrightarrow>
     de_event (JObject [(''id'', JString i), (''timestamp'', JString t), (''name'', JString n)]) = Some (toy_event i ts n)"
  by (simp add: de_event_def toy_event_def deserialize_defs from_str_u64_def)

lemma de_device_toy:
  "de_device (JObject [(''platform'', JString p), (''ifa'', JString i), (''ifa_tracking_enabled'', JBool en)]) =
     Some (bare_device\<lparr>sd_platform := Some p, sd_ifa := Some i, sd_ifa_tracking_enabled := en\<rparr>)"
  "de_device (JObject [(''platform'', JString p)]) = Some (bare_device\<lparr>sd_platform := Some p\<rparr>)"
  by (simp_all add: de_device_def deserialize_defs bare_device_def)

lemma de_batch_register: "de_batch register_json = Some register_batch"
  by (simp add: de_batch_def register_json_def register_batch_def toy_environment_def de_environment_toy
      de_event_toy digits_parse de_device_toy struct_members_def required_def optional_def field_with_def
      members_def de_vec_def)

lemma de_batch_clicks: "de_batch clicks_json = Some clicks_batch"
  by (simp add: de_batch_def clicks_json_def clicks_batch_def toy_environment_def de_environment_toy
      de_event_toy digits_parse de_device_toy struct_members_def required_def optional_def field_with_def
      members_def de_vec_def)

lemma lower_names:
  "map to_ascii_lowercase ''XORC-Device-Id'' = ''xorc-device-id''"
  "map to_ascii_lowercase ''XORC-Api-Token'' = ''xorc-api-token''"
  "map to_ascii_lowercase ''XORC-Signature'' = ''xorc-signature''"
  "map to_ascii_lowercase ''X-Real-IP'' = ''x-real-ip''"
  "map to_ascii_lowercase ''origin'' = ''origin''"
  by code_simp+

lemma to_visible_as_bytes: "list_all visible s \<Longrightarrow> to_visible (as_bytes s) = Some s"
  by (simp add: to_visible_def)

lemma toy_get_value:
  "get_value toy_crates (toy_headers origin sig device) ''XORC-Device-Id'' = Option.bind (map_option as_bytes device) to_visible"
  "get_value toy_crates (toy_headers origin sig device) ''XORC-Api-Token'' = None"
  "get_value toy_crates (toy_headers origin sig device) ''XORC-Signature'' = Some (encode_hex sig)"
  "get_value toy_crates (toy_headers origin sig device) ''X-Real-IP'' = None"
  "get_value toy_crates (toy_headers origin sig device) ''origin'' = Option.bind (map_option as_bytes origin) to_visible"
  by (simp_all only: get_value_def header_get_def lower_names)
    (simp_all add: toy_headers_def to_visible_as_bytes visible_encode_hex)

lemma toy_origin_visible: "to_visible (as_bytes ''https://a.example'') = Some ''https://a.example''"
  using toy_headers_visible(3) by (rule to_visible_as_bytes)

definition register_context :: request_context where
  "register_context =
     \<lparr>ctx_app_id = toy_app_id, ctx_platform = Web, ctx_api_token = None, ctx_device_id = None,
      ctx_signature = Some (encode_hex (11 # take 4 (as_bytes ''register''))), ctx_ip = None,
      ctx_origin = Some ''https://a.example''\<rparr>"

definition clicks_context :: "device_id option \<Rightarrow> request_context" where
  "clicks_context d =
     \<lparr>ctx_app_id = toy_app_id, ctx_platform = Ios, ctx_api_token = None, ctx_device_id = d,
      ctx_signature = Some (encode_hex (10 # take 4 (as_bytes ''clicks''))), ctx_ip = None, ctx_origin = None\<rparr>"

lemma toy_platforms:
  "device_platform (sb_device register_batch) = Web" "device_platform (sb_device clicks_batch) = Ios"
  by (simp_all add: device_platform_def register_batch_def clicks_batch_def)

lemma toy_apps:
  "se_app_id (sb_environment register_batch) = toy_app_id" "se_app_id (sb_environment clicks_batch) = toy_app_id"
  by (simp_all add: register_batch_def clicks_batch_def toy_environment_def)

lemma toy_events:
  "sb_events register_batch = [toy_event ''7'' 5 ''xorc_register'']"
  "sb_events clicks_batch = [toy_event ''1'' 9 ''click'', toy_event ''2'' 3 ''click'']"
  by (simp_all add: register_batch_def clicks_batch_def)

lemma register_event_context: "event_context toy_env register_request register_batch = Ret register_context"
  by (simp add: event_context_def context_new_def context_device_id_def register_request_def toy_get_value
      toy_origin_visible register_context_def toy_platforms toy_apps del: encode_hex.simps)

lemma clicks_event_context:
  assumes "context_device_id toy_crates toy_secret (rq_headers (clicks_request device)) = Ret d"
  shows "event_context toy_env (clicks_request device) clicks_batch = Ret (clicks_context d)"
  using assms
  by (simp add: event_context_def context_new_def clicks_request_def toy_get_value clicks_context_def
      toy_platforms toy_apps del: encode_hex.simps)

lemma clicks_no_device: "context_device_id toy_crates toy_secret (rq_headers (clicks_request None)) = Ret None"
  by (simp add: context_device_id_def clicks_request_def toy_get_value)

lemma toy_validate:
  "validate toy_crates ''default'' toy_registry register_batch register_context (as_bytes ''register'') = Inr ()"
  "validate toy_crates ''default'' toy_registry clicks_batch (clicks_context d) (as_bytes ''clicks'') = Inr ()"
  by (simp_all add: validate_def toy_registry_def toy_application_def toy_platforms toy_apps register_context_def
      clicks_context_def platform_secret_def decode_encode_hex toy_events option_unwrap_or_def del: encode_hex.simps)

lemma toy_requests_parse:
  "Option.bind (toy_json_parse (as_bytes ''register'')) de_batch = Some register_batch"
  "Option.bind (toy_json_parse (as_bytes ''clicks'')) de_batch = Some clicks_batch"
  by (simp_all add: toy_json_parse_def de_batch_register de_batch_clicks)

lemma register_admitted: "admission toy_env toy_run register_request = Ret (Inr (register_batch, register_context))"
  unfolding admission_Inr using register_event_context toy_requests_parse(1)
  by (intro exI [of _ "as_bytes ''register''"])
    (simp add: register_request_def admit_event_def origin_refused_def toy_get_value toy_origin_visible
      toy_platforms toy_apps toy_cors_def valid_origin_def toy_run_def toy_validate del: encode_hex.simps)

lemma clicks_admitted:
  assumes "context_device_id toy_crates toy_secret (rq_headers (clicks_request device)) = Ret d"
  shows "admission toy_env toy_run (clicks_request device) = Ret (Inr (clicks_batch, clicks_context d))"
  unfolding admission_Inr using clicks_event_context [OF assms] toy_requests_parse(2)
  by (intro exI [of _ "as_bytes ''clicks''"])
    (simp add: clicks_request_def admit_event_def origin_refused_def toy_platforms toy_run_def toy_validate
      del: encode_hex.simps)

text \<open>Both requests are handled: the hypotheses of the gateway's theorems hold for them.\<close>

lemma register_returns: "\<exists>resp w'. handle_sdk toy_env toy_run register_request toy_world = Ret (resp, w')"
proof -
  have "handle_sdk toy_env toy_run register_request toy_world \<noteq> Panic"
    by (rule handle_sdk_Ret) (simp_all add: toy_env_good toy_cors_good context_device_id_def register_request_def toy_get_value)
  then show ?thesis by (metis outcome.exhaust surj_pair)
qed

lemma clicks_returns: "\<exists>resp w'. handle_sdk toy_env toy_run (clicks_request None) toy_world = Ret (resp, w')"
proof -
  have "handle_sdk toy_env toy_run (clicks_request None) toy_world \<noteq> Panic"
    by (rule handle_sdk_Ret) (simp_all add: toy_env_good toy_cors_good clicks_no_device)
  then show ?thesis by (metis outcome.exhaust surj_pair)
qed

end
