(* ===== verification/Data_Properties.thy ===== *)
theory Data_Properties
  imports Instances
begin

text \<open>
  The properties of the data the gateway handles: device ids and their encryption, the headers of
  a request, the decoding of a batch and its conversion to the protocol buffer, and the answer.
  Each property with a hypothesis is followed by a witness that applies it to the instances of
  \<open>Instances\<close>.
\<close>

section \<open>Device ids\<close>

text \<open>C7: \<open>Cleartext::decrypt\<close> undoes \<open>Ciphertext::encrypt\<close> for every text of 36 bytes, the length
  of a hyphenated UUID: encryption returns, and what it returns decrypts to the same text.\<close>

theorem decrypt_encrypt:
  assumes "crypto_good cr secret" and "length s = 36" and "utf8_valid (as_bytes s)"
  shows "\<exists>ct r'. encrypt cr secret (Cleartext s) r = Ret (ct, r') \<and> decrypt cr secret ct = Ret (Inr (Cleartext s))"
  using aes.enc_dec [of cr secret "Cleartext s" r] assms by (simp add: fits_device_id_def)

theorem decrypt_encrypt_witness:
  "\<exists>ct r'. encrypt toy_crates toy_secret (Cleartext (print_uuid 5)) (\<lambda>_. 0) = Ret (ct, r') \<and>
     decrypt toy_crates toy_secret ct = Ret (Inr (Cleartext (print_uuid 5)))"
  by (rule decrypt_encrypt [OF toy_crypto print_uuid_props(1)])
    (rule utf8_valid_ascii [OF print_uuid_props(2) [unfolded ascii_str_def]])

text \<open>C40: other lengths are not kept: only the first 36 of the 52 bytes of the buffer are sealed, so
  an ASCII text that fits the buffer comes back padded with NULs to 36 bytes, or cut off there.\<close>

theorem decrypt_encrypt_padded:
  assumes "crypto_good cr secret" and "length s \<le> 52" and "ascii_str s"
  shows "\<exists>ct r'. encrypt cr secret (Cleartext s) r = Ret (ct, r') \<and>
    decrypt cr secret ct = Ret (Inr (Cleartext (take 36 (s @ replicate 36 (CHR 0x00)))))"
proof -
  let ?t = "take 36 (s @ replicate 36 (CHR 0x00))"
  have "sealed_part s = as_bytes ?t"
    by (simp add: sealed_part_def padded_id_def as_bytes_def take_map [symmetric] min_def)
  moreover have "utf8_valid (as_bytes ?t)"
    using assms(3) by (intro utf8_valid_ascii)
      (auto simp: ascii_str_def as_bytes_def ascii_byte_def list_all_iff dest!: in_set_takeD)
  ultimately have "bytes_str (from_utf8_lossy (sealed_part s)) = ?t"
    by (simp only: from_utf8_lossy_valid bytes_str_as_bytes)
  then show ?thesis using encrypt_decrypt [OF assms(1,2), of r] by (metis (no_types))
qed

theorem decrypt_encrypt_padded_witness:
  "\<exists>ct r'. encrypt toy_crates toy_secret (Cleartext ''ab'') (\<lambda>_. 0) = Ret (ct, r') \<and>
     decrypt toy_crates toy_secret ct = Ret (Inr (Cleartext (''ab'' @ replicate 34 (CHR 0x00))))"
proof -
  have "ascii_str ''ab''" by code_simp
  then show ?thesis
    using decrypt_encrypt_padded [OF toy_crypto, of "''ab''" "\<lambda>_. 0"] by simp
qed

text \<open>With a key of 32 bytes and an AEAD that keeps its contract, \<open>Ciphertext::encrypt\<close> panics exactly
  on a text that does not fit its 52-byte buffer.\<close>

lemma encrypt_panics_iff:
  assumes "crypto_good cr secret"
  shows "encrypt cr secret (Cleartext s) r = Panic \<longleftrightarrow> 52 < length s"
proof (cases "52 < length s")
  case False
  then show ?thesis using encrypt_decrypt [OF assms, of s r] by auto
qed (simp add: encrypt_Panic_long)

section \<open>Requests and their context\<close>

text \<open>C30: the context of a request has a device id exactly when the header decrypts, and then it is
  the header's text with the text it decrypts to; an id that fails to decrypt is dropped without an
  error (the documentation promises one).\<close>

theorem context_device_id_iff:
  assumes "context_new cr secret headers app p = Ret ctx"
  shows "ctx_device_id ctx = Some d \<longleftrightarrow>
      get_value cr headers ''XORC-Device-Id'' = Some (ct_value (did_ciphertext d)) \<and>
      decrypt cr secret (did_ciphertext d) = Ret (Inr (did_cleartext d))"
  using context_new_fields(4) [OF assms] context_device_id_sound [of cr secret headers d]
    context_device_id_Some [of cr headers "ct_value (did_ciphertext d)" secret "did_cleartext d"]
  by (cases d) auto

theorem context_device_id_iff_witness:
  "ctx_device_id register_context \<noteq> Some \<lparr>did_ciphertext = Ciphertext ''x'', did_cleartext = Cleartext ''y''\<rparr>"
  using context_device_id_iff [OF register_event_context [unfolded event_context_def],
      of "\<lparr>did_ciphertext = Ciphertext ''x'', did_cleartext = Cleartext ''y''\<rparr>"]
  by (simp add: register_request_def toy_get_value)

section \<open>Decoding a batch\<close>

text \<open>Members a batch does not declare are ignored: the decoded batch is that of the document
  without them.\<close>

lemma unknown_members_ignored:
  "de_batch (JObject kvs) = de_batch (JObject (filter (\<lambda>p. fst p \<in> set batch_fields) kvs))"
proof -
  have "k \<in> set batch_fields" if "k \<in> {''environment'', ''events'', ''device'', ''recipient_id''}" for k
    using that by (auto simp: batch_fields_def)
  then show ?thesis by (simp add: de_batch_def struct_members_def field_filter)
qed

text \<open>A declared member that occurs twice makes an event undecodable, whatever its values.\<close>

lemma duplicate_member_rejected:
  assumes "k \<in> set event_fields" and "1 < length (members k kvs)"
  shows "de_event (JObject kvs) = None"
proof -
  from assms(1) have "k = ''id'' \<or> k = ''timestamp'' \<or> k = ''name'' \<or> k = ''properties'' \<or>
      k = ''session_id'' \<or> k = ''external_user_id'' \<or> k = ''reference_id''"
    by (simp add: event_fields_def)
  then show ?thesis using assms(2)
    by (elim disjE) (simp_all add: de_event_def struct_members_def declared_twice)
qed

text \<open>The properties of a decoded event, and every object inside them, are sorted by key without
  duplicates, so that decoding them again changes nothing.\<close>

lemma decoded_properties_sorted:
  assumes "de_event (JObject kvs) = Some e"
  shows "value_ok (JObject (ev_properties e))" and "to_value (JObject (ev_properties e)) = JObject (ev_properties e)"
proof -
  obtain ps where ps: "defaulted [] de_map kvs ''properties'' = Some ps" "ev_properties e = ps"
    using assms by (auto simp: de_event_def struct_members_def bind_eq_Some_conv)
  have "value_ok (JObject ps)"
  proof (cases "members ''properties'' kvs")
    case (Cons j js)
    then obtain doc where doc: "j = JObject doc" "ps = btree_of (map (map_prod id to_value) doc)"
      using ps(1) by (auto simp: defaulted_def field_with_def de_map_def split: list.splits json.splits)
    show ?thesis using to_value_ok [of "JObject doc"] doc(2) by simp
  qed (use ps(1) in \<open>simp add: defaulted_def field_with_def\<close>)
  then show "value_ok (JObject (ev_properties e))" "to_value (JObject (ev_properties e)) = JObject (ev_properties e)"
    using ps(2) to_value_id by blast+
qed

section \<open>The protocol buffer of a batch\<close>

text \<open>C19: flattening never panics, and what it appends is one property per scalar leaf of the tree,
  in the order of the traversal, with the leaf's value; arrays and nulls leave nothing.\<close>

theorem flattening_enumerates_leaves:
  "flatten_properties prefix kvs container = Ret (container @ map (leaf_property prefix) (leaves kvs))"
  by (rule flatten_properties_leaves)

text \<open>A leaf at most two keys deep is named by its path joined with two underscores, as the
  tests of the module expect.\<close>

lemma shallow_names:
  assumes "event_properties e = Ret ps" and "\<forall>l \<in> set (leaves (ev_properties e)). length (fst l) \<le> 2"
  shows "map pr_key ps = map (join_path \<circ> fst) (leaves (ev_properties e))"
  using assms by (auto simp: event_properties_leaves leaf_property_def path_key_short)

text \<open>C37: three keys deep the outermost key is repeated: the recursion passes the prefix followed by
  the key that already carries it.\<close>

theorem nested_names_repeat:
  "event_properties (e\<lparr>ev_properties := [(a, JObject [(b, JObject [(c, JBool v)])])]\<rparr>) =
     Ret [\<lparr>pr_key = a @ ''__'' @ a @ ''__'' @ b @ ''__'' @ c, pr_type = Some (BoolValue v)\<rparr>]"
  by (simp add: event_properties_leaves leaf_property_def)

text \<open>C24: an integer property is sent as a double. Its value is the exact integer up to 2^53 in
  magnitude, and beyond that it is off by at most one part in 2^53.\<close>

theorem number_precision:
  assumes "n = PosInt w \<and> i = uint w \<or> n = NegInt w \<and> i = sint w"
  shows "\<exists>f. number_value n = Ret f \<and> 2 ^ 53 * \<bar>i - f64_int f\<bar> \<le> \<bar>i\<bar> \<and> (\<bar>i\<bar> \<le> 2 ^ 53 \<longrightarrow> f64_int f = i)"
proof -
  have "number_value n = Ret (f64_of_int i)" using assms by (auto simp: number_value_eq)
  moreover have "\<bar>i\<bar> < 2 ^ 64"
    using assms unsigned_less [of w, where ?'a = int] sint_lt [of w] sint_ge [of w] by auto
  ultimately have "number_value n = Ret (f64_of_int i) \<and> f64_int (f64_of_int i) = f64_round i"
    by (simp add: f64_int_of_int)
  then show ?thesis using f64_round_error [of i] f64_round_exact [of i] by (intro exI [of _ "f64_of_int i"]) simp
qed

theorem number_precision_witness:
  "\<exists>f. number_value (PosInt 7) = Ret f \<and> f64_int f = 7"
  using number_precision [of "PosInt 7" 7 7] by auto

text \<open>C18: the events of the protocol buffer are those of the batch in the order of their timestamps,
  none lost and none repeated; the recipient is the decrypted device id if there is one.\<close>

theorem batch_conversion:
  assumes "sort_contract sort_by"
  shows "\<exists>p es. into_proto cr sort_by now ctx b = Ret p \<and> pt_event p = map proto_of es \<and>
    mset es = mset (sb_events b) \<and> sorted (map ev_timestamp es) \<and>
    ph_source (pt_header p) = se_app_id (sb_environment b) \<and>
    ph_recipient_id (pt_header p) =
      (case ctx_device_id ctx of Some d \<Rightarrow> Some (clear_value (did_cleartext d)) | None \<Rightarrow> sb_recipient_id b)"
  using into_proto_Ret [of cr sort_by now ctx b] sort_contractD [OF assms, of ev_timestamp "sb_events b"] by metis

theorem batch_conversion_witness:
  "\<exists>p es. into_proto toy_crates sort_key 0 (clicks_context None) clicks_batch = Ret p \<and>
    mset es = mset (sb_events clicks_batch) \<and> sorted (map ev_timestamp es) \<and> pt_event p = map proto_of es"
  using batch_conversion [OF toy_sort, of toy_crates 0 "clicks_context None" clicks_batch] by blast

text \<open>C25: a timestamp reaches the protocol buffer as text that reads back as the timestamp that was
  sent, over the whole range of 64 bits.\<close>

theorem timestamp_round_trip:
  assumes "event_into e = Ret p"
  shows "\<exists>t. pv_timestamp p = Some t \<and> from_str_u64 (JString t) = Some (ev_timestamp e)"
proof -
  have "p = proto_of e" using assms event_into_proto_of [of e] by simp
  then show ?thesis by (simp add: proto_of_fields from_str_u64_def de_string_def u64_from_str_show_u64)
qed

theorem timestamp_round_trip_witness:
  "\<exists>p t. event_into (toy_event ''1'' (2 ^ 64 - 1) ''click'') = Ret p \<and> pv_timestamp p = Some t \<and>
     from_str_u64 (JString t) = Some (2 ^ 64 - 1)"
proof -
  obtain p where p: "event_into (toy_event ''1'' (2 ^ 64 - 1) ''click'') = Ret p" using event_into_Ret by blast
  then show ?thesis using timestamp_round_trip [OF p] by (simp add: toy_event_def)
qed

text \<open>C33: the conversion of a device never panics and loses no field: its language is the explicit one,
  or else the part of the locale before the first underscore; height and width are the given ones, or
  else -1; the platform is the name of the one device; the carrier and the browser carry the flat
  fields of the device; every other field is passed on as it is.\<close>

theorem device_conversion:
  "\<exists>p. device_into d = Ret p \<and>
     pd_language p =
       (case sd_language d of
          Some l \<Rightarrow> Some l
        | None \<Rightarrow> Option.bind (sd_locale d) (\<lambda>loc.
            if CHR ''_'' \<in> set loc then Some (takeWhile (\<lambda>c. c \<noteq> CHR ''_'') loc) else None)) \<and>
     pd_h p = Some (case sd_h d of Some h \<Rightarrow> h | None \<Rightarrow> - 1) \<and>
     pd_w p = Some (case sd_w d of Some w \<Rightarrow> w | None \<Rightarrow> - 1) \<and>
     (\<forall>q. pd_platform p = Some (platform_name q) \<longleftrightarrow> q = device_platform d) \<and>
     pd_carrier p = Some \<lparr>pc_name = sd_carrier_name d, pc_mcc = sd_carrier_country d\<rparr> \<and>
     pd_browser p = Some \<lparr>pb_name = sd_browser_name d, pb_ua = sd_browser_ua d, pb_version = sd_browser_version d\<rparr> \<and>
     pd_ifa_tracking_enabled p = Some (sd_ifa_tracking_enabled d) \<and>
     pd_notification_registered p = Some (sd_notification_registered d) \<and>
     (pd_locale p, pd_timezone p, pd_connectiontype p, pd_orientation p) =
       (sd_locale d, sd_time_zone d, sd_network_connection_type d, sd_orientation d) \<and>
     (pd_manufacturer p, pd_model p, pd_os p, pd_osv p) =
       (sd_manufacturer d, sd_model d, sd_os_name d, sd_os_version d) \<and>
     (pd_ifa p, pd_idfv p, pd_notification_types p, pd_ip_hashed_blake2 p, pd_country p) =
       (sd_ifa d, sd_idfv d, sd_notification_types d, sd_ip_hashed_blake2 d, sd_country d)"
  by (auto simp: device_into_def device_language_eq option_or_def platform_name_inject split: option.splits)

section \<open>Answers and keys\<close>

text \<open>The JSON of an answer determines the answer, the optional members included.\<close>

lemma response_json_injective:
  "sdk_response_json r = sdk_response_json r' \<longleftrightarrow> r = r'"
proof -
  have "inj event_result_json" by (auto simp: inj_on_def event_result_json_inject)
  then show ?thesis by (cases r; cases r') (simp add: sdk_response_json_def inj_map_eq_map)
qed

text \<open>C34: the key of a Kafka record identifies the application and the device. For contexts whose device
  ids, where they have one, have no bar in their text (UUIDs have none), two keys are equal exactly
  when neither context has a device, and then there is no key, or both have and the applications and
  the decrypted ids agree.\<close>

theorem routing_key_injective:
  assumes "\<And>d. ctx_device_id ctx = Some d \<Longrightarrow> CHR ''|'' \<notin> set (clear_value (did_cleartext d))"
    and "\<And>d. ctx_device_id ctx' = Some d \<Longrightarrow> CHR ''|'' \<notin> set (clear_value (did_cleartext d))"
  shows "routing_key ctx = routing_key ctx' \<longleftrightarrow>
    ctx_device_id ctx = None \<and> ctx_device_id ctx' = None \<and> routing_key ctx = None \<or>
    (\<exists>d d'. ctx_device_id ctx = Some d \<and> ctx_device_id ctx' = Some d' \<and>
       ctx_app_id ctx = ctx_app_id ctx' \<and> did_cleartext d = did_cleartext d')"
proof (cases "ctx_device_id ctx"; cases "ctx_device_id ctx'")
  fix d d' assume d: "ctx_device_id ctx = Some d" "ctx_device_id ctx' = Some d'"
  have "routing_key ctx = routing_key ctx' \<longleftrightarrow>
      ctx_app_id ctx @ ''|'' @ clear_value (did_cleartext d) = ctx_app_id ctx' @ ''|'' @ clear_value (did_cleartext d')"
    using d by (simp add: routing_key_def del: as_bytes_append append.simps)
  also have "\<dots> \<longleftrightarrow> ctx_app_id ctx = ctx_app_id ctx' \<and> did_cleartext d = did_cleartext d'"
    using append_bar_inject [OF assms(1) [OF d(1)] assms(2) [OF d(2)]] by (auto intro: cleartext.expand)
  finally show ?thesis using d by simp
qed (simp_all add: routing_key_def)

definition keyed_context :: "uuid \<Rightarrow> request_context" where
  "keyed_context u = clicks_context (Some \<lparr>did_ciphertext = Ciphertext ''x'', did_cleartext = Cleartext (print_uuid u)\<rparr>)"

theorem routing_key_injective_witness:
  "routing_key (keyed_context 3) \<noteq> routing_key (keyed_context 4)"
proof -
  have "print_uuid 3 \<noteq> print_uuid 4" using parse_print_uuid [of 3] parse_print_uuid [of 4] by auto
  then show ?thesis
    using routing_key_injective [of "keyed_context 3" "keyed_context 4"]
    by (auto simp: keyed_context_def clicks_context_def print_uuid_props)
qed

end
