(* ===== verification/Globals.thy ===== *)
theory Globals
  imports Gateway
begin

text \<open>
  The process-wide values of \<open>src/main.rs\<close> and the start of the server in \<open>Gateway::run\<close>: the
  environment variables with their defaults, and \<open>start_globals\<close>, the values of the
  \<open>lazy_static\<close>s. Each is built from the environment and the configuration alone, so the values do
  not depend on the order. The code forces each at its first use: the configuration and the registry
  when the threads start, the GeoIP reader and the secret inside the first request that needs them.
  \<open>start_globals\<close> returns when all of these can be built; when the reader or the secret cannot, the
  code starts and the requests that need it panic, which is not modelled. The pool of
  \<open>IFA_MATCHING\<close> has no value a request sees, and is forced where the code forces it, in
  \<open>fetch_device_id\<close>. Files, the base64 alphabet of the secret, and the client libraries are the
  parameters in \<open>platform_io\<close>.
\<close>

type_synonym env_vars = "string \<Rightarrow> string option"

record 'file platform_io =
  io_open_file :: "string \<Rightarrow> 'file option"
  io_read_to_string :: "'file \<Rightarrow> string option"
  io_toml_from_str :: "string \<Rightarrow> config option"
  io_decode_url_safe_no_pad :: "string \<Rightarrow> u8 list option"
  io_geoip_open :: "string \<Rightarrow> bool"
  io_create_producer :: "(string \<times> string) list \<Rightarrow> producer option"
  io_to_socket_addrs :: "string \<Rightarrow> string list option"

section \<open>Environment variables\<close>

definition rust_env :: "env_vars \<Rightarrow> string" where
  "rust_env vars = (case vars ''RUST_ENV'' of Some e \<Rightarrow> e | None \<Rightarrow> ''development'')"

definition geoip_location :: "env_vars \<Rightarrow> string" where
  "geoip_location vars = (case vars ''GEOIP'' of Some l \<Rightarrow> l | None \<Rightarrow> ''./resources/GeoLite2-Country.mmdb'')"

definition config_location :: "env_vars \<Rightarrow> string" where
  "config_location vars = (case vars ''CONFIG'' of Some l \<Rightarrow> l | None \<Rightarrow> ''./config/config.toml.tests'')"

definition listen_port :: "env_vars \<Rightarrow> string" where
  "listen_port vars = (case vars ''PORT'' of Some p \<Rightarrow> p | None \<Rightarrow> ''1337'')"

text \<open>The address the server binds: the first one the text resolves to.\<close>

definition listen_address :: "'file platform_io \<Rightarrow> env_vars \<Rightarrow> string outcome" where
  "listen_address io vars =
     obind (unwrap (io_to_socket_addrs io (''0.0.0.0:'' @ listen_port vars))) (\<lambda>addrs.
     case addrs of [] \<Rightarrow> Panic | addr # _ \<Rightarrow> Ret addr)"

section \<open>Logging\<close>

text \<open>\<open>Logger::new\<close>: asynchronous JSON with its default keys, or compact text, both to the standard
  error, and the two fields every record carries.\<close>

datatype log_format = JsonFormat | CompactTerm

record root_logger =
  lg_format :: log_format
  lg_fields :: "(string \<times> string) list"

definition log_format_of :: "env_vars \<Rightarrow> log_format" where
  "log_format_of vars =
     (case vars ''LOG_FORMAT'' of
        Some val \<Rightarrow> if val = ''json'' then JsonFormat else CompactTerm
      | None \<Rightarrow> CompactTerm)"

definition logger_new :: "env_vars \<Rightarrow> root_logger" where
  "logger_new vars =
     \<lparr>lg_format = log_format_of vars,
      lg_fields = [(''application_name'', ''xorc-gateway''), (''environment'', rust_env vars)]\<rparr>"

section \<open>The globals\<close>

record globals =
  gl_config :: config
  gl_cors :: "cors option"
  gl_secret :: "u8 list"
  gl_registry :: app_registry
  gl_log :: root_logger

definition start_globals ::
  "'file platform_io \<Rightarrow> crates \<Rightarrow> 'db scylla \<Rightarrow> env_vars \<Rightarrow> 'db world \<Rightarrow> (globals \<times> 'db world) outcome" where
  "start_globals io cr svc vars w =
     obind (config_parse (io_open_file io) (io_read_to_string io) (io_toml_from_str io) (rust_env vars)
              (config_location vars)) (\<lambda>cfg.
     obind (if io_geoip_open io (geoip_location vars) then Ret () else Panic) (\<lambda>_.
     obind (app_registry_new cr svc cfg w) (\<lambda>(registry, w).
     obind (load_secret (io_decode_url_safe_no_pad io) (vars ''SECRET'') (rust_env vars)) (\<lambda>secret.
     Ret (\<lparr>gl_config = cfg, gl_cors = cors_new cfg, gl_secret = secret, gl_registry = registry,
           gl_log = logger_new vars\<rparr>, w)))))"

section \<open>The server\<close>

text \<open>\<open>Kafka::new\<close>: the options of the client, in the order they are set.\<close>

definition producer_options :: "kafka_config \<Rightarrow> (string \<times> string) list" where
  "producer_options cfg =
     [(''bootstrap.servers'', kc_brokers cfg), (''produce.offset.report'', ''true''), (''request.required.acks'', ''0'')]"

definition kafka_new :: "'file platform_io \<Rightarrow> kafka_config \<Rightarrow> producer outcome" where
  "kafka_new io cfg = unwrap (io_create_producer io (producer_options cfg))"

text \<open>\<open>Gateway::new\<close>; the clones of a gateway share its connections.\<close>

record gateway =
  gw_connections :: producer

definition gateway_new :: "'file platform_io \<Rightarrow> config \<Rightarrow> gateway outcome" where
  "gateway_new io cfg = obind (kafka_new io (cfg_kafka cfg)) (\<lambda>kafka. Ret \<lparr>gw_connections = kafka\<rparr>)"

text \<open>\<open>Gateway::run\<close> before it serves: the address first, then the gateway; the runtime has the
  configured name and number of threads.\<close>

record server_setup =
  ss_address :: string
  ss_name_prefix :: string
  ss_core_threads :: nat
  ss_gateway :: gateway

definition gateway_setup :: "'file platform_io \<Rightarrow> env_vars \<Rightarrow> config \<Rightarrow> server_setup outcome" where
  "gateway_setup io vars cfg =
     obind (listen_address io vars) (\<lambda>addr.
     obind (gateway_new io cfg) (\<lambda>gateway.
     Ret \<lparr>ss_address = addr, ss_name_prefix = gc_process_name_prefix (cfg_gateway cfg),
          ss_core_threads = gc_threads (cfg_gateway cfg), ss_gateway = gateway\<rparr>))"

section \<open>Facts\<close>

text \<open>What the environment of the handlers is made of, once the process is up.\<close>

definition env_of ::
  "crates \<Rightarrow> 'db scylla \<Rightarrow> globals \<Rightarrow> server_setup \<Rightarrow> 'db gateway_env \<Rightarrow> 'db gateway_env" where
  "env_of cr svc gl setup codecs =
     codecs\<lparr>ge_crates := cr, ge_secret := gl_secret gl, ge_config := gl_config gl, ge_cors := gl_cors gl,
            ge_scylla := svc, ge_producer := gw_connections (ss_gateway setup)\<rparr>"

lemma app_registry_new_static:
  assumes "app_registry_new cr svc cfg w = Ret (reg, w')" and "\<not> cas_manage_apps (cfg_cassandra cfg)"
  shows "reg_allow_empty_signature reg = gc_allow_empty_signature (cfg_gateway cfg)" and "\<not> reg_pool reg"
    and "w_db w' = w_db w"
  using assms by (auto simp: app_registry_new_def obind_eq_Ret split_beta Let_def)

lemma load_secret_production:
  "load_secret dec var env = Ret secret \<Longrightarrow> env \<noteq> ''development'' \<Longrightarrow> \<exists>s. var = Some s \<and> dec s = Some secret"
  by (auto simp: load_secret_def unwrap_eq split: option.splits)

lemma start_globals_Ret:
  assumes "start_globals io cr svc vars w = Ret (gl, w')"
  shows "config_parse (io_open_file io) (io_read_to_string io) (io_toml_from_str io) (rust_env vars)
      (config_location vars) = Ret (gl_config gl)"
    and "app_registry_new cr svc (gl_config gl) w = Ret (gl_registry gl, w')"
    and "load_secret (io_decode_url_safe_no_pad io) (vars ''SECRET'') (rust_env vars) = Ret (gl_secret gl)"
    and "gl_cors gl = cors_new (gl_config gl)"
  using assms by (auto simp: start_globals_def obind_eq_Ret)

end
