(* ===== verification/Policy_Properties.thy ===== *)
theory Policy_Properties
  imports Instances Globals
begin

text \<open>
  The properties of the policies a request meets: the configuration and the application registry
  built from it, validation, the cross-origin headers, and the table of advertising ids.
\<close>

section \<open>Validation\<close>

text \<open>C17: which error a refused request gets: the first failing check in the order of application,
  token, events, signature header, platform key, signature. A missing token is never an error.\<close>

theorem validate_first_error:
  "validate cr default_token reg event ctx raw = Inl e \<longleftrightarrow>
     (case reg_apps reg (se_app_id (sb_environment event)) of
        None \<Rightarrow> e = AppDoesNotExist
      | Some app \<Rightarrow>
          if \<not> token_accepted default_token app (ctx_api_token ctx) then e = InvalidToken
          else if sb_events event = [] then e = InvalidPayload
          else if reg_allow_empty_signature reg then False
          else if ctx_signature ctx = None then e = MissingSignature
          else if platform_secret app (device_platform (sb_device event)) = None then e = AppDoesNotExist
          else e = InvalidSignature \<and>
            \<not> signature_accepted cr app (device_platform (sb_device event)) (ctx_signature ctx) raw)"
proof (cases "reg_apps reg (se_app_id (sb_environment event))")
  case (Some app)
  show ?thesis
  proof (cases "ctx_signature ctx")
    case None
    then show ?thesis using Some by (auto simp: validate_def outcome_simps token_accepted_iff Let_def)
  next
    case (Some s)
    then show ?thesis using \<open>reg_apps reg (se_app_id (sb_environment event)) = Some app\<close>
      by (cases "b64_decode cr s")
        (auto simp: validate_def outcome_simps token_accepted_iff signature_accepted_secret Let_def)
  qed
qed (auto simp: validate_def)

section \<open>The registry\<close>

text \<open>C15: a gateway that starts outside development demands signatures, encrypts with the key of its
  \<open>SECRET\<close> variable, and takes its applications from the configuration alone: no later update
  changes them, because a configuration that asks for the database is refused.\<close>

theorem production_gateway:
  assumes start: "start_globals io cr svc vars w = Ret (gl, w')"
    and env: "rust_env vars \<noteq> ''development''"
    and later: "reachable (\<lambda>r. r = gl_registry gl) (registry_step cr svc keyspace) reg"
  shows "\<not> reg_allow_empty_signature reg \<and> reg_apps reg = reg_apps (gl_registry gl) \<and> w_db w' = w_db w \<and>
    (\<exists>s. vars ''SECRET'' = Some s \<and> io_decode_url_safe_no_pad io s = Some (gl_secret gl))"
proof -
  note gl = start_globals_Ret [OF start]
  have "\<not> gc_allow_empty_signature (cfg_gateway (gl_config gl))" "\<not> cas_manage_apps (cfg_cassandra (gl_config gl))"
    using gl(1) env by (auto simp: config_parse_Ret check_environment_Ret)
  then show ?thesis
    using app_registry_new_static [OF gl(2)] load_secret_production [OF gl(3) env]
      registry_updates.reachable_inv [OF later] by (simp add: registry_inv_def)
qed

definition toy_io :: "string platform_io" where
  "toy_io =
     \<lparr>io_open_file = Some, io_read_to_string = Some, io_toml_from_str = (\<lambda>_. Some toy_config),
      io_decode_url_safe_no_pad = (\<lambda>_. Some toy_secret), io_geoip_open = (\<lambda>_. True),
      io_create_producer = (\<lambda>_. Some (ge_producer toy_env)), io_to_socket_addrs = (\<lambda>s. Some [s])\<rparr>"

definition toy_vars :: env_vars where
  "toy_vars = [''RUST_ENV'' \<mapsto> ''production'', ''SECRET'' \<mapsto> ''x'']"

lemma toy_io_simps:
  "io_open_file toy_io = Some" "io_read_to_string toy_io = Some" "io_toml_from_str toy_io = (\<lambda>_. Some toy_config)"
  "io_decode_url_safe_no_pad toy_io = (\<lambda>_. Some toy_secret)" "io_geoip_open toy_io l"
  by (simp_all add: toy_io_def)

lemma toy_vars_simps: "rust_env toy_vars = ''production''" "toy_vars ''SECRET'' = Some ''x''"
  by (simp_all add: rust_env_def toy_vars_def)

lemma toy_config_parse: "config_parse Some Some (\<lambda>_. Some toy_config) ''production'' path = Ret toy_config"
  by (simp add: config_parse_def check_environment_def toy_config_def)

lemma toy_load_secret: "load_secret (\<lambda>_. Some toy_secret) (Some ''x'') ''production'' = Ret toy_secret"
  by (simp add: load_secret_def)

definition toy_globals :: globals where
  "toy_globals =
     \<lparr>gl_config = toy_config, gl_cors = Some toy_cors, gl_secret = toy_secret, gl_registry = toy_registry,
      gl_log = logger_new toy_vars\<rparr>"

definition toy_started :: "toy_db world" where
  "toy_started = toy_world\<lparr>w_metrics := zero_metrics\<lparr>app_update_counter := 1\<rparr>\<rparr>"

lemma toy_starts: "start_globals toy_io toy_crates toy_scylla toy_vars toy_world = Ret (toy_globals, toy_started)"
  unfolding start_globals_def toy_io_simps toy_vars_simps toy_config_parse
  by (simp only: obind.simps if_True app_registry_new_toy toy_load_secret prod.case toy_io_simps
      cors_new_toy toy_globals_def toy_started_def)

theorem production_gateway_witness:
  "\<not> reg_allow_empty_signature toy_registry \<and> w_db toy_started = w_db toy_world"
proof -
  have "rust_env toy_vars \<noteq> ''development''" by (simp add: toy_vars_simps)
  moreover have "reachable (\<lambda>r. r = gl_registry toy_globals) (registry_step toy_crates toy_scylla ''ks'') toy_registry"
    by (rule reachable_start) (simp add: toy_globals_def)
  ultimately show ?thesis using production_gateway [OF toy_starts] by metis
qed

text \<open>C10: however often the updater runs and whatever the database does, the signature policy never
  changes, and the applications are the original ones or, for a registry with a connection pool, all
  the rows of one answer of the database to the query for the keyspace's applications, the last row
  of an id counting, or none if the answer holds no rows.\<close>

theorem registry_never_partial:
  assumes "reachable (\<lambda>r. r = reg0) (registry_step cr svc keyspace) reg"
  shows "reg_allow_empty_signature reg = reg_allow_empty_signature reg0 \<and>
    (reg_apps reg = reg_apps reg0 \<or> reg_pool reg0 \<and> complete_load cr svc keyspace (reg_apps reg))"
  using registry_updates.reachable_inv [OF assms] by (simp add: registry_inv_def)

text \<open>A database that answers every query with two applications, in rows that have the columns the
  fold reads, whatever was selected.\<close>

definition app_row :: "uuid \<Rightarrow> row" where
  "app_row u = \<lparr>row_uuid = (\<lambda>c. Some u), row_text = (\<lambda>c. Some (if c = ''sdk_token'' then Some ''t'' else None))\<rparr>"

definition two_apps_scylla :: "toy_db scylla" where
  "two_apps_scylla = toy_scylla\<lparr>run_cql := (\<lambda>q db. (Some (rows_frame [app_row 1, app_row 2]), db))\<rparr>"

definition two_apps :: "string \<rightharpoonup> application" where
  "two_apps = [print_uuid 1 \<mapsto> app_of toy_crates (print_uuid 1) (Some ''t'') None None None,
     print_uuid 2 \<mapsto> app_of toy_crates (print_uuid 2) (Some ''t'') None None None]"

lemma two_apps_loaded:
  "load_rows toy_crates [app_row 1, app_row 2] Map.empty m = Ret (two_apps, inc_app_update (inc_app_update m))"
  by (simp add: app_row_def two_apps_def create_app_eq Let_def)

theorem registry_never_partial_witness:
  "complete_load toy_crates two_apps_scylla ''ks'' two_apps"
proof -
  let ?reg0 = "toy_registry\<lparr>reg_pool := True\<rparr>"
  have "\<exists>w'. update_apps toy_crates two_apps_scylla ''ks'' ?reg0 toy_world = Ret (Inr (), swap_apps two_apps ?reg0, w')"
    by (simp add: update_apps_def two_apps_scylla_def toy_scylla_def rows_frame_def two_apps_loaded del: load_rows.simps)
  then have "registry_step toy_crates two_apps_scylla ''ks'' ?reg0 (swap_apps two_apps ?reg0)"
    using registry_step.update by blast
  moreover have "reachable (\<lambda>r. r = ?reg0) (registry_step toy_crates two_apps_scylla ''ks'') ?reg0"
    by (rule reachable_start) simp
  ultimately have "reachable (\<lambda>r. r = ?reg0) (registry_step toy_crates two_apps_scylla ''ks'') (swap_apps two_apps ?reg0)"
    using reachable_step by metis
  note registry_never_partial [OF this]
  moreover have "print_uuid 2 \<noteq> print_uuid 1" using parse_print_uuid [of 2] parse_print_uuid [of 1] by auto
  ultimately show ?thesis
    by (auto simp: swap_apps_def toy_registry_def two_apps_def toy_app_id_def dest: fun_cong [of _ _ "print_uuid 2"])
qed

text \<open>C38: an update that fails leaves the registry and the metrics as they were, and its error is a lost
  connection; it fails exactly when the registry has a pool and the pool gives no connection or the
  query on it fails.\<close>

theorem failed_update_keeps_registry:
  "(\<forall>e reg' w'. update_apps cr svc keyspace reg w = Ret (Inl e, reg', w') \<longrightarrow>
      reg' = reg \<and> e = IoError ConnectionAborted \<and> w_metrics w' = w_metrics w) \<and>
   ((\<exists>e reg' w'. update_apps cr svc keyspace reg w = Ret (Inl e, reg', w')) \<longleftrightarrow>
      reg_pool reg \<and>
      (let (ok, db) = pool_get svc (w_db w) in ok \<longrightarrow> fst (run_cql svc (select_applications keyspace) db) = None))"
  by (auto simp: update_apps_def split_beta Let_def outcome_simps split: if_splits option.splits)

theorem failed_update_keeps_registry_witness:
  "update_apps toy_crates (toy_scylla\<lparr>pool_get := (\<lambda>db. (False, db))\<rparr>) ''ks'' (toy_registry\<lparr>reg_pool := True\<rparr>) toy_world =
     Ret (Inl (IoError ConnectionAborted), toy_registry\<lparr>reg_pool := True\<rparr>, toy_world)"
proof -
  let ?svc = "toy_scylla\<lparr>pool_get := (\<lambda>db. (False, db))\<rparr>" and ?reg = "toy_registry\<lparr>reg_pool := True\<rparr>"
  obtain e reg' w' where u: "update_apps toy_crates ?svc ''ks'' ?reg toy_world = Ret (Inl e, reg', w')"
    using failed_update_keeps_registry [of toy_crates ?svc "''ks''" ?reg toy_world] by auto
  then have "reg' = ?reg \<and> e = IoError ConnectionAborted"
    using failed_update_keeps_registry [of toy_crates ?svc "''ks''" ?reg toy_world] by blast
  then show ?thesis using u by (simp add: update_apps_def)
qed

text \<open>C32: the registry is well formed: from its creation, from the configuration or the database, and
  through every sequence of updates, each application is stored under its own id.\<close>

theorem applications_under_own_id:
  assumes "app_registry_new cr svc cfg w = Ret (reg0, w')"
    and "reachable (\<lambda>r. r = reg0) (registry_step cr svc keyspace) reg"
    and "reg_apps reg k = Some app"
  shows "app_key app = k"
proof -
  have "reg_apps reg = reg_apps reg0 \<or> complete_load cr svc keyspace (reg_apps reg)"
    using registry_updates.reachable_inv [OF assms(2)] by (auto simp: registry_inv_def)
  then show ?thesis
    using app_registry_new_keyed [OF assms(1)] complete_load_keyed assms(3) by (auto simp: apps_keyed_def)
qed

theorem applications_under_own_id_witness:
  "app_key toy_application = toy_app_id"
proof -
  have "reachable (\<lambda>r. r = toy_registry) (registry_step toy_crates toy_scylla ''ks'') toy_registry"
    by (rule reachable_start) simp
  from applications_under_own_id [OF app_registry_new_toy this] show ?thesis by (simp add: toy_registry_def)
qed

text \<open>C31: the query selects the column \<open>id\<close> but the fold reads \<open>app_id\<close>. If rows have no columns but the
  selected ones, an update that gets an answer with rows panics exactly when there is a row: no
  application can be loaded from the database.\<close>

theorem update_panics_on_selected_columns:
  assumes "rows_have_selected_columns svc" and "reg_pool reg" and "pool_get svc (w_db w) = (True, db)"
    and "run_cql svc (select_applications keyspace) db = (Some frame, db')" and "frame_body frame = Some (Some rows)"
  shows "update_apps cr svc keyspace reg w = Panic \<longleftrightarrow> rows \<noteq> []"
proof -
  have "''app_id'' \<notin> set (selected_columns (q_text (select_applications keyspace)))"
    by (simp add: selected_columns_def select_applications_def)
  then have "row_uuid row ''app_id'' = None" if "row \<in> set rows" for row
    using assms(1,4,5) that unfolding rows_have_selected_columns_def by blast
  then show ?thesis using assms(2-5) by (cases rows) (auto simp: update_apps_def)
qed

theorem update_panics_on_selected_columns_witness:
  "update_apps toy_crates toy_scylla ''ks'' (toy_registry\<lparr>reg_pool := True\<rparr>)
     (toy_world\<lparr>w_db := \<lparr>td_ifas = Map.empty, td_apps = [app_row 1]\<rparr>\<rparr>) = Panic"
proof -
  let ?db = "\<lparr>td_ifas = Map.empty, td_apps = [app_row 1]\<rparr>"
  let ?q = "select_applications ''ks''"
  have "run_cql toy_scylla ?q ?db = (Some (rows_frame [project (selected_columns (q_text ?q)) (app_row 1)]), ?db)"
    by (simp add: toy_scylla_def select_applications_def)
  from update_panics_on_selected_columns [OF toy_columns _ _ this, of "toy_registry\<lparr>reg_pool := True\<rparr>"
      "toy_world\<lparr>w_db := ?db\<rparr>" "[project (selected_columns (q_text ?q)) (app_row 1)]" toy_crates]
  show ?thesis by (simp add: rows_frame_def toy_scylla_def)
qed

text \<open>C29: the applications of the configuration file: for each id the last entry counts, with its
  token and with the secrets that are hexadecimal; one update is counted per entry.\<close>

theorem configured_applications:
  assumes "\<not> cas_manage_apps (cfg_cassandra c)" and "cfg_test_apps c = Some ts"
  shows "\<exists>reg w'. app_registry_new cr svc c w = Ret (reg, w') \<and>
    reg_apps reg = map_of (rev (map (\<lambda>t. (tc_app_id t, test_app_of cr t)) ts)) \<and>
    app_update_counter (w_metrics w') = app_update_counter (w_metrics w) + length ts"
proof -
  obtain apps m where load: "load_test_apps cr ts Map.empty (w_metrics w) = (apps, m)" by fastforce
  then show ?thesis
    using assms load_test_apps_eq [of cr ts Map.empty "w_metrics w"] load_test_apps_count [of cr ts Map.empty "w_metrics w"]
    by (simp add: app_registry_new_def)
qed

theorem configured_applications_witness:
  "\<exists>reg w'. app_registry_new toy_crates toy_scylla toy_config toy_world = Ret (reg, w') \<and>
     app_update_counter (w_metrics w') = 1"
  using configured_applications [of toy_config _ toy_crates toy_scylla toy_world]
  by (force simp: toy_config_def toy_world_def zero_metrics_def)

section \<open>Origins\<close>

text \<open>C39: the policy of a configuration admits an origin for an application exactly when the last
  \<open>origins\<close> entry of that application lists it; a request without an origin is never admitted.\<close>

theorem configured_origin_valid:
  assumes "cors_new c = Some co"
  shows "valid_origin co app origin \<longleftrightarrow>
    (\<exists>o' allowed. origin = Some o' \<and> configured_origins c app = Some allowed \<and> o' \<in> set allowed)"
  by (auto simp: valid_origin_def cors_new_origins [OF assms] split: option.splits)

theorem configured_origin_valid_witness:
  "valid_origin toy_cors toy_app_id (Some ''https://a.example'') \<and> \<not> valid_origin toy_cors toy_app_id None"
  using configured_origin_valid [OF cors_new_toy, of toy_app_id "Some ''https://a.example''"]
    configured_origin_valid [OF cors_new_toy, of toy_app_id None]
  by (simp add: configured_origins_def toy_config_def)

section \<open>Advertising ids\<close>

lemma toy_key: "request_key toy_crates (toy_app_id, Some toy_ifa, True) = Some (1, 2)"
  by (simp add: request_key_Some parse_ifa_def toy_ifa_def toy_app_id_def parse_print_uuid)

lemma toy_key_parts: "parse_ifa toy_crates (Some toy_ifa) True = Some 2" "uuid_parse_str toy_crates toy_app_id = Some 1"
  by (simp_all add: parse_ifa_def toy_ifa_def toy_app_id_def parse_print_uuid)

text \<open>The database of the instances does not fail.\<close>

lemma toy_lookup_no_error:
  assumes "get_id_for_ifa toy_crates toy_scylla ''ks'' toy_app_id (Some toy_ifa) True w = (r, w')"
  shows "scylladb_request_counter (w_metrics w') (''get'', ''error'') = scylladb_request_counter (w_metrics w) (''get'', ''error'')"
  using assms toy_key_parts
  by (auto simp: get_id_for_ifa_def run_query_def toy_scylla_def select_entity_def rows_frame_def
      inc_scylladb_request_def observe_scylladb_latency_def split: option.splits list.splits)

text \<open>C26: a lookup of an application and an advertising id that are UUIDs, the latter not nil and not
  opted out, in a table with one copy: it changes no entry, and it gives the entry of the two and
  counts \<open>ok\<close>, or gives nothing and counts \<open>not_found\<close> when there is none, or gives nothing and counts
  \<open>error\<close>, whatever the entry. No other label of the database counter moves.\<close>

theorem lookup_outcomes:
  assumes "ifa_table svc keyspace view" and "parse_ifa cr ifa enabled = Some i" and "uuid_parse_str cr app = Some a"
    and "get_id_for_ifa cr svc keyspace app ifa enabled w = (r, w')"
  shows "view (w_db w') = view (w_db w) \<and>
    (\<exists>label. scylladb_request_counter (w_metrics w') =
       (scylladb_request_counter (w_metrics w))
         ((''get'', label) := Suc (scylladb_request_counter (w_metrics w) (''get'', label))) \<and>
     (case view (w_db w) (a, i) of
        Some e \<Rightarrow> r = Some (uuid_hyphenated cr e) \<and> label = ''ok'' \<or> r = None \<and> label = ''error''
      | None \<Rightarrow> r = None \<and> (label = ''not_found'' \<or> label = ''error'')))"
  using get_tracked [OF assms] by (auto simp: lookup_outcome_def counts_one_def split: option.splits)

theorem lookup_outcomes_witness:
  "\<exists>w'. get_id_for_ifa toy_crates toy_scylla ''ks'' toy_app_id (Some toy_ifa) True toy_world = (None, w') \<and>
     td_ifas (w_db w') = Map.empty"
proof -
  obtain r w' where g: "get_id_for_ifa toy_crates toy_scylla ''ks'' toy_app_id (Some toy_ifa) True toy_world = (r, w')"
    by fastforce
  from lookup_outcomes [OF toy_table toy_key_parts g] g show ?thesis
    by (auto simp: toy_world_def)
qed

text \<open>C27: a store of a UUID for such a pair, in such a table: it succeeds, sets the entry of the two and no
  other, and counts \<open>ok\<close>; or it fails with an interruption and counts \<open>error\<close>, and then the table is as
  it was or the entry is set after all. No other label of the database counter moves.\<close>

theorem store_outcomes:
  assumes "ifa_table svc keyspace view" and "parse_ifa cr ifa enabled = Some i" and "uuid_parse_str cr app = Some a"
    and "uuid_parse_str cr (clear_value d) = Some e"
    and "put_id_for_ifa cr svc keyspace app d ifa enabled w = (r, w')"
  shows "\<exists>label. scylladb_request_counter (w_metrics w') =
      (scylladb_request_counter (w_metrics w))
        ((''put'', label) := Suc (scylladb_request_counter (w_metrics w) (''put'', label))) \<and>
    (r = Inr () \<and> label = ''ok'' \<and> view (w_db w') = (view (w_db w))((a, i) \<mapsto> e) \<or>
     r = Inl (IoError Interrupted) \<and> label = ''error'' \<and>
       view (w_db w') \<in> {view (w_db w), (view (w_db w))((a, i) \<mapsto> e)})"
  using put_tracked [OF assms] by (auto simp: store_outcome_def counts_one_def)

theorem store_outcomes_witness:
  "\<exists>r w'. put_id_for_ifa toy_crates toy_scylla ''ks'' toy_app_id (Cleartext (print_uuid 9)) (Some toy_ifa) True toy_world = (r, w') \<and>
     (r = Inr () \<longrightarrow> td_ifas (w_db w') = [(1, 2) \<mapsto> 9])"
proof -
  obtain r w' where p: "put_id_for_ifa toy_crates toy_scylla ''ks'' toy_app_id (Cleartext (print_uuid 9)) (Some toy_ifa) True toy_world
      = (r, w')" by fastforce
  have "uuid_parse_str toy_crates (clear_value (Cleartext (print_uuid 9))) = Some 9" by (simp add: parse_print_uuid)
  from store_outcomes [OF toy_table toy_key_parts this p] p show ?thesis
    by (auto simp: toy_world_def)
qed



end
