(* ===== verification/Server.thy ===== *)
theory Server
  imports Races
begin

text \<open>
  The gateway as it runs: any number of POSTs to the SDK path in flight on the server's threads,
  and the updater of the registry, all interleaved. A request moves through the stages of its future
  in \<open>src/gateway.rs\<close>: it is read and checked in one go (\<open>handle_sdk\<close>, \<open>handle_event\<close>), a
  registration looks its device up, stores it and reads the token in separate steps
  (\<open>create_new_device\<close>), then the batch is published and the answer built. Between any two steps other
  requests and the updater may act, so the registry a request is validated against and the one its
  token comes from can differ. A thread that panics drops its future: the stage is \<open>Crashed\<close>, and
  the latency timer may observe when it is dropped.
\<close>

section \<open>The stages of a request\<close>

text \<open>The checks before the first asynchronous step, from the body to \<open>validate\<close>.\<close>

definition accept_request ::
  "'db gateway_env \<Rightarrow> app_registry \<Rightarrow> http_request
     \<Rightarrow> (gateway_error \<times> request_context option + sdk_event_batch \<times> request_context) outcome" where
  "accept_request env reg req =
     (case rq_body req of
        None \<Rightarrow> Ret (Inl (InternalServerError ''body concat'', None))
      | Some body \<Rightarrow>
     (case Option.bind (ge_json_parse env body) de_batch of
        None \<Rightarrow> Ret (Inl (InvalidPayload, None))
      | Some event \<Rightarrow>
          obind (context_new (ge_crates env) (ge_secret env) (rq_headers req)
                   (se_app_id (sb_environment event)) (device_platform (sb_device event))) (\<lambda>ctx.
          if origin_refused env (rq_headers req) event then Ret (Inl (UnknownOrigin, Some ctx))
          else
            case validate (ge_crates env) (ge_default_token env) reg event ctx body of
              Inl e \<Rightarrow> Ret (Inl (e, Some ctx))
            | Inr _ \<Rightarrow> Ret (Inr (event, ctx)))))"

text \<open>The answer: the last closure of \<open>handle_sdk\<close>, without its counter.\<close>

definition respond ::
  "'db gateway_env \<Rightarrow> gateway_error \<times> request_context option + string \<times> request_context
     \<Rightarrow> http_response outcome" where
  "respond env res =
     (case res of
        Inr (json_body, ctx) \<Rightarrow>
          obind (case ge_cors env of
                   Some cors \<Rightarrow>
                     response_builder_origin (ge_crates env) cors (ctx_app_id ctx) (ctx_origin ctx) (ctx_platform ctx)
                 | None \<Rightarrow> Ret response_builder) (\<lambda>b.
          Ret ((add_header ''content-type'' (as_bytes ''application/json'') b)
                 \<lparr>rs_status := 200, rs_body := json_body\<rparr>))
      | Inl (e, ctx) \<Rightarrow> into_response (ge_crates env) (ge_cors env) e ctx)"

datatype stage =
    Arrived
  | Accepted sdk_event_batch request_context
  | Found sdk_event_batch request_context "string option"
  | Settled sdk_event_batch request_context device_id
  | Ready "event_result list" request_context sdk_event_batch
  | Handled "gateway_error \<times> request_context option + string \<times> request_context"
  | Answered http_response
  | Crashed

record 'db server =
  sv_registry :: app_registry
  sv_world :: "'db world"
  sv_stage :: "nat \<Rightarrow> stage"

definition goto :: "nat \<Rightarrow> stage \<Rightarrow> 'db world \<Rightarrow> 'db server \<Rightarrow> 'db server" where
  "goto j st w s = s\<lparr>sv_world := w, sv_stage := (sv_stage s)(j := st)\<rparr>"

definition stage_panics :: "'db gateway_env \<Rightarrow> http_request \<Rightarrow> 'db server \<Rightarrow> stage \<Rightarrow> bool" where
  "stage_panics env req s st \<longleftrightarrow>
     (case st of
        Arrived \<Rightarrow> accept_request env (sv_registry s) req = Panic
      | Accepted event ctx \<Rightarrow> needs_device ctx event \<and> force_ifa_matching env = Panic
      | Found event ctx found \<Rightarrow> settle_device_id env found (w_rng (sv_world s)) = Panic
      | Handled res \<Rightarrow> respond env res = Panic
      | _ \<Rightarrow> False)"

inductive gateway_step ::
  "'db gateway_env \<Rightarrow> (nat \<Rightarrow> http_request) \<Rightarrow> 'db server \<Rightarrow> 'db server \<Rightarrow> bool"
  for env :: "'db gateway_env" and reqs :: "nat \<Rightarrow> http_request" where
  refuse: "sv_stage s j = Arrived \<Longrightarrow> accept_request env (sv_registry s) (reqs j) = Ret (Inl e) \<Longrightarrow>
    gateway_step env reqs s (goto j (Handled (Inl e)) (sv_world s) s)"
| accept: "sv_stage s j = Arrived \<Longrightarrow> accept_request env (sv_registry s) (reqs j) = Ret (Inr (event, ctx)) \<Longrightarrow>
    gateway_step env reqs s (goto j (Accepted event ctx) (sv_world s) s)"
| results: "sv_stage s j = Accepted event ctx \<Longrightarrow> registration_of event = None \<Longrightarrow>
    gateway_step env reqs s
      (goto j (Ready (map (\<lambda>e. event_result_new (ev_id e) Success) (sb_events event)) ctx event) (sv_world s) s)"
| known: "sv_stage s j = Accepted event ctx \<Longrightarrow> registration_of event \<noteq> None \<Longrightarrow> ctx_device_id ctx = Some d \<Longrightarrow>
    gateway_step env reqs s (goto j (Settled event ctx d) (sv_world s) s)"
| busy: "sv_stage s j = Accepted event ctx \<Longrightarrow> needs_device ctx event \<Longrightarrow>
    gateway_step env reqs s
      (goto j (Handled (Inl (ServiceUnavailable ''Aerospike is acting slow today'', None))) (sv_world s) s)"
| look: "sv_stage s j = Accepted event ctx \<Longrightarrow> needs_device ctx event \<Longrightarrow>
    force_ifa_matching env = Ret () \<Longrightarrow>
    get_id_for_ifa (ge_crates env) (ge_scylla env) (ge_keyspace env) (ctx_app_id ctx)
      (sd_ifa (sb_device event)) (sd_ifa_tracking_enabled (sb_device event)) (sv_world s) = (found, w') \<Longrightarrow>
    gateway_step env reqs s (goto j (Found event ctx found) w' s)"
| store: "sv_stage s j = Found event ctx found \<Longrightarrow>
    settle_device_id env found (w_rng (sv_world s)) = Ret (d, r) \<Longrightarrow>
    put_id_for_ifa (ge_crates env) (ge_scylla env) (ge_keyspace env) (ctx_app_id ctx) (did_cleartext d)
      (sd_ifa (sb_device event)) (sd_ifa_tracking_enabled (sb_device event)) ((sv_world s)\<lparr>w_rng := r\<rparr>) = (res, w') \<Longrightarrow>
    gateway_step env reqs s (goto j (Settled event ctx d) w' s)"
| register: "sv_stage s j = Settled event ctx d \<Longrightarrow> registration_of event = Some i \<Longrightarrow>
    rr_token_apps run = sv_registry s \<Longrightarrow> ctx' = registered_context run ctx d \<Longrightarrow>
    gateway_step env reqs s
      (goto j (Ready [event_result_register i Success (ctx_api_token ctx') (did_ciphertext d)] ctx' event) (sv_world s) s)"
| publish: "sv_stage s j = Ready results ctx event \<Longrightarrow>
    send_events env run results ctx event (sv_world s) = Ret (sent, w') \<Longrightarrow>
    gateway_step env reqs s (goto j (Handled (map_err (\<lambda>e. (e, None)) sent)) w' s)"
| answer: "sv_stage s j = Handled res \<Longrightarrow> respond env res = Ret resp \<Longrightarrow>
    gateway_step env reqs s
      (goto j (Answered resp)
         (count observe_response_time (count (inc_request (show_nat (rs_status resp)) ''sdk_events'') (sv_world s))) s)"
| crash: "stage_panics env (reqs j) s (sv_stage s j) \<Longrightarrow>
    w' = sv_world s \<or> w' = count observe_response_time (sv_world s) \<Longrightarrow>
    gateway_step env reqs s (goto j Crashed w' s)"
| update: "update_apps (ge_crates env) (ge_scylla env) (ge_keyspace env) (sv_registry s) (sv_world s)
      = Ret (r, reg', w') \<Longrightarrow>
    gateway_step env reqs s (s\<lparr>sv_registry := reg', sv_world := w'\<rparr>)"

definition server_start :: "app_registry \<Rightarrow> 'db world \<Rightarrow> 'db server \<Rightarrow> bool" where
  "server_start reg0 w0 s \<longleftrightarrow> sv_registry s = reg0 \<and> sv_world s = w0 \<and> (\<forall>j. sv_stage s j = Arrived)"

lemma goto_simps [simp]:
  "sv_registry (goto j st w s) = sv_registry s" "sv_world (goto j st w s) = w"
  "sv_stage (goto j st w s) = (sv_stage s)(j := st)"
  by (simp_all add: goto_def)

section \<open>The stages compose to the handler\<close>

lemma read_event_accept:
  "read_event env run req w =
     obind (accept_request env (rr_validate_apps run) req) (\<lambda>a.
     case a of
       Inl e \<Rightarrow> Ret (Inl e, w)
     | Inr (event, ctx) \<Rightarrow>
         obind (generate_event_results env run ctx event w) (\<lambda>(generated, w).
         case generated of
           Inl e \<Rightarrow> Ret (Inl (e, None), w)
         | Inr (results, ctx, event) \<Rightarrow>
             obind (send_events env run results ctx event w) (\<lambda>(sent, w).
             Ret (map_err (\<lambda>e. (e, None)) sent, w))))"
  by (auto simp: read_event_def accept_request_def handle_event_def split: option.splits sum.splits outcome.splits
      intro!: arg_cong [where f = "obind _"])

lemma handle_sdk_respond:
  "handle_sdk env run req w =
     obind (read_event env run req w) (\<lambda>(res, w).
     obind (respond env res) (\<lambda>resp.
     Ret (resp, count (inc_request (show_nat (rs_status resp)) ''sdk_events'') w)))"
  unfolding handle_sdk_def
  by (rule arg_cong [where f = "obind _"])
    (auto simp: respond_def fun_eq_iff show_nat_200 split: sum.splits option.splits)

section \<open>A request by itself\<close>

lemma goto_same [simp]: "sv_stage s j = st \<Longrightarrow> sv_world s = w \<Longrightarrow> goto j st w s = s"
  by (cases s) (auto simp: goto_def)

lemma goto_goto [simp]: "goto j st w (goto j st' w' s) = goto j st w s"
  by (simp add: goto_def)

lemma generated_steps:
  assumes "generate_event_results env run ctx event w = Ret (g, w')"
    and "rr_token_apps run = sv_registry s" and "sv_stage s j = Accepted event ctx" and "sv_world s = w"
  shows "(gateway_step env reqs)\<^sup>*\<^sup>* s
    (goto j (case g of Inl e \<Rightarrow> Handled (Inl (e, None)) | Inr (results, ctx', event') \<Rightarrow> Ready results ctx' event') w' s)"
proof (cases "registration_of event")
  case None
  then show ?thesis
    using assms gateway_step.results [of s j event ctx env reqs] by (auto simp: generate_event_results_eq)
next
  case (Some i)
  have ready: "gateway_step env reqs t (goto j (Ready [event_result_register i Success
      (ctx_api_token (registered_context run ctx d)) (did_ciphertext d)] (registered_context run ctx d) event) (sv_world t) t)"
    if "sv_stage t j = Settled event ctx d" "sv_registry t = sv_registry s" for t d
    using gateway_step.register [of t j event ctx d i run] that Some assms(2) by auto
  show ?thesis
  proof (cases "ctx_device_id ctx")
    case (Some d)
    have "gateway_step env reqs s (goto j (Settled event ctx d) w s)"
      using gateway_step.known [of s j event ctx d env reqs] Some \<open>registration_of event = Some i\<close> assms by simp
    moreover note ready [of "goto j (Settled event ctx d) w s" d]
    ultimately show ?thesis
      using assms Some \<open>registration_of event = Some i\<close>
      by (auto simp: generate_event_results_eq create_new_device_eq fetch_id_def intro: rtranclp.rtrancl_into_rtrancl)
  next
    case None
    then have need: "needs_device ctx event" using Some by (simp add: needs_device_def)
    show ?thesis
    proof (cases "rr_blocking run")
      case False
      then show ?thesis
        using assms None Some gateway_step.busy [of s j event ctx env reqs] need
        by (auto simp: generate_event_results_eq create_new_device_eq fetch_id_def)
    next
      case True
      let ?get = "get_id_for_ifa (ge_crates env) (ge_scylla env) (ge_keyspace env) (ctx_app_id ctx)
        (sd_ifa (sb_device event)) (sd_ifa_tracking_enabled (sb_device event))"
      have built: "force_ifa_matching env = Ret ()"
        using assms(1) True None Some
        by (auto simp: generate_event_results_eq create_new_device_eq fetch_id_def fetch_device_id_def obind_eq_Ret)
      obtain found w1 where g1: "?get w = (found, w1)" by fastforce
      obtain d r res where d: "settle_device_id env found (w_rng w1) = Ret (d, r)"
        "put_id_for_ifa (ge_crates env) (ge_scylla env) (ge_keyspace env) (ctx_app_id ctx) (did_cleartext d)
           (sd_ifa (sb_device event)) (sd_ifa_tracking_enabled (sb_device event)) (w1\<lparr>w_rng := r\<rparr>) = (res, w')"
        and g: "g = Inr ([event_result_register i Success (ctx_api_token (registered_context run ctx d))
          (did_ciphertext d)], registered_context run ctx d, event)"
        using assms(1) True None Some g1
        by (auto simp: generate_event_results_eq create_new_device_eq fetch_id_def fetch_device_id_def obind_eq_Ret
            split_beta prod_eq_iff)
      have "gateway_step env reqs s (goto j (Found event ctx found) w1 s)"
        using gateway_step.look [OF assms(3) need built] g1 assms(4) by simp
      moreover have "gateway_step env reqs (goto j (Found event ctx found) w1 s) (goto j (Settled event ctx d) w' s)"
        using gateway_step.store [of "goto j (Found event ctx found) w1 s" j event ctx found env d r res w' reqs] d by simp
      moreover note ready [of "goto j (Settled event ctx d) w' s" d]
      ultimately show ?thesis using g by (auto intro: rtranclp.rtrancl_into_rtrancl)
    qed
  qed
qed

lemma sdk_steps:
  assumes run: "handle_sdk env run (reqs j) (sv_world s) = Ret (resp, w')"
    and regs: "rr_validate_apps run = sv_registry s" "rr_token_apps run = sv_registry s"
    and new: "sv_stage s j = Arrived"
  shows "(gateway_step env reqs)\<^sup>*\<^sup>* s (goto j (Answered resp) (count observe_response_time w') s)"
proof -
  let ?w = "sv_world s"
  obtain res w1 where read: "read_event env run (reqs j) ?w = Ret (res, w1)" and resp: "respond env res = Ret resp"
    and w': "w' = count (inc_request (show_nat (rs_status resp)) ''sdk_events'') w1"
    using run by (auto simp: handle_sdk_respond obind_eq_Ret)
  have "(gateway_step env reqs)\<^sup>*\<^sup>* s (goto j (Handled res) w1 s)"
  proof (cases "accept_request env (sv_registry s) (reqs j)")
    case (Ret a)
    show ?thesis
    proof (cases a)
      case (Inl e)
      then show ?thesis
        using gateway_step.refuse [OF new, of env reqs e] read regs Ret by (auto simp: read_event_accept)
    next
      case (Inr b)
      then obtain event ctx where b: "a = Inr (event, ctx)" by (cases b) auto
      let ?s1 = "goto j (Accepted event ctx) ?w s"
      have s1: "gateway_step env reqs s ?s1" using gateway_step.accept [OF new] Ret b by simp
      obtain g w2 where g: "generate_event_results env run ctx event ?w = Ret (g, w2)"
        using read regs Ret b by (auto simp: read_event_accept obind_eq_Ret)
      have s2: "(gateway_step env reqs)\<^sup>*\<^sup>* ?s1 (goto j (case g of Inl e \<Rightarrow> Handled (Inl (e, None))
          | Inr (results, ctx', event') \<Rightarrow> Ready results ctx' event') w2 s)"
        using generated_steps [OF g, of ?s1 j reqs] regs by simp
      show ?thesis
      proof (cases g)
        case (Inl e)
        then show ?thesis using s1 s2 read regs Ret b g
          by (auto simp: read_event_accept intro: converse_rtranclp_into_rtranclp)
      next
        case (Inr x)
        then obtain results ctx' event' where x: "g = Inr (results, ctx', event')" by (cases x) auto
        then obtain sent where sent: "send_events env run results ctx' event' w2 = Ret (sent, w1)"
          "res = map_err (\<lambda>e. (e, None)) sent"
          using read regs Ret b g by (auto simp: read_event_accept obind_eq_Ret)
        have "gateway_step env reqs (goto j (Ready results ctx' event') w2 s) (goto j (Handled res) w1 s)"
          using gateway_step.publish [of "goto j (Ready results ctx' event') w2 s" j results ctx' event' env run sent w1 reqs]
            sent by simp
        then show ?thesis using s1 s2 x by (auto intro: rtranclp.rtrancl_into_rtrancl converse_rtranclp_into_rtranclp)
      qed
    qed
  qed (use read regs in \<open>auto simp: read_event_accept\<close>)
  moreover have "gateway_step env reqs (goto j (Handled res) w1 s) (goto j (Answered resp) (count observe_response_time w') s)"
    using gateway_step.answer [of "goto j (Handled res) w1 s" j res env resp reqs] resp w' by simp
  ultimately show ?thesis by (rule rtranclp.rtrancl_into_rtrancl)
qed

end
