(* ===== verification/Server_Facts.thy ===== *)
theory Server_Facts
  imports Server
begin

text \<open>
  What holds of every reachable state of the gateway: \<open>log_inv\<close> accounts for the records in Kafka by
  accepted requests, one each; \<open>counters_inv\<close> balances the counters with the answers; \<open>ids_inv\<close> keeps
  the id of a device the table knows, as long as no lookup fails.
\<close>

section \<open>Frames\<close>

lemma update_apps_frame:
  assumes "update_apps cr svc ks reg w = Ret (r, reg', w')"
  shows "w_sent w' = w_sent w" and "request_counter (w_metrics w') = request_counter (w_metrics w)"
    and "response_times_histogram (w_metrics w') = response_times_histogram (w_metrics w)"
    and "scylladb_request_counter (w_metrics w') = scylladb_request_counter (w_metrics w)"
proof -
  have load: "request_counter m' = request_counter m \<and> response_times_histogram m' = response_times_histogram m \<and>
      scylladb_request_counter m' = scylladb_request_counter m"
    if "load_rows cr rows acc m = Ret (apps, m')" for rows acc m apps m'
    using that by (induction rows arbitrary: acc m)
      (auto simp: load_rows_Cons inc_app_update_def simp del: load_rows.simps(2) split: option.splits)
  show "w_sent w' = w_sent w" "request_counter (w_metrics w') = request_counter (w_metrics w)"
    "response_times_histogram (w_metrics w') = response_times_histogram (w_metrics w)"
    "scylladb_request_counter (w_metrics w') = scylladb_request_counter (w_metrics w)"
    using assms load
    by (fastforce simp: update_apps_def split_beta Let_def obind_eq_Ret split: if_splits option.splits)+
qed

lemma publish_cases:
  assumes "send_events env run results ctx event w = Ret (sent, w')"
  obtains (sent) "sent = Inr (reply_json env results, ctx)" "w_sent w' = w_sent w @ [record_of env run ctx event]"
      "request_counter (w_metrics w') = request_counter (w_metrics w)"
      "response_times_histogram (w_metrics w') = response_times_histogram (w_metrics w)"
    | (failed) e where "sent = Inl e" "w_sent w' = w_sent w"
      "request_counter (w_metrics w') = request_counter (w_metrics w)"
      "response_times_histogram (w_metrics w') = response_times_histogram (w_metrics w)"
  using assms by (auto simp: send_events_eq metric_defs split: if_splits)

section \<open>The log\<close>

definition accepted_as ::
  "'db gateway_env \<Rightarrow> app_registry \<Rightarrow> http_request \<Rightarrow> sdk_event_batch \<Rightarrow> request_context \<Rightarrow> bool" where
  "accepted_as env reg0 req event ctx \<longleftrightarrow>
     (\<exists>reg. registry_inv (ge_crates env) (ge_scylla env) (ge_keyspace env) reg0 reg \<and> accept_request env reg req = Ret (Inr (event, ctx)))"

text \<open>A record that an accepted request accounts for.\<close>

definition justified :: "'db gateway_env \<Rightarrow> app_registry \<Rightarrow> http_request \<Rightarrow> kafka_record \<Rightarrow> bool" where
  "justified env reg0 req r \<longleftrightarrow>
     (\<exists>event ctx run results ctx'. accepted_as env reg0 req event ctx \<and>
        generated run ctx event results ctx' \<and> r = record_of env run ctx' event)"

definition stage_inv :: "'db gateway_env \<Rightarrow> app_registry \<Rightarrow> http_request \<Rightarrow> stage \<Rightarrow> bool" where
  "stage_inv env reg0 req st \<longleftrightarrow>
     (case st of
        Accepted event ctx \<Rightarrow> accepted_as env reg0 req event ctx
      | Found event ctx found \<Rightarrow> accepted_as env reg0 req event ctx \<and> needs_device ctx event
      | Settled event ctx d \<Rightarrow> accepted_as env reg0 req event ctx \<and> registration_of event \<noteq> None \<and>
          (ctx_device_id ctx = None \<or> ctx_device_id ctx = Some d)
      | Ready results ctx' event \<Rightarrow>
          (\<exists>ctx run. accepted_as env reg0 req event ctx \<and> generated run ctx event results ctx')
      | _ \<Rightarrow> True)"

definition sent_stage :: "stage \<Rightarrow> bool" where
  "sent_stage st \<longleftrightarrow>
     (case st of Handled res \<Rightarrow> (\<exists>x. res = Inr x) | Answered resp \<Rightarrow> rs_status resp = 200 | _ \<Rightarrow> False)"

text \<open>The requests in \<open>js\<close>, one each, account for \<open>recs\<close>.\<close>

definition accounts ::
  "'db gateway_env \<Rightarrow> (nat \<Rightarrow> http_request) \<Rightarrow> app_registry \<Rightarrow> kafka_record list \<Rightarrow> (nat \<Rightarrow> stage) \<Rightarrow> nat list \<Rightarrow> bool" where
  "accounts env reqs reg0 recs stages js \<longleftrightarrow>
     distinct js \<and> list_all2 (\<lambda>j r. justified env reg0 (reqs j) r) js recs \<and>
     (\<forall>j. sent_stage (stages j) \<longrightarrow> j \<in> set js) \<and>
     (\<forall>j \<in> set js. sent_stage (stages j) \<or> stages j = Crashed)"

definition log_inv ::
  "'db gateway_env \<Rightarrow> (nat \<Rightarrow> http_request) \<Rightarrow> app_registry \<Rightarrow> kafka_record list \<Rightarrow> 'db server \<Rightarrow> bool" where
  "log_inv env reqs reg0 sent0 s \<longleftrightarrow>
     registry_inv (ge_crates env) (ge_scylla env) (ge_keyspace env) reg0 (sv_registry s) \<and>
     (\<forall>j. stage_inv env reg0 (reqs j) (sv_stage s j)) \<and>
     (\<exists>js recs. w_sent (sv_world s) = sent0 @ recs \<and> accounts env reqs reg0 recs (sv_stage s) js)"

lemma accounts_move:
  assumes "accounts env reqs reg0 recs stages js"
    and "st = Crashed \<or> stages j \<noteq> Crashed \<and> (sent_stage st \<longleftrightarrow> sent_stage (stages j))"
  shows "accounts env reqs reg0 recs (stages(j := st)) js"
proof -
  have "\<not> sent_stage Crashed" by (simp add: sent_stage_def)
  then show ?thesis using assms by (auto simp: accounts_def)
qed

lemma accounts_publish:
  assumes "accounts env reqs reg0 recs stages js" and "stages j = Ready results ctx' event"
    and "justified env reg0 (reqs j) r"
  shows "accounts env reqs reg0 (recs @ [r]) (stages(j := Handled (Inr x))) (js @ [j])"
proof -
  have "j \<notin> set js" using assms(1,2) by (auto simp: accounts_def sent_stage_def)
  then show ?thesis using assms by (auto simp: accounts_def sent_stage_def intro!: list_all2_appendI)
qed

lemma log_inv_move:
  assumes "log_inv env reqs reg0 sent0 s" and "w_sent w = w_sent (sv_world s)"
    and "stage_inv env reg0 (reqs j) st"
    and "st = Crashed \<or> sv_stage s j \<noteq> Crashed \<and> (sent_stage st \<longleftrightarrow> sent_stage (sv_stage s j))"
  shows "log_inv env reqs reg0 sent0 (goto j st w s)"
  using assms accounts_move [where stages = "sv_stage s" and st = st and j = j] unfolding log_inv_def by fastforce

lemma generated_now: "generated (run\<lparr>rr_now := t\<rparr>) = generated run"
  by (simp add: generated_def registered_context_def fun_eq_iff split: option.splits)

lemma ready_justified:
  assumes "stage_inv env reg0 req (Ready results ctx' event)"
  shows "justified env reg0 req (record_of env run ctx' event)"
proof -
  obtain ctx run' where "accepted_as env reg0 req event ctx" "generated run' ctx event results ctx'"
    using assms by (auto simp: stage_inv_def)
  moreover have "record_of env run ctx' event = record_of env (run'\<lparr>rr_now := rr_now run\<rparr>) ctx' event"
    by (simp add: record_of_def proto_of_batch_def)
  ultimately show ?thesis using generated_now [where run = run' and t = "rr_now run"] unfolding justified_def by metis
qed

lemma log_inv_publish:
  assumes inv: "log_inv env reqs reg0 sent0 s" and st: "sv_stage s j = Ready results ctx' event"
    and w: "w_sent w = w_sent (sv_world s) @ [record_of env run ctx' event]"
  shows "log_inv env reqs reg0 sent0 (goto j (Handled (Inr x)) w s)"
proof -
  obtain js recs where log: "w_sent (sv_world s) = sent0 @ recs" "accounts env reqs reg0 recs (sv_stage s) js"
    using inv unfolding log_inv_def by blast
  have "stage_inv env reg0 (reqs j) (Ready results ctx' event)" using inv st unfolding log_inv_def by metis
  note accounts_publish [OF log(2) st ready_justified [OF this, of run], of x]
  moreover have "stage_inv env reg0 (reqs j) (Handled (Inr x))" by (simp add: stage_inv_def)
  ultimately show ?thesis using inv w log(1) unfolding log_inv_def by fastforce
qed

lemma respond_status:
  assumes "respond env res = Ret resp"
  shows "rs_status resp = 200 \<longleftrightarrow> (\<exists>x. res = Inr x)"
proof (cases res)
  case (Inl ec)
  obtain e c where "res = Inl (e, c)" using Inl by (cases ec) auto
  then show ?thesis using assms error_status_not_ok [of e] by (auto simp: respond_def into_response_Ret)
qed (use assms in \<open>auto simp: respond_def obind_eq_Ret split_beta\<close>)

lemma log_inv_step:
  assumes inv: "log_inv env reqs reg0 sent0 s" and step: "gateway_step env reqs s t"
  shows "log_inv env reqs reg0 sent0 t"
proof -
  have reg: "registry_inv (ge_crates env) (ge_scylla env) (ge_keyspace env) reg0 (sv_registry s)" and stage: "\<And>j. stage_inv env reg0 (reqs j) (sv_stage s j)"
    using inv by (simp_all add: log_inv_def)
  note move = log_inv_move [OF inv]
  show ?thesis
    using step
  proof cases
    case (accept j event ctx)
    then have "accepted_as env reg0 (reqs j) event ctx" using reg by (auto simp: accepted_as_def)
    then show ?thesis using accept by (auto intro!: move simp: stage_inv_def sent_stage_def)
  next
    case (results j event ctx)
    then have "stage_inv env reg0 (reqs j) (Ready (map (\<lambda>e. event_result_new (ev_id e) Success) (sb_events event)) ctx event)"
      using stage [of j] by (auto simp: stage_inv_def generated_def)
    then show ?thesis using results by (auto intro!: move simp: sent_stage_def)
  next
    case (register j event ctx d i run ctx')
    then have "stage_inv env reg0 (reqs j) (Ready [event_result_register i Success (ctx_api_token ctx') (did_ciphertext d)] ctx' event)"
      using stage [of j] by (auto simp: stage_inv_def generated_def)
    then show ?thesis using register by (auto intro!: move simp: sent_stage_def)
  next
    case (look j event ctx found w')
    then show ?thesis using stage [of j] get_quiet [OF look(5)]
      by (auto intro!: move simp: stage_inv_def sent_stage_def quiet_def)
  next
    case (store j event ctx found d r res w')
    then show ?thesis using stage [of j] put_quiet [OF store(4)]
      by (auto intro!: move simp: stage_inv_def sent_stage_def quiet_def needs_device_def)
  next
    case (known j event ctx d)
    then show ?thesis using stage [of j] by (auto intro!: move simp: stage_inv_def sent_stage_def)
  next
    case (publish j results ctx event run sent w')
    show ?thesis
      using publish(3)
    proof (cases rule: publish_cases)
      case sent
      then show ?thesis using log_inv_publish [OF inv publish(2)] publish(1) by simp
    next
      case (failed e)
      then show ?thesis using publish by (auto intro!: move simp: stage_inv_def sent_stage_def)
    qed
  next
    case (answer j res resp)
    then show ?thesis using respond_status [OF answer(3)]
      by (auto intro!: move simp: stage_inv_def sent_stage_def)
  next
    case (update r reg' w')
    then have "registry_inv (ge_crates env) (ge_scylla env) (ge_keyspace env) reg0 reg'"
      by (intro registry_updates.inv_step [OF reg]) (rule registry_step.update)
    then show ?thesis using inv update update_apps_frame(1) [OF update(2)] by (simp add: log_inv_def)
  qed (auto intro!: move simp: stage_inv_def sent_stage_def)
qed

interpretation gateway_log: invariant_of "server_start reg0 w0" "gateway_step env reqs"
    "log_inv env reqs reg0 (w_sent w0)"
  for env :: "'db gateway_env" and reqs :: "nat \<Rightarrow> http_request" and reg0 :: app_registry and w0 :: "'db world"
proof unfold_locales
  show "log_inv env reqs reg0 (w_sent w0) s" if "server_start reg0 w0 s" for s
    using that unfolding log_inv_def server_start_def
    by (intro conjI exI [of _ "[]"]) (auto simp: registry_inv_def stage_inv_def accounts_def sent_stage_def)
qed (rule log_inv_step)

section \<open>The counters\<close>

definition begun :: "'db server \<Rightarrow> nat set" where
  "begun s = {j. sv_stage s j \<noteq> Arrived}"

definition answered_with :: "'db server \<Rightarrow> string \<Rightarrow> nat set" where
  "answered_with s status = {j. \<exists>resp. sv_stage s j = Answered resp \<and> show_nat (rs_status resp) = status}"

definition answered :: "'db server \<Rightarrow> nat set" where
  "answered s = {j. \<exists>resp. sv_stage s j = Answered resp}"

definition crashed :: "'db server \<Rightarrow> nat set" where
  "crashed s = {j. sv_stage s j = Crashed}"

definition counters_inv :: "metrics \<Rightarrow> 'db server \<Rightarrow> bool" where
  "counters_inv m0 s \<longleftrightarrow>
     finite (begun s) \<and>
     (\<forall>k. request_counter (w_metrics (sv_world s)) (k, ''sdk_events'') =
        request_counter m0 (k, ''sdk_events'') + card (answered_with s k)) \<and>
     response_times_histogram m0 + card (answered s) \<le> response_times_histogram (w_metrics (sv_world s)) \<and>
     response_times_histogram (w_metrics (sv_world s)) \<le>
       response_times_histogram m0 + card (answered s) + card (crashed s)"

lemma card_move:
  assumes "finite {i. P (f i)}" and "\<not> P (f j)"
  shows "card {i. P ((f(j := x)) i)} = card {i. P (f i)} + (if P x then 1 else 0)"
proof -
  have "{i. P ((f(j := x)) i)} = (if P x then insert j {i. P (f i)} else {i. P (f i)})" using assms(2) by auto
  then show ?thesis using assms by simp
qed

definition final_stage :: "stage \<Rightarrow> bool" where
  "final_stage st \<longleftrightarrow> st = Crashed \<or> (\<exists>resp. st = Answered resp)"

lemma cards_move:
  assumes fin: "finite (begun s)" and old: "\<not> final_stage (sv_stage s j)" and new: "st \<noteq> Arrived"
  shows "finite (begun (goto j st w s))"
    and "card (answered_with (goto j st w s) k) = card (answered_with s k) +
      (if \<exists>resp. st = Answered resp \<and> show_nat (rs_status resp) = k then 1 else 0)"
    and "card (answered (goto j st w s)) = card (answered s) + (if \<exists>resp. st = Answered resp then 1 else 0)"
    and "card (crashed (goto j st w s)) = card (crashed s) + (if st = Crashed then 1 else 0)"
proof -
  have "begun (goto j st w s) \<subseteq> insert j (begun s)" by (auto simp: begun_def)
  then show "finite (begun (goto j st w s))" using fin by (metis finite_insert finite_subset)
  have fin': "finite {i. P (sv_stage s i)}" if "\<And>st. P st \<Longrightarrow> st \<noteq> Arrived" for P
    using fin by (rule rev_finite_subset) (use that in \<open>auto simp: begun_def\<close>)
  show "card (answered_with (goto j st w s) k) = card (answered_with s k) +
      (if \<exists>resp. st = Answered resp \<and> show_nat (rs_status resp) = k then 1 else 0)"
    unfolding answered_with_def goto_simps
    by (rule card_move) (use old in \<open>auto simp: final_stage_def intro: fin'\<close>)
  show "card (answered (goto j st w s)) = card (answered s) + (if \<exists>resp. st = Answered resp then 1 else 0)"
    unfolding answered_def goto_simps by (rule card_move) (use old in \<open>auto simp: final_stage_def intro: fin'\<close>)
  show "card (crashed (goto j st w s)) = card (crashed s) + (if st = Crashed then 1 else 0)"
    unfolding crashed_def goto_simps by (rule card_move) (use old in \<open>auto simp: final_stage_def intro: fin'\<close>)
qed

lemma counters_inv_move:
  assumes "counters_inv m0 s" and "\<not> final_stage (sv_stage s j)" and "\<not> final_stage st" and "st \<noteq> Arrived"
    and "request_counter (w_metrics w) = request_counter (w_metrics (sv_world s))"
    and "response_times_histogram (w_metrics w) = response_times_histogram (w_metrics (sv_world s))"
  shows "counters_inv m0 (goto j st w s)"
  using assms by (auto simp: counters_inv_def cards_move final_stage_def)

lemma counters_inv_step:
  assumes inv: "counters_inv m0 s" and step: "gateway_step env reqs s t"
  shows "counters_inv m0 t"
proof -
  note move = counters_inv_move [OF inv]
  show ?thesis
    using step
  proof cases
    case (look j event ctx found w')
    then show ?thesis using get_quiet [OF look(5)] by (auto intro!: move simp: final_stage_def quiet_def)
  next
    case (store j event ctx found d r res w')
    then show ?thesis using put_quiet [OF store(4)] by (auto intro!: move simp: final_stage_def quiet_def)
  next
    case (publish j results ctx event run sent w')
    show ?thesis
      using publish(3)
      by (cases rule: publish_cases) (use publish in \<open>auto intro!: move simp: final_stage_def\<close>)
  next
    case (answer j res resp)
    then show ?thesis using inv
      by (auto simp: counters_inv_def cards_move final_stage_def metric_defs)
  next
    case (crash j w')
    then have "\<not> final_stage (sv_stage s j)" by (auto simp: stage_panics_def final_stage_def split: stage.splits)
    then show ?thesis using crash inv by (auto simp: counters_inv_def cards_move metric_defs)
  next
    case (update r reg' w')
    then show ?thesis using inv update_apps_frame [OF update(2)]
      by (simp add: counters_inv_def begun_def answered_with_def answered_def crashed_def)
  qed (auto intro!: move simp: final_stage_def)
qed

interpretation gateway_counters: invariant_of "server_start reg0 w0" "gateway_step env reqs"
    "counters_inv (w_metrics w0)"
  for env :: "'db gateway_env" and reqs :: "nat \<Rightarrow> http_request" and reg0 :: app_registry and w0 :: "'db world"
proof unfold_locales
  show "counters_inv (w_metrics w0) s" if "server_start reg0 w0 s" for s
    using that by (simp add: server_start_def counters_inv_def begun_def answered_with_def answered_def crashed_def)
qed (rule counters_inv_step)

section \<open>Known devices\<close>

text \<open>Reading the applications does not touch the table of advertising ids.\<close>

definition applications_apart :: "'db scylla \<Rightarrow> string \<Rightarrow> ('db \<Rightarrow> ifa_view) \<Rightarrow> bool" where
  "applications_apart svc ks view \<longleftrightarrow>
     (\<forall>db. view (snd (run_cql svc
        \<lparr>q_text = ''SELECT id, sdk_token, ios_api_secret, android_api_secret, web_api_secret FROM '' @
                  ks @ ''.applications'', q_values = []\<rparr> db)) = view db)"

definition batch_key :: "crates \<Rightarrow> request_context \<Rightarrow> sdk_event_batch \<Rightarrow> (uuid \<times> uuid) option" where
  "batch_key cr ctx event =
     request_key cr (ctx_app_id ctx, sd_ifa (sb_device event), sd_ifa_tracking_enabled (sb_device event))"

text \<open>The device of the key is in the table, and no request has taken another id for it.\<close>

definition knows :: "'db gateway_env \<Rightarrow> uuid \<times> uuid \<Rightarrow> uuid \<Rightarrow> stage \<Rightarrow> bool" where
  "knows env key e st \<longleftrightarrow>
     (case st of
        Found event ctx found \<Rightarrow>
          batch_key (ge_crates env) ctx event = Some key \<longrightarrow> found = Some (uuid_hyphenated (ge_crates env) e)
      | Settled event ctx d \<Rightarrow>
          ctx_device_id ctx = None \<longrightarrow> batch_key (ge_crates env) ctx event = Some key \<longrightarrow>
            did_cleartext d = Cleartext (uuid_hyphenated (ge_crates env) e)
      | _ \<Rightarrow> True)"

text \<open>The lookups that failed so far, as the metrics count them.\<close>

definition failed_lookups :: "'db world \<Rightarrow> nat" where
  "failed_lookups w = scylladb_request_counter (w_metrics w) (''get'', ''error'')"

definition ids_inv ::
  "'db gateway_env \<Rightarrow> ('db \<Rightarrow> ifa_view) \<Rightarrow> nat \<Rightarrow> uuid \<times> uuid \<Rightarrow> uuid \<Rightarrow> 'db server \<Rightarrow> bool" where
  "ids_inv env view n key e s \<longleftrightarrow>
     n \<le> failed_lookups (sv_world s) \<and>
     (failed_lookups (sv_world s) = n \<longrightarrow>
        view (w_db (sv_world s)) key = Some e \<and> (\<forall>j. knows env key e (sv_stage s j)))"

lemma update_apps_view:
  assumes tab: "ifa_table svc ks view" and apart: "applications_apart svc ks view"
    and upd: "update_apps cr svc ks reg w = Ret (r, reg', w')"
  shows "view (w_db w') = view (w_db w)"
proof -
  have "view (snd (pool_get svc db)) = view db" for db using tab by (simp add: ifa_table_def)
  then show ?thesis
    using upd apart
    by (auto simp: update_apps_def applications_apart_def select_applications_def split_beta Let_def obind_eq_Ret
        split: if_splits option.splits)
qed

lemma send_events_db:
  assumes "send_events env run results ctx event w = Ret (sent, w')"
  shows "w_db w' = w_db w" and "scylladb_request_counter (w_metrics w') = scylladb_request_counter (w_metrics w)"
  using assms by (auto simp: send_events_eq metric_defs split: if_splits)

lemma failed_lookups_mono:
  assumes "gateway_step env reqs s t"
  shows "failed_lookups (sv_world s) \<le> failed_lookups (sv_world t)"
  using assms
proof cases
  case (look j event ctx found w')
  then show ?thesis using get_counts_up(1) [OF look(5)] by (simp add: failed_lookups_def)
next
  case (store j event ctx found d r res w')
  then show ?thesis using put_counts_get [OF store(4)] by (simp add: failed_lookups_def)
next
  case (publish j results ctx event run sent w')
  then show ?thesis using send_events_db(2) [OF publish(3)] by (simp add: failed_lookups_def)
next
  case (update r reg' w')
  then show ?thesis using update_apps_frame(4) [OF update(2)] by (simp add: failed_lookups_def)
qed (auto simp: failed_lookups_def metric_defs)

text \<open>A step in which no lookup fails keeps the entry and what every request knows of it.\<close>

lemma known_step:
  assumes db: "database_good env view" and apart: "applications_apart (ge_scylla env) (ge_keyspace env) view"
    and entry: "view (w_db (sv_world s)) key = Some e" and known: "\<And>j. knows env key e (sv_stage s j)"
    and same: "failed_lookups (sv_world t) = failed_lookups (sv_world s)" and step: "gateway_step env reqs s t"
  shows "view (w_db (sv_world t)) key = Some e \<and> (\<forall>j. knows env key e (sv_stage t j))"
proof -
  let ?cr = "ge_crates env"
  have tab: "ifa_table (ge_scylla env) (ge_keyspace env) view" and uuid: "uuid_contract ?cr"
    using db by (simp_all add: database_good_def env_good_def)
  have move: ?thesis if "t = goto j st w s" "view (w_db w) key = Some e" "knows env key e st" for j st w
    using that known by simp
  show ?thesis
    using step
  proof cases
    case (look j event ctx found w')
    have "view (w_db w') = view (w_db (sv_world s))" by (rule known_ifas.get_keeps [OF tab look(5)])
    moreover have "found = Some (uuid_hyphenated ?cr e)" if "batch_key ?cr ctx event = Some key"
      using get_reads [OF tab that [unfolded batch_key_def] look(5)] same look(1) entry by (simp add: failed_lookups_def)
    ultimately show ?thesis using entry by (intro move [OF look(1)]) (auto simp: knows_def)
  next
    case (store j event ctx found d r res w')
    have "view (w_db w') key = Some e \<and>
        (batch_key ?cr ctx event = Some key \<longrightarrow> did_cleartext d = Cleartext (uuid_hyphenated ?cr e))"
    proof (cases "batch_key ?cr ctx event = Some key")
      case True
      then have d: "did_cleartext d = Cleartext (uuid_hyphenated ?cr e)"
        using known [of j] store(2,3) settle_known by (auto simp: knows_def)
      then show ?thesis
        using put_same_key [OF tab store(4) True [unfolded batch_key_def] uuid d refl] entry by simp
    next
      case False
      then show ?thesis using put_other_key [OF tab store(4)] entry by (simp add: batch_key_def)
    qed
    then show ?thesis by (intro move [OF store(1)]) (auto simp: knows_def)
  next
    case (publish j results ctx event run sent w')
    then show ?thesis using entry send_events_db(1) [OF publish(3)] by (intro move [OF publish(1)]) (auto simp: knows_def)
  next
    case (update r reg' w')
    then show ?thesis using entry known update_apps_view [OF tab apart update(2)] by simp
  qed (use entry known in \<open>auto simp: knows_def\<close>)
qed

lemma ids_inv_step:
  assumes db: "database_good env view" and apart: "applications_apart (ge_scylla env) (ge_keyspace env) view"
    and inv: "ids_inv env view n key e s" and step: "gateway_step env reqs s t"
  shows "ids_inv env view n key e t"
  using inv known_step [OF db apart _ _ _ step, where key = key and e = e] failed_lookups_mono [OF step]
  unfolding ids_inv_def by (metis le_antisym le_trans)

interpretation gateway_ids: invariant_of
  "\<lambda>s. database_good env view \<and> applications_apart (ge_scylla env) (ge_keyspace env) view \<and>
     server_start reg0 w0 s \<and> view (w_db w0) key = Some e"
  "gateway_step env reqs"
  "\<lambda>s. database_good env view \<and> applications_apart (ge_scylla env) (ge_keyspace env) view \<and>
     ids_inv env view (failed_lookups w0) key e s"
  for env :: "'db gateway_env" and view :: "'db \<Rightarrow> ifa_view" and reqs :: "nat \<Rightarrow> http_request"
    and reg0 :: app_registry and w0 :: "'db world" and key :: "uuid \<times> uuid" and e :: uuid
proof unfold_locales
  show "database_good env view \<and> applications_apart (ge_scylla env) (ge_keyspace env) view \<and>
      ids_inv env view (failed_lookups w0) key e s"
    if "database_good env view \<and> applications_apart (ge_scylla env) (ge_keyspace env) view \<and>
      server_start reg0 w0 s \<and> view (w_db w0) key = Some e" for s
    using that by (simp add: server_start_def ids_inv_def knows_def)
qed (use ids_inv_step in blast)

end
