(* ===== verification/Server_Properties.thy ===== *)
theory Server_Properties
  imports Server_Facts Policy_Properties
begin

text \<open>
  The properties of the whole gateway, over every interleaving of its requests and the updater.
\<close>

section \<open>Exactly once\<close>

text \<open>The credentials of a request: what the checks promise of it, without their order.\<close>

definition authentic ::
  "'db gateway_env \<Rightarrow> app_registry \<Rightarrow> http_request \<Rightarrow> sdk_event_batch \<Rightarrow> request_context \<Rightarrow> bool" where
  "authentic env reg req event ctx \<longleftrightarrow>
     (\<exists>body app. rq_body req = Some body \<and> Option.bind (ge_json_parse env body) de_batch = Some event \<and>
        event_context env req event = Ret ctx \<and> sb_events event \<noteq> [] \<and>
        reg_apps reg (se_app_id (sb_environment event)) = Some app \<and>
        token_accepted (ge_default_token env) app (ctx_api_token ctx) \<and>
        (reg_allow_empty_signature reg \<or>
         signature_accepted (ge_crates env) app (device_platform (sb_device event)) (ctx_signature ctx) body) \<and>
        (device_platform (sb_device event) = Web \<longrightarrow>
         (\<forall>c. ge_cors env = Some c \<longrightarrow> valid_origin c (se_app_id (sb_environment event)) (ctx_origin ctx))))"

lemma accept_request_Inr:
  "accept_request env reg req = Ret (Inr (event, ctx)) \<longleftrightarrow>
     (\<exists>body. rq_body req = Some body \<and> Option.bind (ge_json_parse env body) de_batch = Some event \<and>
        event_context env req event = Ret ctx \<and> \<not> origin_refused env (rq_headers req) event \<and>
        validate (ge_crates env) (ge_default_token env) reg event ctx body = Inr ())"
proof (cases "rq_body req")
  case (Some body)
  have unit: "v = Inr () \<longleftrightarrow> (\<forall>e. v \<noteq> Inl e)" for v :: "gateway_error + unit" by (cases v) auto
  show ?thesis
    using Some by (auto simp: accept_request_def event_context_def obind_eq_Ret unit split: option.splits sum.splits if_splits)
qed (simp add: accept_request_def)

lemma accept_request_authentic:
  "accept_request env reg req = Ret (Inr (event, ctx)) \<longleftrightarrow> authentic env reg req event ctx"
  unfolding accept_request_Inr authentic_def validate_Ok
  by (auto simp: origin_refused_def event_context_fields(3) split: option.splits)

lemma justified_authentic:
  assumes "justified env reg0 req r"
  shows "\<exists>reg event ctx run results ctx'.
    reg_allow_empty_signature reg = reg_allow_empty_signature reg0 \<and>
    (reg_apps reg = reg_apps reg0 \<or> complete_load (ge_crates env) (ge_scylla env) (ge_keyspace env) (reg_apps reg)) \<and>
    authentic env reg req event ctx \<and> generated run ctx event results ctx' \<and> r = record_of env run ctx' event"
proof -
  obtain event ctx run results ctx' reg where "generated run ctx event results ctx'" "r = record_of env run ctx' event"
    "registry_inv (ge_crates env) (ge_scylla env) (ge_keyspace env) reg0 reg" "authentic env reg req event ctx"
    using assms unfolding justified_def accepted_as_def accept_request_authentic by blast
  then show ?thesis unfolding registry_inv_def by blast
qed

text \<open>C3: under any interleaving, the records in Kafka after the start belong to different requests,
  each with valid credentials, by a registry whose applications are the first ones or those of a
  complete load of the database, and each is the record of its request's batch. A request answered
  with 200 has its record there; one answered with an error has none.\<close>

theorem published_exactly_once:
  assumes run: "reachable (server_start reg0 w0) (gateway_step env reqs) s"
  shows "\<exists>js recs. w_sent (sv_world s) = w_sent w0 @ recs \<and> distinct js \<and>
    list_all2 (\<lambda>j r. \<exists>reg event ctx run results ctx'.
      reg_allow_empty_signature reg = reg_allow_empty_signature reg0 \<and>
      (reg_apps reg = reg_apps reg0 \<or> complete_load (ge_crates env) (ge_scylla env) (ge_keyspace env) (reg_apps reg)) \<and>
      authentic env reg (reqs j) event ctx \<and>
      generated run ctx event results ctx' \<and> r = record_of env run ctx' event) js recs \<and>
    (\<forall>j resp. sv_stage s j = Answered resp \<longrightarrow> (j \<in> set js \<longleftrightarrow> rs_status resp = 200))"
proof -
  have "log_inv env reqs reg0 (w_sent w0) s" by (rule gateway_log.reachable_inv [OF run])
  then obtain js recs where log: "w_sent (sv_world s) = w_sent w0 @ recs" "accounts env reqs reg0 recs (sv_stage s) js"
    unfolding log_inv_def by blast
  have "\<forall>j resp. sv_stage s j = Answered resp \<longrightarrow> (j \<in> set js \<longleftrightarrow> rs_status resp = 200)"
    using log(2) by (fastforce simp: accounts_def sent_stage_def)
  moreover have "list_all2 (\<lambda>j r. justified env reg0 (reqs j) r) js recs" "distinct js"
    using log(2) by (simp_all add: accounts_def)
  ultimately show ?thesis
    using log(1)
    by (intro exI [of _ js] exI [of _ recs] conjI) (assumption | rule list_all2_mono, assumption, erule justified_authentic)+
qed

text \<open>The registration of the instance, served alone.\<close>

definition server_at :: "toy_db world \<Rightarrow> toy_db server" where
  "server_at w = \<lparr>sv_registry = toy_registry, sv_world = w, sv_stage = (\<lambda>_. Arrived)\<rparr>"

definition toy_server :: "toy_db server" where
  "toy_server = server_at toy_world"

lemma server_at_start: "server_start toy_registry w (server_at w)"
  by (simp add: server_start_def server_at_def)

lemma toy_world_simps: "w_sent toy_world = []" "w_sent toy_started = []"
  by (simp_all add: toy_world_def toy_started_def)

lemma toy_served_at:
  assumes "w_sent w = []"
  obtains resp w' where "reachable (server_start toy_registry w) (gateway_step toy_env (\<lambda>_. register_request))
      (goto 0 (Answered resp) w' (server_at w))" "rs_status resp = 200" "length (w_sent w') = 1"
proof -
  have "handle_sdk toy_env toy_run register_request w \<noteq> Panic"
    by (rule handle_sdk_Ret) (simp_all add: toy_env_good toy_cors_good context_device_id_def register_request_def toy_get_value)
  then obtain resp w' where h: "handle_sdk toy_env toy_run register_request w = Ret (resp, w')"
    by (metis outcome.exhaust surj_pair)
  have "ge_producer toy_env [] r" for r by (simp add: toy_env_def)
  then have sent: "rs_status resp = 200 \<and> length (w_sent w') = 1"
    using handle_sdk_refines [OF h] assms by (auto simp: register_admitted)
  have "(gateway_step toy_env (\<lambda>_. register_request))\<^sup>*\<^sup>* (server_at w)
      (goto 0 (Answered resp) (count observe_response_time w') (server_at w))"
    by (rule sdk_steps [of _ toy_run]) (use h in \<open>simp_all add: server_at_def toy_run_def\<close>)
  then have "reachable (server_start toy_registry w) (gateway_step toy_env (\<lambda>_. register_request))
      (goto 0 (Answered resp) (count observe_response_time w') (server_at w))"
    by (induction rule: rtranclp_induct) (auto intro: reachable.intros server_at_start)
  then show thesis using that sent by fastforce
qed

lemma toy_served:
  obtains resp w' where "reachable (server_start toy_registry toy_world) (gateway_step toy_env (\<lambda>_. register_request))
      (goto 0 (Answered resp) w' toy_server)" "rs_status resp = 200" "length (w_sent w') = 1"
  using toy_served_at [of toy_world] unfolding toy_server_def by (metis toy_world_simps)

theorem published_exactly_once_witness:
  "\<exists>s resp. reachable (server_start toy_registry toy_world) (gateway_step toy_env (\<lambda>_. register_request)) s \<and>
     sv_stage s 0 = Answered resp \<and> rs_status resp = 200 \<and> w_sent (sv_world s) \<noteq> w_sent toy_world"
proof (rule toy_served)
  fix resp w'
  let ?s = "goto 0 (Answered resp) w' toy_server"
  assume run: "reachable (server_start toy_registry toy_world) (gateway_step toy_env (\<lambda>_. register_request)) ?s"
    and ok: "rs_status resp = 200"
  have stage: "sv_stage ?s 0 = Answered resp" by simp
  have "\<exists>js recs. w_sent (sv_world ?s) = w_sent toy_world @ recs \<and> length js = length recs \<and>
      (\<forall>j resp. sv_stage ?s j = Answered resp \<longrightarrow> (j \<in> set js \<longleftrightarrow> rs_status resp = 200))"
    using published_exactly_once [OF run] by (elim exE conjE) (drule list_all2_lengthD, blast)
  then obtain js :: "nat list" and recs where "w_sent (sv_world ?s) = w_sent toy_world @ recs" "length js = length recs" "0 \<in> set js"
    using stage ok by blast
  then have "w_sent (sv_world ?s) \<noteq> w_sent toy_world" by (cases recs) auto
  then show ?thesis using run stage ok by blast
qed

section \<open>Counting\<close>

text \<open>C9: under any interleaving the counter of each status of the SDK path is its first value and the
  answers with that status, and the latency histogram has one observation for each answer, and at
  most one more for each request that panicked.\<close>

theorem counters_balance:
  assumes run: "reachable (server_start reg0 w0) (gateway_step env reqs) s"
  shows "request_counter (w_metrics (sv_world s)) (k, ''sdk_events'') =
      request_counter (w_metrics w0) (k, ''sdk_events'') +
      card {j. \<exists>resp. sv_stage s j = Answered resp \<and> show_nat (rs_status resp) = k} \<and>
    response_times_histogram (w_metrics (sv_world s)) \<in>
      {response_times_histogram (w_metrics w0) + card {j. \<exists>resp. sv_stage s j = Answered resp} ..
       response_times_histogram (w_metrics w0) + card {j. \<exists>resp. sv_stage s j = Answered resp}
         + card {j. sv_stage s j = Crashed}}"
  using gateway_counters.reachable_inv [OF run]
  by (auto simp: counters_inv_def answered_with_def answered_def crashed_def)

theorem counters_balance_witness:
  "\<exists>s. reachable (server_start toy_registry toy_world) (gateway_step toy_env (\<lambda>_. register_request)) s \<and>
     request_counter (w_metrics (sv_world s)) (''200'', ''sdk_events'') = 1"
proof (rule toy_served)
  fix resp w'
  let ?s = "goto 0 (Answered resp) w' toy_server"
  assume run: "reachable (server_start toy_registry toy_world) (gateway_step toy_env (\<lambda>_. register_request)) ?s"
    and ok: "rs_status resp = 200"
  have "{j. \<exists>resp. sv_stage ?s j = Answered resp \<and> show_nat (rs_status resp) = ''200''} = {0}"
    using ok show_nat_200 by (auto simp: toy_server_def server_at_def)
  then have "request_counter (w_metrics (sv_world ?s)) (''200'', ''sdk_events'') = 1"
    using counters_balance [OF run, of "''200''"] by (simp add: toy_world_def zero_metrics_def)
  then show ?thesis using run by blast
qed

section \<open>Device ids\<close>


definition toy_known_world :: "toy_db world" where
  "toy_known_world = toy_world\<lparr>w_db := \<lparr>td_ifas = [(1, 2) \<mapsto> 9], td_apps = []\<rparr>\<rparr>"

lemma toy_apart: "applications_apart toy_scylla ks td_ifas"
  by (simp add: applications_apart_def toy_scylla_def select_applications_def)

lemma toy_accept: "accept_request toy_env toy_registry register_request = Ret (Inr (register_batch, register_context))"
  unfolding accept_request_Inr using register_event_context toy_requests_parse(1)
  by (intro exI [of _ "as_bytes ''register''"])
    (simp add: register_request_def origin_refused_def toy_get_value toy_origin_visible
      toy_platforms toy_apps toy_cors_def valid_origin_def toy_validate del: encode_hex.simps)

lemma toy_registers: "needs_device register_context register_batch"
  by (simp add: needs_device_def registration_of_def is_register_def register_context_def toy_events toy_event_def)

lemma toy_batch_key: "batch_key toy_crates register_context register_batch = Some (1, 2)"
  by (simp add: batch_key_def request_key_def register_context_def register_batch_def toy_app_id_def toy_ifa_def
      parse_ifa_def parse_print_uuid)


section \<open>From the start\<close>

definition configured_secret :: "test_app_config list \<Rightarrow> string \<Rightarrow> platform \<Rightarrow> string \<Rightarrow> bool" where
  "configured_secret ts app_id p secret \<longleftrightarrow>
     (\<exists>t. map_of (rev (map (\<lambda>t. (tc_app_id t, t)) ts)) app_id = Some t \<and>
        (p, Some secret) \<in> {(Ios, tc_secret_ios t), (Android, tc_secret_android t), (Web, tc_secret_web t)})"

definition signed_request ::
  "crates \<Rightarrow> test_app_config list \<Rightarrow> http_request \<Rightarrow> u8 list \<Rightarrow> sdk_event_batch \<Rightarrow> bool" where
  "signed_request cr ts req body event \<longleftrightarrow>
     (\<exists>secret key header sig.
        configured_secret ts (se_app_id (sb_environment event)) (device_platform (sb_device event)) secret \<and>
        hex_decode cr (as_bytes secret) = Some key \<and>
        get_value cr (rq_headers req) ''XORC-Signature'' = Some header \<and> b64_decode cr header = Some sig \<and>
        hmac_verify cr (VerificationKey key) body sig)"

lemma map_of_rev_map: "map_of (rev (map (\<lambda>t. (f t, g t)) ts)) k = map_option g (map_of (rev (map (\<lambda>t. (f t, t)) ts)) k)"
proof -
  have "map_of (map (\<lambda>t. (f t, g t)) xs) k = map_option g (map_of (map (\<lambda>t. (f t, t)) xs) k)" for xs
    by (induction xs) auto
  from this [of "rev ts"] show ?thesis by (simp add: rev_map)
qed

text \<open>The keys of the configured applications are the configured secrets.\<close>

lemma signing_key_configured:
  assumes "map_of (rev (map (\<lambda>t. (tc_app_id t, test_app_of cr t)) ts)) i = Some app" and "signing_key app p k"
  obtains secret key where "configured_secret ts i p secret" "hex_decode cr (as_bytes secret) = Some key"
    "k = VerificationKey key"
proof -
  obtain t where t: "map_of (rev (map (\<lambda>t. (tc_app_id t, t)) ts)) i = Some t" "app = test_app_of cr t"
    using assms(1) unfolding map_of_rev_map [where g = "test_app_of cr"] by auto
  obtain secret key where "(p, Some secret) \<in> {(Ios, tc_secret_ios t), (Android, tc_secret_android t), (Web, tc_secret_web t)}"
    "hex_decode cr (as_bytes secret) = Some key" "k = VerificationKey key"
    using assms(2) t(2)
    by (auto simp: signing_key_def test_app_of_def app_of_def create_key_def bind_eq_Some_conv)
  with t(1) that show thesis unfolding configured_secret_def by blast
qed

text \<open>Outside development the registry is that of the configuration.\<close>

lemma production_registry:
  assumes start: "start_globals io cr svc vars w0 = Ret (gl, w1)" and env: "rust_env vars \<noteq> ''development''"
  obtains ts where "cfg_test_apps (gl_config gl) = Some ts" "\<not> reg_allow_empty_signature (gl_registry gl)"
    "\<not> reg_pool (gl_registry gl)"
    "reg_apps (gl_registry gl) = map_of (rev (map (\<lambda>t. (tc_app_id t, test_app_of cr t)) ts))"
proof -
  note gl = start_globals_Ret [OF start]
  have dev: "\<not> gc_allow_empty_signature (cfg_gateway (gl_config gl))" "\<not> cas_manage_apps (cfg_cassandra (gl_config gl))"
    using gl(1) env by (auto simp: config_parse_Ret check_environment_Ret)
  then obtain ts where ts: "cfg_test_apps (gl_config gl) = Some ts"
    using gl(2) by (auto simp: app_registry_new_def obind_eq_Ret unwrap_eq)
  have "reg_apps (gl_registry gl) = map_of (rev (map (\<lambda>t. (tc_app_id t, test_app_of cr t)) ts))"
    using gl(2) dev(2) ts load_test_apps_eq [of cr ts Map.empty "w_metrics w0"]
    by (auto simp: app_registry_new_def split_beta Let_def dest: arg_cong [where f = reg_apps])
  then show thesis using that ts dev app_registry_new_static [OF gl(2)] by simp
qed

lemma authentic_signed:
  assumes auth: "authentic env reg req event ctx" and nosig: "\<not> reg_allow_empty_signature reg"
    and apps: "reg_apps reg = map_of (rev (map (\<lambda>t. (tc_app_id t, test_app_of (ge_crates env) t)) ts))"
  shows "\<exists>body. rq_body req = Some body \<and> Option.bind (ge_json_parse env body) de_batch = Some event \<and>
    event_context env req event = Ret ctx \<and> signed_request (ge_crates env) ts req body event"
proof -
  let ?cr = "ge_crates env"
  obtain body app where a: "rq_body req = Some body" "Option.bind (ge_json_parse env body) de_batch = Some event"
    "event_context env req event = Ret ctx" "reg_apps reg (se_app_id (sb_environment event)) = Some app"
    "signature_accepted ?cr app (device_platform (sb_device event)) (ctx_signature ctx) body"
    using auth nosig unfolding authentic_def by blast
  obtain header k sig where s: "ctx_signature ctx = Some header" "signing_key app (device_platform (sb_device event)) k"
    "b64_decode ?cr header = Some sig" "hmac_verify ?cr k body sig"
    using a(5) unfolding signature_accepted_def by blast
  obtain secret key where k: "configured_secret ts (se_app_id (sb_environment event)) (device_platform (sb_device event)) secret"
    "hex_decode ?cr (as_bytes secret) = Some key" "k = VerificationKey key"
    using signing_key_configured [OF a(4) [unfolded apps] s(2)] by blast
  have "get_value ?cr (rq_headers req) ''XORC-Signature'' = Some header"
    using a(3) s(1) context_new_fields(5) unfolding event_context_def by metis
  then have "signed_request ?cr ts req body event" using k s(3,4) unfolding signed_request_def by blast
  with a(1-3) show ?thesis by blast
qed

text \<open>C4: a gateway that starts outside development publishes only signed requests. Its applications are
  those of the configuration file, the last entry of an id counting; and whatever requests it serves
  and however they interleave, each new record in Kafka has a request of its own, of which it is the
  record, and whose raw body verifies under the decoded \<open>XORC-Signature\<close> header with the hexadecimal
  secret that the configuration gives the request's application for the request's platform.\<close>

theorem production_signed:
  assumes start: "start_globals io cr svc vars w0 = Ret (gl, w1)"
    and bound: "gateway_setup io vars (gl_config gl) = Ret setup"
    and env: "rust_env vars \<noteq> ''development''"
    and run: "reachable (server_start (gl_registry gl) w1) (gateway_step (env_of cr svc gl setup codecs) reqs) s"
  shows "\<exists>ts js recs. cfg_test_apps (gl_config gl) = Some ts \<and>
    w_sent (sv_world s) = w_sent w1 @ recs \<and> distinct js \<and>
    list_all2 (\<lambda>j r. \<exists>body event ctx run results ctx'.
      rq_body (reqs j) = Some body \<and> Option.bind (ge_json_parse codecs body) de_batch = Some event \<and>
      event_context (env_of cr svc gl setup codecs) (reqs j) event = Ret ctx \<and>
      generated run ctx event results ctx' \<and> r = record_of (env_of cr svc gl setup codecs) run ctx' event \<and>
      signed_request cr ts (reqs j) body event) js recs"
proof -
  let ?env = "env_of cr svc gl setup codecs"
  have env_simps: "ge_crates ?env = cr" "ge_json_parse ?env = ge_json_parse codecs" by (simp_all add: env_of_def)
  obtain ts where ts: "cfg_test_apps (gl_config gl) = Some ts" "\<not> reg_allow_empty_signature (gl_registry gl)"
    "\<not> reg_pool (gl_registry gl)"
    "reg_apps (gl_registry gl) = map_of (rev (map (\<lambda>t. (tc_app_id t, test_app_of cr t)) ts))"
    by (rule production_registry [OF start env])
  have signed: "\<exists>body event ctx run results ctx'. rq_body req = Some body \<and>
      Option.bind (ge_json_parse codecs body) de_batch = Some event \<and> event_context ?env req event = Ret ctx \<and>
      generated run ctx event results ctx' \<and> r = record_of ?env run ctx' event \<and> signed_request cr ts req body event"
    if just: "justified ?env (gl_registry gl) req r" for req :: http_request and r
  proof -
    obtain event ctx run results ctx' and reg :: app_registry
      where r: "generated run ctx event results ctx'" "r = record_of ?env run ctx' event"
        "registry_inv cr (ge_scylla ?env) (ge_keyspace ?env) (gl_registry gl) reg" "authentic ?env reg req event ctx"
      using just unfolding justified_def accepted_as_def accept_request_authentic env_simps by blast
    have "reg_apps reg = reg_apps (gl_registry gl)" "\<not> reg_allow_empty_signature reg"
      using r(3) ts(2,3) by (simp_all add: registry_inv_def)
    then show ?thesis
      using authentic_signed [OF r(4), of ts] ts(4) r(1,2) unfolding env_simps by metis
  qed
  have "log_inv ?env reqs (gl_registry gl) (w_sent w1) s" by (rule gateway_log.reachable_inv [OF run])
  then obtain js recs where "w_sent (sv_world s) = w_sent w1 @ recs" "distinct js"
    "list_all2 (\<lambda>j r. justified ?env (gl_registry gl) (reqs j) r) js recs"
    unfolding log_inv_def accounts_def by blast
  then show ?thesis
    by (intro exI [of _ ts] exI [of _ js] exI [of _ recs] conjI ts(1))
      (assumption | rule list_all2_mono, assumption, erule signed)+
qed

definition toy_setup :: server_setup where
  "toy_setup =
     \<lparr>ss_address = ''0.0.0.0:1337'', ss_name_prefix = ''gw'', ss_core_threads = 4,
      ss_gateway = \<lparr>gw_connections = ge_producer toy_env\<rparr>\<rparr>"

lemma toy_sets_up: "gateway_setup toy_io toy_vars (gl_config toy_globals) = Ret toy_setup"
  by (simp add: gateway_setup_def listen_address_def listen_port_def toy_io_def toy_vars_def gateway_new_def
      kafka_new_def toy_globals_def toy_setup_def toy_config_def)

lemma toy_env_of: "env_of toy_crates toy_scylla toy_globals toy_setup toy_env = toy_env"
  by (simp add: env_of_def toy_globals_def toy_setup_def toy_env_def)

theorem production_signed_witness:
  "\<exists>s. reachable (server_start toy_registry toy_started) (gateway_step toy_env (\<lambda>_. register_request)) s \<and>
     length (w_sent (sv_world s)) = 1 \<and>
     (\<exists>ts body event. cfg_test_apps toy_config = Some ts \<and> rq_body register_request = Some body \<and>
        Option.bind (toy_json_parse body) de_batch = Some event \<and> signed_request toy_crates ts register_request body event)"
proof (rule toy_served_at [of toy_started])
  fix resp w'
  let ?s = "goto 0 (Answered resp) w' (server_at toy_started)"
  assume run: "reachable (server_start toy_registry toy_started) (gateway_step toy_env (\<lambda>_. register_request)) ?s"
    and one: "length (w_sent w') = 1"
  have gl: "gl_registry toy_globals = toy_registry" "gl_config toy_globals = toy_config" by (simp_all add: toy_globals_def)
  have "rust_env toy_vars \<noteq> ''development''" by (simp add: toy_vars_simps)
  moreover have "reachable (server_start (gl_registry toy_globals) toy_started)
      (gateway_step (env_of toy_crates toy_scylla toy_globals toy_setup toy_env) (\<lambda>_. register_request)) ?s"
    using run by (simp only: toy_env_of gl)
  ultimately obtain ts js recs where log: "cfg_test_apps toy_config = Some ts"
    "w_sent (sv_world ?s) = w_sent toy_started @ recs"
    "list_all2 (\<lambda>j r. \<exists>body event ctx run results ctx'.
      rq_body register_request = Some body \<and> Option.bind (toy_json_parse body) de_batch = Some event \<and>
      event_context toy_env register_request event = Ret ctx \<and>
      generated run ctx event results ctx' \<and> r = record_of toy_env run ctx' event \<and>
      signed_request toy_crates ts register_request body event) (js :: nat list) recs"
    using production_signed [OF toy_starts toy_sets_up, of toy_env "\<lambda>_. register_request" ?s]
    unfolding gl toy_env_of toy_env_simps by blast
  then have "length recs = 1" using one toy_world_simps by simp
  then have "\<exists>body event. rq_body register_request = Some body \<and> Option.bind (toy_json_parse body) de_batch = Some event \<and>
      signed_request toy_crates ts register_request body event"
    using log(3) by (cases recs; cases js) auto
  then show ?thesis using run one log(1) by (intro exI [of _ ?s]) simp
qed (rule toy_world_simps)

end
