(* ===== verification/Test_Support.thy ===== *)
theory Test_Support
  imports Gateway
begin

text \<open>
  What the unit tests of the repository share: assertions, whose failure is a panic, documents
  built with \<open>json!\<close>, header maps filled with \<open>insert\<close>, and the configuration they run under,
  \<open>config/config.toml.tests\<close>. Without a \<open>SECRET\<close> variable the key is the one of development.
  A test is its body as an outcome: it passes when it is \<open>Ret ()\<close>.
\<close>

definition assert :: "bool \<Rightarrow> unit outcome" where
  "assert b = (if b then Ret () else Panic)"

definition assert_eq :: "'a \<Rightarrow> 'a \<Rightarrow> unit outcome" where
  "assert_eq x y = assert (x = y)"

definition passes :: "unit outcome \<Rightarrow> bool" where
  "passes t \<longleftrightarrow> t = Ret ()"

text \<open>\<open>json!\<close> builds a \<open>Value\<close>, so the object's members are sorted before they are decoded.\<close>

definition from_value :: "(json \<Rightarrow> 'a option) \<Rightarrow> json \<Rightarrow> 'a outcome" where
  "from_value de j = unwrap (de (to_value j))"

definition header_insert :: "string \<Rightarrow> string \<Rightarrow> header_map \<Rightarrow> header_map" where
  "header_insert name v headers = headers(map to_ascii_lowercase name := Some (as_bytes v))"

definition no_headers :: header_map where
  "no_headers = (\<lambda>_. None)"

definition header_of :: "string \<Rightarrow> http_response \<Rightarrow> header_value option" where
  "header_of name r = map_of (rs_headers r) name"

section \<open>The configuration of the tests\<close>

definition TOKEN :: string where
  "TOKEN = ''46732a28cd445366c6c8dcbd57500af4e69597c8ebe224634d6ccab812275c9c''"

definition IOS_SECRET :: string where
  "IOS_SECRET = ''1b66af517dd60807aeff8b4582d202ef500085bc0cec92bc3e67f0c58d6203b5''"

definition ANDROID_SECRET :: string where
  "ANDROID_SECRET = ''d685e53ae50c945e5ae4f36170d7213360a25ed91b91a647574aa384d2b6f901''"

definition WEB_SECRET :: string where
  "WEB_SECRET = ''4c553960fdc2a82f90b84f6ef188e836818fcee2c43a6c32bd6c91f41772657f''"

definition tests_toml :: config where
  "tests_toml =
     \<lparr>cfg_kafka = \<lparr>kc_topic = ''sdk'', kc_brokers = ''kafka:9092''\<rparr>,
      cfg_gateway =
        \<lparr>gc_threads = 4, gc_process_name_prefix = ''sdk-gateway-worker-'',
         gc_default_token = ''T0BdxB0O/+eRZhN6REPmbYpTqjxCTtUgirbW7ABJ8renKaxoGbHFsOX2iLFhuWaJbZHzmTnvKv15fv/87ceIQQ=='',
         gc_allow_empty_signature = False\<rparr>,
      cfg_cors = Some \<lparr>cc_allowed_methods = ''HERP,DERP'', cc_allowed_headers = ''Content-Type, Content-Length''\<rparr>,
      cfg_origins =
        Some [\<lparr>oc_app_id = ''00000000-0000-0000-0000-000000000000'', oc_allowed = [''https://www.google.fi'']\<rparr>,
              \<lparr>oc_app_id = ''11111111-0000-0000-0000-000000000000'',
               oc_allowed = [''http://localhost:5401'', ''https://reddit.com'']\<rparr>],
      cfg_test_apps =
        Some [\<lparr>tc_app_id = ''22222222-0000-0000-0000-000000000000'', tc_token = Some TOKEN,
               tc_secret_ios = Some IOS_SECRET, tc_secret_android = Some ANDROID_SECRET,
               tc_secret_web = Some WEB_SECRET\<rparr>],
      cfg_cassandra =
        \<lparr>cas_keyspace = ''sdk'', cas_contact_points = ''localhost:9042'', cas_username = None,
         cas_password = None, cas_manage_apps = False\<rparr>\<rparr>"

section \<open>Facts\<close>

named_theorems header_tests "reading the headers of the tests"

lemma test_header_names:
  "map to_ascii_lowercase ''XORC-Device-Id'' = ''xorc-device-id''"
  "map to_ascii_lowercase ''XORC-Api-Token'' = ''xorc-api-token''"
  "map to_ascii_lowercase ''XORC-Signature'' = ''xorc-signature''"
  "map to_ascii_lowercase ''X-Real-IP'' = ''x-real-ip''"
  "map to_ascii_lowercase ''origin'' = ''origin''" "map to_ascii_lowercase ''Origin'' = ''origin''"
  "map to_ascii_lowercase ''x-real-ip'' = ''x-real-ip''"
  "map to_ascii_lowercase ''xorc-api-token'' = ''xorc-api-token''"
  "map to_ascii_lowercase ''xorc-Signature'' = ''xorc-signature''"
  by code_simp+

lemma header_insert_tests [header_tests]:
  "header_insert ''XORC-Device-Id'' v m = m(''xorc-device-id'' \<mapsto> as_bytes v)"
  "header_insert ''XORC-Api-Token'' v m = m(''xorc-api-token'' \<mapsto> as_bytes v)"
  "header_insert ''XORC-Signature'' v m = m(''xorc-signature'' \<mapsto> as_bytes v)"
  "header_insert ''origin'' v m = m(''origin'' \<mapsto> as_bytes v)"
  "header_insert ''Origin'' v m = m(''origin'' \<mapsto> as_bytes v)"
  "header_insert ''x-real-ip'' v m = m(''x-real-ip'' \<mapsto> as_bytes v)"
  "header_insert ''xorc-api-token'' v m = m(''xorc-api-token'' \<mapsto> as_bytes v)"
  "header_insert ''xorc-Signature'' v m = m(''xorc-signature'' \<mapsto> as_bytes v)"
  by (simp_all only: header_insert_def test_header_names)

lemma get_value_tests [header_tests]:
  "get_value cr m ''XORC-Device-Id'' = Option.bind (m ''xorc-device-id'') (hv_to_str cr)"
  "get_value cr m ''XORC-Api-Token'' = Option.bind (m ''xorc-api-token'') (hv_to_str cr)"
  "get_value cr m ''XORC-Signature'' = Option.bind (m ''xorc-signature'') (hv_to_str cr)"
  "get_value cr m ''X-Real-IP'' = Option.bind (m ''x-real-ip'') (hv_to_str cr)"
  "get_value cr m ''origin'' = Option.bind (m ''origin'') (hv_to_str cr)"
  by (simp_all only: get_value_def header_get_def test_header_names)

lemma header_text: "header_text_contract cr \<Longrightarrow> list_all visible s \<Longrightarrow> hv_to_str cr (as_bytes s) = Some s"
  by (simp add: header_text_contract_def)

lemma assert_simps [simp]: "assert True = Ret ()" "assert_eq x x = Ret ()" "passes (Ret ())"
  by (simp_all add: assert_def assert_eq_def passes_def)

text \<open>A context of the tests, when the device id header is absent.\<close>

lemma context_new_tests:
  assumes "m ''xorc-device-id'' = None"
  shows "context_new cr secret m app p = Ret
    \<lparr>ctx_app_id = app, ctx_platform = p, ctx_api_token = Option.bind (m ''xorc-api-token'') (hv_to_str cr),
     ctx_device_id = None, ctx_signature = Option.bind (m ''xorc-signature'') (hv_to_str cr),
     ctx_ip = Option.bind (Option.bind (m ''x-real-ip'') (hv_to_str cr)) ip_from_str,
     ctx_origin = Option.bind (m ''origin'') (hv_to_str cr)\<rparr>"
  using assms by (simp add: context_new_def context_device_id_def get_value_tests)

text \<open>The cipher opens the device id of the tests under the development key.\<close>

definition test_cipher :: string where
  "test_cipher = ''PNslnKKJkbq8Nv5/C0CcoK7hnFsdltcW3yK/I0QYJ7bUX8EHx2/NX0r8OkJHC5lzY/cBwZ3FeeFmRRpxof+rtw==''"

definition test_clear :: string where
  "test_clear = ''8f7f5c07-5eb2-4695-870c-065d886cdc9e''"

definition device_id_answer :: "crates \<Rightarrow> bool" where
  "device_id_answer cr \<longleftrightarrow>
     aead_key_ok cr development_secret \<and>
     (\<exists>d. b64_decode cr test_cipher = Some d \<and> length d = 64 \<and>
        aead_open_in_place cr development_secret (take 12 d) (drop 12 d) = Some (as_bytes test_clear))"

lemma test_texts_visible: "list_all visible test_cipher" "list_all visible ''109.68.226.154''"
  by code_simp+

lemma test_clear_utf8: "bytes_str (from_utf8_lossy (as_bytes test_clear)) = test_clear"
proof -
  have "ascii_str test_clear" by (simp add: ascii_str_def ascii_byte_def test_clear_def as_bytes_def)
  then show ?thesis by (simp add: from_utf8_lossy_valid utf8_valid_ascii ascii_str_def)
qed

lemma test_device_id:
  assumes "device_id_answer cr" and "header_text_contract cr" and "m ''xorc-device-id'' = Some (as_bytes test_cipher)"
  shows "context_device_id cr development_secret m =
    Ret (Some \<lparr>did_ciphertext = Ciphertext test_cipher, did_cleartext = Cleartext test_clear\<rparr>)"
proof -
  obtain d where "b64_decode cr test_cipher = Some d" "length d = 64" "aead_key_ok cr development_secret"
    "aead_open_in_place cr development_secret (take 12 d) (drop 12 d) = Some (as_bytes test_clear)"
    using assms(1) by (auto simp: device_id_answer_def)
  then have "decrypt cr development_secret (Ciphertext test_cipher) = Ret (Inr (Cleartext test_clear))"
    by (simp add: decrypt_def split_at_def require_key_def test_clear_utf8)
  moreover have "get_value cr m ''XORC-Device-Id'' = Some test_cipher"
    using assms(3) header_text [OF assms(2) test_texts_visible(1)] by (simp add: get_value_tests)
  ultimately show ?thesis by (rule context_device_id_Some [rotated])
qed

end
