(* ===== verification/Unit_Tests_Events.thy ===== *)
theory Unit_Tests_Events
  imports Test_Support Instances
begin

text \<open>
  The unit tests of \<open>src/events/input\<close>, translated as they stand, and the theorem that they all
  pass. Most of them are closed and the kernel runs them; those of the caller's location and of the
  batch's header call the hash, the country database and the cipher, whose answers in the tests are
  the hypotheses \<open>location_answers\<close> and \<open>device_id_answer\<close>.
\<close>

section \<open>Devices\<close>

definition test_no_language_or_local_set :: "unit outcome" where
  "test_no_language_or_local_set =
     obind (unwrap (de_device (JObject []))) (\<lambda>device.
     obind (device_into device) (\<lambda>proto.
     assert (pd_language proto = None)))"

definition test_no_language_or_locale_set :: "unit outcome" where
  "test_no_language_or_locale_set =
     obind (unwrap (de_device (JObject []))) (\<lambda>device.
     obind (device_into device) (\<lambda>proto.
     assert (pd_language proto = None)))"

definition test_language_set :: "unit outcome" where
  "test_language_set =
     obind (from_value de_device (JObject [(''language'', JString ''fi'')])) (\<lambda>device.
     obind (device_into device) (\<lambda>proto.
     assert_eq (Some ''fi'') (pd_language proto)))"

definition test_locale_set :: "unit outcome" where
  "test_locale_set =
     obind (from_value de_device (JObject [(''locale'', JString ''fi_FI'')])) (\<lambda>device.
     obind (device_into device) (\<lambda>proto.
     assert_eq (Some ''fi'') (pd_language proto)))"

definition test_broken_locale_set :: "unit outcome" where
  "test_broken_locale_set =
     obind (from_value de_device (JObject [(''locale'', JString ''kulli'')])) (\<lambda>device.
     obind (device_into device) (\<lambda>proto.
     assert (pd_language proto = None)))"

definition test_no_h_set :: "unit outcome" where
  "test_no_h_set =
     obind (unwrap (de_device (JObject []))) (\<lambda>device.
     obind (device_into device) (\<lambda>proto.
     assert_eq (Some (- 1)) (pd_h proto)))"

definition test_h_set :: "unit outcome" where
  "test_h_set =
     obind (from_value de_device (JObject [(''h'', JNumber (PosInt 420))])) (\<lambda>device.
     obind (device_into device) (\<lambda>proto.
     assert_eq (Some 420) (pd_h proto)))"

definition test_no_w_set :: "unit outcome" where
  "test_no_w_set =
     obind (unwrap (de_device (JObject []))) (\<lambda>device.
     obind (device_into device) (\<lambda>proto.
     assert_eq (Some (- 1)) (pd_w proto)))"

definition test_w_set :: "unit outcome" where
  "test_w_set =
     obind (from_value de_device (JObject [(''w'', JNumber (PosInt 715517))])) (\<lambda>device.
     obind (device_into device) (\<lambda>proto.
     assert_eq (Some 715517) (pd_w proto)))"

definition test_no_ifa_tracking_enabled_set :: "unit outcome" where
  "test_no_ifa_tracking_enabled_set =
     obind (unwrap (de_device (JObject []))) (\<lambda>device.
     obind (device_into device) (\<lambda>proto.
     assert_eq (Some False) (pd_ifa_tracking_enabled proto)))"

definition test_no_notification_registered_set :: "unit outcome" where
  "test_no_notification_registered_set =
     obind (unwrap (de_device (JObject []))) (\<lambda>device.
     obind (device_into device) (\<lambda>proto.
     assert_eq (Some False) (pd_notification_registered proto)))"

definition test_no_os_name_set :: "unit outcome" where
  "test_no_os_name_set =
     obind (unwrap (de_device (JObject []))) (\<lambda>device.
     obind (device_into device) (\<lambda>proto.
     assert_eq (Some '''') (pd_platform proto)))"

definition test_os_name_ios :: "unit outcome" where
  "test_os_name_ios =
     obind (from_value de_device (JObject [(''os_name'', JString ''iOS'')])) (\<lambda>device.
     obind (device_into device) (\<lambda>proto.
     assert_eq (Some ''ios'') (pd_platform proto)))"

definition test_os_name_iphone_os :: "unit outcome" where
  "test_os_name_iphone_os =
     obind (from_value de_device (JObject [(''os_name'', JString ''iPhone OS'')])) (\<lambda>device.
     obind (device_into device) (\<lambda>proto.
     assert_eq (Some ''ios'') (pd_platform proto)))"

definition test_os_name_android :: "unit outcome" where
  "test_os_name_android =
     obind (from_value de_device (JObject [(''os_name'', JString ''Android'')])) (\<lambda>device.
     obind (device_into device) (\<lambda>proto.
     assert_eq (Some ''android'') (pd_platform proto)))"

definition test_platform_web :: "unit outcome" where
  "test_platform_web =
     obind (from_value de_device (JObject [(''platform'', JString ''web'')])) (\<lambda>device.
     obind (device_into device) (\<lambda>proto.
     assert_eq (Some ''web'') (pd_platform proto)))"

definition test_set_real_location_ipv4 :: "crates \<Rightarrow> unit outcome" where
  "test_set_real_location_ipv4 cr =
     obind (unwrap (ip_from_str ''109.68.226.154'')) (\<lambda>ip_addr.
     obind (from_value de_device (JObject [(''platform'', JString ''web'')])) (\<lambda>device.
     obind (device_into (set_location cr ip_addr device)) (\<lambda>proto.
     obind (assert_eq
              (Some ''KOx83wHFu0JCTyitEEfU0+J0GWN5OxtXgMeIzDUinonr8ya0IY5VyYtrbDu8tRlBSo/a1T70lQ3uYcnSRYiR8w=='')
              (pd_ip_hashed_blake2 proto)) (\<lambda>_.
     assert_eq (Some ''DE'') (pd_country proto)))))"

definition test_set_real_location_ipv6 :: "crates \<Rightarrow> unit outcome" where
  "test_set_real_location_ipv6 cr =
     obind (unwrap (ip_from_str ''2001:4860:4860::8844'')) (\<lambda>ip_addr.
     obind (from_value de_device (JObject [(''platform'', JString ''web'')])) (\<lambda>device.
     obind (device_into (set_location cr ip_addr device)) (\<lambda>proto.
     obind (assert_eq
              (Some ''WlYX3LhjGXz3WRjP6V9dzs33shbfQhI+uFug7ft+W7VzzEgQPr6aMQxKn4yI7FF6MFiii+3OI2O0i9niN2Zt+g=='')
              (pd_ip_hashed_blake2 proto)) (\<lambda>_.
     assert_eq (Some ''US'') (pd_country proto)))))"

definition test_set_local_ipv4 :: "crates \<Rightarrow> unit outcome" where
  "test_set_local_ipv4 cr =
     obind (unwrap (ip_from_str ''127.0.0.1'')) (\<lambda>ip_addr.
     obind (from_value de_device (JObject [(''platform'', JString ''web'')])) (\<lambda>device.
     obind (device_into (set_location cr ip_addr device)) (\<lambda>proto.
     obind (assert_eq
              (Some ''+s8vULlRmH7/43pUpb2l4/B+olwJ9HPFLWgvsG+FJPw2qdR+UzgO1BuBGBMIQ61PjS6yHj6En9SaLUB1M6rXog=='')
              (pd_ip_hashed_blake2 proto)) (\<lambda>_.
     assert_eq None (pd_country proto)))))"

definition test_set_local_ipv6 :: "crates \<Rightarrow> unit outcome" where
  "test_set_local_ipv6 cr =
     obind (unwrap (ip_from_str ''::1'')) (\<lambda>ip_addr.
     obind (from_value de_device (JObject [(''platform'', JString ''web'')])) (\<lambda>device.
     obind (device_into (set_location cr ip_addr device)) (\<lambda>proto.
     obind (assert_eq
              (Some ''iJYy4kyl+U+iXvriFVHa8S+fPnIwlSFwd6BiESUmVwpQA2/EiUZCwGRPtETJj2d89wr9svyy7S4E0Lb9mnER6w=='')
              (pd_ip_hashed_blake2 proto)) (\<lambda>_.
     assert_eq None (pd_country proto)))))"

section \<open>Events\<close>

definition test_required_properties :: "unit outcome" where
  "test_required_properties =
     obind (from_value de_event (JObject
       [(''timestamp'', JString ''1527092525607''), (''name'', JString ''test_event''), (''properties'', JObject [])]))
       (\<lambda>event.
     obind (assert_eq 1527092525607 (ev_timestamp event)) (\<lambda>_.
     obind (event_into event) (\<lambda>proto.
     obind (assert (pv_properties proto = [])) (\<lambda>_.
     obind (assert_eq (Some ''test_event'') (pv_name proto)) (\<lambda>_.
     assert_eq (Some ''1527092525607'') (pv_timestamp proto))))))"

text \<open>Indexing the vector panics when it is empty.\<close>

definition first_property :: "proto_event \<Rightarrow> property outcome" where
  "first_property proto = (case pv_properties proto of [] \<Rightarrow> Panic | p # _ \<Rightarrow> Ret p)"

definition test_with_string_property :: "unit outcome" where
  "test_with_string_property =
     obind (from_value de_event (JObject
       [(''timestamp'', JString ''1527092525607''), (''name'', JString ''test_event''),
        (''properties'', JObject [(''foo'', JString ''bar'')])])) (\<lambda>event.
     obind (event_into event) (\<lambda>proto.
     obind (first_property proto) (\<lambda>p.
     obind (assert_eq ''foo'' (pr_key p)) (\<lambda>_.
     assert_eq (Some (StringValue ''bar'')) (pr_type p)))))"

text \<open>The double 420.0 is given by its bits.\<close>

definition test_with_number_property :: "unit outcome" where
  "test_with_number_property =
     obind (from_value de_event (JObject
       [(''timestamp'', JString ''1527092525607''), (''name'', JString ''test_event''),
        (''properties'', JObject [(''foo'', JNumber (PosInt 420))])])) (\<lambda>event.
     obind (event_into event) (\<lambda>proto.
     obind (first_property proto) (\<lambda>p.
     obind (assert_eq ''foo'' (pr_key p)) (\<lambda>_.
     assert_eq (Some (NumberValue 0x407A400000000000)) (pr_type p)))))"

definition test_with_bool_property :: "unit outcome" where
  "test_with_bool_property =
     obind (from_value de_event (JObject
       [(''timestamp'', JString ''1527092525607''), (''name'', JString ''test_event''),
        (''properties'', JObject [(''foo'', JBool True)])])) (\<lambda>event.
     obind (event_into event) (\<lambda>proto.
     obind (first_property proto) (\<lambda>p.
     obind (assert_eq ''foo'' (pr_key p)) (\<lambda>_.
     assert_eq (Some (BoolValue True)) (pr_type p)))))"

definition test_with_object_property :: "unit outcome" where
  "test_with_object_property =
     obind (from_value de_event (JObject
       [(''timestamp'', JString ''1527092525607''), (''name'', JString ''test_event''),
        (''properties'', JObject [(''foo'', JObject [(''bar'', JString ''lol'')])])])) (\<lambda>event.
     obind (event_into event) (\<lambda>proto.
     obind (first_property proto) (\<lambda>p.
     obind (assert_eq ''foo__bar'' (pr_key p)) (\<lambda>_.
     assert_eq (Some (StringValue ''lol'')) (pr_type p)))))"

section \<open>Batches\<close>

definition test_empty_header_values :: "crates \<Rightarrow> event_sort \<Rightarrow> int \<Rightarrow> unit outcome" where
  "test_empty_header_values cr sort_by now =
     (let headers = header_insert ''x-real-ip'' ''109.68.226.154'' no_headers;
          headers = header_insert ''XORC-Device-Id''
            ''PNslnKKJkbq8Nv5/C0CcoK7hnFsdltcW3yK/I0QYJ7bUX8EHx2/NX0r8OkJHC5lzY/cBwZ3FeeFmRRpxof+rtw=='' headers
      in
     obind (context_new cr development_secret headers ''123'' Ios) (\<lambda>context.
     obind (from_value de_batch (JObject
       [(''environment'', JObject []), (''device'', JObject []), (''events'', JArray [])])) (\<lambda>batch.
     obind (into_proto cr sort_by now context batch) (\<lambda>proto.
     obind (unwrap (pt_device proto)) (\<lambda>device.
     obind (assert_eq (ph_source (pt_header proto)) '''') (\<lambda>_.
     obind (assert_eq (Some ''events.SDKEventBatch'') (ph_type (pt_header proto))) (\<lambda>_.
     obind (assert_eq (Some ''8f7f5c07-5eb2-4695-870c-065d886cdc9e'') (ph_recipient_id (pt_header proto))) (\<lambda>_.
     obind (assert_eq (Some ''DE'') (pd_country device)) (\<lambda>_.
     obind (assert_eq
              (Some ''KOx83wHFu0JCTyitEEfU0+J0GWN5OxtXgMeIzDUinonr8ya0IY5VyYtrbDu8tRlBSo/a1T70lQ3uYcnSRYiR8w=='')
              (pd_ip_hashed_blake2 device)) (\<lambda>_.
     assert_eq (Some ''xorc'') (ph_feed (pt_header proto))))))))))))"

definition test_with_environment_app_id :: "crates \<Rightarrow> event_sort \<Rightarrow> int \<Rightarrow> unit outcome" where
  "test_with_environment_app_id cr sort_by now =
     obind (context_new cr development_secret no_headers ''123'' Ios) (\<lambda>context.
     obind (from_value de_batch (JObject
       [(''environment'', JObject [(''app_id'', JString ''420'')]), (''device'', JObject []), (''events'', JArray [])]))
       (\<lambda>batch.
     obind (into_proto cr sort_by now context batch) (\<lambda>proto.
     obind (unwrap (pt_device proto)) (\<lambda>device.
     obind (assert_eq ''420'' (ph_source (pt_header proto))) (\<lambda>_.
     obind (assert (pd_country device = None)) (\<lambda>_.
     obind (assert (pd_ip_hashed_blake2 device = None)) (\<lambda>_.
     assert (ph_recipient_id (pt_header proto) = None))))))))"

section \<open>Responses\<close>

text \<open>The two texts are those of the documents: \<open>json!\<close> sorts its members, the derived serializer
  writes the fields in their order. Printing is the parameter \<open>to_string\<close>.\<close>

definition test_register_event_result :: "(json \<Rightarrow> string) \<Rightarrow> unit outcome" where
  "test_register_event_result to_string =
     (let token = Some ''token'';
          cipher = Ciphertext ''encrypted'';
          result = event_result_register ''123'' Success token cipher;
          sdk_response = sdk_response_from [result];
          json_expected = to_value (JObject
            [(''events_status'', JArray [JObject
               [(''id'', JString ''123''), (''status'', JString ''success''),
                (''registration_data'', JObject
                   [(''device_id'', JString ''encrypted''), (''api_token'', JString ''token'')])]])])
      in assert_eq (to_string json_expected) (to_string (sdk_response_json sdk_response)))"

definition test_register_event_result_empty_registration_data :: "(json \<Rightarrow> string) \<Rightarrow> unit outcome" where
  "test_register_event_result_empty_registration_data to_string =
     (let result = event_result_new ''123'' Success;
          sdk_response = sdk_response_from [result];
          json_expected = to_value (JObject
            [(''events_status'', JArray [JObject [(''id'', JString ''123''), (''status'', JString ''success'')]])])
      in assert_eq (to_string json_expected) (to_string (sdk_response_json sdk_response)))"

section \<open>Decoding the documents of the tests\<close>

named_theorems test_runs "evaluation of the documents and assertions of the tests"

lemma to_value_one [test_runs]: "to_value (JObject [(k, v)]) = JObject [(k, to_value v)]"
  by (simp add: btree_of_def)

lemma to_value_event [test_runs]:
  "to_value (JObject [(''timestamp'', JString t), (''name'', JString n), (''properties'', v)]) =
     JObject [(''name'', JString n), (''properties'', to_value v), (''timestamp'', JString t)]"
  by code_simp

lemma to_value_batch [test_runs]:
  "to_value (JObject [(''environment'', e), (''device'', d), (''events'', v)]) =
     JObject [(''device'', to_value d), (''environment'', to_value e), (''events'', to_value v)]"
  by code_simp

lemma to_value_empty [test_runs]: "to_value (JObject []) = JObject []" "to_value (JArray []) = JArray []"
  by (simp_all add: btree_of_def)

lemma de_device_tests [test_runs]:
  "de_device (JObject []) = Some bare_device"
  "de_device (JObject [(''language'', JString t)]) = Some (bare_device\<lparr>sd_language := Some t\<rparr>)"
  "de_device (JObject [(''locale'', JString t)]) = Some (bare_device\<lparr>sd_locale := Some t\<rparr>)"
  "de_device (JObject [(''os_name'', JString t)]) = Some (bare_device\<lparr>sd_os_name := Some t\<rparr>)"
  "de_device (JObject [(''platform'', JString t)]) = Some (bare_device\<lparr>sd_platform := Some t\<rparr>)"
  by (simp_all add: de_device_def deserialize_defs bare_device_def)

lemma de_device_sizes [test_runs]:
  "de_device (JObject [(''h'', JNumber (PosInt 420))]) = Some (bare_device\<lparr>sd_h := Some 420\<rparr>)"
  "de_device (JObject [(''w'', JNumber (PosInt 715517))]) = Some (bare_device\<lparr>sd_w := Some 715517\<rparr>)"
  by (simp_all add: de_device_def deserialize_defs bare_device_def)

lemma digit_chars:
  "digit_char 0 = CHR ''0''" "digit_char (Suc 0) = CHR ''1''" "digit_char 2 = CHR ''2''" "digit_char 5 = CHR ''5''"
  "digit_char 6 = CHR ''6''" "digit_char 7 = CHR ''7''" "digit_char 9 = CHR ''9''"
  by code_simp+

lemma test_timestamp [test_runs]: "show_u64 1527092525607 = ''1527092525607''"
  by (simp add: show_u64_def show_nat.simps digit_chars)

lemma test_timestamp_parsed [test_runs]: "u64_from_str ''1527092525607'' = Some 1527092525607"
  using u64_from_str_show_u64 [of 1527092525607] by (simp only: test_timestamp)

lemma test_number [test_runs]: "f64_of_int 420 = 0x407A400000000000"
  by code_simp

lemma test_locales [test_runs]:
  "str_find CHR ''_'' ''fi_FI'' = Some (Suc (Suc 0))" "str_slice_to ''fi_FI'' (Suc (Suc 0)) = Ret ''fi''"
  "str_find CHR ''_'' ''kulli'' = None"
  by code_simp+

lemma de_event_tests [test_runs]:
  "u64_from_str t = Some ts \<Longrightarrow>
     de_event (JObject [(''name'', JString n), (''properties'', JObject kvs), (''timestamp'', JString t)]) =
     Some \<lparr>ev_id = ''0'', ev_timestamp = ts, ev_name = n, ev_properties = btree_of (map (map_prod id to_value) kvs),
       ev_session_id = None, ev_external_user_id = None, ev_reference_id = None\<rparr>"
  by (simp add: de_event_def default_event_id_def deserialize_defs from_str_u64_def)

section \<open>The closed tests\<close>

lemma device_tests_run:
  "passes test_no_language_or_local_set" "passes test_no_language_or_locale_set" "passes test_language_set"
  "passes test_locale_set" "passes test_broken_locale_set" "passes test_no_h_set" "passes test_h_set"
  "passes test_no_w_set" "passes test_w_set" "passes test_no_ifa_tracking_enabled_set"
  "passes test_no_notification_registered_set" "passes test_no_os_name_set" "passes test_os_name_ios"
  "passes test_os_name_iphone_os" "passes test_os_name_android" "passes test_platform_web"
  by (simp_all add: test_no_language_or_local_set_def test_no_language_or_locale_set_def test_language_set_def
      test_locale_set_def test_broken_locale_set_def test_no_h_set_def test_h_set_def test_no_w_set_def test_w_set_def
      test_no_ifa_tracking_enabled_set_def test_no_notification_registered_set_def test_no_os_name_set_def
      test_os_name_ios_def test_os_name_iphone_os_def test_os_name_android_def test_platform_web_def
      from_value_def test_runs device_into_def device_language_def option_or_def device_platform_def bare_device_def
      unwrap_def del: to_value.simps(6))

lemma event_tests_run:
  "passes test_required_properties" "passes test_with_string_property" "passes test_with_number_property"
  "passes test_with_bool_property" "passes test_with_object_property"
  by (simp_all add: test_required_properties_def test_with_string_property_def test_with_number_property_def
      test_with_bool_property_def test_with_object_property_def from_value_def test_runs btree_of_def unwrap_def
      event_into_def event_properties_def number_value_def as_i64_def first_property_def del: to_value.simps(6))

lemma response_tests_run:
  "passes (test_register_event_result to_string)"
  "passes (test_register_event_result_empty_registration_data to_string)"
  by code_simp+

section \<open>The tests that call the crates\<close>

text \<open>What the hash and the country database answer for the four addresses.\<close>

definition location_answers :: "crates \<Rightarrow> bool" where
  "location_answers cr \<longleftrightarrow>
     b64_encode cr (blake2b cr (as_bytes ''109.68.226.154'')) =
       ''KOx83wHFu0JCTyitEEfU0+J0GWN5OxtXgMeIzDUinonr8ya0IY5VyYtrbDu8tRlBSo/a1T70lQ3uYcnSRYiR8w=='' \<and>
     b64_encode cr (blake2b cr (as_bytes ''2001:4860:4860::8844'')) =
       ''WlYX3LhjGXz3WRjP6V9dzs33shbfQhI+uFug7ft+W7VzzEgQPr6aMQxKn4yI7FF6MFiii+3OI2O0i9niN2Zt+g=='' \<and>
     b64_encode cr (blake2b cr (as_bytes ''127.0.0.1'')) =
       ''+s8vULlRmH7/43pUpb2l4/B+olwJ9HPFLWgvsG+FJPw2qdR+UzgO1BuBGBMIQ61PjS6yHj6En9SaLUB1M6rXog=='' \<and>
     b64_encode cr (blake2b cr (as_bytes ''::1'')) =
       ''iJYy4kyl+U+iXvriFVHa8S+fPnIwlSFwd6BiESUmVwpQA2/EiUZCwGRPtETJj2d89wr9svyy7S4E0Lb9mnER6w=='' \<and>
     geoip_lookup cr (V4 109 68 226 154) = Some (Some (Some ''DE'')) \<and>
     geoip_lookup cr (V6 0x2001 0x4860 0x4860 0 0 0 0 0x8844) = Some (Some (Some ''US'')) \<and>
     geoip_lookup cr (V4 127 0 0 1) = None \<and> geoip_lookup cr (V6 0 0 0 0 0 0 0 1) = None"

lemma test_addresses:
  "ip_from_str ''109.68.226.154'' = Some (V4 109 68 226 154)"
  "ip_from_str ''2001:4860:4860::8844'' = Some (V6 0x2001 0x4860 0x4860 0 0 0 0 0x8844)"
  "ip_from_str ''127.0.0.1'' = Some (V4 127 0 0 1)"
  "ip_from_str ''::1'' = Some (V6 0 0 0 0 0 0 0 1)"
  by code_simp+

lemma shown_addresses:
  "show_ip (V4 109 68 226 154) = ''109.68.226.154''"
  "show_ip (V6 0x2001 0x4860 0x4860 0 0 0 0 0x8844) = ''2001:4860:4860::8844''"
  "show_ip (V4 127 0 0 1) = ''127.0.0.1''" "show_ip (V6 0 0 0 0 0 0 0 1) = ''::1''"
  by code_simp+

lemma location_tests_run:
  assumes "location_answers cr"
  shows "passes (test_set_real_location_ipv4 cr)" "passes (test_set_real_location_ipv6 cr)"
    "passes (test_set_local_ipv4 cr)" "passes (test_set_local_ipv6 cr)"
  using assms unfolding location_answers_def
  by (simp_all add: test_set_real_location_ipv4_def test_set_real_location_ipv6_def test_set_local_ipv4_def
      test_set_local_ipv6_def test_addresses shown_addresses unwrap_def from_value_def test_runs set_location_def
      device_into_def device_language_def bare_device_def del: to_value.simps(6) show_ip.simps)

lemma de_environment_tests [test_runs]:
  "de_environment (JObject []) = Some (toy_environment\<lparr>se_app_id := ''''\<rparr>)"
  "de_environment (JObject [(''app_id'', JString a)]) = Some (toy_environment\<lparr>se_app_id := a\<rparr>)"
  by (simp_all add: de_environment_def deserialize_defs toy_environment_def)

lemma de_batch_tests [test_runs]:
  "de_environment e = Some x \<Longrightarrow>
     de_batch (JObject [(''device'', JObject []), (''environment'', e), (''events'', JArray [])]) =
     Some \<lparr>sb_environment = x, sb_events = [], sb_device = bare_device, sb_recipient_id = None\<rparr>"
  by (simp add: de_batch_def struct_members_def required_def optional_def field_with_def members_def de_vec_def
      de_device_tests)

lemma sort_nothing: "sort_contract sort_by \<Longrightarrow> sort_by key [] = []"
  using sort_contractD(1) [of sort_by key "[]"] by simp

lemma batch_tests_run:
  assumes "location_answers cr" "device_id_answer cr" "header_text_contract cr" "sort_contract sort_by"
  shows "passes (test_empty_header_values cr sort_by now)" "passes (test_with_environment_app_id cr sort_by now)"
proof -
  let ?m = "no_headers(''x-real-ip'' \<mapsto> as_bytes ''109.68.226.154'', ''xorc-device-id'' \<mapsto> as_bytes test_cipher)"
  have "context_device_id cr development_secret ?m =
      Ret (Some \<lparr>did_ciphertext = Ciphertext test_cipher, did_cleartext = Cleartext test_clear\<rparr>)"
    by (rule test_device_id) (use assms(2,3) in simp_all)
  then obtain ctx where ctx: "context_new cr development_secret ?m ''123'' Ios = Ret ctx"
    "ctx_device_id ctx = Some \<lparr>did_ciphertext = Ciphertext test_cipher, did_cleartext = Cleartext test_clear\<rparr>"
    "ctx_ip ctx = Some (V4 109 68 226 154)"
    using header_text [OF assms(3) test_texts_visible(2)]
    by (simp add: context_new_def get_value_tests test_addresses)
  then show "passes (test_empty_header_values cr sort_by now)"
    using assms(1) sort_nothing [OF assms(4)] unfolding location_answers_def
    by (simp add: test_empty_header_values_def header_insert_tests test_cipher_def test_clear_def from_value_def
        test_runs unwrap_def into_proto_def set_location_def shown_addresses device_into_def device_language_def
        bare_device_def toy_environment_def del: to_value.simps(6) show_ip.simps)
  show "passes (test_with_environment_app_id cr sort_by now)"
    using sort_nothing [OF assms(4)]
    by (simp add: test_with_environment_app_id_def no_headers_def context_new_tests from_value_def test_runs
        unwrap_def into_proto_def device_into_def device_language_def bare_device_def toy_environment_def
        del: to_value.simps(6))
qed

end
