(* ===== verification/Unit_Tests_Policy.thy ===== *)
theory Unit_Tests_Policy
  imports Unit_Tests_Events
begin

text \<open>
  The unit tests of \<open>src/context.rs\<close>, \<open>src/cors.rs\<close> and \<open>src/app_registry.rs\<close>, translated as they
  stand, and the theorems that they pass. The signatures in the tests are HMACs the tests' comments
  compute with a Python script: that each verifies over its body with its key, and the web one not
  with the Android key, is the hypothesis \<open>signature_answers\<close>.
\<close>

section \<open>Contexts\<close>

definition test_empty_ip_address :: "crates \<Rightarrow> unit outcome" where
  "test_empty_ip_address cr =
     obind (context_new cr development_secret no_headers ''123'' Ios) (\<lambda>context.
     assert (ctx_ip context = None))"

definition test_existing_ipv4_address :: "crates \<Rightarrow> unit outcome" where
  "test_existing_ipv4_address cr =
     (let header_map = header_insert ''x-real-ip'' ''1.1.1.1'' no_headers in
     obind (context_new cr development_secret header_map ''123'' Ios) (\<lambda>context.
     assert_eq (Some (V4 1 1 1 1)) (ctx_ip context)))"

definition test_existing_ipv6_address :: "crates \<Rightarrow> unit outcome" where
  "test_existing_ipv6_address cr =
     (let header_map = header_insert ''x-real-ip'' ''::1'' no_headers in
     obind (context_new cr development_secret header_map ''123'' Ios) (\<lambda>context.
     assert_eq (Some (V6 0 0 0 0 0 0 0 1)) (ctx_ip context)))"

definition test_empty_api_token :: "crates \<Rightarrow> unit outcome" where
  "test_empty_api_token cr =
     obind (context_new cr development_secret no_headers ''123'' Ios) (\<lambda>context.
     assert (ctx_api_token context = None))"

definition test_existing_api_token :: "crates \<Rightarrow> unit outcome" where
  "test_existing_api_token cr =
     (let header_map = header_insert ''xorc-api-token'' ''some-token'' no_headers in
     obind (context_new cr development_secret header_map ''123'' Ios) (\<lambda>context.
     assert_eq (ctx_api_token context) (Some ''some-token'')))"

definition test_empty_signature :: "crates \<Rightarrow> unit outcome" where
  "test_empty_signature cr =
     obind (context_new cr development_secret no_headers ''123'' Ios) (\<lambda>context.
     assert (ctx_signature context = None))"

definition test_existing_signature :: "crates \<Rightarrow> unit outcome" where
  "test_existing_signature cr =
     (let header_map = header_insert ''xorc-Signature'' ''some-signature'' no_headers in
     obind (context_new cr development_secret header_map ''123'' Ios) (\<lambda>context.
     assert_eq (ctx_signature context) (Some ''some-signature'')))"

definition test_empty_origin :: "crates \<Rightarrow> unit outcome" where
  "test_empty_origin cr =
     obind (context_new cr development_secret no_headers ''123'' Ios) (\<lambda>context.
     assert (ctx_origin context = None))"

definition test_existing_origin :: "crates \<Rightarrow> unit outcome" where
  "test_existing_origin cr =
     (let header_map = header_insert ''Origin'' ''http://google.com'' no_headers in
     obind (context_new cr development_secret header_map ''123'' Ios) (\<lambda>context.
     assert_eq (ctx_origin context) (Some ''http://google.com'')))"

definition test_lowercase_origin :: "crates \<Rightarrow> unit outcome" where
  "test_lowercase_origin cr =
     (let header_map = header_insert ''origin'' ''http://google.com'' no_headers in
     obind (context_new cr development_secret header_map ''123'' Ios) (\<lambda>context.
     assert_eq (ctx_origin context) (Some ''http://google.com'')))"

definition test_empty_device_id :: "crates \<Rightarrow> unit outcome" where
  "test_empty_device_id cr =
     obind (context_new cr development_secret no_headers ''123'' Ios) (\<lambda>context.
     assert (ctx_device_id context = None))"

definition test_existing_device_id :: "crates \<Rightarrow> unit outcome" where
  "test_existing_device_id cr =
     (let cipher = ''PNslnKKJkbq8Nv5/C0CcoK7hnFsdltcW3yK/I0QYJ7bUX8EHx2/NX0r8OkJHC5lzY/cBwZ3FeeFmRRpxof+rtw=='';
          clear = ''8f7f5c07-5eb2-4695-870c-065d886cdc9e'';
          header_map = header_insert ''XORC-Device-Id'' cipher no_headers in
     obind (context_new cr development_secret header_map ''123'' Ios) (\<lambda>context.
     obind (unwrap (ctx_device_id context)) (\<lambda>device_id.
     obind (assert_eq (did_ciphertext device_id) (Ciphertext cipher)) (\<lambda>_.
     assert_eq (did_cleartext device_id) (Cleartext clear)))))"

definition test_faulty_device_id :: "crates \<Rightarrow> unit outcome" where
  "test_faulty_device_id cr =
     (let header_map = header_insert ''XORC-Device-Id'' ''THIS_IS_FAKED'' no_headers in
     obind (context_new cr development_secret header_map ''123'' Ios) (\<lambda>context.
     assert (ctx_device_id context = None)))"

section \<open>Origins\<close>

definition new_with_cors_config :: "unit outcome" where
  "new_with_cors_config = assert (cors_new tests_toml \<noteq> None)"

text \<open>\<open>assert_eq!("..", headers.get(..).unwrap())\<close>\<close>

definition assert_header :: "string \<Rightarrow> string \<Rightarrow> http_response \<Rightarrow> unit outcome" where
  "assert_header v name response = obind (unwrap (header_of name response)) (\<lambda>h. assert_eq (as_bytes v) h)"

definition wildcard_headers :: "crates \<Rightarrow> unit outcome" where
  "wildcard_headers cr =
     obind (unwrap (cors_new tests_toml)) (\<lambda>cors.
     obind (response_builder_wildcard cr cors) (\<lambda>response.
     obind (assert_header ''*'' ''access-control-allow-origin'' response) (\<lambda>_.
     obind (assert_header ''HERP,DERP'' ''access-control-allow-methods'' response) (\<lambda>_.
     assert_header ''Content-Type, Content-Length'' ''access-control-allow-headers'' response))))"

definition headers_for_existing_app_from_allowed_origin :: "crates \<Rightarrow> unit outcome" where
  "headers_for_existing_app_from_allowed_origin cr =
     obind (unwrap (cors_new tests_toml)) (\<lambda>cors.
     obind (response_builder_origin cr cors ''11111111-0000-0000-0000-000000000000'' (Some ''https://reddit.com'') Web)
       (\<lambda>response.
     obind (assert_header ''https://reddit.com'' ''access-control-allow-origin'' response) (\<lambda>_.
     obind (assert_header ''HERP,DERP'' ''access-control-allow-methods'' response) (\<lambda>_.
     assert_header ''Content-Type, Content-Length'' ''access-control-allow-headers'' response))))"

definition headers_for_existing_app_from_wrong_origin :: "crates \<Rightarrow> unit outcome" where
  "headers_for_existing_app_from_wrong_origin cr =
     obind (unwrap (cors_new tests_toml)) (\<lambda>cors.
     obind (response_builder_origin cr cors ''2'' (Some ''https://facebook.com'') Web) (\<lambda>response.
     assert (header_of ''access-control-allow-origin'' response = None)))"

definition headers_for_non_existing_app :: "crates \<Rightarrow> unit outcome" where
  "headers_for_non_existing_app cr =
     obind (unwrap (cors_new tests_toml)) (\<lambda>cors.
     obind (response_builder_origin cr cors ''3'' (Some ''https://reddit.com'') Web) (\<lambda>response.
     assert (header_of ''access-control-allow-origin'' response = None)))"

section \<open>The registry\<close>

definition create_test_event :: "string \<Rightarrow> string \<Rightarrow> sdk_event_batch outcome" where
  "create_test_event app_id p =
     from_value de_batch (JObject
       [(''environment'', JObject [(''app_id'', JString app_id)]),
        (''device'', JObject [(''platform'', JString p)]),
        (''events'', JArray [JObject
           [(''timestamp'', JString ''1527092525607''), (''name'', JString ''test_event''),
            (''properties'', JObject [])]])])"

text \<open>The counter the creation of an application increments is a parameter.\<close>

definition test_app_creation_empty_secrets :: "crates \<Rightarrow> metrics \<Rightarrow> unit outcome" where
  "test_app_creation_empty_secrets cr m =
     (let (app, _) = create_app cr (uuid_hyphenated cr 0) None None None None m in
     obind (assert_eq (uuid_hyphenated cr 0) (app_key app)) (\<lambda>_.
     obind (assert (app_token app = None)) (\<lambda>_.
     obind (assert (app_ios_secret app = None)) (\<lambda>_.
     obind (assert (app_android_secret app = None)) (\<lambda>_.
     assert (app_web_secret app = None))))))"

definition test_app_creation_with_token :: "crates \<Rightarrow> metrics \<Rightarrow> unit outcome" where
  "test_app_creation_with_token cr m =
     (let (app, _) = create_app cr (uuid_hyphenated cr 0) (Some TOKEN) None None None m in
     assert_eq (Some TOKEN) (app_token app))"

definition test_app_creation_with_secrets :: "crates \<Rightarrow> metrics \<Rightarrow> unit outcome" where
  "test_app_creation_with_secrets cr m =
     (let (app, _) = create_app cr (uuid_hyphenated cr 0) None (Some IOS_SECRET) (Some ANDROID_SECRET)
            (Some WEB_SECRET) m in
     obind (assert (app_ios_secret app \<noteq> None)) (\<lambda>_.
     obind (assert (app_android_secret app \<noteq> None)) (\<lambda>_.
     assert (app_web_secret app \<noteq> None))))"

text \<open>The signatures the headers carry.\<close>

definition ios_signature :: string where
  "ios_signature = ''8iq7J8PjWZvkfzPDa0HbfwnlbNWTK6giMO2Z1vsUhToMY62rSJtdIHkFaMY+UDIWRjCbf+c5le3AAHVUlDJDRg==''"

definition android_signature :: string where
  "android_signature = ''2dTSkXn6Z+DCYpXNKgRV2oA+wHhvig98A0eXfKpxgDndXTAxYDfAxGrCmbU+AHL9O+zajCLBKZzqmitPnQJeGA==''"

definition web_signature :: string where
  "web_signature = ''iamp0NMGsLvLTsoTSRRKQn4uTThETrkdk7hjCX0jqDXdjNyOv/tRK9C9cnPhi4IIvP4Fj/kP/5L8waXx3fokOg==''"

definition test_validate ::
  "crates \<Rightarrow> app_registry \<Rightarrow> sdk_event_batch \<Rightarrow> request_context \<Rightarrow> gateway_error + unit" where
  "test_validate cr app_registry event context =
     validate cr (gc_default_token (cfg_gateway tests_toml)) app_registry event context (as_bytes ''kulli'')"

definition test_validate_ios_no_events :: "crates \<Rightarrow> 'db scylla \<Rightarrow> 'db world \<Rightarrow> unit outcome" where
  "test_validate_ios_no_events cr svc w =
     (let header_map = header_insert ''XORC-Signature'' ios_signature no_headers;
          header_map = header_insert ''XORC-Api-Token'' TOKEN header_map in
     obind (context_new cr development_secret header_map ''123'' Ios) (\<lambda>context.
     obind (app_registry_new cr svc tests_toml w) (\<lambda>(app_registry, _).
     obind (create_test_event ''22222222-0000-0000-0000-000000000000'' ''ios'') (\<lambda>event.
     assert_eq (Inl InvalidPayload) (test_validate cr app_registry (event\<lparr>sb_events := []\<rparr>) context)))))"

definition test_validate_ios_valid_data :: "crates \<Rightarrow> 'db scylla \<Rightarrow> 'db world \<Rightarrow> unit outcome" where
  "test_validate_ios_valid_data cr svc w =
     (let header_map = header_insert ''XORC-Signature'' ios_signature no_headers;
          header_map = header_insert ''XORC-Api-Token'' TOKEN header_map in
     obind (context_new cr development_secret header_map ''123'' Ios) (\<lambda>context.
     obind (app_registry_new cr svc tests_toml w) (\<lambda>(app_registry, _).
     obind (create_test_event ''22222222-0000-0000-0000-000000000000'' ''ios'') (\<lambda>event.
     assert (result_ok (test_validate cr app_registry event context) \<noteq> None)))))"

definition test_validate_android_valid_data :: "crates \<Rightarrow> 'db scylla \<Rightarrow> 'db world \<Rightarrow> unit outcome" where
  "test_validate_android_valid_data cr svc w =
     (let header_map = header_insert ''XORC-Signature'' android_signature no_headers;
          header_map = header_insert ''XORC-Api-Token'' TOKEN header_map in
     obind (context_new cr development_secret header_map ''123'' Ios) (\<lambda>context.
     obind (app_registry_new cr svc tests_toml w) (\<lambda>(app_registry, _).
     obind (create_test_event ''22222222-0000-0000-0000-000000000000'' ''android'') (\<lambda>event.
     assert (result_ok (test_validate cr app_registry event context) \<noteq> None)))))"

definition test_validate_web_valid_data :: "crates \<Rightarrow> 'db scylla \<Rightarrow> 'db world \<Rightarrow> unit outcome" where
  "test_validate_web_valid_data cr svc w =
     (let header_map = header_insert ''XORC-Signature'' web_signature no_headers;
          header_map = header_insert ''XORC-Api-Token'' TOKEN header_map in
     obind (context_new cr development_secret header_map ''123'' Ios) (\<lambda>context.
     obind (app_registry_new cr svc tests_toml w) (\<lambda>(app_registry, _).
     obind (create_test_event ''22222222-0000-0000-0000-000000000000'' ''web'') (\<lambda>event.
     assert (result_ok (test_validate cr app_registry event context) \<noteq> None)))))"

definition test_validate_invalid_app :: "crates \<Rightarrow> 'db scylla \<Rightarrow> 'db world \<Rightarrow> unit outcome" where
  "test_validate_invalid_app cr svc w =
     (let header_map = header_insert ''XORC-Signature'' web_signature no_headers;
          header_map = header_insert ''XORC-Api-Token'' TOKEN header_map in
     obind (context_new cr development_secret header_map ''123'' Ios) (\<lambda>context.
     obind (app_registry_new cr svc tests_toml w) (\<lambda>(app_registry, _).
     obind (create_test_event ''2'' ''web'') (\<lambda>event.
     assert_eq (Inl AppDoesNotExist) (test_validate cr app_registry event context)))))"

definition test_validate_invalid_token :: "crates \<Rightarrow> 'db scylla \<Rightarrow> 'db world \<Rightarrow> unit outcome" where
  "test_validate_invalid_token cr svc w =
     (let header_map = header_insert ''XORC-Signature'' web_signature no_headers;
          header_map = header_insert ''XORC-Api-Token'' ''pylly'' header_map in
     obind (context_new cr development_secret header_map ''123'' Ios) (\<lambda>context.
     obind (app_registry_new cr svc tests_toml w) (\<lambda>(app_registry, _).
     obind (create_test_event ''22222222-0000-0000-0000-000000000000'' ''web'') (\<lambda>event.
     assert_eq (Inl InvalidToken) (test_validate cr app_registry event context)))))"

definition test_validate_missing_signature_if_not_allowed :: "crates \<Rightarrow> 'db scylla \<Rightarrow> 'db world \<Rightarrow> unit outcome" where
  "test_validate_missing_signature_if_not_allowed cr svc w =
     (let header_map = header_insert ''XORC-Api-Token'' TOKEN no_headers in
     obind (context_new cr development_secret header_map ''123'' Ios) (\<lambda>context.
     obind (app_registry_new cr svc tests_toml w) (\<lambda>(app_registry, _).
     obind (create_test_event ''22222222-0000-0000-0000-000000000000'' ''web'') (\<lambda>event.
     assert_eq (Inl MissingSignature) (test_validate cr app_registry event context)))))"

definition test_validate_no_secret_set_for_platform :: "crates \<Rightarrow> 'db scylla \<Rightarrow> 'db world \<Rightarrow> unit outcome" where
  "test_validate_no_secret_set_for_platform cr svc w =
     (let header_map = header_insert ''XORC-Signature'' web_signature no_headers;
          header_map = header_insert ''XORC-Api-Token'' TOKEN header_map in
     obind (context_new cr development_secret header_map ''123'' Ios) (\<lambda>context.
     obind (app_registry_new cr svc tests_toml w) (\<lambda>(app_registry, _).
     obind (create_test_event ''1'' ''pylly'') (\<lambda>event.
     assert_eq (Inl AppDoesNotExist) (test_validate cr app_registry event context)))))"

definition test_validate_web_invalid_signature :: "crates \<Rightarrow> 'db scylla \<Rightarrow> 'db world \<Rightarrow> unit outcome" where
  "test_validate_web_invalid_signature cr svc w =
     (let header_map = header_insert ''XORC-Signature'' web_signature no_headers;
          header_map = header_insert ''XORC-Api-Token'' TOKEN header_map in
     obind (context_new cr development_secret header_map ''123'' Ios) (\<lambda>context.
     obind (app_registry_new cr svc tests_toml w) (\<lambda>(app_registry, _).
     obind (create_test_event ''22222222-0000-0000-0000-000000000000'' ''android'') (\<lambda>event.
     assert_eq (Inl InvalidSignature) (test_validate cr app_registry event context)))))"

section \<open>The tests of contexts\<close>

lemma context_tests_visible:
  "list_all visible ''1.1.1.1''" "list_all visible ''::1''" "list_all visible ''some-token''"
  "list_all visible ''some-signature''" "list_all visible ''http://google.com''" "list_all visible ''THIS_IS_FAKED''"
  by code_simp+

lemma context_tests_addresses: "ip_from_str ''1.1.1.1'' = Some (V4 1 1 1 1)" "ip_from_str ''::1'' = Some (V6 0 0 0 0 0 0 0 1)"
  by code_simp+

lemma context_tests_run:
  assumes "header_text_contract cr"
  shows "passes (test_empty_ip_address cr)" "passes (test_existing_ipv4_address cr)"
    "passes (test_existing_ipv6_address cr)" "passes (test_empty_api_token cr)" "passes (test_existing_api_token cr)"
    "passes (test_empty_signature cr)" "passes (test_existing_signature cr)" "passes (test_empty_origin cr)"
    "passes (test_existing_origin cr)" "passes (test_lowercase_origin cr)" "passes (test_empty_device_id cr)"
  using context_tests_visible [THEN header_text [OF assms]]
  by (simp_all add: test_empty_ip_address_def test_existing_ipv4_address_def test_existing_ipv6_address_def
      test_empty_api_token_def test_existing_api_token_def test_empty_signature_def test_existing_signature_def
      test_empty_origin_def test_existing_origin_def test_lowercase_origin_def test_empty_device_id_def
      header_insert_tests context_new_tests no_headers_def context_tests_addresses)

lemma device_id_tests_run:
  assumes "header_text_contract cr" and "device_id_answer cr" and "b64_decode cr ''THIS_IS_FAKED'' = None"
  shows "passes (test_existing_device_id cr)" "passes (test_faulty_device_id cr)"
proof -
  let ?m = "no_headers(''xorc-device-id'' \<mapsto> as_bytes test_cipher)"
  have "context_device_id cr development_secret ?m =
      Ret (Some \<lparr>did_ciphertext = Ciphertext test_cipher, did_cleartext = Cleartext test_clear\<rparr>)"
    by (rule test_device_id) (use assms(1,2) in simp_all)
  then have "\<exists>ctx. context_new cr development_secret ?m ''123'' Ios = Ret ctx \<and>
      ctx_device_id ctx = Some \<lparr>did_ciphertext = Ciphertext test_cipher, did_cleartext = Cleartext test_clear\<rparr>"
    by (simp add: context_new_def)
  then show "passes (test_existing_device_id cr)"
    by (auto simp: test_existing_device_id_def header_insert_tests test_cipher_def test_clear_def unwrap_def)
  have "get_value cr (no_headers(''xorc-device-id'' \<mapsto> as_bytes ''THIS_IS_FAKED'')) ''XORC-Device-Id'' = Some ''THIS_IS_FAKED''"
    using header_text [OF assms(1) context_tests_visible(6)] by (simp add: get_value_tests)
  then have "context_device_id cr development_secret (no_headers(''xorc-device-id'' \<mapsto> as_bytes ''THIS_IS_FAKED'')) = Ret None"
    using assms(3) by (simp add: context_device_id_def decrypt_def)
  then show "passes (test_faulty_device_id cr)"
    by (simp add: test_faulty_device_id_def header_insert_tests context_new_def)
qed

section \<open>The tests of origins\<close>

text \<open>The header values the policy of the tests needs can be built.\<close>

definition policy_answers :: "crates \<Rightarrow> bool" where
  "policy_answers cr \<longleftrightarrow>
     (\<forall>s \<in> {''HERP,DERP'', ''Content-Type, Content-Length'', ''https://reddit.com''}. hv_from_str cr s = Some (as_bytes s))"

definition tests_cors :: cors where
  "tests_cors =
     \<lparr>co_allowed_methods = ''HERP,DERP'', co_allowed_headers = ''Content-Type, Content-Length'',
      co_allowed_origins =
        [''00000000-0000-0000-0000-000000000000'' \<mapsto> {''https://www.google.fi''},
         ''11111111-0000-0000-0000-000000000000'' \<mapsto> {''http://localhost:5401'', ''https://reddit.com''}]\<rparr>"

lemma cors_new_tests: "cors_new tests_toml = Some tests_cors"
  by (simp add: cors_new_def tests_toml_def tests_cors_def)

lemma cors_tests_run:
  assumes "policy_answers cr"
  shows "passes new_with_cors_config" "passes (wildcard_headers cr)"
    "passes (headers_for_existing_app_from_allowed_origin cr)"
    "passes (headers_for_existing_app_from_wrong_origin cr)" "passes (headers_for_non_existing_app cr)"
  using assms
  by (simp_all add: new_with_cors_config_def wildcard_headers_def headers_for_existing_app_from_allowed_origin_def
      headers_for_existing_app_from_wrong_origin_def headers_for_non_existing_app_def cors_new_tests unwrap_def
      response_builder_wildcard_def response_builder_origin_def valid_origin_def tests_cors_def policy_answers_def
      header_from_str_def assert_header_def header_of_def response_builder_def add_header_def)

section \<open>The tests of the registry\<close>

definition signature_answers :: "crates \<Rightarrow> bool" where
  "signature_answers cr \<longleftrightarrow>
     (\<exists>ki ka kw di da dw.
        hex_decode cr (as_bytes IOS_SECRET) = Some ki \<and> hex_decode cr (as_bytes ANDROID_SECRET) = Some ka \<and>
        hex_decode cr (as_bytes WEB_SECRET) = Some kw \<and>
        b64_decode cr ios_signature = Some di \<and> b64_decode cr android_signature = Some da \<and>
        b64_decode cr web_signature = Some dw \<and>
        hmac_verify cr (VerificationKey ki) (as_bytes ''kulli'') di \<and>
        hmac_verify cr (VerificationKey ka) (as_bytes ''kulli'') da \<and>
        hmac_verify cr (VerificationKey kw) (as_bytes ''kulli'') dw \<and>
        \<not> hmac_verify cr (VerificationKey ka) (as_bytes ''kulli'') dw)"

definition tests_app_id :: string where
  "tests_app_id = ''22222222-0000-0000-0000-000000000000''"

definition tests_registry :: "crates \<Rightarrow> app_registry" where
  "tests_registry cr =
     \<lparr>reg_allow_empty_signature = False,
      reg_apps = [tests_app_id \<mapsto>
        app_of cr tests_app_id (Some TOKEN) (Some IOS_SECRET) (Some ANDROID_SECRET) (Some WEB_SECRET)],
      reg_pool = False\<rparr>"

lemma registry_of_tests: "\<exists>w'. app_registry_new cr svc tests_toml w = Ret (tests_registry cr, w')"
  by (simp add: app_registry_new_def tests_toml_def create_app_eq tests_registry_def tests_app_id_def unwrap_def)

definition tests_batch :: "string \<Rightarrow> string \<Rightarrow> sdk_event_batch" where
  "tests_batch app_id p =
     \<lparr>sb_environment = toy_environment\<lparr>se_app_id := app_id\<rparr>, sb_events = [toy_event ''0'' 1527092525607 ''test_event''],
      sb_device = bare_device\<lparr>sd_platform := Some p\<rparr>, sb_recipient_id = None\<rparr>"

lemma create_test_event_eq: "create_test_event app_id p = Ret (tests_batch app_id p)"
proof -
  have "to_value (JArray [j]) = JArray [to_value j]" for j by simp
  moreover have "de_vec de_event (JArray [j]) = map_option (\<lambda>e. [e]) (de_event j)" for j
    by (simp add: de_vec_def map_conv_bind_option split: Option.bind_splits)
  moreover have "btree_of (map (map_prod id to_value) []) = []" by (simp add: btree_of_def)
  ultimately have "from_value de_batch (JObject
       [(''environment'', JObject [(''app_id'', JString app_id)]),
        (''device'', JObject [(''platform'', JString p)]),
        (''events'', JArray [JObject
           [(''timestamp'', JString ''1527092525607''), (''name'', JString ''test_event''),
            (''properties'', JObject [])]])]) = Ret (tests_batch app_id p)"
    by (simp add: from_value_def test_runs de_batch_def struct_members_def required_def optional_def field_with_def
        members_def unwrap_def tests_batch_def toy_event_def del: to_value.simps(5,6))
  then show ?thesis by (simp only: create_test_event_def)
qed

lemma signatures_visible:
  "list_all visible ios_signature" "list_all visible android_signature" "list_all visible web_signature"
  "list_all visible TOKEN" "list_all visible ''pylly''"
  by code_simp+

lemma app_creation_tests_run:
  assumes "signature_answers cr"
  shows "passes (test_app_creation_empty_secrets cr m)" "passes (test_app_creation_with_token cr m)"
    "passes (test_app_creation_with_secrets cr m)"
  using assms
  by (auto simp: test_app_creation_empty_secrets_def test_app_creation_with_token_def
      test_app_creation_with_secrets_def create_app_def create_key_def signature_answers_def)

text \<open>A test of \<open>validate\<close> in the terms of the batch and the headers.\<close>

lemma tests_validate:
  "test_validate cr (tests_registry cr) (tests_batch app p) ctx =
     validate cr (gc_default_token (cfg_gateway tests_toml)) (tests_registry cr) (tests_batch app p) ctx (as_bytes ''kulli'')"
  by (simp add: test_validate_def)

lemma validate_tests_run:
  assumes "header_text_contract cr" and "signature_answers cr"
  shows "passes (test_validate_ios_no_events cr svc w)" "passes (test_validate_ios_valid_data cr svc w)"
    "passes (test_validate_android_valid_data cr svc w)" "passes (test_validate_web_valid_data cr svc w)"
    "passes (test_validate_invalid_app cr svc w)" "passes (test_validate_invalid_token cr svc w)"
    "passes (test_validate_missing_signature_if_not_allowed cr svc w)"
    "passes (test_validate_no_secret_set_for_platform cr svc w)"
    "passes (test_validate_web_invalid_signature cr svc w)"
proof -
  obtain w' where reg: "app_registry_new cr svc tests_toml w = Ret (tests_registry cr, w')"
    using registry_of_tests by blast
  obtain ki ka kw di da dw where mac:
    "hex_decode cr (as_bytes IOS_SECRET) = Some ki" "hex_decode cr (as_bytes ANDROID_SECRET) = Some ka"
    "hex_decode cr (as_bytes WEB_SECRET) = Some kw"
    "b64_decode cr ios_signature = Some di" "b64_decode cr android_signature = Some da"
    "b64_decode cr web_signature = Some dw"
    "hmac_verify cr (VerificationKey ki) (as_bytes ''kulli'') di"
    "hmac_verify cr (VerificationKey ka) (as_bytes ''kulli'') da"
    "hmac_verify cr (VerificationKey kw) (as_bytes ''kulli'') dw"
    "\<not> hmac_verify cr (VerificationKey ka) (as_bytes ''kulli'') dw"
    using assms(2) unfolding signature_answers_def by blast
  have token: "''pylly'' \<noteq> TOKEN" by (simp add: TOKEN_def)
  note run = reg mac token signatures_visible [THEN header_text [OF assms(1)]]
  note defs = header_insert_tests context_new_tests no_headers_def create_test_event_eq test_validate_def validate_def
    tests_registry_def tests_batch_def tests_app_id_def toy_environment_def app_of_def create_key_def
    device_platform_def bare_device_def platform_secret_def option_unwrap_or_def
  show "passes (test_validate_ios_no_events cr svc w)" "passes (test_validate_ios_valid_data cr svc w)"
    "passes (test_validate_android_valid_data cr svc w)" "passes (test_validate_web_valid_data cr svc w)"
    "passes (test_validate_invalid_app cr svc w)" "passes (test_validate_invalid_token cr svc w)"
    "passes (test_validate_missing_signature_if_not_allowed cr svc w)"
    "passes (test_validate_no_secret_set_for_platform cr svc w)"
    "passes (test_validate_web_invalid_signature cr svc w)"
    by (simp_all add: test_validate_ios_no_events_def test_validate_ios_valid_data_def
      test_validate_android_valid_data_def test_validate_web_valid_data_def test_validate_invalid_app_def
      test_validate_invalid_token_def test_validate_missing_signature_if_not_allowed_def
      test_validate_no_secret_set_for_platform_def test_validate_web_invalid_signature_def run defs)
qed

end
