(* ===== verification/Test_Properties.thy ===== *)
theory Test_Properties
  imports Unit_Tests_Policy
begin

text \<open>
  The repository's own tests, run on the model as a check of the translation: the lemmas list every
  test of a module. What the tests expect of the third-party crates (hashes, locations, signatures,
  a decrypted id) is assumed, and holds of the tables of answers in \<open>tests_crates\<close>.
\<close>

definition tests_crates :: crates where
  "tests_crates = toy_crates
     \<lparr>b64_encode := (\<lambda>bs.
        if bs = [1] then ''KOx83wHFu0JCTyitEEfU0+J0GWN5OxtXgMeIzDUinonr8ya0IY5VyYtrbDu8tRlBSo/a1T70lQ3uYcnSRYiR8w==''
        else if bs = [2] then ''WlYX3LhjGXz3WRjP6V9dzs33shbfQhI+uFug7ft+W7VzzEgQPr6aMQxKn4yI7FF6MFiii+3OI2O0i9niN2Zt+g==''
        else if bs = [3] then ''+s8vULlRmH7/43pUpb2l4/B+olwJ9HPFLWgvsG+FJPw2qdR+UzgO1BuBGBMIQ61PjS6yHj6En9SaLUB1M6rXog==''
        else ''iJYy4kyl+U+iXvriFVHa8S+fPnIwlSFwd6BiESUmVwpQA2/EiUZCwGRPtETJj2d89wr9svyy7S4E0Lb9mnER6w==''),
      blake2b := (\<lambda>bs.
        if bs = as_bytes ''109.68.226.154'' then [1] else if bs = as_bytes ''2001:4860:4860::8844'' then [2]
        else if bs = as_bytes ''127.0.0.1'' then [3] else [4]),
      geoip_lookup := (\<lambda>ip.
        if ip = V4 109 68 226 154 then Some (Some (Some ''DE''))
        else if ip = V6 0x2001 0x4860 0x4860 0 0 0 0 0x8844 then Some (Some (Some ''US'')) else None),
      b64_decode := (\<lambda>s.
        if s = test_cipher then Some (replicate 64 0) else if s = ios_signature then Some [1]
        else if s = android_signature then Some [2] else if s = web_signature then Some [3] else None),
      aead_open_in_place := (\<lambda>key nonce buf. Some (as_bytes test_clear)),
      hex_decode := (\<lambda>bs.
        if bs = as_bytes IOS_SECRET then Some [1] else if bs = as_bytes ANDROID_SECRET then Some [2]
        else if bs = as_bytes WEB_SECRET then Some [3] else None),
      hmac_verify := (\<lambda>key msg sig. key = VerificationKey sig)\<rparr>"

lemma tests_location: "location_answers tests_crates"
  by (simp add: location_answers_def tests_crates_def)

lemma tests_secrets_distinct:
  "IOS_SECRET \<noteq> ANDROID_SECRET" "IOS_SECRET \<noteq> WEB_SECRET" "ANDROID_SECRET \<noteq> WEB_SECRET"
  "test_cipher \<noteq> ios_signature" "test_cipher \<noteq> android_signature" "test_cipher \<noteq> web_signature"
  "ios_signature \<noteq> android_signature" "ios_signature \<noteq> web_signature" "android_signature \<noteq> web_signature"
  by (simp_all add: IOS_SECRET_def ANDROID_SECRET_def WEB_SECRET_def test_cipher_def ios_signature_def
      android_signature_def web_signature_def)

lemma tests_device: "device_id_answer tests_crates"
  by (simp add: device_id_answer_def tests_crates_def toy_crates_def development_secret_def)

lemma tests_text: "header_text_contract tests_crates"
  by (simp add: header_text_contract_def tests_crates_def to_visible_def)

lemma tests_signatures: "signature_answers tests_crates"
  unfolding signature_answers_def
  by (rule exI [of _ "[1]"], rule exI [of _ "[2]"], rule exI [of _ "[3]"], rule exI [of _ "[1]"],
      rule exI [of _ "[2]"], rule exI [of _ "[3]"])
    (simp add: tests_crates_def tests_secrets_distinct [symmetric] tests_secrets_distinct)

lemma tests_policy: "policy_answers tests_crates"
proof -
  have "list_all visible ''HERP,DERP''" "list_all visible ''Content-Type, Content-Length''"
    "list_all visible ''https://reddit.com''" by code_simp+
  then show ?thesis by (simp add: policy_answers_def tests_crates_def from_visible_def)
qed

lemma tests_faked: "b64_decode tests_crates ''THIS_IS_FAKED'' = None"
  by (simp add: tests_crates_def test_cipher_def ios_signature_def android_signature_def web_signature_def)

text \<open>Every test of \<open>events/input\<close> passes: devices with their language, size, platform and
  location, events with each kind of property, the header of a batch, and the JSON of an answer.\<close>

lemma event_tests_pass:
  assumes "location_answers cr" "device_id_answer cr" "header_text_contract cr" "sort_contract sort_by"
  shows "list_all passes
    [test_no_language_or_local_set, test_no_language_or_locale_set, test_language_set, test_locale_set,
     test_broken_locale_set, test_no_h_set, test_h_set, test_no_w_set, test_w_set,
     test_no_ifa_tracking_enabled_set, test_no_notification_registered_set, test_no_os_name_set, test_os_name_ios,
     test_os_name_iphone_os, test_os_name_android, test_platform_web, test_set_real_location_ipv4 cr,
     test_set_real_location_ipv6 cr, test_set_local_ipv4 cr, test_set_local_ipv6 cr, test_required_properties,
     test_with_string_property, test_with_number_property, test_with_bool_property, test_with_object_property,
     test_empty_header_values cr sort_by now, test_with_environment_app_id cr sort_by now,
     test_register_event_result to_string, test_register_event_result_empty_registration_data to_string]"
  using device_tests_run event_tests_run response_tests_run location_tests_run [OF assms(1)] batch_tests_run [OF assms]
  by simp

lemma event_tests_pass_instance:
  "passes (test_empty_header_values tests_crates sort_key 0) \<and> passes (test_set_real_location_ipv6 tests_crates)"
  using event_tests_pass [OF tests_location tests_device tests_text toy_sort, of 0] by simp

text \<open>Every test of \<open>context.rs\<close> and \<open>cors.rs\<close> passes: the headers a context is built from, a
  device id that decrypts and one that does not, and the headers an origin is granted.\<close>

lemma request_tests_pass:
  assumes "header_text_contract cr" "device_id_answer cr" "b64_decode cr ''THIS_IS_FAKED'' = None" "policy_answers cr"
  shows "list_all passes
    [test_empty_ip_address cr, test_existing_ipv4_address cr, test_existing_ipv6_address cr, test_empty_api_token cr,
     test_existing_api_token cr, test_empty_signature cr, test_existing_signature cr, test_empty_origin cr,
     test_existing_origin cr, test_lowercase_origin cr, test_empty_device_id cr, test_existing_device_id cr,
     test_faulty_device_id cr, new_with_cors_config, wildcard_headers cr,
     headers_for_existing_app_from_allowed_origin cr, headers_for_existing_app_from_wrong_origin cr,
     headers_for_non_existing_app cr]"
  using context_tests_run [OF assms(1)] device_id_tests_run [OF assms(1-3)] cors_tests_run [OF assms(4)] by simp

lemma request_tests_pass_instance:
  "passes (test_existing_device_id tests_crates) \<and> passes (headers_for_non_existing_app tests_crates)"
  using request_tests_pass [OF tests_text tests_device tests_faked tests_policy] by simp

text \<open>Every test of \<open>app_registry.rs\<close> passes, under the configuration of the tests: the creation of
  applications, the three platforms' signatures, and each refusal of \<open>validate\<close>.\<close>

lemma registry_tests_pass:
  assumes "header_text_contract cr" "signature_answers cr"
  shows "list_all passes
    [test_app_creation_empty_secrets cr m, test_app_creation_with_token cr m, test_app_creation_with_secrets cr m,
     test_validate_ios_no_events cr svc w, test_validate_ios_valid_data cr svc w,
     test_validate_android_valid_data cr svc w, test_validate_web_valid_data cr svc w,
     test_validate_invalid_app cr svc w, test_validate_invalid_token cr svc w,
     test_validate_missing_signature_if_not_allowed cr svc w, test_validate_no_secret_set_for_platform cr svc w,
     test_validate_web_invalid_signature cr svc w]"
  using app_creation_tests_run [OF assms(2)] validate_tests_run [OF assms, where svc = svc and w = w] by simp

lemma registry_tests_pass_instance:
  "passes (test_validate_web_valid_data tests_crates toy_scylla toy_world) \<and>
   passes (test_validate_web_invalid_signature tests_crates toy_scylla toy_world)"
  using registry_tests_pass [OF tests_text tests_signatures, of zero_metrics toy_scylla toy_world] by simp

end
