(* ===== verification/Spec2Isabelle.thy ===== *)
theory Spec2Isabelle
  imports Data_Properties Policy_Properties Server_Properties Test_Properties
begin

text \<open>
  A model of \<open>xorc-gateway\<close>, the HTTP gateway that takes batches of SDK events, authenticates
  them, gives devices their ids and passes the events on to Kafka.

  \<^bold>\<open>The program.\<close> \<open>src/main.rs\<close> starts two threads: one runs the loop that reloads the
  applications (\<open>AppRegistry::run_updater\<close>), the other the HTTP server (\<open>Gateway::run\<close>). A POST to
  the SDK path is read, decoded from JSON, put into a context built from its headers (\<open>context.rs\<close>,
  which decrypts the device id with \<open>encryption.rs\<close>), checked against the origins (\<open>cors.rs\<close>) and the
  application registry (\<open>app_registry.rs\<close>), and answered; a registration first finds or makes a
  device id (\<open>ifa_matching.rs\<close> over ScyllaDB). The events become a protocol buffer
  (\<open>events/input\<close>) and a record of the Kafka topic (\<open>bus/kafka.rs\<close>). Errors are values of
  \<open>error.rs\<close>, which also makes their responses; \<open>metrics.rs\<close> counts.

  \<^bold>\<open>The theories.\<close>
  \<^item> \<open>Prelude\<close>: panics as \<open>outcome\<close>, \<open>Result\<close> as a sum, byte strings, reachability and the interface
    \<open>invariant_of\<close>.
  \<^item> \<open>Rust_Std\<close>, \<open>Rust_Net\<close>, \<open>Rust_Float\<close>: the parts of the standard library the code uses (decimal
    integers, slices, UTF-8, IP addresses, conversion of integers to doubles).
  \<^item> \<open>Crates\<close>: the third-party crates as a record of functions, and the contracts that say what the
    code relies on. \<open>Gateway_World\<close>: the metrics, the database service and the state of the world.
  \<^item> \<open>Gateway_Config\<close> (\<open>config.rs\<close>), \<open>Encryption\<close> (\<open>encryption.rs\<close>), \<open>Request_Context\<close>
    (\<open>context.rs\<close>), \<open>Cors\<close> (\<open>cors.rs\<close>), \<open>Gateway_Error\<close> (\<open>error.rs\<close>), \<open>Ifa_Matching\<close>
    (\<open>ifa_matching.rs\<close>), \<open>App_Registry\<close> (\<open>app_registry.rs\<close>), \<open>Kafka_Bus\<close> (\<open>bus/kafka.rs\<close>).
  \<^item> \<open>Sdk_Json\<close>, \<open>Sdk_Device\<close>, \<open>Sdk_Event\<close>, \<open>Sdk_Event_Batch\<close>, \<open>Sdk_Response\<close>: \<open>events/input\<close>, with
    what the derived deserializers and serializers do.
  \<^item> \<open>Gateway\<close> (\<open>gateway.rs\<close>) composes them: \<open>service\<close>, \<open>handle_sdk\<close>, \<open>handle_event\<close>,
    \<open>create_new_device\<close>. \<open>Globals\<close>: the environment variables, the lazily initialised globals of
    \<open>main.rs\<close> with \<open>logger.rs\<close>, and \<open>Gateway::run\<close> up to serving with \<open>Kafka::new\<close>; \<open>env_of\<close> makes the
    handlers' environment of them. \<open>Gateway_Facts\<close> holds their lemmas, with the specification \<open>admission\<close>: the
    decision on a request as a function without state.
  \<^item> \<open>Races\<close>: updates of the registry and overlapping registrations as step relations. \<open>Shutdown\<close>:
    the three threads of \<open>main.rs\<close> as a step relation with an executable successor function.
  \<^item> \<open>Server\<close>: the whole gateway as a step relation: requests in flight, each at a stage of its future,
    with the registry, the database, Kafka and the counters they share. \<open>Server_Facts\<close> holds its
    invariants.
  \<^item> \<open>Instances\<close>: concrete crates, database and requests that keep the contracts, for the witnesses.
  \<^item> \<open>Test_Support\<close>, \<open>Unit_Tests_Events\<close>, \<open>Unit_Tests_Policy\<close>, \<open>Test_Properties\<close>: the unit tests of the
    repository, over the configuration \<open>config/config.toml.tests\<close>, as a check of the translation.
  \<^item> \<open>Data_Properties\<close>, \<open>Policy_Properties\<close>, \<open>Server_Properties\<close> and this theory: the properties.

  \<^bold>\<open>State and operations.\<close> A handler takes the environment (\<open>gateway_env\<close>: what is fixed for the life
  of the process), the choices of its surroundings (\<open>request_run\<close>: the registry as each of its two
  readers sees it, whether a blocking thread is available, the time) and the \<open>world\<close> (random bytes,
  database, Kafka log, metrics), and returns its result with the new world, or \<open>Panic\<close>. A panic
  drops the state, so nothing is claimed of the metrics of a request that panics; in \<open>Server\<close> the
  steps before the panic stay, and the latency timer may observe when it is dropped. There a step is
  what the code does between two points where it waits: reading and checking a request, the lookup
  and the store of a device id, reading the token, publishing, answering, and an update of the
  registry. \<open>sdk_steps\<close> says that the stages compose to the handler. The database is a type
  variable with its operations in the record \<open>scylla\<close>. \<open>ifa_table\<close> says what the two CQL texts of
  \<open>ifa_matching.rs\<close> do to the table of the schema: one copy, so that what is read was written last,
  and any query may fail; a failed query of a device id shows in the database counter, and the
  properties of the ids are stated by it. \<open>rows_have_selected_columns\<close> says that rows have no columns but
  those their query selects. The pool of \<open>IFA_MATCHING\<close> is forced by the first registration that needs
  it (\<open>force_ifa_matching\<close>), as in the code, and panics there if it cannot be built.

  \<^bold>\<open>Interfaces.\<close> \<open>device_codec\<close> (sealing and opening ids, provided by \<open>Encryption\<close>), \<open>cors_policy\<close>
  (granting headers, provided by \<open>Cors\<close>), \<open>ifa_store\<close> (looking up and storing ids, provided by
  \<open>Ifa_Matching\<close>) and \<open>invariant_of\<close> (an inductive invariant; provided for the registry's updates,
  the order of the shutdown, the cleared flag, and of the whole gateway its log, its counters and its
  device ids).

  \<^bold>\<open>What is shown.\<close> Handling a request refines the admission decision; what a published request has
  shown of its application, token, signature and origin, and what was not asked of it; which requests
  panic, exactly; a registration's id comes back decrypted on the next request, is the one a
  successful store leaves in the table, and stays the device's id however requests overlap, as long
  as no lookup fails; a failed lookup gives a known device a new id. Under any interleaving each
  record in Kafka has one authenticated request, a request is answered with 200 exactly when its
  record is there, and the counters balance with the answers; a gateway that starts outside
  development publishes only requests signed with the secrets of its configuration file. Updates of
  the registry are all or nothing, and every application is under its own id; every outcome of a
  lookup and a store in the table, failures included; cross-origin headers go only to valid origins
  of web clients; the conversions to the protocol buffer lose nothing but what is stated (precision
  beyond 2^53, arrays and nulls). A shutdown ends at rest, unless clients keep connections open,
  which it waits for. Several theorems state defects: the panic on a short id, the column the update
  does not select, the repeated keys of deep properties, the ids that overlapping first registrations
  can get, the id that a failed lookup replaces.

  \<^bold>\<open>Bounds.\<close> No fuel is used: every function terminates by its recursion. \<open>run_updater\<close> consumes the
  list of the values its loop reads. The shutdown bound is \<open>rank\<close>: the steps left of each thread and
  one per connection.

  \<^bold>\<open>Not modelled.\<close> JSON text to and from documents, the protobuf encoding, TOML decoding and the
  cryptography are parameters, and so are the client libraries behind \<open>Kafka::new\<close> and the HTTP
  server. The derived deserializers are code that \<open>serde_derive\<close> generates from the attributes in
  \<open>events/input\<close>; \<open>field_with\<close> and its variants follow its documented behaviour (a repeated declared
  member is an error, a missing one takes its default) and no property is stated of it alone. What
  the log drains write is left out; the fields of a log record and of the root logger are modelled.
  \<open>start_globals\<close> gives the values of the globals when all can be built. The code forces the GeoIP
  reader and the secret inside the first request that needs them, so when one of them cannot be built
  the code starts and such requests panic; the properties that begin with \<open>start_globals\<close> do not
  speak of these runs. The poisoning after a panic in a global is only in \<open>Shutdown\<close>, for the
  registry. Memory is sequentially consistent.
\<close>

section \<open>Handling a request\<close>

lemma service_post:
  assumes "rq_method req = POST" and "rq_path req = sdk_path"
  shows "service env run req w = obind (handle_sdk env run req w) (\<lambda>(r, w). Ret (r, count observe_response_time w))"
  using assms by (simp add: service_def)

lemma service_other_sends_nothing:
  assumes "\<not> (rq_method req = POST \<and> rq_path req = sdk_path)" and "service env run req w = Ret (resp, w')"
  shows "w_sent w' = w_sent w"
  using assms by (auto simp: service_def obind_eq_Ret Let_def split: if_splits)

lemma register_routed: "rq_method register_request = POST" "rq_path register_request = sdk_path"
  by (simp_all add: register_request_def)

lemmas register_service = service_post [OF register_routed]

text \<open>The run of the instance: the registration is answered with 200 and one record is sent.\<close>

lemma register_run:
  obtains resp w1 where "handle_sdk toy_env toy_run register_request toy_world = Ret (resp, w1)"
    "service toy_env toy_run register_request toy_world = Ret (resp, count observe_response_time w1)"
    "rs_status resp = 200" "w_sent w1 \<noteq> w_sent toy_world"
proof -
  obtain resp w1 where h: "handle_sdk toy_env toy_run register_request toy_world = Ret (resp, w1)"
    using register_returns by blast
  have "ge_producer toy_env [] r" "w_sent toy_world = []" for r by (simp_all add: toy_env_def toy_world_def)
  then have "rs_status resp = 200 \<and> w_sent w1 \<noteq> w_sent toy_world"
    using handle_sdk_refines [OF h] by (auto simp: register_admitted)
  then show thesis using that h by (simp add: register_service)
qed

text \<open>C1: handling an SDK request implements the admission decision: a refused request gets its
  error's status and text and publishes nothing; an admitted one gets the results of its batch with
  status 200 and its record is appended to the broker's log, or, if the broker refuses the record,
  status 503 with nothing published.\<close>

theorem handle_sdk_implements_admission:
  assumes "handle_sdk env run req w = Ret (resp, w')"
  shows "(\<exists>e. admission env run req = Ret (Inl e) \<and> rs_status resp = error_status e \<and>
            rs_body resp = error_body e \<and> w_sent w' = w_sent w) \<or>
    (\<exists>event ctx results ctx'. admission env run req = Ret (Inr (event, ctx)) \<and>
       generated run ctx event results ctx' \<and>
       (if ge_producer env (w_sent w) (record_of env run ctx' event)
        then rs_status resp = 200 \<and> rs_body resp = reply_json env results \<and>
             w_sent w' = w_sent w @ [record_of env run ctx' event]
        else rs_status resp = 503 \<and> rs_body resp = ''Service unavailable'' \<and> w_sent w' = w_sent w))"
  by (rule handle_sdk_refines [OF assms])

theorem handle_sdk_implements_admission_witness:
  "\<exists>resp w'. handle_sdk toy_env toy_run register_request toy_world = Ret (resp, w') \<and>
     rs_status resp = 200 \<and> length (w_sent w') = 1"
proof -
  obtain resp w' where h: "handle_sdk toy_env toy_run register_request toy_world = Ret (resp, w')"
    using register_returns by blast
  have "ge_producer toy_env [] r" "w_sent toy_world = []" for r by (simp_all add: toy_env_def toy_world_def)
  then show ?thesis using handle_sdk_implements_admission [OF h] h by (auto simp: register_admitted)
qed

text \<open>C2: what a request that reaches Kafka has shown. If any request at all changes the broker's log, it
  is a POST to the SDK path, answered with 200, whose application is registered. If it sends a token,
  that is the application's own, or the default token where the application has none; a request
  without a token is not refused. Its body is signed with the application's key for its platform,
  unless the registry allows empty signatures. Its origin is one of the application's, if it comes
  from a web client and there is a cross-origin policy; otherwise the origin is not looked at.\<close>

theorem published_only_authenticated:
  assumes served: "service env run req w = Ret (resp, w')" and sent: "w_sent w' \<noteq> w_sent w"
  shows "rq_method req = POST \<and> rq_path req = sdk_path \<and> rs_status resp = 200 \<and>
    (\<exists>body event ctx app. rq_body req = Some body \<and> Option.bind (ge_json_parse env body) de_batch = Some event \<and>
       event_context env req event = Ret ctx \<and>
       reg_apps (rr_validate_apps run) (se_app_id (sb_environment event)) = Some app \<and>
       token_accepted (ge_default_token env) app (ctx_api_token ctx) \<and>
       (reg_allow_empty_signature (rr_validate_apps run) \<or>
        signature_accepted (ge_crates env) app (device_platform (sb_device event)) (ctx_signature ctx) body) \<and>
       (device_platform (sb_device event) = Web \<longrightarrow>
        (\<forall>c. ge_cors env = Some c \<longrightarrow> valid_origin c (se_app_id (sb_environment event)) (ctx_origin ctx))))"
proof -
  have post: "rq_method req = POST" "rq_path req = sdk_path"
    using service_other_sends_nothing [OF _ served] sent by blast+
  then obtain w1 where h: "handle_sdk env run req w = Ret (resp, w1)" and w1: "w_sent w' = w_sent w1"
    using served by (auto simp: service_post obind_eq_Ret)
  from handle_sdk_refines [OF h] obtain event ctx where
    adm: "admission env run req = Ret (Inr (event, ctx))" and ok: "rs_status resp = 200"
    using sent w1 by (auto split: if_splits)
  then obtain body where body: "rq_body req = Some body" "Option.bind (ge_json_parse env body) de_batch = Some event"
    "event_context env req event = Ret ctx" "admit_event env run body event (rq_headers req) ctx = Inr ()"
    unfolding admission_Inr by blast
  then have "\<not> origin_refused env (rq_headers req) event"
    "validate (ge_crates env) (ge_default_token env) (rr_validate_apps run) event ctx body = Inr ()"
    by (auto simp: admit_event_def outcome_simps split: if_splits)
  with body show ?thesis
    using post ok event_context_fields(3) [OF body(3)]
    by (auto simp: validate_Ok origin_refused_def)
qed

theorem published_only_authenticated_witness:
  "\<exists>resp w'. service toy_env toy_run register_request toy_world = Ret (resp, w') \<and> rs_status resp = 200"
proof (rule register_run)
  fix resp w1
  assume "service toy_env toy_run register_request toy_world = Ret (resp, count observe_response_time w1)"
    "w_sent w1 \<noteq> w_sent toy_world"
  then show ?thesis
    using published_only_authenticated [of toy_env toy_run register_request toy_world resp "count observe_response_time w1"]
    by auto
qed



text \<open>C22: a well-formed request with a shorter device id panics before any check of its application,
  token or signature; such a header needs no credentials.\<close>

theorem short_device_id_panics:
  assumes "request_event env req = Some event"
    and "get_value (ge_crates env) (rq_headers req) ''XORC-Device-Id'' = Some s"
    and "b64_decode (ge_crates env) s = Some d" and "length d < 12"
  shows "handle_sdk env run req w = Panic"
proof -
  have "context_device_id (ge_crates env) (ge_secret env) (rq_headers req) = Panic"
    using assms(2-4) by (auto simp: context_device_id_Panic decrypt_Panic)
  then have "context_new (ge_crates env) (ge_secret env) (rq_headers req) app p = Panic" for app p
    by (simp add: context_new_Panic)
  then show ?thesis
    using assms(1) by (auto simp: handle_sdk_def read_event_def handle_event_def request_event_def bind_eq_Some_conv)
qed

theorem short_device_id_panics_witness:
  "handle_sdk toy_env toy_run (clicks_request (Some (encode_hex [1, 2, 3]))) toy_world = Panic"
  by (rule short_device_id_panics [where s = "encode_hex [1, 2, 3]" and d = "[1, 2, 3]" and event = clicks_batch])
    (simp_all add: request_event_def clicks_request_def toy_requests_parse toy_get_value to_visible_as_bytes
      visible_encode_hex decode_encode_hex del: encode_hex.simps)

section \<open>Registration\<close>

text \<open>C5: what a registration without a device id of its own leaves behind, in a table with one copy and
  with sound cryptography and a pool: there is one result, for the first registration event; it
  carries the encryption of a UUID, which is the device id of the context the events are published
  under, and any later request that sends it back in its header is known by the same id. If the
  store was counted as a success, the table maps the application and advertising id to this UUID and
  is otherwise unchanged; if the two are not usable, the table is unchanged. (After a failed store,
  or after a later store of an overlapping registration, the table may hold another id.)\<close>

theorem registration_round_trip:
  assumes "database_good env view" and "base64_header_contract (ge_crates env)"
    and "registration_of event = Some i" and "ctx_device_id ctx = None"
    and "generate_event_results env run ctx event w = Ret (Inr (results, ctx', event'), w')"
  shows "\<exists>d u. results = [event_result_register i Success (ctx_api_token ctx') (did_ciphertext d)] \<and>
    ctx_device_id ctx' = Some d \<and> did_cleartext d = Cleartext (uuid_hyphenated (ge_crates env) u) \<and>
    (\<forall>headers. header_get headers ''XORC-Device-Id'' = Some (as_bytes (ct_value (did_ciphertext d))) \<longrightarrow>
       context_device_id (ge_crates env) (ge_secret env) headers = Ret (Some d)) \<and>
    (batch_key (ge_crates env) ctx event = None \<longrightarrow> view (w_db w') = view (w_db w)) \<and>
    (\<forall>key. batch_key (ge_crates env) ctx event = Some key \<longrightarrow>
       scylladb_request_counter (w_metrics w') (''put'', ''ok'') \<noteq> scylladb_request_counter (w_metrics w) (''put'', ''ok'') \<longrightarrow>
       view (w_db w') = (view (w_db w))(key \<mapsto> u))"
proof -
  have good: "env_good env" using assms(1) by (simp add: database_good_def)
  have create: "create_new_device env run ctx event i w = Ret (Inr (results, ctx', event'), w')"
    using assms(3,5) by (simp add: generate_event_results_eq)
  from create_new_device_fresh [OF good assms(4) create] obtain d bs where d:
    "ctx' = registered_context run ctx d" "did_ciphertext d = Ciphertext (b64_encode (ge_crates env) bs)"
    "results = [event_result_register i Success (ctx_api_token ctx') (did_ciphertext d)]"
    and fetch: "fetch_device_id env (ctx_app_id ctx) (sd_ifa (sb_device event)) (sd_ifa_tracking_enabled (sb_device event)) w
      = Ret (d, w')" by metis
  from fetch_device_id_effects [OF assms(1) fetch] obtain u where u:
    "did_cleartext d = Cleartext (uuid_hyphenated (ge_crates env) u)" "sound_device env d"
    "batch_key (ge_crates env) ctx event = None \<Longrightarrow> view (w_db w') = view (w_db w)"
    "\<And>key. batch_key (ge_crates env) ctx event = Some key \<Longrightarrow>
       scylladb_request_counter (w_metrics w') (''put'', ''ok'') \<noteq> scylladb_request_counter (w_metrics w) (''put'', ''ok'') \<Longrightarrow>
       view (w_db w') = (view (w_db w))(key \<mapsto> u)" unfolding batch_key_def by metis
  have "context_device_id (ge_crates env) (ge_secret env) headers = Ret (Some d)"
    if "header_get headers ''XORC-Device-Id'' = Some (as_bytes (ct_value (did_ciphertext d)))" for headers
  proof -
    have "get_value (ge_crates env) headers ''XORC-Device-Id'' = Some (ct_value (did_ciphertext d))"
      using that assms(2) d(2) by (simp add: get_value_def base64_header_contract_def)
    then show ?thesis
      using context_device_id_Some [of "ge_crates env" headers "ct_value (did_ciphertext d)" "ge_secret env" "did_cleartext d"]
        u(2) by (simp add: sound_device_def)
  qed
  then show ?thesis
    by (intro exI [of _ d] exI [of _ u]) (use d u in simp)
qed

lemma register_batch_registers: "registration_of register_batch = Some ''7''"
  by (simp add: registration_of_def toy_events toy_event_def is_register_def)

theorem registration_round_trip_witness:
  "\<exists>results ctx' event' w' (d :: device_id). generate_event_results toy_env toy_run register_context register_batch toy_world
       = Ret (Inr (results, ctx', event'), w') \<and>
     results = [event_result_register ''7'' Success (ctx_api_token ctx') (did_ciphertext d)]"
proof -
  obtain g w' where g: "generate_event_results toy_env toy_run register_context register_batch toy_world = Ret (g, w')"
    using generate_event_results_Ret [OF toy_env_good] by (metis outcome.exhaust surj_pair)
  moreover have "\<exists>x. g = Inr x"
    using g generate_event_results_Inl(4) [of toy_env toy_run register_context register_batch toy_world _ w']
    by (cases g) (auto simp: toy_run_def)
  ultimately obtain results ctx' event' where
    gen: "generate_event_results toy_env toy_run register_context register_batch toy_world = Ret (Inr (results, ctx', event'), w')"
    by auto
  have "base64_header_contract (ge_crates toy_env)" "ctx_device_id register_context = None"
    by (simp_all add: toy_base64_header register_context_def)
  from registration_round_trip [OF toy_database_good this(1) register_batch_registers this(2) gen]
  show ?thesis using gen by blast
qed


lemma toy_counts_put:
  assumes "fetch_device_id toy_env toy_app_id (Some toy_ifa) True w = Ret (d, w')"
  shows "scylladb_request_counter (w_metrics w') (''put'', ''ok'') = Suc (scylladb_request_counter (w_metrics w) (''put'', ''ok''))"
proof -
  from fetch_device_id_effects [OF toy_database_good assms] obtain u
    where "clear_value (did_cleartext d) = print_uuid u" by (metis cleartext.sel toy_crates_simps(5) toy_env_simps(1))
  moreover obtain found w1 r res where
    g: "get_id_for_ifa toy_crates toy_scylla ''ks'' toy_app_id (Some toy_ifa) True w = (found, w1)"
    "put_id_for_ifa toy_crates toy_scylla ''ks'' toy_app_id (did_cleartext d) (Some toy_ifa) True (w1\<lparr>w_rng := r\<rparr>) = (res, w')"
    using assms by (auto simp: fetch_device_id_def obind_eq_Ret split_beta prod_eq_iff)
  ultimately show ?thesis
    using get_counts_up(2) [OF g(1)] toy_key_parts g(2)
    by (auto simp: put_id_for_ifa_def run_query_def toy_scylla_def insert_entity_def parse_print_uuid
        inc_scylladb_request_def observe_scylladb_latency_def)
qed

lemma toy_fetch_no_error:
  assumes "fetch_device_id toy_env toy_app_id (Some toy_ifa) True w = Ret (d, w')"
  shows "scylladb_request_counter (w_metrics w') (''get'', ''error'') = scylladb_request_counter (w_metrics w) (''get'', ''error'')"
  using fetch_device_id_effects [OF toy_database_good assms] toy_lookup_no_error unfolding toy_env_simps by metis


section \<open>Cross-origin headers and metrics\<close>

text \<open>C11: a response carries the header that lets a page read it only for a web client whose origin is
  one of its application's, errors included, and then with that origin; an accepted request of such
  a client does get it.\<close>

theorem cors_header_granted:
  assumes "handle_sdk env run req w = Ret (resp, w')"
  shows "((''access-control-allow-origin'', v) \<in> set (rs_headers resp) \<longrightarrow> origin_granted env req v) \<and>
    (rs_status resp = 200 \<and> origin_granted env req v \<longrightarrow>
       (''access-control-allow-origin'', v) \<in> set (rs_headers resp))"
  using handle_sdk_granted [OF assms] handle_sdk_sent [OF assms] by metis

theorem cors_header_granted_witness:
  "\<exists>resp w'. handle_sdk toy_env toy_run register_request toy_world = Ret (resp, w') \<and>
     (''access-control-allow-origin'', as_bytes ''https://a.example'') \<in> set (rs_headers resp)"
proof (rule register_run)
  fix resp w1
  assume h: "handle_sdk toy_env toy_run register_request toy_world = Ret (resp, w1)" and ok: "rs_status resp = 200"
  have "request_event toy_env register_request = Some register_batch"
    using admission_event [OF register_admitted] by simp
  then have "origin_granted toy_env register_request (as_bytes ''https://a.example'')"
    by (simp add: origin_granted_def toy_platforms toy_apps toy_cors_def valid_origin_def)
      (simp add: register_request_def toy_get_value toy_origin_visible)
  then show ?thesis using cors_header_granted [OF h] h ok by blast
qed

text \<open>C20: every POST to the SDK path is counted once, under the status it is answered with, and its
  latency is observed once; no other request counter moves.\<close>

theorem requests_counted:
  assumes "service env run req w = Ret (resp, w')" and "rq_method req = POST" and "rq_path req = sdk_path"
  shows "request_counter (w_metrics w') k =
      request_counter (w_metrics w) k + (if k = (show_nat (rs_status resp), ''sdk_events'') then 1 else 0) \<and>
    response_times_histogram (w_metrics w') = response_times_histogram (w_metrics w) + 1"
proof -
  obtain w1 where h: "handle_sdk env run req w = Ret (resp, w1)" and w': "w' = count observe_response_time w1"
    using assms by (auto simp: service_post obind_eq_Ret)
  show ?thesis using handle_sdk_metrics [OF h] w' by (simp add: observe_response_time_def)
qed

theorem requests_counted_witness:
  "\<exists>resp w'. service toy_env toy_run register_request toy_world = Ret (resp, w') \<and>
     response_times_histogram (w_metrics w') = 1"
proof (rule register_run)
  fix resp w1
  assume s: "service toy_env toy_run register_request toy_world = Ret (resp, count observe_response_time w1)"
  have "response_times_histogram (w_metrics toy_world) = 0" by (simp add: toy_world_def zero_metrics_def)
  then show ?thesis using requests_counted [OF s register_routed] s by auto
qed

text \<open>C36: the counter of sent events counts results: one for a batch with a registration in it,
  however many events are published with it, and otherwise one for each event.\<close>

theorem events_counted:
  assumes "handle_sdk env run req w = Ret (resp, w')" and "rs_status resp = 200"
    and "request_event env req = Some event"
  shows "events_counter (w_metrics w') = events_counter (w_metrics w) +
    (if registration_of event = None then length (sb_events event) else 1)"
proof (rule handle_sdk_sent [OF assms(1,2)])
  fix event' ctx results ctx'
  assume "request_event env req = Some event'" "generated run ctx event' results ctx'"
    "events_counter (w_metrics w') = events_counter (w_metrics w) + length results"
  then show ?thesis using assms(3) generated_length [of run ctx event' results ctx'] by simp
qed

theorem events_counted_witness:
  "\<exists>resp w'. handle_sdk toy_env toy_run register_request toy_world = Ret (resp, w') \<and> events_counter (w_metrics w') = 1"
proof (rule register_run)
  fix resp w1
  assume h: "handle_sdk toy_env toy_run register_request toy_world = Ret (resp, w1)" and ok: "rs_status resp = 200"
  have "request_event toy_env register_request = Some register_batch"
    using admission_event [OF register_admitted] by simp
  from events_counted [OF h ok this] h show ?thesis
    by (simp add: register_batch_registers toy_world_def zero_metrics_def)
qed

text \<open>The other routes that are answered, the metrics aside: OPTIONS on the SDK path answers 200 with an
  empty body, is counted as such, and carries the wildcard origin just when there is a policy; a
  method or path that is not routed answers 404 with nothing in it, and is counted as such.\<close>

lemma other_routes:
  assumes "service env run req w = Ret (resp, w')" and "rq_method req \<noteq> POST \<or> rq_path req \<noteq> sdk_path"
    and "rq_method req \<noteq> GET \<or> rq_path req \<noteq> ''/metrics''"
  shows "rs_body resp = '''' \<and>
    (if rq_method req = OPTIONS \<and> rq_path req = sdk_path
     then rs_status resp = 200 \<and> w' = count (inc_request ''200'' ''options'') w \<and>
       ((''access-control-allow-origin'', as_bytes ''*'') \<in> set (rs_headers resp) \<longleftrightarrow> ge_cors env \<noteq> None)
     else rs_status resp = 404 \<and> rs_headers resp = [] \<and> w' = count (inc_request ''404'' ''not_found'') w)"
  using assms
  by (auto simp: service_def handle_options_def response_builder_wildcard_def header_from_str_eq obind_eq_Ret
      response_builder_def add_header_def Let_def split: if_splits option.splits)

section \<open>Overlapping registrations\<close>

definition toy_clients :: "toy_db world \<Rightarrow> toy_db registrations" where
  "toy_clients w = \<lparr>rg_world = w, rg_clients = (\<lambda>_. Fresh)\<rparr>"

definition toy_who :: "nat \<Rightarrow> client_request" where
  "toy_who j = (toy_app_id, Some toy_ifa, True)"

lemma rtranclp_reachable: "step\<^sup>*\<^sup>* s t \<Longrightarrow> reachable (\<lambda>x. x = s) step t"
  by (induction rule: rtranclp_induct) (auto intro: reachable.intros)

text \<open>C23: a new device can get two ids: the lookup and the store of a registration are separate, so
  two overlapping registrations of the same device can both miss and each keep an id of its own, if
  the two ids they draw differ. The table is one copy, and its pool is built.\<close>

theorem overlapping_registrations_differ:
  assumes "database_good env view" and "request_key (ge_crates env) q = Some key"
    and "view (w_db w) key = None"
    and "device_id_generate (ge_crates env) (ge_secret env) (w_rng w) = Ret (d0, r1)"
    and "device_id_generate (ge_crates env) (ge_secret env) r1 = Ret (d1, r2)"
    and "did_cleartext d0 \<noteq> did_cleartext d1"
  shows "\<exists>t c0 c1. reachable (\<lambda>s. s = \<lparr>rg_world = w, rg_clients = (\<lambda>_. Fresh)\<rparr>) (client_step env (\<lambda>_. q)) t \<and>
    rg_clients t 0 = Stored c0 \<and> rg_clients t 1 = Stored c1 \<and> did_cleartext c0 \<noteq> did_cleartext c1"
  using overlapping_registrations [OF assms(1,2), of "\<lparr>rg_world = w, rg_clients = (\<lambda>_. Fresh)\<rparr>" "\<lambda>_. q" d0 r1 d1 r2]
    assms(3-6) rtranclp_reachable by fastforce

lemma toy_generate:
  obtains d r' where "device_id_generate toy_crates toy_secret r = Ret (d, r')"
    "did_cleartext d = Cleartext (print_uuid (of_nat (unat (r 16))))" "r' = (\<lambda>i. r (i + 44))"
proof -
  let ?c = "Cleartext (print_uuid (of_nat (unat (r 16))))"
  have u: "new_v4 toy_crates (snd (fill_bytes 16 r)) = (of_nat (unat (r 16)), \<lambda>i. r (i + 32))"
    by (simp add: new_v4_def fill_bytes_def toy_crates_def upt_conv_Cons add.assoc)
  obtain ct where "encrypt toy_crates toy_secret ?c (\<lambda>i. r (i + 32)) = Ret (ct, snd (fill_bytes 12 (\<lambda>i. r (i + 32))))"
    using encrypt_fits [OF toy_crypto fits_uuid [OF toy_uuid]] by fastforce
  then show thesis
    using that u by (simp add: device_id_generate_def split_beta fill_bytes_def add.assoc)
qed

theorem overlapping_registrations_differ_witness:
  "\<exists>t c0 c1. reachable (\<lambda>s. s = toy_clients toy_world) (client_step toy_env toy_who) t \<and>
     rg_clients t 0 = Stored c0 \<and> rg_clients t 1 = Stored c1 \<and> did_cleartext c0 \<noteq> did_cleartext c1"
proof -
  obtain d0 r1 where g0: "device_id_generate toy_crates toy_secret (w_rng toy_world) = Ret (d0, r1)"
    "did_cleartext d0 = Cleartext (print_uuid 16)" "r1 = (\<lambda>i. of_nat (i + 44))"
    using toy_generate [of "w_rng toy_world"] by (auto simp: toy_world_def)
  obtain d1 r2 where g1: "device_id_generate toy_crates toy_secret r1 = Ret (d1, r2)"
    "did_cleartext d1 = Cleartext (print_uuid (of_nat (unat (r1 16))))"
    using toy_generate [of r1] by metis
  have "unat (r1 16) = 60" using g0(3) by simp
  have "print_uuid 16 \<noteq> print_uuid 60" using parse_print_uuid [of 16] parse_print_uuid [of 60] by auto
  then have "did_cleartext d0 \<noteq> did_cleartext d1" using g0 g1 \<open>unat (r1 16) = 60\<close> by simp
  then have "\<exists>t c0 c1. reachable (\<lambda>s. s = \<lparr>rg_world = toy_world, rg_clients = (\<lambda>_. Fresh)\<rparr>)
       (client_step toy_env (\<lambda>_. (toy_app_id, Some toy_ifa, True))) t \<and>
     rg_clients t 0 = Stored c0 \<and> rg_clients t 1 = Stored c1 \<and> did_cleartext c0 \<noteq> did_cleartext c1"
    by (intro overlapping_registrations_differ [OF toy_database_good, of _ "(1, 2)" _ d0 r1 d1 r2])
      (use g0(1) g1(1) toy_key in \<open>simp_all add: toy_world_def\<close>)
  then show ?thesis by (simp add: toy_clients_def toy_who_def [abs_def])
qed

section \<open>Failed lookups\<close>

text \<open>C13: a failed lookup gives a known device a new id. In a table with one copy, let the application and
  advertising id of a registration have an entry. If its lookup is counted as an error, the id it
  gets is a freshly generated one, whatever the entry; and if its store is then counted as a success,
  the entry is overwritten with it.\<close>

theorem failed_lookup_replaces_id:
  assumes db: "database_good env view" and key: "request_key (ge_crates env) (app, ifa, en) = Some key"
    and known: "view (w_db w) key = Some e" and fetch: "fetch_device_id env app ifa en w = Ret (d, w')"
    and failed: "scylladb_request_counter (w_metrics w') (''get'', ''error'') \<noteq> scylladb_request_counter (w_metrics w) (''get'', ''error'')"
  shows "(\<exists>r. device_id_generate (ge_crates env) (ge_secret env) (w_rng w) = Ret (d, r)) \<and>
    (\<exists>u. did_cleartext d = Cleartext (uuid_hyphenated (ge_crates env) u) \<and>
       (scylladb_request_counter (w_metrics w') (''put'', ''ok'') \<noteq> scylladb_request_counter (w_metrics w) (''put'', ''ok'') \<longrightarrow>
        view (w_db w') = (view (w_db w))(key \<mapsto> u)))"
proof -
  have tab: "ifa_table (ge_scylla env) (ge_keyspace env) view" using db by (simp add: database_good_def)
  from fetch_device_id_effects [OF db fetch] obtain u found w1 r where f:
    "did_cleartext d = Cleartext (uuid_hyphenated (ge_crates env) u)"
    "get_id_for_ifa (ge_crates env) (ge_scylla env) (ge_keyspace env) app ifa en w = (found, w1)"
    "settle_device_id env found (w_rng w) = Ret (d, r)"
    "scylladb_request_counter (w_metrics w') (''get'', ''error'') = scylladb_request_counter (w_metrics w1) (''get'', ''error'')"
    "scylladb_request_counter (w_metrics w') (''put'', ''ok'') \<noteq> scylladb_request_counter (w_metrics w) (''put'', ''ok'') \<Longrightarrow>
       view (w_db w') = (view (w_db w))(key \<mapsto> u)"
    using key by metis
  have "lookup_outcome (ge_crates env) (view (w_db w) key) found w w1"
    using known_ifas.get_outcome [OF tab _ _ f(2), of "snd key" "fst key"] key by (cases key) (simp add: request_key_Some)
  then have "found = None" using f(4) failed by (auto simp: lookup_outcome_def counts_one_at)
  then show ?thesis using f(1,3,5) by (auto simp: settle_device_id_def)
qed

text \<open>A database whose lookups fail.\<close>

definition blind_scylla :: "toy_db scylla" where
  "blind_scylla =
     toy_scylla\<lparr>run_cql := (\<lambda>q db. if length (q_values q) = 2 then (None, db) else run_cql toy_scylla q db)\<rparr>"

definition blind_env :: "toy_db gateway_env" where
  "blind_env = toy_env\<lparr>ge_scylla := blind_scylla\<rparr>"

lemma blind_env_simps:
  "ge_crates blind_env = toy_crates" "ge_secret blind_env = toy_secret" "ge_scylla blind_env = blind_scylla"
  "ge_keyspace blind_env = ''ks''" "ge_config blind_env = toy_config"
  by (simp_all add: blind_env_def ge_keyspace_def toy_config_def)

lemma blind_good: "database_good blind_env td_ifas"
proof -
  have "ifa_table blind_scylla ks td_ifas" for ks
    using toy_table [of ks] by (auto simp: ifa_table_def blind_scylla_def toy_scylla_def)
  moreover have "env_good blind_env"
    using toy_env_good unfolding env_good_def blind_env_simps
    by (simp add: force_ifa_matching_def blind_env_simps ifa_matching_new_def pool_connection_def blind_scylla_def)
  ultimately show ?thesis by (simp add: database_good_def blind_env_simps)
qed

theorem failed_lookup_replaces_id_witness:
  "\<exists>d w'. fetch_device_id blind_env toy_app_id (Some toy_ifa) True toy_known_world = Ret (d, w') \<and>
     td_ifas (w_db toy_known_world) (1, 2) = Some 9 \<and> did_cleartext d \<noteq> Cleartext (print_uuid 9)"
proof -
  have good: "env_good blind_env" using blind_good by (simp add: database_good_def)
  obtain d w' where fetch: "fetch_device_id blind_env toy_app_id (Some toy_ifa) True toy_known_world = Ret (d, w')"
    using fetch_device_id_good [OF good] by metis
  from fetch_device_id_effects [OF blind_good fetch] obtain found w1 where g:
    "get_id_for_ifa toy_crates blind_scylla ''ks'' toy_app_id (Some toy_ifa) True toy_known_world = (found, w1)"
    "scylladb_request_counter (w_metrics w') (''get'', ''error'') = scylladb_request_counter (w_metrics w1) (''get'', ''error'')"
    unfolding blind_env_simps by metis
  then have "scylladb_request_counter (w_metrics w') (''get'', ''error'') \<noteq>
      scylladb_request_counter (w_metrics toy_known_world) (''get'', ''error'')"
    using toy_key_parts
    by (auto simp: get_id_for_ifa_def run_query_def blind_scylla_def toy_scylla_def select_entity_def
        inc_scylladb_request_def observe_scylladb_latency_def)
  moreover have entry: "td_ifas (w_db toy_known_world) (1, 2) = Some 9" by (simp add: toy_known_world_def)
  ultimately obtain r where "device_id_generate toy_crates toy_secret (w_rng toy_known_world) = Ret (d, r)"
    using failed_lookup_replaces_id [OF blind_good _ _ fetch, of "(1, 2)" 9] toy_key unfolding blind_env_simps by auto
  moreover have "of_nat (unat (w_rng toy_known_world 16)) = (16 :: uuid)"
    by (simp add: toy_known_world_def toy_world_def)
  then obtain d0 r0 where "device_id_generate toy_crates toy_secret (w_rng toy_known_world) = Ret (d0, r0)"
    "did_cleartext d0 = Cleartext (print_uuid 16)"
    using toy_generate [of "w_rng toy_known_world"] by metis
  moreover have "print_uuid 16 \<noteq> print_uuid 9" using parse_print_uuid [of 16] parse_print_uuid [of 9] by auto
  ultimately show ?thesis using fetch entry by auto
qed

section \<open>Shutting down\<close>

text \<open>C12: when \<open>main\<close> returns from a shutdown, the flag is cleared, the updater and the server have
  left their loops, and no connection is being served: no request is cut off.\<close>

theorem main_returns_at_rest:
  assumes "reachable process_start process_step s" and "pr_main s = MainDone"
  shows "\<not> pr_control s \<and> pr_updater s = UpdaterExited \<and> pr_server s = ServerExited \<and> pr_connections s = 0"
  using shutdown_order.reachable_inv [OF assms(1)] assms(2) by (auto simp: process_inv_def after_store_def)

text \<open>A run of the process: it starts, serves a connection, and is interrupted.\<close>

definition at_state ::
  "main_pc \<Rightarrow> bool \<Rightarrow> updater_pc \<Rightarrow> bool \<Rightarrow> bool \<Rightarrow> server_pc \<Rightarrow> nat \<Rightarrow> process" where
  "at_state m c u t ss sv n =
     \<lparr>pr_main = m, pr_control = c, pr_updater = u, pr_token = t, pr_stop_sent = ss, pr_server = sv, pr_connections = n\<rparr>"

definition initial_process :: process where
  "initial_process = at_state AwaitSignal True LoadRegistry False False Starting 0"

definition run_to_shutdown :: "process list" where
  "run_to_shutdown =
     [at_state AwaitSignal True CheckFlag False False Starting 0,
      at_state AwaitSignal True Update False False Starting 0,
      at_state AwaitSignal True ParkTimeout False False Starting 0,
      at_state AwaitSignal True ParkTimeout False False Serving 0,
      at_state AwaitSignal True ParkTimeout False False Serving 1,
      at_state SendStop True ParkTimeout False False Serving 1,
      at_state StoreFlag True ParkTimeout False True Serving 1,
      at_state StoreFlag True ParkTimeout False True Draining 1,
      at_state (UnparkThread UpdaterThread) False ParkTimeout False True Draining 1]"

definition run_to_end :: "process list" where
  "run_to_end =
     [at_state (JoinThread UpdaterThread) False ParkTimeout True True Draining 1,
      at_state (JoinThread UpdaterThread) False CheckFlag False True Draining 1,
      at_state (JoinThread UpdaterThread) False UpdaterExited False True Draining 1,
      at_state (UnparkThread ServerThread) False UpdaterExited False True Draining 1,
      at_state (JoinThread ServerThread) False UpdaterExited False True Draining 1,
      at_state (JoinThread ServerThread) False UpdaterExited False True Draining 0,
      at_state (JoinThread ServerThread) False UpdaterExited False True ServerExited 0,
      at_state MainDone False UpdaterExited False True ServerExited 0]"

lemma runs: "is_run initial_process run_to_shutdown" "is_run (last run_to_shutdown) run_to_end"
  by code_simp+

lemma shutdown_steps: "process_step\<^sup>*\<^sup>* (last run_to_shutdown) (last run_to_end)"
  using is_run_steps [OF runs(2)] by (simp add: run_to_end_def)

lemma steps_reachable: "process_step\<^sup>*\<^sup>* s t \<Longrightarrow> reachable process_start process_step s \<Longrightarrow> reachable process_start process_step t"
  by (induction rule: rtranclp_induct) (auto intro: reachable.intros)

lemma shutdown_reached: "reachable process_start process_step (last run_to_shutdown)"
proof -
  have "process_step\<^sup>*\<^sup>* initial_process (last run_to_shutdown)"
    using is_run_steps [OF runs(1)] by (simp add: run_to_shutdown_def)
  moreover have "process_start initial_process" by (simp add: process_start_def initial_process_def at_state_def)
  ultimately show ?thesis using steps_reachable reachable_start by metis
qed

lemmas run_reachable = steps_reachable [OF shutdown_steps shutdown_reached]

lemma run_ends: "pr_main (last run_to_end) = MainDone" and run_shuts_down: "shutting_down (last run_to_shutdown)"
  by (simp_all add: run_to_end_def run_to_shutdown_def at_state_def shutting_down_def after_store_def)

theorem main_returns_at_rest_witness:
  "pr_main (last run_to_end) = MainDone \<and> pr_connections (last run_to_end) = 0"
  using main_returns_at_rest [OF run_reachable run_ends] run_ends by simp

text \<open>C21: once the flag is cleared and the update under way, if any, is over, no update of the registry
  ever starts again.\<close>

theorem no_update_after_stop:
  assumes "\<not> pr_control s" and "pr_updater s \<noteq> Update" and "process_step\<^sup>*\<^sup>* s t"
  shows "pr_updater t \<noteq> Update"
  using flag_cleared.steps_inv [OF assms(3)] assms(1,2) by (simp add: no_more_updates_def)

theorem no_update_after_stop_witness:
  "pr_updater (last run_to_shutdown) = ParkTimeout \<and> pr_updater (last run_to_end) \<noteq> Update"
  using no_update_after_stop [OF _ _ shutdown_steps] by (simp add: run_to_shutdown_def at_state_def)

text \<open>C16: a shutdown that has reached its threads: the flag is cleared, \<open>main\<close> is past clearing it, and the
  server accepts nothing more. Then every run, with the connections that clients close, takes at most
  \<open>rank\<close> steps; and a state in which the process has no step of its own left is one where \<open>main\<close> has
  returned, or has panicked because a thread it joined had, or waits for the server while clients
  keep connections open. With connections that stay open the shutdown does not end.\<close>

theorem shutdown_terminates:
  assumes "shutting_down s"
  shows "(\<forall>n t. (process_step ^^ n) s t \<longrightarrow> n \<le> rank s) \<and>
    (\<forall>t. process_step\<^sup>*\<^sup>* s t \<and> (\<forall>u. process_step t u \<longrightarrow> client_closes t u) \<longrightarrow>
       pr_main t = MainDone \<or> pr_main t = MainPanicked \<or>
       pr_main t = JoinThread ServerThread \<and> pr_server t = Draining \<and> 0 < pr_connections t)"
proof (intro conjI allI impI)
  show "n \<le> rank s" if "(process_step ^^ n) s t" for n t using shutdown_bounded [OF that assms] by simp
  show "pr_main t = MainDone \<or> pr_main t = MainPanicked \<or>
      pr_main t = JoinThread ServerThread \<and> pr_server t = Draining \<and> 0 < pr_connections t"
    if run: "process_step\<^sup>*\<^sup>* s t \<and> (\<forall>u. process_step t u \<longrightarrow> client_closes t u)" for t
  proof -
    obtain n where "(process_step ^^ n) s t"
      using run rtranclp_imp_relpowp by metis
    then have "shutting_down t" using shutdown_bounded assms by blast
    then show ?thesis using shutdown_progress run unfolding own_step_def by blast
  qed
qed

theorem shutdown_terminates_witness:
  "\<nexists>t. (process_step ^^ 9) (last run_to_shutdown) t"
proof -
  have "rank (last run_to_shutdown) = 8"
    by (simp add: run_to_shutdown_def at_state_def rank_def)
  then show ?thesis using shutdown_terminates [OF run_shuts_down] by fastforce
qed


lemma is_run_own:
  "is_run s ts \<Longrightarrow> list_all (\<lambda>t. pr_connections t = n) ts \<Longrightarrow> pr_connections s = n \<Longrightarrow> own_step\<^sup>*\<^sup>* s (last (s # ts))"
  by (induction ts arbitrary: s) (auto simp: process_next_iff intro: converse_rtranclp_into_rtranclp own_stepI)


end
